(* ===== verification/Go_Prelude.thy ===== *)
theory Go_Prelude
  imports Complex_Main "HOL-Library.Char_ord" "HOL-Library.List_Lexorder" "HOL-Library.Multiset"
begin

text \<open>
  The part of Go and of its standard library that the models share: maps and their zero
  values, errors, 64-bit integers, decimal and quoted printing, \<open>float64\<close> arithmetic and
  \<open>strings\<close> helpers. Everything here is executable.
\<close>

named_theorems go_defs \<open>definitions of Go library operations, unfolded together\<close>
named_theorems label_keys \<open>the label and annotation keys and their distinctness\<close>

section \<open>Maps\<close>

text \<open>
  A Go \<open>map[string]string\<close> is a partial function; a field that may hold a nil map is an
  \<open>option\<close> of one. Reading a missing key, or a nil map, gives the zero value.
\<close>

type_synonym strmap = "string \<rightharpoonup> string"

definition go_lookup :: "strmap \<Rightarrow> string \<Rightarrow> string" where
  "go_lookup m k = (case m k of None \<Rightarrow> [] | Some v \<Rightarrow> v)"

definition nilmap :: "strmap option \<Rightarrow> strmap" where
  "nilmap m = (case m of None \<Rightarrow> Map.empty | Some f \<Rightarrow> f)"

lemma nilmap_simps [simp]: "nilmap None = Map.empty" "nilmap (Some f) = f"
  by (simp_all add: nilmap_def)

lemma go_lookup_empty [simp]: "go_lookup Map.empty k = []"
  by (simp add: go_lookup_def)

lemma go_lookup_upd [simp]:
  "go_lookup (m(k \<mapsto> v)) k' = (if k' = k then v else go_lookup m k')"
  by (simp add: go_lookup_def)

lemma go_lookup_del [simp]:
  "go_lookup (m(k := None)) k' = (if k' = k then [] else go_lookup m k')"
  by (simp add: go_lookup_def)

section \<open>Errors\<close>

text \<open>
  Errors are values. \<open>ApiNotFound\<close> is an API error for which \<open>apierrors.IsNotFound\<close>
  holds, \<open>ApiError\<close> any other error of a client call. \<open>Wrapped\<close> is \<open>fmt.Errorf\<close> with
  \<open>%w\<close>, and \<open>Joined\<close> the error \<open>errors.Join\<close> makes of at least one error.
\<close>

datatype go_error =
    ApiNotFound string
  | ApiError string
  | Err string
  | Wrapped string go_error
  | Joined "go_error list"

fun is_not_found :: "go_error \<Rightarrow> bool" where
  "is_not_found (ApiNotFound _) = True"
| "is_not_found (Wrapped _ e) = is_not_found e"
| "is_not_found _ = False"

text \<open>\<open>err.Error()\<close>; joined errors are printed one per line.\<close>

fun error_text :: "go_error \<Rightarrow> string" and error_lines :: "go_error list \<Rightarrow> string" where
  "error_text (ApiNotFound s) = s"
| "error_text (ApiError s) = s"
| "error_text (Err s) = s"
| "error_text (Wrapped s e) = s @ '': '' @ error_text e"
| "error_text (Joined es) = error_lines es"
| "error_lines [] = []"
| "error_lines [e] = error_text e"
| "error_lines (e # es) = error_text e @ CHR 0x0A # error_lines es"

text \<open>\<open>errors.Join\<close> drops nil errors and is nil when none is left.\<close>

definition errors_join :: "go_error option list \<Rightarrow> go_error option" where
  "errors_join es = (let xs = List.map_filter (\<lambda>e. e) es in
     if xs = [] then None else Some (Joined xs))"

lemma errors_join_None_iff: "errors_join es = None \<longleftrightarrow> (\<forall>e \<in> set es. e = None)"
proof -
  have "List.map_filter (\<lambda>e. e) es = [] \<longleftrightarrow> (\<forall>e \<in> set es. e = None)"
    by (induction es) (auto simp: List.map_filter_def)
  then show ?thesis by (simp add: errors_join_def Let_def)
qed

section \<open>Integers\<close>

text \<open>
  \<open>int64\<close> values are integers in \<open>[-2^63, 2^63)\<close>; \<open>wrap64\<close> is the two's-complement
  wrap-around of an arithmetic result. Go's division truncates towards zero.
\<close>

type_synonym int32 = int
type_synonym int64 = int

text \<open>A point in time, in nanoseconds; \<open>0\<close> is the zero time.\<close>

type_synonym time = int

definition wrap64 :: "int \<Rightarrow> int64" where
  "wrap64 x = (x + 2 ^ 63) mod 2 ^ 64 - 2 ^ 63"

definition in64 :: "int \<Rightarrow> bool" where
  "in64 x \<longleftrightarrow> - (2 ^ 63) \<le> x \<and> x < 2 ^ 63"

lemma wrap64_id: "in64 x \<Longrightarrow> wrap64 x = x"
  by (simp add: wrap64_def in64_def)

lemma in64_wrap64: "in64 (wrap64 x)"
proof -
  have "0 \<le> (x + 2 ^ 63) mod 2 ^ 64" "(x + 2 ^ 63) mod 2 ^ 64 < (2::int) ^ 64"
    by simp_all
  then show ?thesis by (simp add: wrap64_def in64_def)
qed

lemma wrap64_add_left: "wrap64 (wrap64 x + y) = wrap64 (x + y)"
proof -
  have "((x + 2 ^ 63) mod 2 ^ 64 - 2 ^ 63 + y + 2 ^ 63) mod 2 ^ 64
      = ((x + 2 ^ 63) mod 2 ^ 64 + y) mod (2::int) ^ 64"
    by (rule arg_cong [where f = "\<lambda>z. z mod 2 ^ 64"]) simp
  also have "\<dots> = (x + 2 ^ 63 + y) mod 2 ^ 64"
    by (rule mod_add_left_eq)
  also have "x + 2 ^ 63 + y = x + y + 2 ^ 63" by simp
  finally show ?thesis by (simp only: wrap64_def)
qed

definition go_div :: "int \<Rightarrow> int \<Rightarrow> int" where
  "go_div a b = sgn a * sgn b * (\<bar>a\<bar> div \<bar>b\<bar>)"

lemma go_div_nonneg: "0 \<le> a \<Longrightarrow> 0 < b \<Longrightarrow> go_div a b = a div b"
  by (cases "a = 0") (simp_all add: go_div_def)

section \<open>Printing\<close>

definition digit_char :: "nat \<Rightarrow> char" where
  "digit_char d = char_of (48 + d)"

fun show_nat :: "nat \<Rightarrow> string" where
  "show_nat n = (if n < 10 then [digit_char n] else show_nat (n div 10) @ [digit_char (n mod 10)])"

declare show_nat.simps [simp del]

text \<open>\<open>%d\<close> and \<open>strconv.Itoa\<close>.\<close>

definition show_int :: "int \<Rightarrow> string" where
  "show_int i = (if i < 0 then CHR ''-'' # show_nat (nat (- i)) else show_nat (nat i))"

definition is_digit :: "char \<Rightarrow> bool" where
  "is_digit c \<longleftrightarrow> 48 \<le> (of_char c :: nat) \<and> (of_char c :: nat) \<le> 57"

definition digit_val :: "char \<Rightarrow> nat" where
  "digit_val c = of_char c - 48"

definition read_nat :: "string \<Rightarrow> nat" where
  "read_nat = foldl (\<lambda>n c. n * 10 + digit_val c) 0"

lemma of_char_digit_char: "d < 10 \<Longrightarrow> (of_char (digit_char d) :: nat) = 48 + d"
  by (simp add: digit_char_def)

lemma digit_val_char [simp]: "d < 10 \<Longrightarrow> digit_val (digit_char d) = d"
  by (simp add: digit_val_def of_char_digit_char)

lemma is_digit_char [simp]: "d < 10 \<Longrightarrow> is_digit (digit_char d)"
  by (simp add: is_digit_def of_char_digit_char)

lemma show_nat_nonempty [simp]: "show_nat n \<noteq> []"
  by (subst show_nat.simps) simp

lemma show_nat_digits: "c \<in> set (show_nat n) \<Longrightarrow> is_digit c"
proof (induction n arbitrary: c rule: show_nat.induct)
  case (1 n)
  then show ?case by (subst (asm) (2) show_nat.simps) (auto split: if_splits)
qed

lemma read_show_nat [simp]: "read_nat (show_nat n) = n"
proof (induction n rule: show_nat.induct)
  case (1 n)
  then show ?case by (subst show_nat.simps) (auto simp: read_nat_def)
qed

lemma show_nat_inject [simp]: "show_nat m = show_nat n \<longleftrightarrow> m = n"
  by (metis read_show_nat)

text \<open>
  \<open>%q\<close> (\<open>strconv.Quote\<close>) for a string of ASCII characters; a byte above \<open>0x7f\<close> is copied,
  as the quoting does for the bytes of a printable character.
\<close>

definition hex_digit :: "nat \<Rightarrow> char" where
  "hex_digit d = (if d < 10 then digit_char d else char_of (87 + d))"

definition quote_char :: "char \<Rightarrow> string" where
  "quote_char c = (let n = (of_char c :: nat) in
     if n = 34 \<or> n = 92 then [CHR 0x5C, c]
     else if n = 7 then [CHR 0x5C, CHR ''a''] else if n = 8 then [CHR 0x5C, CHR ''b'']
     else if n = 9 then [CHR 0x5C, CHR ''t''] else if n = 10 then [CHR 0x5C, CHR ''n'']
     else if n = 11 then [CHR 0x5C, CHR ''v''] else if n = 12 then [CHR 0x5C, CHR ''f'']
     else if n = 13 then [CHR 0x5C, CHR ''r'']
     else if n < 32 \<or> n = 127 then
       [CHR 0x5C, CHR ''x'', hex_digit (n div 16), hex_digit (n mod 16)]
     else [c])"

definition go_quote :: "string \<Rightarrow> string" where
  "go_quote s = CHR 0x22 # concat (map quote_char s) @ [CHR 0x22]"

end
