(* ===== verification/Topology_Labels.thy ===== *)
theory Topology_Labels
  imports Go_Prelude
begin

text \<open>
  \<open>internal/topology/constants.go\<close>: the label and annotation keys that connect an AIJob to
  the objects derived from it, the topology values, and \<open>LabLabels\<close>, the filter that decides
  which of an AIJob's labels its descendants inherit. The locale \<open>label_scope\<close> is what the
  users of that filter (the controller) rely on.
\<close>

section \<open>Keys and values\<close>

definition job_label :: string where "job_label = ''infra.example.io/aijob''"
definition queue_label :: string where "queue_label = ''kueue.x-k8s.io/queue-name''"
definition run_id_label :: string where "run_id_label = ''infra.example.io/run-id''"
definition experiment_label :: string where "experiment_label = ''infra.example.io/experiment''"
definition preference_annotation :: string where
  "preference_annotation = ''infra.example.io/gpu-topology/preference''"
definition required_topology_class_annotation :: string where
  "required_topology_class_annotation = ''infra.example.io/gpu-topology/required-class''"
definition required_topology_annotation :: string where
  "required_topology_annotation = ''kueue.x-k8s.io/podset-required-topology''"
definition gpu_topology_class_label :: string where
  "gpu_topology_class_label = ''infra.example.io/gpu-topology-class''"
definition rack_label :: string where "rack_label = ''infra.example.io/rack''"
definition topology_nvlink :: string where "topology_nvlink = ''nvlink''"
definition topology_pcie :: string where "topology_pcie = ''pcie''"
definition topology_class_nvlink_capable :: string where
  "topology_class_nvlink_capable = ''nvlink-capable''"
definition topology_class_pcie_only :: string where "topology_class_pcie_only = ''pcie-only''"
definition gpu_resource :: string where "gpu_resource = ''example.com/gpu''"

lemmas key_defs = job_label_def queue_label_def run_id_label_def experiment_label_def
  preference_annotation_def required_topology_class_annotation_def
  required_topology_annotation_def gpu_topology_class_label_def rack_label_def

lemmas topology_value_defs = topology_nvlink_def topology_pcie_def
  topology_class_nvlink_capable_def topology_class_pcie_only_def

lemma label_keys_distinct [simp, label_keys]:
  "job_label \<noteq> queue_label" "queue_label \<noteq> job_label"
  "job_label \<noteq> run_id_label" "run_id_label \<noteq> job_label"
  "job_label \<noteq> experiment_label" "experiment_label \<noteq> job_label"
  "queue_label \<noteq> run_id_label" "run_id_label \<noteq> queue_label"
  "queue_label \<noteq> experiment_label" "experiment_label \<noteq> queue_label"
  "run_id_label \<noteq> experiment_label" "experiment_label \<noteq> run_id_label"
  by (simp_all add: key_defs)

lemma annotation_keys_distinct [simp, label_keys]:
  "preference_annotation \<noteq> required_topology_class_annotation"
  "required_topology_class_annotation \<noteq> preference_annotation"
  "preference_annotation \<noteq> required_topology_annotation"
  "required_topology_annotation \<noteq> preference_annotation"
  "required_topology_annotation \<noteq> required_topology_class_annotation"
  "required_topology_class_annotation \<noteq> required_topology_annotation"
  by (simp_all add: key_defs)

lemma topology_values_distinct [simp, label_keys]:
  "topology_nvlink \<noteq> topology_pcie" "topology_pcie \<noteq> topology_nvlink"
  "topology_class_nvlink_capable \<noteq> topology_class_pcie_only"
  "topology_class_pcie_only \<noteq> topology_class_nvlink_capable"
  "topology_nvlink \<noteq> []" "topology_pcie \<noteq> []"
  "topology_class_nvlink_capable \<noteq> []" "topology_class_pcie_only \<noteq> []"
  "topology_nvlink \<noteq> ''any''" "topology_pcie \<noteq> ''any''"
  by (simp_all add: topology_value_defs)

section \<open>The label filter\<close>

text \<open>
  The loop over the two keys: a key is copied when its value is not the empty string. The
  argument is the label map of an object, nil when it has no labels.
\<close>

fun lab_labels_loop :: "strmap option \<Rightarrow> string list \<Rightarrow> strmap \<Rightarrow> strmap" where
  "lab_labels_loop labels [] result = result"
| "lab_labels_loop labels (key # keys) result =
     (let value = go_lookup (nilmap labels) key in
      if value \<noteq> [] then lab_labels_loop labels keys (result(key \<mapsto> value))
      else lab_labels_loop labels keys result)"

definition lab_labels :: "strmap option \<Rightarrow> strmap" where
  "lab_labels labels = lab_labels_loop labels [run_id_label, experiment_label] Map.empty"

lemma lab_labels_apply:
  "lab_labels labels k =
     (if k \<in> {run_id_label, experiment_label} \<and> go_lookup (nilmap labels) k \<noteq> []
      then Some (go_lookup (nilmap labels) k) else None)"
  by (auto simp: lab_labels_def Let_def)

text \<open>
  What a user of the filter relies on: it keeps exactly the non-empty values of a fixed set of
  keys, and never a key the user writes itself.
\<close>

locale label_scope =
  fixes scope :: "strmap option \<Rightarrow> strmap"
    and keys :: "string set"
    and reserved :: "string set"
  assumes scope_kept: "k \<in> keys \<Longrightarrow> go_lookup (nilmap l) k \<noteq> [] \<Longrightarrow>
      scope l k = Some (go_lookup (nilmap l) k)"
    and scope_empty: "k \<in> keys \<Longrightarrow> go_lookup (nilmap l) k = [] \<Longrightarrow> scope l k = None"
    and scope_other: "k \<notin> keys \<Longrightarrow> scope l k = None"
    and keys_reserved: "keys \<inter> reserved = {}"
begin

lemma scope_dom: "dom (scope l) \<subseteq> keys"
  using scope_other by (auto simp: dom_def) (metis option.distinct(1))

lemma scope_reserved: "k \<in> reserved \<Longrightarrow> scope l k = None"
  using keys_reserved scope_other by blast

lemma scope_nonempty: "scope l k = Some v \<Longrightarrow> v \<noteq> []"
  by (metis option.discI option.inject scope_empty scope_kept scope_other)

lemma lookup_scope: "go_lookup (scope l) k = (if k \<in> keys then go_lookup (nilmap l) k else [])"
  by (simp add: go_lookup_def [of "scope l"] scope_kept scope_empty scope_other
      split: option.splits) (metis option.distinct(1) option.inject scope_empty scope_kept)

lemma scope_idem: "scope (Some (scope l)) = scope l"
proof
  fix k
  show "scope (Some (scope l)) k = scope l k"
  proof (cases "k \<in> keys \<and> go_lookup (nilmap l) k \<noteq> []")
    case True
    then show ?thesis by (simp add: scope_kept lookup_scope)
  next
    case False
    then show ?thesis
      by (metis lookup_scope nilmap_simps(2) scope_empty scope_other)
  qed
qed

end

interpretation lab: label_scope lab_labels "{run_id_label, experiment_label}"
  "{job_label, queue_label}"
  by unfold_locales (auto simp: lab_labels_apply)

end
