(* ===== verification/Go_Text.thy ===== *)
theory Go_Text
  imports Go_Prelude
begin

text \<open>
  The functions of Go's \<open>strings\<close> and \<open>strconv\<close> packages that the program calls, on byte
  strings: \<open>Split\<close> and \<open>Join\<close> with a one-byte separator, \<open>TrimSpace\<close>, \<open>ReplaceAll\<close>,
  \<open>EqualFold\<close> and \<open>Atoi\<close>.
\<close>

definition newline :: char where "newline = CHR 0x0A"

section \<open>Split and Join\<close>

fun split_on :: "char \<Rightarrow> string \<Rightarrow> string list" where
  "split_on d [] = [ [] ]"
| "split_on d (c # s) =
     (if c = d then [] # split_on d s
      else (case split_on d s of [] \<Rightarrow> [ [c] ] | x # xs \<Rightarrow> (c # x) # xs))"

fun join_with :: "string \<Rightarrow> string list \<Rightarrow> string" where
  "join_with sep [] = []"
| "join_with sep [x] = x"
| "join_with sep (x # xs) = x @ sep @ join_with sep xs"

lemma join_with_Cons: "xs \<noteq> [] \<Longrightarrow> join_with sep (x # xs) = x @ sep @ join_with sep xs"
  by (cases xs) simp_all

lemma split_on_nonempty [simp]: "split_on d s \<noteq> []"
  by (induction s) (auto split: list.splits)

lemma split_on_plain: "d \<notin> set s \<Longrightarrow> split_on d s = [s]"
  by (induction s) auto

lemma split_on_append: "d \<notin> set x \<Longrightarrow> split_on d (x @ d # s) = x # split_on d s"
  by (induction x) auto

lemma split_on_join:
  "xs \<noteq> [] \<Longrightarrow> \<forall>x \<in> set xs. d \<notin> set x \<Longrightarrow> split_on d (join_with [d] xs) = xs"
proof (induction xs rule: induct_list012)
  case (3 x y zs)
  then show ?case by (simp add: split_on_append)
qed (simp_all add: split_on_plain)

section \<open>TrimSpace\<close>

text \<open>The UTF-8 encodings of the characters with the White Space property.\<close>

definition space_runes :: "string list" where
  "space_runes = map (\<lambda>c. [char_of (c :: nat)]) [9, 10, 11, 12, 13, 32] @
     [[CHR 0xC2, CHR 0x85], [CHR 0xC2, CHR 0xA0], [CHR 0xE1, CHR 0x9A, CHR 0x80]] @
     map (\<lambda>c. [CHR 0xE2, CHR 0x80, char_of (c :: nat)])
       [128, 129, 130, 131, 132, 133, 134, 135, 136, 137, 138, 168, 169, 175] @
     [[CHR 0xE2, CHR 0x81, CHR 0x9F], [CHR 0xE3, CHR 0x80, CHR 0x80]]"

definition has_prefix :: "string \<Rightarrow> string \<Rightarrow> bool" where
  "has_prefix p s \<longleftrightarrow> take (length p) s = p"

function trim_left :: "string list \<Rightarrow> string \<Rightarrow> string" where
  "trim_left rs s = (case find (\<lambda>r. r \<noteq> [] \<and> s \<noteq> [] \<and> has_prefix r s) rs of
     None \<Rightarrow> s
   | Some r \<Rightarrow> trim_left rs (drop (length r) s))"
  by pat_completeness auto
termination
  by (relation "measure (\<lambda>(rs, s). length s)") (auto simp: find_Some_iff)

declare trim_left.simps [simp del]

definition trim_space :: "string \<Rightarrow> string" where
  "trim_space s = rev (trim_left (map rev space_runes) (rev (trim_left space_runes s)))"

lemma trim_left_id:
  "\<forall>r \<in> set rs. \<not> has_prefix r s \<Longrightarrow> trim_left rs s = s"
  by (subst trim_left.simps) (auto simp: find_None_iff split: option.split dest!: find_Some_iff [THEN iffD1])

text \<open>A string that begins and ends with a graphic ASCII character is not trimmed.\<close>

definition graphic :: "char \<Rightarrow> bool" where
  "graphic c \<longleftrightarrow> 33 \<le> (of_char c :: nat) \<and> (of_char c :: nat) \<le> 126"

lemma space_runes_ends:
  "r \<in> set space_runes \<Longrightarrow> r \<noteq> [] \<and> \<not> graphic (hd r) \<and> \<not> graphic (last r)"
  by (auto simp: space_runes_def graphic_def)

lemma has_prefix_hd: "has_prefix r s \<Longrightarrow> r \<noteq> [] \<Longrightarrow> s \<noteq> [] \<and> hd s = hd r"
  by (cases r; cases s) (auto simp: has_prefix_def)

lemma trim_space_graphic:
  assumes "s \<noteq> [] \<longrightarrow> graphic (hd s) \<and> graphic (last s)"
  shows "trim_space s = s"
proof (cases "s = []")
  case True
  have "\<forall>r \<in> set space_runes. \<not> has_prefix r []"
    using space_runes_ends has_prefix_hd by blast
  moreover have "\<forall>r \<in> set (map rev space_runes). \<not> has_prefix r []"
    using space_runes_ends has_prefix_hd [of _ "[]"] by auto
  ultimately show ?thesis by (simp add: True trim_space_def trim_left_id)
next
  case False
  have "\<forall>r \<in> set space_runes. \<not> has_prefix r s"
    using space_runes_ends has_prefix_hd assms False by metis
  moreover have "\<forall>r \<in> set (map rev space_runes). \<not> has_prefix r (rev s)"
    using space_runes_ends has_prefix_hd [of _ "rev s"] assms False
    by (auto simp: hd_rev)
  ultimately show ?thesis by (simp add: trim_space_def trim_left_id)
qed

section \<open>Atoi\<close>

text \<open>
  \<open>strconv.Atoi\<close>: an optional sign, at least one digit, and a value that fits 64 bits. The
  callers only test the error against nil.
\<close>

definition atoi :: "string \<Rightarrow> int option" where
  "atoi s =
     (let digits = (if s \<noteq> [] \<and> (hd s = CHR ''-'' \<or> hd s = CHR ''+'') then tl s else s);
          n = int (read_nat digits);
          v = (if s \<noteq> [] \<and> hd s = CHR ''-'' then - n else n)
      in if digits = [] \<or> \<not> list_all is_digit digits \<or> \<not> in64 v then None else Some v)"

lemma atoi_in64: "atoi s = Some v \<Longrightarrow> in64 v"
  by (auto simp: atoi_def Let_def split: if_splits)

lemma is_digit_graphic: "is_digit c \<Longrightarrow> graphic c"
  by (simp add: is_digit_def graphic_def)

lemma atoi_show_nat:
  assumes "int n < 2 ^ 63"
  shows "atoi (show_nat n) = Some (int n)"
proof -
  have "is_digit (hd (show_nat n))" using show_nat_digits [of _ n] by simp
  then have "hd (show_nat n) \<noteq> CHR ''-''" "hd (show_nat n) \<noteq> CHR ''+''"
    by (auto simp: is_digit_def)
  moreover have "list_all is_digit (show_nat n)"
    by (auto simp: list_all_iff show_nat_digits)
  ultimately show ?thesis using assms by (simp add: atoi_def Let_def in64_def)
qed

section \<open>ReplaceAll and EqualFold\<close>

text \<open>\<open>strings.ReplaceAll(s, old, new)\<close> for a non-empty \<open>old\<close>: leftmost, without overlaps.\<close>

function replace_all :: "string \<Rightarrow> string \<Rightarrow> string \<Rightarrow> string" where
  "replace_all s old new =
     (case s of [] \<Rightarrow> []
      | c # s' \<Rightarrow> if old \<noteq> [] \<and> has_prefix old s then new @ replace_all (drop (length old) s) old new
                 else c # replace_all s' old new)"
  by pat_completeness auto
termination
  by (relation "measure (\<lambda>(s, old, new). length s)") auto

declare replace_all.simps [simp del]

lemma replace_all_Nil: "replace_all [] old new = []"
  by (subst replace_all.simps) simp

lemma replace_all_Cons:
  "replace_all (c # s) old new =
    (if old \<noteq> [] \<and> has_prefix old (c # s) then new @ replace_all (drop (length old) (c # s)) old new
     else c # replace_all s old new)"
  by (subst replace_all.simps) simp

lemma replace_all_chars: "set (replace_all s old new) \<subseteq> set s \<union> set new"
proof (induction "length s" arbitrary: s rule: less_induct)
  case less
  show ?case
  proof (cases s)
    case Nil
    then show ?thesis by (simp add: replace_all_Nil)
  next
    case (Cons c s')
    have "set (replace_all (drop (length old) s) old new) \<subseteq> set s \<union> set new" if "old \<noteq> []"
      using less [of "drop (length old) s"] that set_drop_subset [of "length old" s] Cons by auto
    moreover have "set (replace_all s' old new) \<subseteq> set s \<union> set new"
      using less [of s'] Cons by auto
    ultimately show ?thesis unfolding Cons replace_all_Cons by auto
  qed
qed

lemma replace_all_removes: "c \<notin> set new \<Longrightarrow> c \<notin> set (replace_all s [c] new)"
  by (induction s) (auto simp: replace_all_Nil replace_all_Cons has_prefix_def)

text \<open>\<open>strings.EqualFold\<close> on ASCII strings.\<close>

definition lower_char :: "char \<Rightarrow> char" where
  "lower_char c = (let n = (of_char c :: nat) in if 65 \<le> n \<and> n \<le> 90 then char_of (n + 32) else c)"

definition equal_fold :: "string \<Rightarrow> string \<Rightarrow> bool" where
  "equal_fold s t \<longleftrightarrow> map lower_char s = map lower_char t"

lemma equal_fold_refl [simp]: "equal_fold s s"
  by (simp add: equal_fold_def)

end
