(* ===== verification/Kube_Types.thy ===== *)
theory Kube_Types
  imports Topology_Labels Go_Text
begin

text \<open>
  The Kubernetes objects the program reads and writes, with the fields it uses. They are data
  declared in third-party packages; every field below is read or written by code under src/.
  A resource quantity is represented by what \<open>Quantity.Value()\<close> returns; a pointer field is an \<open>option\<close>.
\<close>

type_synonym resource_list = "string \<rightharpoonup> int64"

section \<open>Metadata and conditions\<close>

record nsname =
  ns_namespace :: string
  ns_name :: string

record owner_ref =
  o_kind :: string
  o_name :: string
  o_controller :: bool

record object_meta =
  m_name :: string
  m_namespace :: string
  m_labels :: "strmap option"
  m_annotations :: "strmap option"
  m_uid :: string
  m_generation :: int64
  m_creation :: time
  m_owners :: "owner_ref list"

definition meta_key :: "object_meta \<Rightarrow> nsname" where
  "meta_key m = \<lparr>ns_namespace = m_namespace m, ns_name = m_name m\<rparr>"

text \<open>\<open>metav1.ObjectMeta{}\<close> with a name and a namespace.\<close>

definition new_meta :: "string \<Rightarrow> string \<Rightarrow> object_meta" where
  "new_meta name namespace = \<lparr>m_name = name, m_namespace = namespace, m_labels = None,
     m_annotations = None, m_uid = [], m_generation = 0, m_creation = 0, m_owners = []\<rparr>"

text \<open>Reading \<open>object.Labels[key]\<close>.\<close>

definition label_of :: "object_meta \<Rightarrow> string \<Rightarrow> string" where
  "label_of m k = go_lookup (nilmap (m_labels m)) k"

text \<open>\<open>metav1.Condition\<close>.\<close>

record condition =
  c_type :: string
  c_status :: string
  c_observed_generation :: int64
  c_transition :: time
  c_reason :: string
  c_message :: string

text \<open>\<open>corev1.PodCondition\<close> and \<open>batchv1.JobCondition\<close>.\<close>

record pod_condition =
  pc_type :: string
  pc_status :: string
  pc_reason :: string
  pc_transition :: time

definition condition_true :: string where "condition_true = ''True''"
definition condition_false :: string where "condition_false = ''False''"

lemma condition_status_distinct [simp]:
  "condition_true \<noteq> condition_false" "condition_false \<noteq> condition_true"
  by (simp_all add: condition_true_def condition_false_def)

section \<open>Pods, nodes and jobs\<close>

record env_var =
  ev_name :: string
  ev_field_path :: string

record container =
  ct_name :: string
  ct_image :: string
  ct_pull_policy :: string
  ct_command :: "string list"
  ct_args :: "string list"
  ct_env :: "env_var list"
  ct_requests :: resource_list
  ct_limits :: resource_list

record terminated_state =
  t_started :: time
  t_finished :: time
  t_reason :: string
  t_exit_code :: int32

record container_status =
  cs_name :: string
  cs_running :: "time option"
  cs_terminated :: "terminated_state option"

record pod =
  p_meta :: object_meta
  p_node_name :: string
  p_containers :: "container list"
  p_init_containers :: "container list"
  p_overhead :: resource_list
  p_phase :: string
  p_conditions :: "pod_condition list"
  p_container_statuses :: "container_status list"

record node =
  n_meta :: object_meta
  n_allocatable :: resource_list

record job =
  jb_meta :: object_meta
  jb_conditions :: "pod_condition list"

record pod_spec =
  ps_scheduler_name :: string
  ps_restart_policy :: string
  ps_containers :: "container list"

record pod_template =
  pt_labels :: "strmap option"
  pt_annotations :: "strmap option"
  pt_spec :: pod_spec

record job_spec =
  jbs_parallelism :: "int32 option"
  jbs_completions :: "int32 option"
  jbs_completion_mode :: "string option"
  jbs_backoff_limit :: "int32 option"
  jbs_template :: pod_template

section \<open>JobSets\<close>

record failure_policy_rule =
  fpr_name :: string
  fpr_action :: string
  fpr_job_failure_reasons :: "string list"
  fpr_job_failure_message_patterns :: "string list"
  fpr_target_replicated_jobs :: "string list"

record failure_policy =
  fp_max_restarts :: int32
  fp_restart_strategy :: string
  fp_rules :: "failure_policy_rule list"

record success_policy =
  sp_operator :: string
  sp_target_replicated_jobs :: "string list"

record replicated_job =
  rj_name :: string
  rj_replicas :: int32
  rj_template_labels :: "strmap option"
  rj_template_spec :: job_spec

text \<open>\<open>jobset.Network\<close>, of which the program sets \<open>EnableDNSHostnames\<close>.\<close>

record network =
  nw_enable_dns_hostnames :: "bool option"

record jobset_spec =
  jss_replicated_jobs :: "replicated_job list"
  jss_network :: "network option"
  jss_success_policy :: "success_policy option"
  jss_failure_policy :: "failure_policy option"
  jss_suspend :: "bool option"

record jobset =
  js_meta :: object_meta
  js_spec :: jobset_spec
  js_conditions :: "condition list"

definition empty_jobset_spec :: jobset_spec where
  "empty_jobset_spec = \<lparr>jss_replicated_jobs = [], jss_network = None, jss_success_policy = None,
     jss_failure_policy = None, jss_suspend = None\<rparr>"

end
