(* ===== verification/AIJob_API.thy ===== *)
theory AIJob_API
  imports Kube_Types
begin

text \<open>
  \<open>api/v1alpha1/aijob_types.go\<close>: the AIJob resource. Besides the data, \<open>crd_valid\<close> and
  \<open>crd_valid_update\<close> state the admission rules that the file's kubebuilder markers generate:
  an AIJob the controller sees has passed them.
\<close>

definition default_queue_name :: string where "default_queue_name = ''training''"
definition condition_queue_ready :: string where "condition_queue_ready = ''QueueReady''"

record topology_config =
  tp_preference :: string
  tp_required :: string

record jobset_overrides =
  jo_failure_policy :: "failure_policy option"
  jo_success_policy :: "success_policy option"
  jo_suspend :: bool

record aijob_spec =
  s_workers :: int32
  s_gpu_per_worker :: int64
  s_gpu_resource :: string
  s_queue_name :: string
  s_topology :: topology_config
  s_image :: string
  s_args :: "string list"
  s_overrides :: "jobset_overrides option"

record aijob_status =
  st_observed_generation :: int64
  st_conditions :: "condition list"

record aijob =
  aj_meta :: object_meta
  aj_spec :: aijob_spec
  aj_status :: aijob_status

section \<open>Admission rules\<close>

definition lower_alnum :: "char \<Rightarrow> bool" where
  "lower_alnum c \<longleftrightarrow> is_digit c \<or> (97 \<le> (of_char c :: nat) \<and> (of_char c :: nat) \<le> 122)"

text \<open>One dot-separated part of the queue name's pattern.\<close>

definition dns_label :: "string \<Rightarrow> bool" where
  "dns_label s \<longleftrightarrow> s \<noteq> [] \<and> lower_alnum (hd s) \<and> lower_alnum (last s) \<and>
     list_all (\<lambda>c. lower_alnum c \<or> c = CHR ''-'') s"

definition queue_name_pattern :: "string \<Rightarrow> bool" where
  "queue_name_pattern s \<longleftrightarrow> length s \<le> 253 \<and> list_all dns_label (split_on CHR ''.'' s)"

definition preference_enum :: "string list" where
  "preference_enum = [''any'', ''nvlink'', ''pcie'']"

definition required_enum :: "string list" where
  "required_enum = [''any'', ''nvlink'', ''pcie'', ''same-rack'']"

text \<open>Optional fields that are empty were omitted and are not validated.\<close>

definition crd_valid :: "aijob_spec \<Rightarrow> bool" where
  "crd_valid s \<longleftrightarrow> 1 \<le> s_workers s \<and> 1 \<le> s_gpu_per_worker s \<and>
     (s_queue_name s = [] \<or> queue_name_pattern (s_queue_name s)) \<and>
     (tp_preference (s_topology s) = [] \<or> tp_preference (s_topology s) \<in> set preference_enum) \<and>
     (tp_required (s_topology s) = [] \<or> tp_required (s_topology s) \<in> set required_enum)"

text \<open>
  The \<open>self == oldSelf\<close> transition rules. A rule applies when both versions set the field, which
  fields with a default always do; \<open>jobSetOverrides.suspend\<close> has no rule.
\<close>

definition same_if_both :: "'a option \<Rightarrow> 'a option \<Rightarrow> bool" where
  "same_if_both a b \<longleftrightarrow> (case (a, b) of (Some x, Some y) \<Rightarrow> x = y | _ \<Rightarrow> True)"

definition crd_valid_update :: "aijob_spec \<Rightarrow> aijob_spec \<Rightarrow> bool" where
  "crd_valid_update old s \<longleftrightarrow> crd_valid s \<and>
     s_workers s = s_workers old \<and> s_gpu_per_worker s = s_gpu_per_worker old \<and>
     s_gpu_resource s = s_gpu_resource old \<and> s_queue_name s = s_queue_name old \<and>
     s_topology s = s_topology old \<and> s_image s = s_image old \<and>
     (s_args old = [] \<or> s_args s = [] \<or> s_args s = s_args old) \<and>
     (case (s_overrides old, s_overrides s) of
        (Some a, Some b) \<Rightarrow> same_if_both (jo_failure_policy a) (jo_failure_policy b) \<and>
          same_if_both (jo_success_policy a) (jo_success_policy b)
      | _ \<Rightarrow> True)"

end
