(* ===== verification/Controller.thy ===== *)
theory Controller
  imports AIJob_API
begin

text \<open>
  \<open>internal/controller/aijob_controller.go\<close> and \<open>metrics.go\<close>: one reconciliation of an AIJob.
  The Kubernetes client, \<open>controllerutil.CreateOrUpdate\<close>, \<open>ctrl.SetControllerReference\<close> and
  the condition helpers of apimachinery are third-party code and parameters of the model: the
  fields of \<open>kube\<close> and \<open>condition_ops\<close>. Calls that reach the API server take the world
  \<open>'w\<close> and return the world after them, so that other actors may act in between.
\<close>

section \<open>Parameters\<close>

datatype operation_result = OpNone | OpCreated | OpUpdated | OpUpdatedStatus | OpUpdatedStatusOnly

record 'w kube =
  get_aijob :: "nsname \<Rightarrow> 'w \<Rightarrow> (go_error + aijob) \<times> 'w"
  get_local_queue :: "nsname \<Rightarrow> 'w \<Rightarrow> go_error option \<times> 'w"
  create_or_update :: "jobset \<Rightarrow> (jobset \<Rightarrow> go_error + jobset) \<Rightarrow> 'w
    \<Rightarrow> (jobset \<times> operation_result \<times> go_error option) \<times> 'w"
  controller_reference :: "object_meta \<Rightarrow> owner_ref list \<Rightarrow> go_error + owner_ref list"
  update_status :: "aijob \<Rightarrow> 'w \<Rightarrow> go_error option \<times> 'w"

text \<open>\<open>set_condition now cs c\<close> is \<open>meta.SetStatusCondition(&cs, c)\<close> at the time \<open>now\<close>.\<close>

record condition_ops =
  find_condition :: "condition list \<Rightarrow> string \<Rightarrow> condition option"
  set_condition :: "time \<Rightarrow> condition list \<Rightarrow> condition \<Rightarrow> condition list"

section \<open>Metrics\<close>

datatype controller_event =
    Reconciliation string
  | ReconcileDuration string
  | ControllerError string
  | JobSetChange string
  | StatusChange string

definition reconcile_success :: string where "reconcile_success = ''success''"
definition reconcile_error :: string where "reconcile_error = ''error''"
definition reconcile_not_found :: string where "reconcile_not_found = ''not_found''"
definition reconcile_waiting :: string where "reconcile_waiting = ''waiting''"
definition error_operation_get :: string where "error_operation_get = ''get''"
definition error_operation_queue :: string where "error_operation_queue = ''queue''"
definition error_operation_jobset :: string where "error_operation_jobset = ''jobset''"
definition error_operation_status :: string where "error_operation_status = ''status''"
definition jobset_operation_create :: string where "jobset_operation_create = ''create''"
definition jobset_operation_update :: string where "jobset_operation_update = ''update''"
definition jobset_operation_unchanged :: string where
  "jobset_operation_unchanged = ''unchanged''"
definition status_change_updated :: string where "status_change_updated = ''updated''"
definition status_change_unchanged :: string where "status_change_unchanged = ''unchanged''"

lemmas controller_label_defs = reconcile_success_def reconcile_error_def
  reconcile_not_found_def reconcile_waiting_def error_operation_get_def
  error_operation_queue_def error_operation_jobset_def error_operation_status_def
  jobset_operation_create_def jobset_operation_update_def jobset_operation_unchanged_def
  status_change_updated_def status_change_unchanged_def

text \<open>The flag says whether the \<open>Metrics\<close> pointer is set; every method accepts nil.\<close>

definition observe :: "bool \<Rightarrow> string \<Rightarrow> controller_event list" where
  "observe metrics result = (if metrics then [Reconciliation result, ReconcileDuration result] else [])"

definition record_error :: "bool \<Rightarrow> string \<Rightarrow> controller_event list" where
  "record_error metrics operation = (if metrics then [ControllerError operation] else [])"

definition record_jobset_change :: "bool \<Rightarrow> string \<Rightarrow> controller_event list" where
  "record_jobset_change metrics operation =
     (if metrics \<and> (operation = jobset_operation_create \<or> operation = jobset_operation_update)
      then [JobSetChange operation] else [])"

definition record_status_change :: "bool \<Rightarrow> bool \<Rightarrow> controller_event list" where
  "record_status_change metrics changed =
     (if \<not> metrics then []
      else [StatusChange (if changed then status_change_updated else status_change_unchanged)])"

definition operation_label :: "operation_result \<Rightarrow> string" where
  "operation_label operation =
     (case operation of
        OpCreated \<Rightarrow> jobset_operation_create
      | OpUpdated \<Rightarrow> jobset_operation_update
      | OpUpdatedStatus \<Rightarrow> jobset_operation_update
      | OpUpdatedStatusOnly \<Rightarrow> jobset_operation_update
      | OpNone \<Rightarrow> jobset_operation_unchanged)"

section \<open>The desired JobSet\<close>

definition scheduler_name :: string where "scheduler_name = ''ai-scheduler''"

definition queue_retry_delay :: int where "queue_retry_delay = 30 * 10 ^ 9"

definition selected_queue_name :: "string \<Rightarrow> string" where
  "selected_queue_name queue = (if queue = [] then default_queue_name else queue)"

definition scheduling_annotations :: "topology_config \<Rightarrow> strmap option" where
  "scheduling_annotations config =
     (let a0 = Map.empty;
          a1 = (if tp_preference config = topology_nvlink \<or> tp_preference config = topology_pcie
                then a0(preference_annotation \<mapsto> tp_preference config) else a0);
          a2 = (if tp_required config = ''same-rack''
                then a1(required_topology_annotation \<mapsto> rack_label)
                else if tp_required config = topology_nvlink \<or> tp_required config = topology_pcie
                then a1(required_topology_class_annotation \<mapsto> tp_required config)
                else a1)
      in if a2 = Map.empty then None else Some a2)"

definition worker_container :: "aijob \<Rightarrow> container" where
  "worker_container job =
     (let image = (if s_image (aj_spec job) = [] then ''ai-infra-lab:dev'' else s_image (aj_spec job));
          resource = (if s_gpu_resource (aj_spec job) = [] then gpu_resource
                      else s_gpu_resource (aj_spec job));
          resources = [resource \<mapsto> s_gpu_per_worker (aj_spec job)]
      in \<lparr>ct_name = ''worker'', ct_image = image, ct_pull_policy = ''IfNotPresent'',
          ct_command = [''/worker''], ct_args = s_args (aj_spec job),
          ct_env = [\<lparr>ev_name = ''JOB_COMPLETION_INDEX'', ev_field_path =
            ''metadata.labels['' @ [CHR 0x27] @ ''batch.kubernetes.io/job-completion-index''
              @ [CHR 0x27] @ '']''\<rparr>],
          ct_requests = resources, ct_limits = resources\<rparr>)"

definition worker_job_spec :: "aijob \<Rightarrow> job_spec" where
  "worker_job_spec job =
     (let labels = (lab_labels (m_labels (aj_meta job)))(job_label \<mapsto> m_name (aj_meta job))
      in \<lparr>jbs_parallelism = Some (s_workers (aj_spec job)),
          jbs_completions = Some (s_workers (aj_spec job)),
          jbs_completion_mode = Some ''Indexed'',
          jbs_backoff_limit = Some 0,
          jbs_template = \<lparr>pt_labels = Some labels,
            pt_annotations = scheduling_annotations (s_topology (aj_spec job)),
            pt_spec = \<lparr>ps_scheduler_name = scheduler_name, ps_restart_policy = ''Never'',
              ps_containers = [worker_container job]\<rparr>\<rparr>\<rparr>)"

definition desired_jobset :: "aijob \<Rightarrow> jobset" where
  "desired_jobset job =
     (let labels = (lab_labels (m_labels (aj_meta job)))
            (job_label \<mapsto> m_name (aj_meta job),
             queue_label \<mapsto> selected_queue_name (s_queue_name (aj_spec job)));
          spec = \<lparr>jss_replicated_jobs = [\<lparr>rj_name = ''workers'', rj_replicas = 1,
              rj_template_labels = Some (lab_labels (m_labels (aj_meta job))),
              rj_template_spec = worker_job_spec job\<rparr>],
            jss_network = Some \<lparr>nw_enable_dns_hostnames = Some True\<rparr>,
            jss_success_policy = None, jss_failure_policy = None, jss_suspend = None\<rparr>
      in \<lparr>js_meta = (new_meta (m_name (aj_meta job)) (m_namespace (aj_meta job)))
            \<lparr>m_labels := Some labels\<rparr>,
          js_spec = (case s_overrides (aj_spec job) of
              None \<Rightarrow> spec
            | Some ov \<Rightarrow> spec\<lparr>jss_failure_policy := jo_failure_policy ov,
                jss_success_policy := jo_success_policy ov,
                jss_suspend := Some (jo_suspend ov)\<rparr>),
          js_conditions = []\<rparr>)"

section \<open>Converging the owned fields\<close>

fun owned_labels_loop :: "strmap \<Rightarrow> string list \<Rightarrow> strmap \<Rightarrow> strmap" where
  "owned_labels_loop desired [] actual = actual"
| "owned_labels_loop desired (key # keys) actual =
     (let value = go_lookup desired key in
      owned_labels_loop desired keys
        (if value \<noteq> [] then actual(key \<mapsto> value) else actual(key := None)))"

definition owned_labels :: "strmap option \<Rightarrow> strmap option \<Rightarrow> strmap" where
  "owned_labels actual desired =
     (let labels = (case actual of None \<Rightarrow> Map.empty | Some m \<Rightarrow> m) in
      owned_labels_loop (nilmap desired) [run_id_label, experiment_label, queue_label]
        (labels(job_label \<mapsto> go_lookup (nilmap desired) job_label)))"

definition reconcile_owned_fields :: "jobset \<Rightarrow> jobset \<Rightarrow> jobset" where
  "reconcile_owned_fields actual desired =
     (let meta = (js_meta actual)\<lparr>m_labels :=
            Some (owned_labels (m_labels (js_meta actual)) (m_labels (js_meta desired)))\<rparr>;
          spec1 = (case jss_suspend (js_spec desired) of
              None \<Rightarrow> js_spec actual
            | Some b \<Rightarrow> (js_spec actual)\<lparr>jss_suspend := Some b\<rparr>);
          spec2 = (if m_creation (js_meta actual) = 0
            then spec1\<lparr>jss_replicated_jobs := jss_replicated_jobs (js_spec desired),
              jss_network := jss_network (js_spec desired),
              jss_failure_policy := jss_failure_policy (js_spec desired),
              jss_success_policy := jss_success_policy (js_spec desired)\<rparr>
            else spec1)
      in actual\<lparr>js_meta := meta, js_spec := spec2\<rparr>)"

text \<open>The closure passed to \<open>CreateOrUpdate\<close>.\<close>

definition mutate_jobset :: "'w kube \<Rightarrow> aijob \<Rightarrow> jobset \<Rightarrow> go_error + jobset" where
  "mutate_jobset k job js =
     (case controller_reference k (aj_meta job) (m_owners (js_meta js)) of
        Inl e \<Rightarrow> Inl e
      | Inr owners \<Rightarrow> Inr (reconcile_owned_fields
          (js\<lparr>js_meta := (js_meta js)\<lparr>m_owners := owners\<rparr>\<rparr>) (desired_jobset job)))"

definition new_jobset :: "object_meta \<Rightarrow> jobset" where
  "new_jobset m = \<lparr>js_meta = new_meta (m_name m) (m_namespace m),
     js_spec = empty_jobset_spec, js_conditions = []\<rparr>"

definition reconcile_jobset ::
    "'w kube \<Rightarrow> aijob \<Rightarrow> 'w \<Rightarrow> (jobset \<times> string \<times> go_error option) \<times> 'w" where
  "reconcile_jobset k job w =
     (case create_or_update k (new_jobset (js_meta (desired_jobset job))) (mutate_jobset k job) w of
        ((js, operation, err), w') \<Rightarrow> ((js, operation_label operation, err), w'))"

section \<open>Status\<close>

definition status_from_jobset :: "int64 \<Rightarrow> jobset \<Rightarrow> aijob_status" where
  "status_from_jobset generation js =
     \<lparr>st_observed_generation = generation,
      st_conditions = map (\<lambda>c. c\<lparr>c_observed_generation := generation\<rparr>) (js_conditions js)\<rparr>"

definition queue_condition :: "int64 \<Rightarrow> string \<Rightarrow> bool \<Rightarrow> condition" where
  "queue_condition generation queue ready =
     (let c = \<lparr>c_type = condition_queue_ready, c_status = condition_false,
          c_observed_generation = generation, c_transition = 0, c_reason = ''QueueNotFound'',
          c_message = ''LocalQueue '' @ go_quote queue @ '' does not exist''\<rparr>
      in if ready then c\<lparr>c_status := condition_true, c_reason := ''QueueFound'',
           c_message := ''LocalQueue '' @ go_quote queue @ '' is available''\<rparr> else c)"

definition status_with_queue ::
    "condition_ops \<Rightarrow> time \<Rightarrow> int64 \<Rightarrow> aijob_status \<Rightarrow> condition list \<Rightarrow> string \<Rightarrow> bool
      \<Rightarrow> aijob_status" where
  "status_with_queue cops now generation status previous queue ready =
     (let existing = find_condition cops previous condition_queue_ready;
          current = find_condition cops (st_conditions status) condition_queue_ready;
          conditions = (case (existing, current) of
              (Some c, None) \<Rightarrow> st_conditions status @ [c]
            | _ \<Rightarrow> st_conditions status)
      in status\<lparr>st_observed_generation := generation,
           st_conditions := set_condition cops now conditions
             (queue_condition generation queue ready)\<rparr>)"

definition reconcile_status ::
    "'w kube \<Rightarrow> aijob \<Rightarrow> aijob_status \<Rightarrow> 'w \<Rightarrow> (bool \<times> go_error option) \<times> 'w" where
  "reconcile_status k job status w =
     (if aj_status job = status then ((False, None), w)
      else (case update_status k (job\<lparr>aj_status := status\<rparr>) w of (err, w') \<Rightarrow> ((True, err), w')))"

section \<open>Reconcile\<close>

record reconcile_out =
  ro_requeue_after :: int
  ro_error :: "go_error option"
  ro_events :: "controller_event list"

text \<open>The closure \<open>done\<close>, with the metrics recorded before it.\<close>

definition reconcile_done ::
    "bool \<Rightarrow> controller_event list \<Rightarrow> int \<Rightarrow> string \<Rightarrow> go_error option \<Rightarrow> reconcile_out" where
  "reconcile_done metrics events requeue result err =
     \<lparr>ro_requeue_after = requeue, ro_error = err, ro_events = events @ observe metrics result\<rparr>"

definition reconcile ::
    "'w kube \<Rightarrow> condition_ops \<Rightarrow> bool \<Rightarrow> time \<Rightarrow> nsname \<Rightarrow> 'w \<Rightarrow> reconcile_out \<times> 'w" where
  "reconcile k cops metrics now request w0 =
     (case get_aijob k request w0 of
        (Inl e, w1) \<Rightarrow>
          (if is_not_found e then (reconcile_done metrics [] 0 reconcile_not_found None, w1)
           else (reconcile_done metrics (record_error metrics error_operation_get) 0
                   reconcile_error (if is_not_found e then None else Some e), w1))
      | (Inr job, w1) \<Rightarrow>
          (let queue = selected_queue_name (s_queue_name (aj_spec job));
               queue_key = \<lparr>ns_namespace = m_namespace (aj_meta job), ns_name = queue\<rparr>;
               generation = m_generation (aj_meta job);
               previous = st_conditions (aj_status job)
           in case get_local_queue k queue_key w1 of
                (Some e, w2) \<Rightarrow>
                  (if is_not_found e then
                     (let status = status_with_queue cops now generation
                            \<lparr>st_observed_generation = 0, st_conditions = previous\<rparr>
                            previous queue False
                      in case reconcile_status k job status w2 of
                           ((changed, Some e'), w3) \<Rightarrow>
                             (reconcile_done metrics (record_error metrics error_operation_status) 0
                                reconcile_error (Some e'), w3)
                         | ((changed, None), w3) \<Rightarrow>
                             (reconcile_done metrics (record_status_change metrics changed)
                                queue_retry_delay reconcile_waiting None, w3))
                   else (reconcile_done metrics (record_error metrics error_operation_queue) 0
                           reconcile_error (Some e), w2))
              | (None, w2) \<Rightarrow>
                  (case reconcile_jobset k job w2 of
                     ((js, operation, Some e), w3) \<Rightarrow>
                       (reconcile_done metrics (record_error metrics error_operation_jobset) 0
                          reconcile_error (Some e), w3)
                   | ((js, operation, None), w3) \<Rightarrow>
                       (let status = status_with_queue cops now generation
                              (status_from_jobset generation js) previous queue True
                        in case reconcile_status k job status w3 of
                             ((changed, Some e), w4) \<Rightarrow>
                               (reconcile_done metrics
                                  (record_jobset_change metrics operation @
                                   record_error metrics error_operation_status) 0
                                  reconcile_error (Some e), w4)
                           | ((changed, None), w4) \<Rightarrow>
                               (reconcile_done metrics
                                  (record_jobset_change metrics operation @
                                   record_status_change metrics changed) 0
                                  reconcile_success None, w4)))))"

end
