(* ===== verification/Controller_Store.thy ===== *)
theory Controller_Store
  imports Controller
begin

text \<open>
  What the controller relies on: the documented behaviour of the condition helpers
  (\<open>condition_laws\<close>) and of an API server that no one else writes to during a reconciliation
  (\<open>kube_store\<close>). Each is a locale over the parameters of \<open>Controller\<close>; the lemmas on
  convergence are proved inside them. Both are interpreted at the end: the helpers as
  functions on condition lists, the server as maps with an arbitrary defaulting webhook.
\<close>

section \<open>The condition helpers\<close>

definition merged_condition :: "time \<Rightarrow> condition \<Rightarrow> condition \<Rightarrow> condition" where
  "merged_condition now old new = new\<lparr>c_transition :=
     (if c_status new = c_status old then c_transition old
      else if c_transition new = 0 then now else c_transition new)\<rparr>"

locale condition_laws =
  fixes cops :: condition_ops
  assumes find_none: "t \<notin> c_type ` set cs \<Longrightarrow> find_condition cops cs t = None"
    and find_first: "t \<notin> c_type ` set xs \<Longrightarrow> c_type c = t \<Longrightarrow>
      find_condition cops (xs @ c # ys) t = Some c"
    and set_append: "c_type new \<notin> c_type ` set cs \<Longrightarrow> c_transition new = 0 \<Longrightarrow>
      set_condition cops now cs new = cs @ [new\<lparr>c_transition := now\<rparr>]"
    and set_first: "c_type new \<notin> c_type ` set xs \<Longrightarrow> c_type old = c_type new \<Longrightarrow>
      set_condition cops now (xs @ old # ys) new = xs @ merged_condition now old new # ys"
begin

lemma find_cases:
  obtains (absent) "t \<notin> c_type ` set cs" "find_condition cops cs t = None"
  | (present) xs c ys where "cs = xs @ c # ys" "c_type c = t" "t \<notin> c_type ` set xs"
      "find_condition cops cs t = Some c"
proof (cases "t \<in> c_type ` set cs")
  case False
  show ?thesis by (rule absent [OF False find_none [OF False]])
next
  case True
  then have "\<exists>c \<in> set cs. c_type c = t" by blast
  from split_list_first_prop [OF this] obtain xs c ys
    where cs: "cs = xs @ c # ys" "c_type c = t" "\<forall>x \<in> set xs. c_type x \<noteq> t" by metis
  then have xs: "t \<notin> c_type ` set xs" by auto
  have "find_condition cops cs t = Some c"
    unfolding cs(1) by (rule find_first [OF xs cs(2)])
  with cs(1,2) xs show ?thesis by (rule present)
qed

text \<open>Setting a condition leaves exactly one shape: the new condition with some time.\<close>

lemma set_shape:
  assumes "c_transition new = 0"
  obtains xs t ys where "set_condition cops now cs new = xs @ new\<lparr>c_transition := t\<rparr> # ys"
    and "c_type new \<notin> c_type ` set xs"
proof (cases rule: find_cases [of "c_type new" cs])
  case absent
  then show ?thesis using set_append [OF absent(1) assms] that by fastforce
next
  case (present xs c ys)
  have "set_condition cops now cs new = xs @ merged_condition now c new # ys"
    unfolding present(1) by (rule set_first [OF present(3,2)])
  then show ?thesis using that present(3) by (auto simp: merged_condition_def)
qed

text \<open>Setting the same condition again, at any later time, changes nothing.\<close>

lemma set_again:
  assumes "c_transition new = 0"
  shows "set_condition cops now' (set_condition cops now cs new) new = set_condition cops now cs new"
proof -
  obtain xs t ys where eq: "set_condition cops now cs new = xs @ new\<lparr>c_transition := t\<rparr> # ys"
    and xs: "c_type new \<notin> c_type ` set xs"
    using set_shape [OF assms] .
  have "set_condition cops now' (xs @ new\<lparr>c_transition := t\<rparr> # ys) new
      = xs @ merged_condition now' (new\<lparr>c_transition := t\<rparr>) new # ys"
    by (rule set_first [OF xs]) simp
  then show ?thesis by (simp add: eq merged_condition_def)
qed

lemma queue_condition_simps [simp]:
  "c_type (queue_condition g q r) = condition_queue_ready"
  "c_transition (queue_condition g q r) = 0"
  by (simp_all add: queue_condition_def Let_def)

text \<open>The waiting branch: the previous conditions with the queue condition set.\<close>

lemma waiting_conditions:
  "status_with_queue cops now g \<lparr>st_observed_generation = n, st_conditions = prev\<rparr> prev q r =
     \<lparr>st_observed_generation = g,
      st_conditions = set_condition cops now prev (queue_condition g q r)\<rparr>"
  by (cases "find_condition cops prev condition_queue_ready")
    (simp_all add: status_with_queue_def Let_def)

lemma waiting_settles:
  assumes "status = status_with_queue cops now g
      \<lparr>st_observed_generation = n, st_conditions = prev\<rparr> prev q r"
  shows "status_with_queue cops now' g
      \<lparr>st_observed_generation = n, st_conditions = st_conditions status\<rparr> (st_conditions status) q r
      = status"
  by (simp add: assms waiting_conditions set_again)

text \<open>
  The projecting branch: the JobSet's conditions, none of which is the queue condition, followed
  by the queue condition.
\<close>

lemma projected_conditions:
  assumes "condition_queue_ready \<notin> c_type ` set (st_conditions status)"
  obtains t where "status_with_queue cops now g status prev q r =
     \<lparr>st_observed_generation = g, st_conditions =
        st_conditions status @ [(queue_condition g q r)\<lparr>c_transition := t\<rparr>]\<rparr>"
proof -
  have current: "find_condition cops (st_conditions status) condition_queue_ready = None"
    by (rule find_none [OF assms])
  let ?base = "st_conditions status" and ?new = "queue_condition g q r"
  show ?thesis
  proof (cases rule: find_cases [of condition_queue_ready prev])
    case absent
    have "set_condition cops now ?base ?new = ?base @ [?new\<lparr>c_transition := now\<rparr>]"
      by (rule set_append) (use assms in simp_all)
    with absent current show ?thesis
      by (intro that [of now]) (simp add: status_with_queue_def Let_def)
  next
    case (present xs c ys)
    have "set_condition cops now (?base @ c # []) ?new = ?base @ merged_condition now c ?new # []"
      by (rule set_first) (use assms present(2) in simp_all)
    then have "set_condition cops now (?base @ [c]) ?new
        = ?base @ [?new\<lparr>c_transition := c_transition (merged_condition now c ?new)\<rparr>]"
      by (simp add: merged_condition_def)
    with present current show ?thesis
      by (intro that [of "c_transition (merged_condition now c ?new)"])
        (simp add: status_with_queue_def Let_def)
  qed
qed

lemma projected_settles:
  assumes free: "condition_queue_ready \<notin> c_type ` set (st_conditions status)"
    and st: "st = status_with_queue cops now g status prev q r"
  shows "status_with_queue cops now' g status (st_conditions st) q r = st"
proof -
  let ?base = "st_conditions status" and ?new = "queue_condition g q r"
  obtain t where t: "st = \<lparr>st_observed_generation = g,
      st_conditions = ?base @ [?new\<lparr>c_transition := t\<rparr>]\<rparr>"
    using projected_conditions [OF free] st by metis
  have "find_condition cops (?base @ ?new\<lparr>c_transition := t\<rparr> # []) condition_queue_ready
      = Some (?new\<lparr>c_transition := t\<rparr>)"
    by (rule find_first) (use free in simp_all)
  moreover have "set_condition cops now' (?base @ ?new\<lparr>c_transition := t\<rparr> # []) ?new
      = ?base @ merged_condition now' (?new\<lparr>c_transition := t\<rparr>) ?new # []"
    by (rule set_first) (use free in simp_all)
  ultimately show ?thesis
    using find_none [OF free] by (simp add: t status_with_queue_def Let_def merged_condition_def)
qed

end

section \<open>Owned fields\<close>

lemma owned_labels_apply:
  "owned_labels a d key =
     (if key = job_label then Some (go_lookup (nilmap d) job_label)
      else if key \<in> {run_id_label, experiment_label, queue_label}
      then (if go_lookup (nilmap d) key = [] then None else Some (go_lookup (nilmap d) key))
      else nilmap a key)"
  by (cases a) (auto simp: owned_labels_def Let_def nilmap_def)

lemma owned_labels_idem: "owned_labels (Some (owned_labels a d)) d = owned_labels a d"
  by (rule ext) (simp add: owned_labels_apply)

text \<open>What an API server keeps of an object it stores, beyond the spec.\<close>

definition kept_by_server :: "jobset \<Rightarrow> jobset \<Rightarrow> bool" where
  "kept_by_server js js' \<longleftrightarrow> m_labels (js_meta js') = m_labels (js_meta js) \<and>
     m_owners (js_meta js') = m_owners (js_meta js) \<and>
     meta_key (js_meta js') = meta_key (js_meta js) \<and> js_conditions js' = js_conditions js"

lemma mutate_key: "mutate_jobset k job js = Inr js' \<Longrightarrow> meta_key (js_meta js') = meta_key (js_meta js)"
  by (auto simp: mutate_jobset_def reconcile_owned_fields_def meta_key_def Let_def split: sum.splits)

lemma mutate_conditions: "mutate_jobset k job js = Inr js' \<Longrightarrow> js_conditions js' = js_conditions js"
  by (auto simp: mutate_jobset_def reconcile_owned_fields_def Let_def split: sum.splits)

lemma mutate_suspend:
  "mutate_jobset k job js = Inr js' \<Longrightarrow>
     jss_suspend (js_spec js') = (case s_overrides (aj_spec job) of
       None \<Rightarrow> jss_suspend (js_spec js) | Some ov \<Rightarrow> Some (jo_suspend ov))"
  by (auto simp: mutate_jobset_def reconcile_owned_fields_def desired_jobset_def Let_def
      split: sum.splits option.splits)

text \<open>
  Once the server holds the result of the closure, with a creation time and the suspend flag the
  AIJob asks for (if it asks), the closure changes nothing any more.
\<close>

lemma mutate_settles:
  assumes idem: "\<And>m os os'. controller_reference k m os = Inr os' \<Longrightarrow>
      controller_reference k m os' = Inr os'"
    and mutated: "mutate_jobset k job js0 = Inr js"
    and kept: "kept_by_server js js'" and created: "m_creation (js_meta js') \<noteq> 0"
    and suspend: "s_overrides (aj_spec job) = None \<or> jss_suspend (js_spec js') = jss_suspend (js_spec js)"
  shows "mutate_jobset k job js' = Inr js'"
proof -
  let ?d = "m_labels (js_meta (desired_jobset job))"
  obtain owners where os: "controller_reference k (aj_meta job) (m_owners (js_meta js0)) = Inr owners"
    and js: "js = reconcile_owned_fields (js0\<lparr>js_meta := (js_meta js0)\<lparr>m_owners := owners\<rparr>\<rparr>)
      (desired_jobset job)"
    using mutated by (auto simp: mutate_jobset_def split: sum.splits)
  have labels: "m_labels (js_meta js') = Some (owned_labels (m_labels (js_meta js0)) ?d)"
    and owners: "m_owners (js_meta js') = owners"
    using kept by (simp_all add: js kept_by_server_def reconcile_owned_fields_def Let_def)
  have spec: "(case jss_suspend (js_spec (desired_jobset job)) of None \<Rightarrow> js_spec js'
      | Some b \<Rightarrow> (js_spec js')\<lparr>jss_suspend := Some b\<rparr>) = js_spec js'"
    using suspend mutate_suspend [OF mutated]
    by (cases "s_overrides (aj_spec job)") (auto simp: desired_jobset_def Let_def)
  have settled: "reconcile_owned_fields js' (desired_jobset job) = js'"
    by (intro jobset.equality object_meta.equality)
      (simp_all add: reconcile_owned_fields_def Let_def labels owned_labels_idem created spec)
  have same: "js'\<lparr>js_meta := (js_meta js')\<lparr>m_owners := owners\<rparr>\<rparr> = js'"
    by (intro jobset.equality object_meta.equality) (simp_all add: owners)
  show ?thesis
    by (simp add: mutate_jobset_def owners idem [OF os] same settled)
qed

section \<open>The API server\<close>

text \<open>
  What can be observed of a world \<open>'w\<close>, and what the server does to an object it stores:
  \<open>v_admit\<close> on creation (defaulting webhooks, creation time), \<open>v_commit\<close> on an update;
  \<open>v_not_found\<close> is the message of its not-found errors.
\<close>

record 'w views =
  v_aijobs :: "'w \<Rightarrow> nsname \<Rightarrow> aijob option"
  v_queues :: "'w \<Rightarrow> nsname \<Rightarrow> bool"
  v_jobsets :: "'w \<Rightarrow> nsname \<Rightarrow> jobset option"
  v_admit :: "'w \<Rightarrow> jobset \<Rightarrow> jobset"
  v_commit :: "'w \<Rightarrow> jobset \<Rightarrow> jobset"
  v_not_found :: "nsname \<Rightarrow> string"

locale kube_store =
  fixes k :: "'w kube" and v :: "'w views"
  assumes get_job: "get_aijob k key w =
      ((case v_aijobs v w key of None \<Rightarrow> Inl (ApiNotFound (v_not_found v key)) | Some j \<Rightarrow> Inr j), w)"
    and get_queue: "get_local_queue k key w =
      ((if v_queues v w key then None else Some (ApiNotFound (v_not_found v key))), w)"
    and create: "v_jobsets v w (meta_key (js_meta obj)) = None \<Longrightarrow> f obj = Inr js \<Longrightarrow>
      meta_key (js_meta js) = meta_key (js_meta obj) \<Longrightarrow>
      \<exists>w'. create_or_update k obj f w = ((v_admit v w js, OpCreated, None), w') \<and>
        v_jobsets v w' = (v_jobsets v w)(meta_key (js_meta obj) \<mapsto> v_admit v w js) \<and>
        v_aijobs v w' = v_aijobs v w \<and> v_queues v w' = v_queues v w"
    and unchanged: "v_jobsets v w (meta_key (js_meta obj)) = Some cur \<Longrightarrow> f cur = Inr cur \<Longrightarrow>
      create_or_update k obj f w = ((cur, OpNone, None), w)"
    and update: "v_jobsets v w (meta_key (js_meta obj)) = Some cur \<Longrightarrow> f cur = Inr js \<Longrightarrow>
      js \<noteq> cur \<Longrightarrow> meta_key (js_meta js) = meta_key (js_meta obj) \<Longrightarrow>
      m_creation (js_meta js) \<noteq> 0 \<Longrightarrow>
      \<exists>w'. create_or_update k obj f w = ((v_commit v w js, OpUpdated, None), w') \<and>
        v_jobsets v w' = (v_jobsets v w)(meta_key (js_meta obj) \<mapsto> v_commit v w js) \<and>
        v_aijobs v w' = v_aijobs v w \<and> v_queues v w' = v_queues v w"
    and mutate_error: "f (case v_jobsets v w (meta_key (js_meta obj)) of
        None \<Rightarrow> obj | Some cur \<Rightarrow> cur) = Inl e \<Longrightarrow>
      \<exists>js. create_or_update k obj f w = ((js, OpNone, Some e), w)"
    and put_status: "v_aijobs v w (meta_key (aj_meta j)) = Some j0 \<Longrightarrow>
      \<exists>w'. update_status k j w = (None, w') \<and>
        v_aijobs v w' = (v_aijobs v w)(meta_key (aj_meta j) \<mapsto> j0\<lparr>aj_status := aj_status j\<rparr>) \<and>
        v_jobsets v w' = v_jobsets v w \<and> v_queues v w' = v_queues v w"
    and admit_kept: "kept_by_server js (v_admit v w js)"
    and admit_created: "m_creation (js_meta (v_admit v w js)) \<noteq> 0"
    and commit_kept: "kept_by_server js (v_commit v w js)"
    and commit_spec: "js_spec (v_commit v w js) = js_spec js"
    and commit_created: "m_creation (js_meta (v_commit v w js)) = m_creation (js_meta js)"
    and reference_idem: "controller_reference k m os = Inr os' \<Longrightarrow>
      controller_reference k m os' = Inr os'"
    and job_key: "v_aijobs v w key = Some j \<Longrightarrow> meta_key (aj_meta j) = key"
    and jobset_key: "v_jobsets v w key = Some js \<Longrightarrow> meta_key (js_meta js) = key"
    and jobset_created: "v_jobsets v w key = Some js \<Longrightarrow> m_creation (js_meta js) \<noteq> 0"

section \<open>Settled worlds\<close>

definition queue_key :: "aijob \<Rightarrow> nsname" where
  "queue_key job = \<lparr>ns_namespace = m_namespace (aj_meta job),
     ns_name = selected_queue_name (s_queue_name (aj_spec job))\<rparr>"

text \<open>The status the controller derives from a JobSet.\<close>

definition projected_status :: "condition_ops \<Rightarrow> time \<Rightarrow> aijob \<Rightarrow> jobset \<Rightarrow> aijob_status" where
  "projected_status cops now job js =
     status_with_queue cops now (m_generation (aj_meta job))
       (status_from_jobset (m_generation (aj_meta job)) js) (st_conditions (aj_status job))
       (selected_queue_name (s_queue_name (aj_spec job))) True"

definition waiting_status :: "condition_ops \<Rightarrow> time \<Rightarrow> aijob \<Rightarrow> aijob_status" where
  "waiting_status cops now job =
     status_with_queue cops now (m_generation (aj_meta job))
       \<lparr>st_observed_generation = 0, st_conditions = st_conditions (aj_status job)\<rparr>
       (st_conditions (aj_status job)) (selected_queue_name (s_queue_name (aj_spec job))) False"

text \<open>
  The AIJob under \<open>key\<close> is settled: its queue exists, the closure of \<open>CreateOrUpdate\<close> leaves its
  JobSet alone, and at every time the derived status is the one stored.
\<close>

definition settled :: "'w kube \<Rightarrow> condition_ops \<Rightarrow> 'w views \<Rightarrow> nsname \<Rightarrow> 'w \<Rightarrow> bool" where
  "settled k cops v key w \<longleftrightarrow> (\<exists>job js. v_aijobs v w key = Some job \<and>
     v_queues v w (queue_key job) \<and> v_jobsets v w key = Some js \<and>
     mutate_jobset k job js = Inr js \<and>
     (\<forall>now. projected_status cops now job js = aj_status job))"

definition jobset_key :: "aijob \<Rightarrow> nsname" where
  "jobset_key job = meta_key (aj_meta job)"

lemma meta_key_new_jobset [simp]:
  "meta_key (js_meta (new_jobset (js_meta (desired_jobset job)))) = jobset_key job"
  by (simp add: new_jobset_def desired_jobset_def new_meta_def meta_key_def jobset_key_def Let_def)

text \<open>Two lemmas unfold \<open>reconcile\<close> along its branches, over any client.\<close>

lemma reconcile_ready:
  assumes "get_aijob k key w = (Inr job, w1)" and "get_local_queue k (queue_key job) w1 = (None, w2)"
    and "create_or_update k (new_jobset (js_meta (desired_jobset job))) (mutate_jobset k job) w2
      = ((js, operation, None), w3)"
  shows "reconcile k cops metrics now key w =
    (case reconcile_status k job (projected_status cops now job js) w3 of
       ((changed, Some e), w4) \<Rightarrow> (reconcile_done metrics
          (record_jobset_change metrics (operation_label operation) @
           record_error metrics error_operation_status) 0 reconcile_error (Some e), w4)
     | ((changed, None), w4) \<Rightarrow> (reconcile_done metrics
          (record_jobset_change metrics (operation_label operation) @
           record_status_change metrics changed) 0 reconcile_success None, w4))"
  using assms
  by (simp add: reconcile_def reconcile_jobset_def queue_key_def projected_status_def Let_def)

lemma reconcile_waits:
  assumes "get_aijob k key w = (Inr job, w1)"
    and "get_local_queue k (queue_key job) w1 = (Some e, w2)" and "is_not_found e"
  shows "reconcile k cops metrics now key w =
    (case reconcile_status k job (waiting_status cops now job) w2 of
       ((changed, Some e'), w3) \<Rightarrow> (reconcile_done metrics
          (record_error metrics error_operation_status) 0 reconcile_error (Some e'), w3)
     | ((changed, None), w3) \<Rightarrow> (reconcile_done metrics (record_status_change metrics changed)
          queue_retry_delay reconcile_waiting None, w3))"
  using assms by (simp add: reconcile_def queue_key_def waiting_status_def Let_def)

section \<open>Convergence\<close>

lemma mutate_creation:
  "mutate_jobset k job js = Inr js' \<Longrightarrow> m_creation (js_meta js') = m_creation (js_meta js)"
  by (auto simp: mutate_jobset_def reconcile_owned_fields_def Let_def split: sum.splits)

text \<open>The status of the AIJob does not influence its JobSet.\<close>

lemma desired_jobset_status [simp]: "desired_jobset (job\<lparr>aj_status := s\<rparr>) = desired_jobset job"
  by (simp add: desired_jobset_def worker_job_spec_def worker_container_def)

lemma mutate_jobset_status [simp]:
  "mutate_jobset k (job\<lparr>aj_status := s\<rparr>) js = mutate_jobset k job js"
  by (simp add: mutate_jobset_def split: sum.split)

lemma queue_key_status [simp]: "queue_key (job\<lparr>aj_status := s\<rparr>) = queue_key job"
  by (simp add: queue_key_def)

definition jobset_before :: "'w views \<Rightarrow> aijob \<Rightarrow> 'w \<Rightarrow> jobset" where
  "jobset_before v job w = (case v_jobsets v w (jobset_key job) of
     None \<Rightarrow> new_jobset (js_meta (desired_jobset job)) | Some js \<Rightarrow> js)"

text \<open>Admission keeps the suspend flag of created JobSets.\<close>

definition admission_keeps_suspend :: "'w views \<Rightarrow> bool" where
  "admission_keeps_suspend v \<longleftrightarrow>
     (\<forall>w js. jss_suspend (js_spec (v_admit v w js)) = jss_suspend (js_spec js))"

text \<open>
  Nothing but the controller decides the suspend flag of this write: the AIJob does not ask for
  one, or admission keeps it, or the JobSet exists already and admission is not involved.
\<close>

definition suspend_kept :: "'w views \<Rightarrow> aijob \<Rightarrow> 'w \<Rightarrow> bool" where
  "suspend_kept v job w \<longleftrightarrow> s_overrides (aj_spec job) = None \<or> admission_keeps_suspend v \<or>
     v_jobsets v w (jobset_key job) \<noteq> None"

locale controller_env = kube_store k v + condition_laws cops
  for k :: "'w kube" and v :: "'w views" and cops :: condition_ops
begin

lemma settled_stays:
  assumes "settled k cops v key w"
  shows "reconcile k cops metrics now key w =
    (reconcile_done metrics (record_status_change metrics False) 0 reconcile_success None, w)"
proof -
  obtain job js where job: "v_aijobs v w key = Some job" and queue: "v_queues v w (queue_key job)"
    and js: "v_jobsets v w key = Some js" and fixed: "mutate_jobset k job js = Inr js"
    and status: "projected_status cops now job js = aj_status job"
    using assms by (auto simp: settled_def)
  have key: "jobset_key job = key"
    using job_key [OF job] by (simp add: jobset_key_def)
  have "create_or_update k (new_jobset (js_meta (desired_jobset job))) (mutate_jobset k job) w
      = ((js, OpNone, None), w)"
    by (rule unchanged) (use js fixed key in simp_all)
  from reconcile_ready [OF _ _ this, of key w w] job queue show ?thesis
    by (simp add: get_job get_queue status reconcile_status_def record_jobset_change_def
        operation_label_def controller_label_defs)
qed

lemma store_step:
  assumes "mutate_jobset k job (jobset_before v job w) = Inr js"
    and "suspend_kept v job w"
  obtains stored operation w' where
    "create_or_update k (new_jobset (js_meta (desired_jobset job))) (mutate_jobset k job) w
       = ((stored, operation, None), w')"
    "v_jobsets v w' = (v_jobsets v w)(jobset_key job \<mapsto> stored)"
    "v_aijobs v w' = v_aijobs v w" "v_queues v w' = v_queues v w"
    "kept_by_server js stored" "m_creation (js_meta stored) \<noteq> 0"
    "s_overrides (aj_spec job) = None \<or> jss_suspend (js_spec stored) = jss_suspend (js_spec js)"
proof (cases "v_jobsets v w (jobset_key job)")
  case None
  with assms(1) have m: "mutate_jobset k job (new_jobset (js_meta (desired_jobset job))) = Inr js"
    by (simp add: jobset_before_def)
  obtain w' where "create_or_update k (new_jobset (js_meta (desired_jobset job)))
      (mutate_jobset k job) w = ((v_admit v w js, OpCreated, None), w')"
    "v_jobsets v w' = (v_jobsets v w)(jobset_key job \<mapsto> v_admit v w js)"
    "v_aijobs v w' = v_aijobs v w" "v_queues v w' = v_queues v w"
    using create [where obj = "new_jobset (js_meta (desired_jobset job))"
        and f = "mutate_jobset k job" and w = w, OF _ m mutate_key [OF m]] None by auto
  then show ?thesis
    by (rule that) (use None assms(2) admit_kept admit_created in
      \<open>auto simp: admission_keeps_suspend_def suspend_kept_def\<close>)
next
  case (Some cur)
  with assms(1) have m: "mutate_jobset k job cur = Inr js"
    by (simp add: jobset_before_def)
  show ?thesis
  proof (cases "js = cur")
    case True
    have "create_or_update k (new_jobset (js_meta (desired_jobset job))) (mutate_jobset k job) w
        = ((cur, OpNone, None), w)"
      by (rule unchanged) (use Some m True in simp_all)
    then show ?thesis
      by (rule that) (use Some True jobset_created in \<open>auto simp: kept_by_server_def\<close>)
  next
    case False
    have "meta_key (js_meta js) = jobset_key job"
      using mutate_key [OF m] jobset_key [OF Some] by simp
    moreover have "m_creation (js_meta js) \<noteq> 0"
      using mutate_creation [OF m] jobset_created [OF Some] by simp
    ultimately obtain w' where "create_or_update k (new_jobset (js_meta (desired_jobset job)))
        (mutate_jobset k job) w = ((v_commit v w js, OpUpdated, None), w')"
      "v_jobsets v w' = (v_jobsets v w)(jobset_key job \<mapsto> v_commit v w js)"
      "v_aijobs v w' = v_aijobs v w" "v_queues v w' = v_queues v w"
      using update [where obj = "new_jobset (js_meta (desired_jobset job))"
          and f = "mutate_jobset k job" and w = w and cur = cur, OF _ m] Some False by auto
    then show ?thesis
      by (rule that) (use mutate_creation [OF m] jobset_created [OF Some] commit_kept commit_spec
        commit_created in auto)
  qed
qed

lemma status_step:
  assumes "v_aijobs v w key = Some job"
  obtains changed w' where "reconcile_status k job status w = ((changed, None), w')"
    "v_aijobs v w' = (v_aijobs v w)(key \<mapsto> job\<lparr>aj_status := status\<rparr>)"
    "v_jobsets v w' = v_jobsets v w" "v_queues v w' = v_queues v w"
proof (cases "aj_status job = status")
  case True
  then have "job\<lparr>aj_status := status\<rparr> = job" by (intro aijob.equality) simp_all
  with True assms show ?thesis
    by (intro that [of False w]) (auto simp: reconcile_status_def)
next
  case False
  have key: "meta_key (aj_meta job) = key" by (rule job_key [OF assms])
  obtain w' where "update_status k (job\<lparr>aj_status := status\<rparr>) w = (None, w')"
    "v_aijobs v w' = (v_aijobs v w)(key \<mapsto> job\<lparr>aj_status := status\<rparr>)"
    "v_jobsets v w' = v_jobsets v w" "v_queues v w' = v_queues v w"
    using put_status [of w "job\<lparr>aj_status := status\<rparr>" job] assms by (auto simp: key)
  with False show ?thesis
    by (intro that [of True w']) (auto simp: reconcile_status_def)
qed

lemma reconcile_settles:
  assumes job: "v_aijobs v w key = Some job" and queue: "v_queues v w (queue_key job)"
    and mutated: "mutate_jobset k job (jobset_before v job w) = Inr js"
    and free: "condition_queue_ready \<notin> c_type ` set (js_conditions (jobset_before v job w))"
    and suspend: "suspend_kept v job w"
  obtains events w' where
    "reconcile k cops metrics now key w = (reconcile_done metrics events 0 reconcile_success None, w')"
    "settled k cops v key w'"
    "\<And>key'. key' \<noteq> key \<Longrightarrow> v_aijobs v w' key' = v_aijobs v w key'"
    "\<And>key'. key' \<noteq> key \<Longrightarrow> v_jobsets v w' key' = v_jobsets v w key'"
    "v_queues v w' = v_queues v w"
    "\<exists>status. v_aijobs v w' key = Some (job\<lparr>aj_status := status\<rparr>)"
proof -
  have key: "jobset_key job = key"
    using job_key [OF job] by (simp add: jobset_key_def)
  obtain stored operation w1 where
    cu: "create_or_update k (new_jobset (js_meta (desired_jobset job))) (mutate_jobset k job) w
       = ((stored, operation, None), w1)"
    and w1: "v_jobsets v w1 = (v_jobsets v w)(key \<mapsto> stored)"
      "v_aijobs v w1 = v_aijobs v w" "v_queues v w1 = v_queues v w"
    and stored: "kept_by_server js stored" "m_creation (js_meta stored) \<noteq> 0"
      "s_overrides (aj_spec job) = None \<or> jss_suspend (js_spec stored) = jss_suspend (js_spec js)"
    using store_step [OF mutated suspend] key by metis
  define status where "status = projected_status cops now job stored"
  obtain changed w2 where rs: "reconcile_status k job status w1 = ((changed, None), w2)"
    and w2: "v_aijobs v w2 = (v_aijobs v w1)(key \<mapsto> job\<lparr>aj_status := status\<rparr>)"
      "v_jobsets v w2 = v_jobsets v w1" "v_queues v w2 = v_queues v w1"
    using status_step [of w1 key job status] job w1(2) by metis
  have "mutate_jobset k job stored = Inr stored"
    by (rule mutate_settles [OF reference_idem mutated stored])
  moreover have "condition_queue_ready \<notin> c_type ` set
      (st_conditions (status_from_jobset (m_generation (aj_meta job)) stored))"
    using free stored(1) mutate_conditions [OF mutated]
    by (auto simp: status_from_jobset_def kept_by_server_def)
  then have "projected_status cops now' (job\<lparr>aj_status := status\<rparr>) stored = status" for now'
    unfolding projected_status_def
    using projected_settles [OF _ status_def [unfolded projected_status_def]] by simp
  ultimately have "settled k cops v key w2"
    using queue by (simp add: settled_def w1 w2)
  moreover have "reconcile k cops metrics now key w = (reconcile_done metrics
      (record_jobset_change metrics (operation_label operation) @
       record_status_change metrics changed) 0 reconcile_success None, w2)"
    using reconcile_ready [OF _ _ cu, of key w w] job queue rs
    by (simp add: get_job get_queue status_def)
  ultimately show ?thesis
    using that w1 w2 by fastforce
qed

lemma waits_step:
  assumes job: "v_aijobs v w key = Some job" and queue: "\<not> v_queues v w (queue_key job)"
  obtains changed w' where "reconcile k cops metrics now key w =
      (reconcile_done metrics (record_status_change metrics changed) queue_retry_delay
         reconcile_waiting None, w')"
    "v_aijobs v w' = (v_aijobs v w)(key \<mapsto> job\<lparr>aj_status := waiting_status cops now job\<rparr>)"
    "v_jobsets v w' = v_jobsets v w" "v_queues v w' = v_queues v w"
proof -
  obtain changed w' where
    "reconcile_status k job (waiting_status cops now job) w = ((changed, None), w')"
    "v_aijobs v w' = (v_aijobs v w)(key \<mapsto> job\<lparr>aj_status := waiting_status cops now job\<rparr>)"
    "v_jobsets v w' = v_jobsets v w" "v_queues v w' = v_queues v w"
    using status_step [OF job] .
  moreover from this have "reconcile k cops metrics now key w =
      (reconcile_done metrics (record_status_change metrics changed) queue_retry_delay
         reconcile_waiting None, w')"
    using reconcile_waits [of k key w job w "ApiNotFound (v_not_found v (queue_key job))" w] job queue
    by (simp add: get_job get_queue)
  ultimately show ?thesis using that by blast
qed

text \<open>The waiting status does not depend on when it was first set.\<close>

lemma waiting_status_again:
  "waiting_status cops now' (job\<lparr>aj_status := waiting_status cops now job\<rparr>)
     = waiting_status cops now job"
  using waiting_settles [OF refl] by (simp add: waiting_status_def)

lemma waiting_status_condition:
  obtains t where "find_condition cops (st_conditions (waiting_status cops now job))
      condition_queue_ready = Some ((queue_condition (m_generation (aj_meta job))
        (selected_queue_name (s_queue_name (aj_spec job))) False)\<lparr>c_transition := t\<rparr>)"
proof -
  let ?new = "queue_condition (m_generation (aj_meta job))
    (selected_queue_name (s_queue_name (aj_spec job))) False"
  obtain xs t ys where eq: "set_condition cops now (st_conditions (aj_status job)) ?new
      = xs @ ?new\<lparr>c_transition := t\<rparr> # ys" and xs: "c_type ?new \<notin> c_type ` set xs"
    using set_shape [of ?new now "st_conditions (aj_status job)"] by auto
  have "find_condition cops (xs @ ?new\<lparr>c_transition := t\<rparr> # ys) condition_queue_ready
      = Some (?new\<lparr>c_transition := t\<rparr>)"
    by (rule find_first) (use xs in simp_all)
  with eq that [of t] show ?thesis
    by (simp add: waiting_status_def waiting_conditions)
qed

lemma waiting_stays:
  assumes "v_aijobs v w key = Some (job\<lparr>aj_status := waiting_status cops now job\<rparr>)"
    and "\<not> v_queues v w (queue_key job)"
  shows "snd (reconcile k cops metrics now' key w) = w"
  using assms waiting_status_again [where job = job and now = now and now' = now'] reconcile_waits [of k key w
      "job\<lparr>aj_status := waiting_status cops now job\<rparr>" w "ApiNotFound (v_not_found v (queue_key job))" w cops metrics now']
  by (simp add: get_job get_queue reconcile_status_def)

end

end
