(* ===== verification/Controller_Memory.thy ===== *)
theory Controller_Memory
  imports Controller_Store
begin

text \<open>
  A concrete environment for the controller: condition helpers on lists and an API server whose
  state is three maps, as the fake client of the repository's tests keeps it. The server applies
  an arbitrary defaulting webhook \<open>hook\<close> to the spec of a created JobSet and counts generations
  on updates. The interpretations show that the laws the controller relies on can hold, whatever
  the webhook does; the witnesses run on this environment.
\<close>

section \<open>Conditions\<close>

fun std_set_condition :: "time \<Rightarrow> condition list \<Rightarrow> condition \<Rightarrow> condition list" where
  "std_set_condition now [] new =
     [if c_transition new = 0 then new\<lparr>c_transition := now\<rparr> else new]"
| "std_set_condition now (c # cs) new =
     (if c_type c = c_type new then merged_condition now c new # cs
      else c # std_set_condition now cs new)"

definition std_conditions :: condition_ops where
  "std_conditions = \<lparr>find_condition = (\<lambda>cs t. List.find (\<lambda>c. c_type c = t) cs),
     set_condition = std_set_condition\<rparr>"

lemma std_set_append:
  fixes xs :: "condition list"
  shows "c_type new \<notin> c_type ` set xs \<Longrightarrow>
     std_set_condition now (xs @ ys) new = xs @ std_set_condition now ys new"
  by (induction xs) auto

lemma std_find_append:
  fixes xs :: "condition list"
  shows "t \<notin> c_type ` set xs \<Longrightarrow>
     List.find (\<lambda>c. c_type c = t) (xs @ ys) = List.find (\<lambda>c. c_type c = t) ys"
  by (induction xs) auto

interpretation std: condition_laws std_conditions
proof
  fix t and cs :: "condition list"
  assume "t \<notin> c_type ` set cs"
  then show "find_condition std_conditions cs t = None"
    using std_find_append [of t cs "[]"] by (simp add: std_conditions_def)
next
  fix new :: condition and cs :: "condition list" and now
  assume "c_type new \<notin> c_type ` set cs" "c_transition new = 0"
  then show "set_condition std_conditions now cs new = cs @ [new\<lparr>c_transition := now\<rparr>]"
    using std_set_append [of new cs now "[]"] by (simp add: std_conditions_def)
qed (simp_all add: std_conditions_def std_find_append std_set_append)

section \<open>The API server\<close>

record mem_world =
  mw_aijobs :: "nsname \<rightharpoonup> aijob"
  mw_queues :: "nsname \<Rightarrow> bool"
  mw_jobsets :: "nsname \<rightharpoonup> jobset"

text \<open>An object is found under its own key only, and a JobSet once it has a creation time.\<close>

definition mem_aijob :: "mem_world \<Rightarrow> nsname \<Rightarrow> aijob option" where
  "mem_aijob w key = (case mw_aijobs w key of None \<Rightarrow> None
     | Some j \<Rightarrow> if meta_key (aj_meta j) = key then Some j else None)"

definition mem_jobset :: "mem_world \<Rightarrow> nsname \<Rightarrow> jobset option" where
  "mem_jobset w key = (case mw_jobsets w key of None \<Rightarrow> None
     | Some js \<Rightarrow> if meta_key (js_meta js) = key \<and> m_creation (js_meta js) \<noteq> 0
                  then Some js else None)"

definition mem_admit :: "(jobset_spec \<Rightarrow> jobset_spec) \<Rightarrow> jobset \<Rightarrow> jobset" where
  "mem_admit hook js = js\<lparr>js_meta := (js_meta js)\<lparr>m_creation := 1, m_generation := 1\<rparr>,
     js_spec := hook (js_spec js)\<rparr>"

definition mem_commit :: "jobset \<Rightarrow> jobset" where
  "mem_commit js = js\<lparr>js_meta := (js_meta js)\<lparr>m_generation := m_generation (js_meta js) + 1\<rparr>\<rparr>"

definition aijob_owner :: "object_meta \<Rightarrow> owner_ref" where
  "aijob_owner m = \<lparr>o_kind = ''AIJob'', o_name = m_name m, o_controller = True\<rparr>"

definition same_owner :: "owner_ref \<Rightarrow> owner_ref \<Rightarrow> bool" where
  "same_owner a b \<longleftrightarrow> o_kind a = o_kind b \<and> o_name a = o_name b"

text \<open>A second controlling owner is refused; otherwise the reference is added once.\<close>

definition mem_reference :: "object_meta \<Rightarrow> owner_ref list \<Rightarrow> go_error + owner_ref list" where
  "mem_reference m os =
     (if \<exists>r \<in> set os. o_controller r \<and> \<not> same_owner r (aijob_owner m)
      then Inl (Err ''already owned by another controller'')
      else Inr (if aijob_owner m \<in> set os then os
                else filter (\<lambda>r. \<not> same_owner r (aijob_owner m)) os @ [aijob_owner m]))"

definition mem_store_jobset :: "mem_world \<Rightarrow> jobset \<Rightarrow> mem_world" where
  "mem_store_jobset w js = w\<lparr>mw_jobsets := (mw_jobsets w)(meta_key (js_meta js) \<mapsto> js)\<rparr>"

definition mem_create_or_update ::
    "(jobset_spec \<Rightarrow> jobset_spec) \<Rightarrow> jobset \<Rightarrow> (jobset \<Rightarrow> go_error + jobset) \<Rightarrow> mem_world
      \<Rightarrow> (jobset \<times> operation_result \<times> go_error option) \<times> mem_world" where
  "mem_create_or_update hook obj f w =
     (case mem_jobset w (meta_key (js_meta obj)) of
        None \<Rightarrow> (case f obj of
            Inl e \<Rightarrow> ((obj, OpNone, Some e), w)
          | Inr js \<Rightarrow> ((mem_admit hook js, OpCreated, None), mem_store_jobset w (mem_admit hook js)))
      | Some cur \<Rightarrow> (case f cur of
            Inl e \<Rightarrow> ((cur, OpNone, Some e), w)
          | Inr js \<Rightarrow> if js = cur then ((cur, OpNone, None), w)
              else ((mem_commit js, OpUpdated, None), mem_store_jobset w (mem_commit js))))"

definition mem_not_found :: "nsname \<Rightarrow> string" where
  "mem_not_found key = ns_name key @ '' not found''"

definition mem_update_status :: "aijob \<Rightarrow> mem_world \<Rightarrow> go_error option \<times> mem_world" where
  "mem_update_status j w = (case mem_aijob w (meta_key (aj_meta j)) of
     None \<Rightarrow> (Some (ApiNotFound (mem_not_found (meta_key (aj_meta j)))), w)
   | Some j0 \<Rightarrow> (None, w\<lparr>mw_aijobs := (mw_aijobs w)
        (meta_key (aj_meta j) \<mapsto> j0\<lparr>aj_status := aj_status j\<rparr>)\<rparr>))"

definition mem_kube :: "(jobset_spec \<Rightarrow> jobset_spec) \<Rightarrow> mem_world kube" where
  "mem_kube hook = \<lparr>
     get_aijob = (\<lambda>key w.
       ((case mem_aijob w key of None \<Rightarrow> Inl (ApiNotFound (mem_not_found key)) | Some j \<Rightarrow> Inr j), w)),
     get_local_queue = (\<lambda>key w. ((if mw_queues w key then None else Some (ApiNotFound (mem_not_found key))), w)),
     create_or_update = mem_create_or_update hook,
     controller_reference = mem_reference,
     update_status = mem_update_status\<rparr>"

definition mem_views :: "(jobset_spec \<Rightarrow> jobset_spec) \<Rightarrow> mem_world views" where
  "mem_views hook = \<lparr>v_aijobs = mem_aijob, v_queues = mw_queues, v_jobsets = mem_jobset,
     v_admit = (\<lambda>w. mem_admit hook), v_commit = (\<lambda>w. mem_commit),
     v_not_found = mem_not_found\<rparr>"

lemma mem_kube_simps [simp]:
  "get_aijob (mem_kube hook) key w =
     ((case mem_aijob w key of None \<Rightarrow> Inl (ApiNotFound (mem_not_found key)) | Some j \<Rightarrow> Inr j), w)"
  "get_local_queue (mem_kube hook) key w = ((if mw_queues w key then None else Some (ApiNotFound (mem_not_found key))), w)"
  "create_or_update (mem_kube hook) = mem_create_or_update hook"
  "controller_reference (mem_kube hook) = mem_reference"
  "update_status (mem_kube hook) = mem_update_status"
  "v_aijobs (mem_views hook) = mem_aijob" "v_queues (mem_views hook) = mw_queues"
  "v_jobsets (mem_views hook) = mem_jobset"
  "v_admit (mem_views hook) w = mem_admit hook" "v_commit (mem_views hook) w = mem_commit"
  "v_not_found (mem_views hook) = mem_not_found"
  by (simp_all add: mem_kube_def mem_views_def)

lemma mem_admit_simps [simp]:
  "meta_key (js_meta (mem_admit hook js)) = meta_key (js_meta js)"
  "m_creation (js_meta (mem_admit hook js)) = 1"
  "js_spec (mem_admit hook js) = hook (js_spec js)"
  "meta_key (js_meta (mem_commit js)) = meta_key (js_meta js)"
  "m_creation (js_meta (mem_commit js)) = m_creation (js_meta js)"
  "js_spec (mem_commit js) = js_spec js"
  "kept_by_server js (mem_admit hook js)" "kept_by_server js (mem_commit js)"
  by (simp_all add: mem_admit_def mem_commit_def meta_key_def kept_by_server_def)

lemma mem_store_simps [simp]:
  "mw_queues (mem_store_jobset w js) = mw_queues w"
  "mem_aijob (mem_store_jobset w js) = mem_aijob w"
  "mem_jobset (w\<lparr>mw_aijobs := x\<rparr>) = mem_jobset w"
  by (simp_all add: mem_store_jobset_def mem_aijob_def mem_jobset_def fun_eq_iff)

lemma mem_jobset_store:
  "m_creation (js_meta js) \<noteq> 0 \<Longrightarrow>
     mem_jobset (mem_store_jobset w js) = (mem_jobset w)(meta_key (js_meta js) \<mapsto> js)"
  by (auto simp: mem_store_jobset_def mem_jobset_def)

lemma mem_reference_idem:
  assumes "mem_reference m os = Inr os'"
  shows "mem_reference m os' = Inr os'"
proof -
  have self: "same_owner (aijob_owner m) (aijob_owner m)" by (simp add: same_owner_def)
  have ok: "\<forall>r \<in> set os. o_controller r \<longrightarrow> same_owner r (aijob_owner m)"
    and os': "os' = (if aijob_owner m \<in> set os then os
      else filter (\<lambda>r. \<not> same_owner r (aijob_owner m)) os @ [aijob_owner m])"
    using assms by (auto simp: mem_reference_def split: if_splits)
  have "aijob_owner m \<in> set os'" by (simp add: os')
  moreover have "\<forall>r \<in> set os'. o_controller r \<longrightarrow> same_owner r (aijob_owner m)"
    using ok self by (auto simp: os' split: if_splits)
  ultimately show ?thesis by (simp add: mem_reference_def)
qed

lemma mem_jobset_someD:
  "mem_jobset w key = Some js \<Longrightarrow> meta_key (js_meta js) = key \<and> m_creation (js_meta js) \<noteq> 0"
  by (auto simp: mem_jobset_def split: option.splits if_splits)

interpretation mem: kube_store "mem_kube hook" "mem_views hook"
  for hook :: "jobset_spec \<Rightarrow> jobset_spec"
proof
  fix w and obj :: jobset and f :: "jobset \<Rightarrow> go_error + jobset" and js
  assume "v_jobsets (mem_views hook) w (meta_key (js_meta obj)) = None" "f obj = Inr js"
    "meta_key (js_meta js) = meta_key (js_meta obj)"
  then show "\<exists>w'. create_or_update (mem_kube hook) obj f w
        = ((v_admit (mem_views hook) w js, OpCreated, None), w') \<and>
      v_jobsets (mem_views hook) w' = (v_jobsets (mem_views hook) w)
        (meta_key (js_meta obj) \<mapsto> v_admit (mem_views hook) w js) \<and>
      v_aijobs (mem_views hook) w' = v_aijobs (mem_views hook) w \<and>
      v_queues (mem_views hook) w' = v_queues (mem_views hook) w"
    by (simp add: mem_create_or_update_def mem_jobset_store)
next
  fix w and obj :: jobset and f :: "jobset \<Rightarrow> go_error + jobset" and cur js
  assume cur: "v_jobsets (mem_views hook) w (meta_key (js_meta obj)) = Some cur"
    and "f cur = Inr js" "js \<noteq> cur" "meta_key (js_meta js) = meta_key (js_meta obj)"
    and created: "m_creation (js_meta js) \<noteq> 0"
  moreover have "mem_jobset (mem_store_jobset w (mem_commit js))
      = (mem_jobset w)(meta_key (js_meta (mem_commit js)) \<mapsto> mem_commit js)"
    by (rule mem_jobset_store) (simp add: created)
  ultimately show "\<exists>w'. create_or_update (mem_kube hook) obj f w
        = ((v_commit (mem_views hook) w js, OpUpdated, None), w') \<and>
      v_jobsets (mem_views hook) w' = (v_jobsets (mem_views hook) w)
        (meta_key (js_meta obj) \<mapsto> v_commit (mem_views hook) w js) \<and>
      v_aijobs (mem_views hook) w' = v_aijobs (mem_views hook) w \<and>
      v_queues (mem_views hook) w' = v_queues (mem_views hook) w"
    by (simp add: mem_create_or_update_def)
qed (auto simp: mem_create_or_update_def mem_update_status_def mem_aijob_def
    mem_reference_idem dest: mem_jobset_someD split: option.splits if_splits)

interpretation mem_env: controller_env "mem_kube hook" "mem_views hook" std_conditions
  for hook :: "jobset_spec \<Rightarrow> jobset_spec"
  by unfold_locales

end
