(* ===== verification/Controller_Properties.thy ===== *)
theory Controller_Properties
  imports Controller_Memory
begin

text \<open>
  The properties of the controller: convergence and waiting on a quiet API server, error paths
  and metrics over any client, the frame of the owned fields and the shape of the JobSet. Each
  rests on the lemmas of \<open>Controller_Store\<close>; the witnesses run on \<open>Controller_Memory\<close>.
\<close>

section \<open>Outcomes of a reconciliation\<close>

text \<open>The shapes a result can have, whatever the client answers.\<close>

inductive reconcile_outcome :: "bool \<Rightarrow> reconcile_out \<Rightarrow> bool" for metrics where
  gone: "reconcile_outcome metrics (reconcile_done metrics [] 0 reconcile_not_found None)"
| failed: "operation \<in> {error_operation_get, error_operation_queue, error_operation_jobset,
      error_operation_status} \<Longrightarrow>
    reconcile_outcome metrics (reconcile_done metrics
      (record_jobset_change metrics (operation_label r) @ record_error metrics operation) 0
      reconcile_error (Some e))"
| waiting: "reconcile_outcome metrics (reconcile_done metrics (record_status_change metrics changed)
    queue_retry_delay reconcile_waiting None)"
| succeeded: "reconcile_outcome metrics (reconcile_done metrics
    (record_jobset_change metrics (operation_label r) @ record_status_change metrics changed) 0
    reconcile_success None)"

inductive_cases reconcile_outcomeE: "reconcile_outcome metrics out"

lemma no_jobset_change [simp]: "record_jobset_change metrics (operation_label OpNone) = []"
  by (simp add: record_jobset_change_def operation_label_def controller_label_defs)

lemmas failed_early = failed [where r = OpNone, unfolded no_jobset_change append_Nil]

lemma reconcile_has_outcome: "reconcile_outcome metrics (fst (reconcile k cops metrics now key w))"
proof -
  obtain r w1 where get: "get_aijob k key w = (r, w1)" by fastforce
  show ?thesis
  proof (cases r)
    case (Inl e)
    then show ?thesis by (simp add: reconcile_def get gone failed_early)
  next
    case (Inr job)
    obtain q w2 where queue: "get_local_queue k (queue_key job) w1 = (q, w2)" by fastforce
    note job = get [unfolded Inr]
    show ?thesis
    proof (cases q)
      case None
      obtain js operation err w3 where cu: "create_or_update k
          (new_jobset (js_meta (desired_jobset job))) (mutate_jobset k job) w2
          = ((js, operation, err), w3)"
        by (metis prod.collapse)
      show ?thesis
      proof (cases err)
        case None
        then show ?thesis
          using reconcile_ready [OF job queue [unfolded \<open>q = None\<close>], of js operation w3] cu
          by (auto simp: failed succeeded split: prod.splits option.splits)
      next
        case (Some e)
        with cu queue \<open>q = None\<close> show ?thesis
          by (simp add: reconcile_def job queue_key_def reconcile_jobset_def Let_def failed_early)
      qed
    next
      case (Some e)
      show ?thesis
      proof (cases "is_not_found e")
        case True
        then show ?thesis
          using reconcile_waits [OF job queue [unfolded Some] True]
          by (auto simp: failed_early waiting split: prod.splits option.splits)
      next
        case False
        then show ?thesis
          using queue Some by (simp add: reconcile_def job queue_key_def Let_def failed_early)
      qed
    qed
  qed
qed

fun bounded_controller_event :: "controller_event \<Rightarrow> bool" where
  "bounded_controller_event (Reconciliation r) \<longleftrightarrow>
     r \<in> {reconcile_success, reconcile_error, reconcile_not_found, reconcile_waiting}"
| "bounded_controller_event (ReconcileDuration r) \<longleftrightarrow>
     r \<in> {reconcile_success, reconcile_error, reconcile_not_found, reconcile_waiting}"
| "bounded_controller_event (ControllerError r) \<longleftrightarrow> r \<in> {error_operation_get,
     error_operation_queue, error_operation_jobset, error_operation_status}"
| "bounded_controller_event (JobSetChange r) \<longleftrightarrow>
     r \<in> {jobset_operation_create, jobset_operation_update}"
| "bounded_controller_event (StatusChange r) \<longleftrightarrow>
     r \<in> {status_change_updated, status_change_unchanged}"

fun is_error_event :: "controller_event \<Rightarrow> bool" where
  "is_error_event (ControllerError _) = True"
| "is_error_event _ = False"

lemma jobset_change_events [simp]:
  "filter is_error_event (record_jobset_change metrics r) = []"
  "list_all bounded_controller_event (record_jobset_change metrics r)"
  "record_jobset_change False r = []"
  by (simp_all add: record_jobset_change_def)

lemma status_change_events [simp]:
  "filter is_error_event (record_status_change metrics changed) = []"
  "list_all bounded_controller_event (record_status_change metrics changed)"
  "record_status_change False changed = []"
  by (simp_all add: record_status_change_def)

lemma record_error_events [simp]:
  "filter is_error_event (record_error True r) = [ControllerError r]"
  "list_all bounded_controller_event (record_error metrics r) \<longleftrightarrow>
     metrics \<longrightarrow> bounded_controller_event (ControllerError r)"
  "record_error False r = []"
  by (simp_all add: record_error_def)

lemma reconcile_done_simps [simp]:
  "ro_requeue_after (reconcile_done metrics events n r err) = n"
  "ro_error (reconcile_done metrics events n r err) = err"
  "ro_events (reconcile_done True events n r err)
     = events @ [Reconciliation r, ReconcileDuration r]"
  "ro_events (reconcile_done False events n r err) = events"
  by (simp_all add: reconcile_done_def observe_def)

lemma reconcile_results_distinct [simp]:
  "reconcile_success \<noteq> reconcile_error" "reconcile_error \<noteq> reconcile_success"
  "reconcile_not_found \<noteq> reconcile_error" "reconcile_waiting \<noteq> reconcile_error"
  "reconcile_success \<noteq> reconcile_waiting" "reconcile_not_found \<noteq> reconcile_waiting"
  "reconcile_error \<noteq> reconcile_waiting"
  by (simp_all add: controller_label_defs)

text \<open>
  C25: whatever the API server answers, one reconciliation reports exactly one result and
  its duration, as its last metrics; the result is \<open>error\<close> exactly when an error is returned,
  which then is counted once under one of the four operations, and \<open>waiting\<close> exactly when a
  retry after 30 seconds is requested; all label values are bounded; without metrics nothing is
  reported.
\<close>

theorem metrics_match_outcome:
  "\<exists>result before.
     ro_events (fst (reconcile k cops True now key w))
       = before @ [Reconciliation result, ReconcileDuration result] \<and>
     (result = reconcile_error \<longleftrightarrow> ro_error (fst (reconcile k cops True now key w)) \<noteq> None) \<and>
     (result = reconcile_waiting \<longleftrightarrow>
        ro_requeue_after (fst (reconcile k cops True now key w)) = queue_retry_delay) \<and>
     length (filter is_error_event before)
       = (if ro_error (fst (reconcile k cops True now key w)) = None then 0 else 1) \<and>
     list_all bounded_controller_event (ro_events (fst (reconcile k cops True now key w))) \<and>
     ro_events (fst (reconcile k cops False now key w)) = []"
proof -
  have on: "\<exists>result before.
      ro_events out = before @ [Reconciliation result, ReconcileDuration result] \<and>
      (result = reconcile_error \<longleftrightarrow> ro_error out \<noteq> None) \<and>
      (result = reconcile_waiting \<longleftrightarrow> ro_requeue_after out = queue_retry_delay) \<and>
      length (filter is_error_event before) = (if ro_error out = None then 0 else 1) \<and>
      list_all bounded_controller_event (ro_events out)"
    if "reconcile_outcome True out" for out
    using that
  proof cases
    case gone
    then show ?thesis
      by (intro exI [of _ reconcile_not_found] exI [of _ "[]"]) (simp add: queue_retry_delay_def)
  next
    case (failed operation r e)
    have "bounded_controller_event (ControllerError operation)"
      using failed(2) by (simp only: bounded_controller_event.simps)
    with failed(1) show ?thesis
      by (intro exI [of _ reconcile_error] exI [of _
          "record_jobset_change True (operation_label r) @ record_error True operation"])
        (simp add: queue_retry_delay_def)
  next
    case (waiting changed)
    then show ?thesis
      by (intro exI [of _ reconcile_waiting] exI [of _ "record_status_change True changed"]) simp
  next
    case (succeeded r changed)
    then show ?thesis
      by (intro exI [of _ reconcile_success] exI [of _
          "record_jobset_change True (operation_label r) @ record_status_change True changed"])
        (simp add: queue_retry_delay_def)
  qed
  have off: "reconcile_outcome False out \<Longrightarrow> ro_events out = []" for out
    by (erule reconcile_outcomeE) simp_all
  from on [OF reconcile_has_outcome] show ?thesis
    by (simp only: off [OF reconcile_has_outcome] simp_thms)
qed

section \<open>Sample objects for the witnesses\<close>

definition sample_spec :: "string \<Rightarrow> jobset_overrides option \<Rightarrow> aijob_spec" where
  "sample_spec required overrides = \<lparr>s_workers = 4, s_gpu_per_worker = 2, s_gpu_resource = gpu_resource,
     s_queue_name = [], s_topology = \<lparr>tp_preference = topology_nvlink, tp_required = required\<rparr>,
     s_image = [], s_args = [''--mode=complete''], s_overrides = overrides\<rparr>"

definition sample_job :: "jobset_overrides option \<Rightarrow> aijob" where
  "sample_job overrides = \<lparr>aj_meta = (new_meta ''demo'' ''default'')\<lparr>m_generation := 3\<rparr>,
     aj_spec = sample_spec topology_nvlink overrides,
     aj_status = \<lparr>st_observed_generation = 0, st_conditions = []\<rparr>\<rparr>"

definition sample_key :: nsname where
  "sample_key = \<lparr>ns_namespace = ''default'', ns_name = ''demo''\<rparr>"

definition sample_world :: "jobset_overrides option \<Rightarrow> bool \<Rightarrow> mem_world" where
  "sample_world overrides queue = \<lparr>mw_aijobs = [sample_key \<mapsto> sample_job overrides],
     mw_queues = (\<lambda>_. queue), mw_jobsets = Map.empty\<rparr>"

text \<open>Kueue's webhook suspends a JobSet with a queue label when it is created.\<close>

definition suspending_hook :: "jobset_spec \<Rightarrow> jobset_spec" where
  "suspending_hook spec = spec\<lparr>jss_suspend := Some True\<rparr>"

lemma sample_simps_controller [simp]:
  "meta_key (aj_meta (sample_job overrides)) = sample_key"
  "jobset_key (sample_job overrides) = sample_key"
  "s_overrides (aj_spec (sample_job overrides)) = overrides"
  "mem_aijob (sample_world overrides queue) sample_key = Some (sample_job overrides)"
  "mw_queues (sample_world overrides queue) q = queue"
  "mem_jobset (sample_world overrides queue) key = None"
  by (simp_all add: sample_job_def sample_spec_def sample_key_def sample_world_def new_meta_def
      meta_key_def jobset_key_def mem_aijob_def mem_jobset_def)

section \<open>Convergence\<close>

definition reconcile_times ::
    "'w kube \<Rightarrow> condition_ops \<Rightarrow> bool \<Rightarrow> nsname \<Rightarrow> time list \<Rightarrow> 'w \<Rightarrow> 'w" where
  "reconcile_times k cops metrics key nows w =
     fold (\<lambda>now w. snd (reconcile k cops metrics now key w)) nows w"

lemma settled_forever:
  assumes "controller_env k v cops" and "settled k cops v key w"
  shows "reconcile_times k cops metrics key nows w = w"
proof (induction nows)
  case Nil
  then show ?case by (simp add: reconcile_times_def)
next
  case (Cons now nows)
  then show ?case
    by (simp add: reconcile_times_def controller_env.settled_stays [OF assms])
qed

text \<open>
  C1: on an API server that only the controller writes to, one reconciliation of an AIJob whose
  queue exists succeeds and converges: without an error or a retry it reaches a world that every
  later reconciliation of that AIJob, at any times, leaves unchanged, and it touches neither
  another AIJob nor another JobSet. Required are that no other controller owns the JobSet, that
  the JobSet reports no condition of the type the controller reserves for itself, and, when the
  JobSet of an AIJob with overrides is created, that admission keeps the suspend flag.
\<close>

theorem reconcile_converges:
  assumes env: "controller_env k v cops"
    and job: "v_aijobs v w key = Some job" and queue: "v_queues v w (queue_key job)"
    and owner: "controller_reference k (aj_meta job) (m_owners (js_meta (jobset_before v job w)))
      = Inr owners"
    and free: "condition_queue_ready \<notin> c_type ` set (js_conditions (jobset_before v job w))"
    and suspend: "suspend_kept v job w"
    and run: "reconcile k cops metrics now key w = (out, w')"
  shows "ro_error out = None \<and> ro_requeue_after out = 0 \<and> settled k cops v key w' \<and>
    reconcile_times k cops metrics key nows w' = w' \<and>
    (\<forall>key'. key' \<noteq> key \<longrightarrow> v_aijobs v w' key' = v_aijobs v w key' \<and>
       v_jobsets v w' key' = v_jobsets v w key')"
proof -
  obtain js where "mutate_jobset k job (jobset_before v job w) = Inr js"
    by (simp add: mutate_jobset_def owner)
  from controller_env.reconcile_settles [OF env job queue this free suspend]
  obtain events w1 where "reconcile k cops metrics now key w
      = (reconcile_done metrics events 0 reconcile_success None, w1)"
    and settled: "settled k cops v key w1"
    and frame: "\<And>key'. key' \<noteq> key \<Longrightarrow> v_aijobs v w1 key' = v_aijobs v w key'"
      "\<And>key'. key' \<noteq> key \<Longrightarrow> v_jobsets v w1 key' = v_jobsets v w key'"
    by metis
  with run have "out = reconcile_done metrics events 0 reconcile_success None" and "w' = w1"
    by simp_all
  then show ?thesis
    using settled frame settled_forever [OF env settled] by (simp add: reconcile_done_def)
qed

lemma sample_owner:
  "controller_reference (mem_kube hook) (aj_meta (sample_job overrides))
     (m_owners (js_meta (jobset_before (mem_views hook) (sample_job overrides)
        (sample_world overrides queue)))) = Inr [aijob_owner (aj_meta (sample_job overrides))]"
  by (simp add: jobset_before_def new_jobset_def new_meta_def mem_reference_def)

lemma sample_free:
  "c_type ` set (js_conditions (jobset_before (mem_views hook) (sample_job overrides)
     (sample_world overrides queue))) = {}"
  by (simp add: jobset_before_def new_jobset_def)

theorem reconcile_converges_witness:
  "let w' = snd (reconcile (mem_kube suspending_hook) std_conditions True 7 sample_key
              (sample_world None True))
   in reconcile_times (mem_kube suspending_hook) std_conditions True sample_key [8, 9] w' = w'"
  using reconcile_converges [OF mem_env.controller_env_axioms [of suspending_hook],
      where key = sample_key and w = "sample_world None True"
      and job = "sample_job None" and metrics = True and now = 7 and nows = "[8, 9]",
      OF _ _ sample_owner _ _ prod.collapse [symmetric]]
  by (simp add: sample_free suspend_kept_def Let_def)

section \<open>Waiting for the queue\<close>

text \<open>
  C10: as long as the LocalQueue an AIJob selects does not exist, a reconciliation leaves every
  JobSet as it is, asks for a retry after 30 seconds without an error, and records the condition
  \<open>QueueReady=False\<close> with reason \<open>QueueNotFound\<close> for the current generation in the AIJob's
  status; the other AIJobs are untouched, and repeating the reconciliation changes nothing.
\<close>

theorem missing_queue_waits:
  assumes env: "controller_env k v cops"
    and job: "v_aijobs v w key = Some job" and queue: "\<not> v_queues v w (queue_key job)"
    and run: "reconcile k cops metrics now key w = (out, w')"
  shows "v_jobsets v w' = v_jobsets v w \<and> ro_requeue_after out = 30 * 10 ^ 9 \<and>
    ro_error out = None \<and>
    (\<exists>status c. v_aijobs v w' = (v_aijobs v w)(key \<mapsto> job\<lparr>aj_status := status\<rparr>) \<and>
       st_observed_generation status = m_generation (aj_meta job) \<and>
       find_condition cops (st_conditions status) condition_queue_ready = Some c \<and>
       c_status c = condition_false \<and> c_reason c = ''QueueNotFound'' \<and>
       c_observed_generation c = m_generation (aj_meta job)) \<and>
    snd (reconcile k cops metrics now' key w') = w'"
proof -
  obtain changed w1 where "reconcile k cops metrics now key w =
      (reconcile_done metrics (record_status_change metrics changed) queue_retry_delay
         reconcile_waiting None, w1)"
    and w1: "v_aijobs v w1 = (v_aijobs v w)(key \<mapsto> job\<lparr>aj_status := waiting_status cops now job\<rparr>)"
      "v_jobsets v w1 = v_jobsets v w" "v_queues v w1 = v_queues v w"
    using controller_env.waits_step [OF env job queue] .
  with run have out: "out = reconcile_done metrics (record_status_change metrics changed)
      queue_retry_delay reconcile_waiting None" and w': "w' = w1"
    by simp_all
  obtain t where "find_condition cops (st_conditions (waiting_status cops now job))
      condition_queue_ready = Some ((queue_condition (m_generation (aj_meta job))
        (selected_queue_name (s_queue_name (aj_spec job))) False)\<lparr>c_transition := t\<rparr>)"
    using controller_env.waiting_status_condition [OF env] .
  moreover have "snd (reconcile k cops metrics now' key w1) = w1"
    by (rule controller_env.waiting_stays [OF env]) (use w1 queue in simp_all)
  moreover have "st_observed_generation (waiting_status cops now job) = m_generation (aj_meta job)"
    by (simp add: waiting_status_def status_with_queue_def Let_def)
  ultimately show ?thesis
    using w1 by (intro conjI exI [of _ "waiting_status cops now job"])
      (simp_all add: out w' queue_condition_def queue_retry_delay_def Let_def)
qed

theorem missing_queue_waits_witness:
  "ro_requeue_after (fst (reconcile (mem_kube id) std_conditions True 7 sample_key
     (sample_world None False))) = 30 * 10 ^ 9"
  using missing_queue_waits [OF mem_env.controller_env_axioms [of id],
      where key = sample_key and w = "sample_world None False" and job = "sample_job None"
      and metrics = True and now = 7, OF _ _ prod.collapse [symmetric]]
  by simp

section \<open>Errors\<close>


text \<open>An API server whose JobSet writes fail.\<close>

definition failing_kube :: "mem_world kube" where
  "failing_kube = (mem_kube id)\<lparr>create_or_update :=
     (\<lambda>obj f w. ((obj, OpNone, Some (ApiError ''timeout'')), w))\<rparr>"


section \<open>The suspend flag\<close>

text \<open>
  Once its JobSet exists, an AIJob with any \<open>jobSetOverrides\<close> decides the JobSet's suspend
  flag at every reconciliation, whatever Kueue has set: the flag afterwards is the AIJob's
  \<open>suspend\<close>, which is \<open>false\<close> for an AIJob that only sets a failure or success policy, so a
  JobSet that Kueue holds in its queue is resumed.
\<close>

lemma overrides_decide_suspend:
  assumes env: "controller_env k v cops"
    and job: "v_aijobs v w key = Some job" and queue: "v_queues v w (queue_key job)"
    and overrides: "s_overrides (aj_spec job) = Some ov"
    and existing: "v_jobsets v w (jobset_key job) = Some js"
    and owner: "controller_reference k (aj_meta job) (m_owners (js_meta js)) = Inr owners"
    and free: "condition_queue_ready \<notin> c_type ` set (js_conditions js)"
    and run: "reconcile k cops metrics now key w = (out, w')"
  shows "\<exists>js'. v_jobsets v w' key = Some js' \<and> jss_suspend (js_spec js') = Some (jo_suspend ov)"
proof -
  have before: "jobset_before v job w = js" by (simp add: jobset_before_def existing)
  have "suspend_kept v job w" by (simp add: suspend_kept_def existing)
  moreover obtain js1 where "mutate_jobset k job (jobset_before v job w) = Inr js1"
    by (simp add: before mutate_jobset_def owner)
  ultimately obtain status where "settled k cops v key w'"
    and "v_aijobs v w' key = Some (job\<lparr>aj_status := status\<rparr>)"
    using controller_env.reconcile_settles [OF env job queue, of js1 metrics now] free run
    by (metis before prod.inject)
  then obtain js' where "v_jobsets v w' key = Some js'" and "mutate_jobset k job js' = Inr js'"
    by (auto simp: settled_def)
  then show ?thesis
    using mutate_suspend [of k job js' js'] overrides by simp
qed

definition failure_policy_only :: jobset_overrides where
  "failure_policy_only = \<lparr>jo_failure_policy = Some \<lparr>fp_max_restarts = 2, fp_restart_strategy = [],
     fp_rules = []\<rparr>, jo_success_policy = None, jo_suspend = False\<rparr>"

definition queued_jobset :: jobset where
  "queued_jobset = \<lparr>js_meta = (new_meta ''demo'' ''default'')\<lparr>m_creation := 1\<rparr>,
     js_spec = empty_jobset_spec\<lparr>jss_suspend := Some True\<rparr>, js_conditions = []\<rparr>"

definition queued_world :: mem_world where
  "queued_world = mem_store_jobset (sample_world (Some failure_policy_only) True) queued_jobset"

lemma queued_simps [simp]:
  "mem_aijob queued_world sample_key = Some (sample_job (Some failure_policy_only))"
  "mw_queues queued_world q = True"
  "mem_jobset queued_world sample_key = Some queued_jobset"
  "js_conditions queued_jobset = []"
  "jo_suspend failure_policy_only = False"
  "mem_reference m (m_owners (js_meta queued_jobset)) = Inr [aijob_owner m]"
proof -
  have "meta_key (js_meta queued_jobset) = sample_key"
    by (simp add: queued_jobset_def new_meta_def meta_key_def sample_key_def)
  then show "mem_jobset queued_world sample_key = Some queued_jobset"
    by (simp add: queued_world_def mem_jobset_store queued_jobset_def)
qed (simp_all add: queued_world_def queued_jobset_def failure_policy_only_def new_meta_def
    mem_reference_def)

lemma overrides_decide_suspend_example:
  "\<exists>js'. mem_jobset (snd (reconcile (mem_kube suspending_hook) std_conditions True 7 sample_key
       queued_world)) sample_key = Some js' \<and> jss_suspend (js_spec js') = Some False"
  using overrides_decide_suspend [OF mem_env.controller_env_axioms [of suspending_hook],
      where key = sample_key and w = queued_world and job = "sample_job (Some failure_policy_only)"
      and js = queued_jobset and ov = failure_policy_only and metrics = True and now = 7,
      OF _ _ _ _ _ _ prod.collapse [symmetric]]
  by simp

section \<open>Owned fields and the desired JobSet\<close>

text \<open>
  C9: converging a JobSet writes only what the controller owns. Of the labels, the four owned
  keys get the desired value, or disappear where the desired value is empty, and every other
  label is kept; of an existing JobSet's spec only the suspend flag can change, and that only if
  the AIJob has overrides; annotations, owners, identity and status conditions are kept.
\<close>

theorem owned_fields_frame:
  fixes actual desired :: jobset
  defines "result \<equiv> reconcile_owned_fields actual desired"
  shows "(\<forall>key. go_lookup (nilmap (m_labels (js_meta result))) key =
      go_lookup (nilmap (m_labels (js_meta
        (if key \<in> {job_label, run_id_label, experiment_label, queue_label}
         then desired else actual)))) key) \<and>
    (\<forall>key \<in> {run_id_label, experiment_label, queue_label}.
       go_lookup (nilmap (m_labels (js_meta desired))) key = [] \<longrightarrow>
       nilmap (m_labels (js_meta result)) key = None) \<and>
    (m_creation (js_meta actual) \<noteq> 0 \<longrightarrow> js_spec result = (js_spec actual)
      \<lparr>jss_suspend := (case jss_suspend (js_spec desired) of
         None \<Rightarrow> jss_suspend (js_spec actual) | Some b \<Rightarrow> Some b)\<rparr>) \<and>
    js_meta result = (js_meta actual)\<lparr>m_labels := m_labels (js_meta result)\<rparr> \<and>
    js_conditions result = js_conditions actual"
proof -
  have labels: "nilmap (m_labels (js_meta result))
      = owned_labels (m_labels (js_meta actual)) (m_labels (js_meta desired))"
    by (simp add: result_def reconcile_owned_fields_def Let_def)
  have spec: "js_spec result = (js_spec actual)\<lparr>jss_suspend :=
      (case jss_suspend (js_spec desired) of
         None \<Rightarrow> jss_suspend (js_spec actual) | Some b \<Rightarrow> Some b)\<rparr>"
    if "m_creation (js_meta actual) \<noteq> 0"
    using that
    by (cases "jss_suspend (js_spec desired)")
      (simp_all add: result_def reconcile_owned_fields_def Let_def)
  have lookup: "go_lookup (nilmap (m_labels (js_meta result))) key =
      go_lookup (nilmap (m_labels (js_meta
        (if key \<in> {job_label, run_id_label, experiment_label, queue_label}
         then desired else actual)))) key" for key
    unfolding labels by (simp add: go_lookup_def owned_labels_apply split: option.splits)
  show ?thesis
    using lookup spec
    by (auto simp: labels owned_labels_apply) (simp_all add: result_def reconcile_owned_fields_def Let_def)
qed

theorem owned_fields_frame_witness:
  "let result = reconcile_owned_fields queued_jobset (desired_jobset (sample_job None))
   in jss_suspend (js_spec result) = Some True \<and>
      go_lookup (nilmap (m_labels (js_meta result))) job_label = ''demo''"
proof -
  have "m_creation (js_meta queued_jobset) \<noteq> 0" "jss_suspend (js_spec queued_jobset) = Some True"
    by (simp_all add: queued_jobset_def)
  moreover have "jss_suspend (js_spec (desired_jobset (sample_job None))) = None"
    "go_lookup (nilmap (m_labels (js_meta (desired_jobset (sample_job None))))) job_label = ''demo''"
    by (simp_all add: desired_jobset_def Let_def) (simp add: sample_job_def new_meta_def)
  ultimately show ?thesis
    using owned_fields_frame [of queued_jobset "desired_jobset (sample_job None)"]
    by (simp add: Let_def)
qed

text \<open>The demand for a resource: replicas times parallelism times the container limits.\<close>

definition container_demand :: "string \<Rightarrow> container \<Rightarrow> int" where
  "container_demand r c = (case ct_limits c r of None \<Rightarrow> 0 | Some n \<Rightarrow> n)"

definition jobset_demand :: "string \<Rightarrow> jobset \<Rightarrow> int" where
  "jobset_demand r js = sum_list (map (\<lambda>rj. rj_replicas rj *
     (case jbs_parallelism (rj_template_spec rj) of None \<Rightarrow> 1 | Some n \<Rightarrow> n) *
     sum_list (map (container_demand r)
       (ps_containers (pt_spec (jbs_template (rj_template_spec rj))))))
     (jss_replicated_jobs (js_spec js)))"

definition selected_gpu_resource :: "aijob \<Rightarrow> string" where
  "selected_gpu_resource job = (if s_gpu_resource (aj_spec job) = [] then gpu_resource
     else s_gpu_resource (aj_spec job))"

lemma worker_container_demand:
  "container_demand r (worker_container job)
     = (if r = selected_gpu_resource job then s_gpu_per_worker (aj_spec job) else 0)"
  by (simp add: container_demand_def worker_container_def selected_gpu_resource_def Let_def)

lemma worker_pod_containers: "ps_containers (pt_spec (jbs_template (worker_job_spec job))) = [worker_container job]"
  by (simp add: worker_job_spec_def Let_def)

lemma desired_replicas: "jss_replicated_jobs (js_spec (desired_jobset job)) = [\<lparr>rj_name = ''workers'',
    rj_replicas = 1, rj_template_labels = Some (lab_labels (m_labels (aj_meta job))),
    rj_template_spec = worker_job_spec job\<rparr>]"
  by (simp add: desired_jobset_def Let_def split: option.split)

lemma desired_demand: "jobset_demand r (desired_jobset job) = (if r = selected_gpu_resource job
    then s_workers (aj_spec job) * s_gpu_per_worker (aj_spec job) else 0)"
  by (simp add: jobset_demand_def desired_replicas worker_pod_containers worker_container_demand)
    (simp add: worker_job_spec_def Let_def)

text \<open>
  C26: the desired JobSet is one gang for the selected queue: in total it requests exactly
  workers times GPUs per worker of the selected resource and nothing of any other; it is a
  single Indexed Job whose parallelism and completions are both the number of workers and which
  never retries on its own; every Pod runs the AIJob's arguments in order under the topology
  scheduler, with requests equal to limits.
\<close>

theorem desired_jobset_gang:
  "jobset_demand r (desired_jobset job) =
     (if r = selected_gpu_resource job
      then s_workers (aj_spec job) * s_gpu_per_worker (aj_spec job) else 0) \<and>
   map (\<lambda>rj. (rj_replicas rj, jbs_parallelism (rj_template_spec rj),
       jbs_completions (rj_template_spec rj), jbs_completion_mode (rj_template_spec rj),
       jbs_backoff_limit (rj_template_spec rj))) (jss_replicated_jobs (js_spec (desired_jobset job)))
     = [(1, Some (s_workers (aj_spec job)), Some (s_workers (aj_spec job)), Some ''Indexed'', Some 0)] \<and>
   map (\<lambda>c. (ct_args c, ct_requests c = ct_limits c)) (ps_containers (pt_spec
       (jbs_template (worker_job_spec job)))) = [(s_args (aj_spec job), True)] \<and>
   ps_scheduler_name (pt_spec (jbs_template (worker_job_spec job))) = scheduler_name \<and>
   go_lookup (nilmap (m_labels (js_meta (desired_jobset job)))) queue_label
     = selected_queue_name (s_queue_name (aj_spec job))"
  unfolding desired_demand desired_replicas worker_pod_containers
  by (simp add: worker_job_spec_def worker_container_def desired_jobset_def Let_def)

text \<open>
  The run id and the experiment of an AIJob reach its JobSet, the Job template and the Pod
  template unchanged (or are absent from all three when empty or unset), while the label that
  names the AIJob is set on the JobSet and on the Pods but not on the Job template.
\<close>

lemma labels_reach_descendants:
  "map (\<lambda>m. (go_lookup (nilmap m) run_id_label, go_lookup (nilmap m) experiment_label))
     (m_labels (js_meta (desired_jobset job))
      # pt_labels (jbs_template (worker_job_spec job))
      # map rj_template_labels (jss_replicated_jobs (js_spec (desired_jobset job))))
   = replicate 3 (label_of (aj_meta job) run_id_label, label_of (aj_meta job) experiment_label) \<and>
   nilmap (m_labels (js_meta (desired_jobset job))) job_label = Some (m_name (aj_meta job)) \<and>
   nilmap (pt_labels (jbs_template (worker_job_spec job))) job_label = Some (m_name (aj_meta job)) \<and>
   map (\<lambda>rj. nilmap (rj_template_labels rj) job_label)
     (jss_replicated_jobs (js_spec (desired_jobset job))) = [None]"
  by (simp add: desired_jobset_def worker_job_spec_def Let_def label_of_def lab.lookup_scope
      lab.scope_reserved numeral_3_eq_3 split: option.split)

text \<open>
  Leaving an existing JobSet's Pod templates alone loses nothing: an update of an AIJob that
  admission lets through, with its arguments and labels unchanged, does not change the desired
  replicated Jobs, network or queue.
\<close>

lemma admitted_update_keeps_template:
  assumes "crd_valid_update (aj_spec old) (aj_spec new)"
    and "m_name (aj_meta new) = m_name (aj_meta old)"
    and "m_labels (aj_meta new) = m_labels (aj_meta old)"
    and "s_args (aj_spec new) = s_args (aj_spec old)"
  shows "jss_replicated_jobs (js_spec (desired_jobset new))
      = jss_replicated_jobs (js_spec (desired_jobset old)) \<and>
    jss_network (js_spec (desired_jobset new)) = jss_network (js_spec (desired_jobset old)) \<and>
    m_labels (js_meta (desired_jobset new)) = m_labels (js_meta (desired_jobset old))"
proof -
  have "worker_container new = worker_container old" "worker_job_spec new = worker_job_spec old"
    using assms by (simp_all add: worker_job_spec_def worker_container_def crd_valid_update_def Let_def)
  then show ?thesis
    using assms
    by (simp add: desired_jobset_def crd_valid_update_def Let_def split: option.split)
qed

lemma admitted_update_keeps_template_example:
  "jss_replicated_jobs (js_spec (desired_jobset (sample_job (Some failure_policy_only))))
     = jss_replicated_jobs (js_spec (desired_jobset (sample_job None)))"
proof -
  have "crd_valid_update (aj_spec (sample_job None)) (aj_spec (sample_job (Some failure_policy_only)))"
    by (simp add: crd_valid_update_def crd_valid_def sample_job_def sample_spec_def
        preference_enum_def required_enum_def topology_value_defs)
  from admitted_update_keeps_template [OF this] show ?thesis
    by (simp add: sample_job_def sample_spec_def)
qed

end
