(* ===== verification/Controller_System.thy ===== *)
theory Controller_System
  imports Controller_Properties
begin

text \<open>
  The controller among the other actors of a cluster: users submit, update and delete AIJobs within
  the admission rules, LocalQueues come and go, Kueue suspends and resumes JobSets, the JobSet
  controller reports conditions, other controllers create JobSets of their own, and reconciliations
  run at any time. Nobody creates JobSets without an owner (see the last section).
  What holds of every JobSet in every reachable state is proved by rule induction.
\<close>

section \<open>Gangs\<close>

text \<open>
  The part of a JobSet that the admission rules freeze: its replicated Jobs without labels and
  without the arguments of the containers.
\<close>

definition frozen_template :: "pod_template \<Rightarrow> pod_template" where
  "frozen_template t = t\<lparr>pt_labels := None, pt_spec := (pt_spec t)\<lparr>ps_containers :=
     map (ct_args_update (\<lambda>_. [])) (ps_containers (pt_spec t))\<rparr>\<rparr>"

definition frozen_job :: "replicated_job \<Rightarrow> replicated_job" where
  "frozen_job rj = rj\<lparr>rj_template_labels := None, rj_template_spec := (rj_template_spec rj)
     \<lparr>jbs_template := frozen_template (jbs_template (rj_template_spec rj))\<rparr>\<rparr>"

definition gang_of :: "jobset_spec \<Rightarrow> replicated_job list" where
  "gang_of spec = map frozen_job (jss_replicated_jobs spec)"

text \<open>Admission of JobSets may complete their specification but not change the gang.\<close>

definition keeps_gang :: "(jobset_spec \<Rightarrow> jobset_spec) \<Rightarrow> bool" where
  "keeps_gang hook \<longleftrightarrow> (\<forall>spec. gang_of (hook spec) = gang_of spec)"

lemma gang_of_suspend [simp]: "gang_of (spec\<lparr>jss_suspend := s\<rparr>) = gang_of spec"
  by (simp add: gang_of_def)

lemma container_demand_args: "container_demand r (ct_args_update f c) = container_demand r c"
  by (simp add: container_demand_def)

lemma gang_demand:
  assumes "gang_of (js_spec a) = gang_of (js_spec b)"
  shows "jobset_demand r a = jobset_demand r b"
proof -
  let ?d = "\<lambda>rj. rj_replicas rj * (case jbs_parallelism (rj_template_spec rj) of None \<Rightarrow> 1 | Some n \<Rightarrow> n) *
     sum_list (map (container_demand r) (ps_containers (pt_spec (jbs_template (rj_template_spec rj)))))"
  have "?d (frozen_job rj) = ?d rj" for rj
    by (simp add: frozen_job_def frozen_template_def o_def container_demand_args)
  then have "sum_list (map ?d (jss_replicated_jobs (js_spec js))) = sum_list (map ?d (gang_of (js_spec js)))" for js
    by (simp add: gang_of_def o_def)
  from this [of a] this [of b] show ?thesis by (simp only: jobset_demand_def assms)
qed

lemma update_keeps_gang:
  assumes "crd_valid_update (aj_spec old) (aj_spec new)" and "m_name (aj_meta new) = m_name (aj_meta old)"
  shows "gang_of (js_spec (desired_jobset new)) = gang_of (js_spec (desired_jobset old))"
  using assms
  by (simp add: gang_of_def frozen_job_def frozen_template_def desired_jobset_def worker_job_spec_def
      worker_container_def crd_valid_update_def Let_def split: option.split)

section \<open>The cluster's steps\<close>

text \<open>Another controller owns the JobSet; \<open>ctrl.SetControllerReference\<close> refuses to adopt it.\<close>

definition foreign :: "jobset \<Rightarrow> bool" where
  "foreign js \<longleftrightarrow> list_ex (\<lambda>r. o_controller r \<and> \<not> same_owner r (aijob_owner (js_meta js))) (m_owners (js_meta js))"

inductive cluster_step :: "(jobset_spec \<Rightarrow> jobset_spec) \<Rightarrow> mem_world \<Rightarrow> mem_world \<Rightarrow> bool" for hook where
  submit: "mem_aijob w key = None \<Longrightarrow> meta_key (aj_meta job) = key \<Longrightarrow> crd_valid (aj_spec job) \<Longrightarrow>
    cluster_step hook w (w\<lparr>mw_aijobs := (mw_aijobs w)(key \<mapsto> job)\<rparr>)"
| update: "mem_aijob w key = Some old \<Longrightarrow> meta_key (aj_meta new) = key \<Longrightarrow>
    crd_valid_update (aj_spec old) (aj_spec new) \<Longrightarrow> aj_status new = aj_status old \<Longrightarrow>
    cluster_step hook w (w\<lparr>mw_aijobs := (mw_aijobs w)(key \<mapsto> new)\<rparr>)"
| delete: "cluster_step hook w (w\<lparr>mw_aijobs := (mw_aijobs w)(key := None),
    mw_jobsets := (mw_jobsets w)(key := (case mem_jobset w key of
      None \<Rightarrow> None | Some js \<Rightarrow> if foreign js then Some js else None))\<rparr>)"
| queue: "cluster_step hook w (w\<lparr>mw_queues := (mw_queues w)(key := available)\<rparr>)"
| suspend: "mem_jobset w key = Some js \<Longrightarrow>
    cluster_step hook w (mem_store_jobset w (js\<lparr>js_spec := (js_spec js)\<lparr>jss_suspend := s\<rparr>\<rparr>))"
| progress: "mem_jobset w key = Some js \<Longrightarrow> condition_queue_ready \<notin> c_type ` set conditions \<Longrightarrow>
    cluster_step hook w (mem_store_jobset w (js\<lparr>js_conditions := conditions\<rparr>))"
| other_controller: "mem_jobset w (meta_key (js_meta js)) = None \<Longrightarrow> m_creation (js_meta js) \<noteq> 0 \<Longrightarrow> foreign js \<Longrightarrow>
    cluster_step hook w (mem_store_jobset w js)"
| reconciled: "cluster_step hook w (snd (reconcile (mem_kube hook) std_conditions metrics now key w))"

text \<open>The states reachable from an empty cluster.\<close>

inductive reachable :: "(jobset_spec \<Rightarrow> jobset_spec) \<Rightarrow> mem_world \<Rightarrow> bool" for hook where
  start: "reachable hook \<lparr>mw_aijobs = Map.empty, mw_queues = (\<lambda>_. False), mw_jobsets = Map.empty\<rparr>"
| step: "reachable hook w \<Longrightarrow> cluster_step hook w w' \<Longrightarrow> reachable hook w'"

section \<open>One reconciliation\<close>

lemma reconcile_status_mem:
  assumes "reconcile_status (mem_kube hook) job status w = (r, w')" and "mem_aijob w key = Some job"
  obtains status' where "mem_aijob w' = (mem_aijob w)(key \<mapsto> job\<lparr>aj_status := status'\<rparr>)"
    and "mem_jobset w' = mem_jobset w"
proof -
  have key: "meta_key (aj_meta job) = key"
    using assms(2) by (auto simp: mem_aijob_def split: option.splits if_splits)
  show ?thesis
  proof (cases "aj_status job = status")
    case True
    then show ?thesis
      using that [of "aj_status job"] assms by (simp add: reconcile_status_def fun_upd_idem)
  next
    case False
    then have "w' = w\<lparr>mw_aijobs := (mw_aijobs w)(key \<mapsto> job\<lparr>aj_status := status\<rparr>)\<rparr>"
      using assms key by (auto simp: reconcile_status_def mem_update_status_def)
    then show ?thesis using that [of status] key by (auto simp: mem_aijob_def fun_eq_iff)
  qed
qed

lemma reconcile_jobset_mem:
  assumes "create_or_update (mem_kube hook) (new_jobset (js_meta (desired_jobset job))) (mutate_jobset (mem_kube hook) job) w
      = ((stored, operation, err), w')" and key: "jobset_key job = key"
  shows "mem_aijob w' = mem_aijob w \<and> (mem_jobset w' = mem_jobset w \<or>
    (\<exists>js. mutate_jobset (mem_kube hook) job (jobset_before (mem_views hook) job w) = Inr js \<and>
       mem_jobset w' = (mem_jobset w)(key \<mapsto> if mem_jobset w key = None then mem_admit hook js else mem_commit js)))"
proof (cases "mutate_jobset (mem_kube hook) job (jobset_before (mem_views hook) job w)")
  case (Inl e)
  then show ?thesis
    using assms by (auto simp: mem_create_or_update_def jobset_before_def split: option.splits)
next
  case (Inr js)
  note same_key = mutate_key [OF Inr]
  show ?thesis
  proof (cases "mem_jobset w key")
    case None
    then have "meta_key (js_meta js) = key" using same_key key by (simp add: jobset_before_def)
    then show ?thesis
      using assms Inr None
      by (auto simp: mem_create_or_update_def jobset_before_def mem_jobset_store)
  next
    case (Some cur)
    then have "meta_key (js_meta js) = key" "m_creation (js_meta (mem_commit js)) \<noteq> 0"
      using same_key key mutate_creation [OF Inr] mem_jobset_someD [OF Some] by (simp_all add: jobset_before_def)
    then show ?thesis
      using assms Inr Some
      by (auto simp: mem_create_or_update_def jobset_before_def mem_jobset_store split: if_split_asm)
  qed
qed

text \<open>What a reconciliation changes: the status of its AIJob, and the JobSet under the same key.\<close>

lemma reconcile_mem:
  assumes "mem_aijob w key = Some job" and w': "w' = snd (reconcile (mem_kube hook) cops metrics now key w)"
  shows "(\<exists>status. mem_aijob w' = (mem_aijob w)(key \<mapsto> job\<lparr>aj_status := status\<rparr>)) \<and>
    (mem_jobset w' = mem_jobset w \<or>
     (\<exists>js. mutate_jobset (mem_kube hook) job (jobset_before (mem_views hook) job w) = Inr js \<and>
       mem_jobset w' = (mem_jobset w)(key \<mapsto> if mem_jobset w key = None then mem_admit hook js else mem_commit js)))"
proof -
  have get: "get_aijob (mem_kube hook) key w = (Inr job, w)" by (simp add: assms(1))
  have key: "jobset_key job = key"
    using assms(1) by (auto simp: jobset_key_def mem_aijob_def split: option.splits if_splits)
  have same: "\<exists>status. mem_aijob w = (mem_aijob w)(key \<mapsto> job\<lparr>aj_status := status\<rparr>)"
    using assms(1) by (intro exI [of _ "aj_status job"]) (simp add: fun_upd_idem)
  show ?thesis
  proof (cases "mw_queues w (queue_key job)")
    case False
    let ?e = "ApiNotFound (mem_not_found (queue_key job))"
    have queue: "get_local_queue (mem_kube hook) (queue_key job) w = (Some ?e, w)" using False by simp
    obtain r w1 where st: "reconcile_status (mem_kube hook) job (waiting_status cops now job) w = (r, w1)" by fastforce
    have "w' = w1"
      using reconcile_waits [OF get queue] st by (auto simp: w' split: prod.split option.split)
    then show ?thesis using reconcile_status_mem [OF st assms(1)] by metis
  next
    case True
    then have queue: "get_local_queue (mem_kube hook) (queue_key job) w = (None, w)" by simp
    obtain stored operation err w1 where cu: "create_or_update (mem_kube hook) (new_jobset (js_meta (desired_jobset job)))
        (mutate_jobset (mem_kube hook) job) w = ((stored, operation, err), w1)"
      by (metis prod.collapse)
    note written = reconcile_jobset_mem [OF cu key]
    show ?thesis
    proof (cases err)
      case (Some e)
      then have "w' = w1"
        using cu queue get by (simp add: w' reconcile_def reconcile_jobset_def queue_key_def Let_def)
      then show ?thesis using written same by simp
    next
      case None
      obtain r w2 where st: "reconcile_status (mem_kube hook) job (projected_status cops now job stored) w1 = (r, w2)"
        by fastforce
      have "w' = w2"
        using reconcile_ready [OF get queue cu [unfolded None]] st by (auto simp: w' split: prod.split option.split)
      moreover have "mem_aijob w1 key = Some job" using written assms(1) by simp
      ultimately show ?thesis using written reconcile_status_mem [OF st] by metis
    qed
  qed
qed

lemma reconcile_absent:
  "mem_aijob w key = None \<Longrightarrow> snd (reconcile (mem_kube hook) cops metrics now key w) = w"
  by (simp add: reconcile_def)

section \<open>The invariant\<close>

definition aijob_jobset :: "mem_world \<Rightarrow> jobset \<Rightarrow> bool" where
  "aijob_jobset w js \<longleftrightarrow> aijob_owner (js_meta js) \<in> set (m_owners (js_meta js)) \<and>
     (\<exists>job. mem_aijob w (meta_key (js_meta js)) = Some job \<and>
        gang_of (js_spec js) = gang_of (js_spec (desired_jobset job))) \<and>
     condition_queue_ready \<notin> c_type ` set (js_conditions js)"

definition cluster_invariant :: "mem_world \<Rightarrow> bool" where
  "cluster_invariant w \<longleftrightarrow> (\<forall>key job. mem_aijob w key = Some job \<longrightarrow> crd_valid (aj_spec job)) \<and>
     (\<forall>key js. mem_jobset w key = Some js \<longrightarrow> foreign js \<or> aijob_jobset w js)"

lemma aijob_jobsetI:
  "cluster_invariant w \<Longrightarrow> mem_jobset w key = Some js \<Longrightarrow> \<not> foreign js \<Longrightarrow> aijob_jobset w js"
  by (auto simp: cluster_invariant_def)

text \<open>A step that changes AIJobs and JobSets keeps the invariant where it changes them well.\<close>

lemma cluster_invariantI:
  assumes inv: "cluster_invariant w"
    and jobs: "\<And>key job. mem_aijob w' key = Some job \<Longrightarrow> mem_aijob w key = Some job \<or> crd_valid (aj_spec job)"
    and jobsets: "\<And>key js. mem_jobset w' key = Some js \<Longrightarrow>
      mem_jobset w key = Some js \<or> foreign js \<or> aijob_jobset w' js"
    and gangs: "\<And>key js job. mem_jobset w' key = Some js \<Longrightarrow> \<not> foreign js \<Longrightarrow> mem_aijob w key = Some job \<Longrightarrow>
      \<exists>job'. mem_aijob w' key = Some job' \<and> gang_of (js_spec (desired_jobset job')) = gang_of (js_spec (desired_jobset job))"
  shows "cluster_invariant w'"
  unfolding cluster_invariant_def
proof (intro conjI allI impI)
  fix key job assume "mem_aijob w' key = Some job"
  then show "crd_valid (aj_spec job)" using jobs inv by (auto simp: cluster_invariant_def)
next
  fix key js assume js: "mem_jobset w' key = Some js"
  show "foreign js \<or> aijob_jobset w' js"
  proof (cases "mem_jobset w key = Some js \<and> \<not> foreign js")
    case True
    then have before: "aijob_jobset w js" and key: "meta_key (js_meta js) = key"
      using inv mem_jobset_someD by (auto simp: cluster_invariant_def)
    then obtain job where "mem_aijob w key = Some job" "gang_of (js_spec js) = gang_of (js_spec (desired_jobset job))"
      by (auto simp: aijob_jobset_def)
    then show ?thesis using gangs [OF js] True before key by (auto simp: aijob_jobset_def)
  next
    case False
    then show ?thesis using jobsets [OF js] by blast
  qed
qed

lemma mem_aijob_upd:
  "meta_key (aj_meta job) = key \<Longrightarrow>
    mem_aijob (w\<lparr>mw_aijobs := (mw_aijobs w)(key \<mapsto> job)\<rparr>) = (mem_aijob w)(key \<mapsto> job)"
  by (auto simp: mem_aijob_def fun_eq_iff)

lemma foreign_kept:
  "foreign (js\<lparr>js_spec := spec\<rparr>) = foreign js" "foreign (js\<lparr>js_conditions := cs\<rparr>) = foreign js"
  by (simp_all add: foreign_def)

text \<open>A JobSet of the same identity and gang, with conditions of its own, replaces another.\<close>

lemma rewrite_keeps_invariant:
  assumes inv: "cluster_invariant w" and js: "mem_jobset w key = Some js"
    and same: "js_meta js' = js_meta js" "gang_of (js_spec js') = gang_of (js_spec js)"
    and free: "condition_queue_ready \<notin> c_type ` set (js_conditions js') \<or> js_conditions js' = js_conditions js"
  shows "cluster_invariant (mem_store_jobset w js')"
proof (rule cluster_invariantI [OF inv])
  note js_key = mem_jobset_someD [OF js]
  have stored: "mem_jobset (mem_store_jobset w js') = (mem_jobset w)(key \<mapsto> js')"
    using js_key by (simp add: mem_jobset_store same)
  have old: "foreign js \<or> aijob_jobset w js" using inv js by (simp add: cluster_invariant_def)
  then have new: "foreign js' \<or> aijob_jobset (mem_store_jobset w js') js'"
    using same free js_key by (auto simp: aijob_jobset_def foreign_def)
  fix key' j assume "mem_jobset (mem_store_jobset w js') key' = Some j"
  then show "mem_jobset w key' = Some j \<or> foreign j \<or> aijob_jobset (mem_store_jobset w js') j"
    using new by (auto simp: stored split: if_splits)
qed auto

text \<open>What the closure of \<open>CreateOrUpdate\<close> does to an owner and a gang.\<close>

lemma mutate_owner:
  assumes "mutate_jobset (mem_kube hook) job js = Inr js'" and "m_name (js_meta js) = m_name (aj_meta job)"
  shows "\<not> foreign js" and "\<not> foreign js'" and "aijob_owner (js_meta js') \<in> set (m_owners (js_meta js'))"
proof -
  obtain owners where os: "mem_reference (aj_meta job) (m_owners (js_meta js)) = Inr owners"
    and js': "m_owners (js_meta js') = owners" "m_name (js_meta js') = m_name (aj_meta job)"
    using assms by (auto simp: mutate_jobset_def reconcile_owned_fields_def Let_def split: sum.splits)
  have owner: "aijob_owner (js_meta js) = aijob_owner (aj_meta job)" "aijob_owner (js_meta js') = aijob_owner (aj_meta job)"
    using assms(2) js' by (simp_all add: aijob_owner_def)
  show "\<not> foreign js"
    using os by (auto simp: foreign_def owner mem_reference_def list_ex_iff split: if_splits)
  show "\<not> foreign js'" "aijob_owner (js_meta js') \<in> set (m_owners (js_meta js'))"
    using os by (auto simp: foreign_def owner js' mem_reference_def list_ex_iff same_owner_def split: if_splits)
qed

lemma mutate_gang:
  assumes "mutate_jobset k job js = Inr js'"
  shows "gang_of (js_spec js') =
    (if m_creation (js_meta js) = 0 then gang_of (js_spec (desired_jobset job)) else gang_of (js_spec js))"
  using assms
  by (auto simp: mutate_jobset_def reconcile_owned_fields_def gang_of_def Let_def split: sum.splits option.splits)

lemma name_of_key: "m_name m = ns_name (meta_key m)"
  by (simp add: meta_key_def)

lemma reconcile_keeps_invariant:
  assumes hook: "keeps_gang hook" and inv: "cluster_invariant w"
  shows "cluster_invariant (snd (reconcile (mem_kube hook) cops metrics now key w))" (is "cluster_invariant ?w'")
proof (cases "mem_aijob w key")
  case None
  then show ?thesis using inv by (simp add: reconcile_absent)
next
  case (Some job)
  have key: "jobset_key job = key" "m_name (aj_meta job) = ns_name key"
    using Some by (auto simp: jobset_key_def meta_key_def mem_aijob_def split: option.splits if_splits)
  note effect = reconcile_mem [OF Some refl, of hook cops metrics now]
  obtain status where jobs: "mem_aijob ?w' = (mem_aijob w)(key \<mapsto> job\<lparr>aj_status := status\<rparr>)"
    using effect by blast
  show ?thesis
  proof (rule cluster_invariantI [OF inv])
    fix key' j assume "mem_aijob ?w' key' = Some j"
    then show "mem_aijob w key' = Some j \<or> crd_valid (aj_spec j)"
      using inv Some by (auto simp: jobs cluster_invariant_def split: if_splits)
  next
    fix key' js assume js: "mem_jobset ?w' key' = Some js"
    show "mem_jobset w key' = Some js \<or> foreign js \<or> aijob_jobset ?w' js"
    proof (cases "mem_jobset w key' = Some js")
      case False
      let ?before = "jobset_before (mem_views hook) job w"
      obtain js1 where mutated: "mutate_jobset (mem_kube hook) job ?before = Inr js1"
        and written: "mem_jobset ?w' = (mem_jobset w)(key \<mapsto> if mem_jobset w key = None then mem_admit hook js1 else mem_commit js1)"
        using effect js False by auto
      have stored: "key' = key" "js = (if mem_jobset w key = None then mem_admit hook js1 else mem_commit js1)"
        using js False unfolding written map_upd_Some_unfold by blast+
      have before_key: "meta_key (js_meta ?before) = key"
        using mem_jobset_someD by (auto simp: jobset_before_def key(1) split: option.splits)
      then have name: "m_name (js_meta ?before) = m_name (aj_meta job)"
        using key(2) by (simp add: name_of_key)
      have js_key: "meta_key (js_meta js) = key"
        using mutate_key [OF mutated] before_key by (simp add: stored)
      have meta: "m_owners (js_meta js) = m_owners (js_meta js1)" "js_meta js1 = js_meta js1\<lparr>m_name := m_name (js_meta js)\<rparr>"
        "js_conditions js = js_conditions ?before"
        using stored(2) mutate_conditions [OF mutated] by (simp_all add: mem_admit_def mem_commit_def)
      then have owner: "aijob_owner (js_meta js) \<in> set (m_owners (js_meta js))"
        using mutate_owner(3) [OF mutated name] by (metis aijob_owner_def object_meta.select_convs(1) object_meta.surjective object_meta.update_convs(1))
      have "gang_of (js_spec js) = gang_of (js_spec (desired_jobset job)) \<and>
          condition_queue_ready \<notin> c_type ` set (js_conditions js)"
      proof (cases "mem_jobset w key")
        case None
        then show ?thesis
          using stored(2) mutate_gang [OF mutated] hook meta key
          by (simp add: keeps_gang_def jobset_before_def new_jobset_def new_meta_def)
      next
        case (Some cur)
        then have before: "?before = cur" by (simp add: jobset_before_def key)
        have "aijob_jobset w cur"
          using inv Some mutate_owner(1) [OF mutated name] before by (auto simp: cluster_invariant_def)
        then show ?thesis
          using stored(2) mutate_gang [OF mutated] Some mem_jobset_someD [OF Some] meta before \<open>mem_aijob w key = Some job\<close>
          by (simp add: aijob_jobset_def)
      qed
      then show ?thesis using owner by (simp add: aijob_jobset_def js_key jobs)
    qed simp
  next
    fix key' js j assume "mem_jobset ?w' key' = Some js" "\<not> foreign js" "mem_aijob w key' = Some j"
    then show "\<exists>job'. mem_aijob ?w' key' = Some job' \<and>
        gang_of (js_spec (desired_jobset job')) = gang_of (js_spec (desired_jobset j))"
      using Some by (auto simp: jobs)
  qed
qed

lemma step_keeps_invariant:
  assumes "cluster_step hook w w'" and hook: "keeps_gang hook" and inv: "cluster_invariant w"
  shows "cluster_invariant w'"
  using assms(1)
proof cases
  case (submit key job)
  show ?thesis
    unfolding submit(1)
    by (rule cluster_invariantI [OF inv]) (use submit in \<open>auto simp: mem_aijob_upd split: if_splits\<close>)
next
  case (update key old new)
  have "m_name (aj_meta new) = m_name (aj_meta old)"
    using update by (auto simp: mem_aijob_def meta_key_def split: option.splits if_splits)
  note gang = update_keeps_gang [OF update(4) this]
  show ?thesis
    unfolding update(1)
    by (rule cluster_invariantI [OF inv])
      (use update gang in \<open>auto simp: mem_aijob_upd crd_valid_update_def split: if_splits\<close>)
next
  case (delete key)
  have jobs: "mem_aijob w' = (mem_aijob w)(key := None)"
    by (auto simp: delete mem_aijob_def fun_eq_iff)
  have jobsets: "mem_jobset w' = (mem_jobset w)(key := (case mem_jobset w key of
      None \<Rightarrow> None | Some js \<Rightarrow> if foreign js then Some js else None))"
    by (auto simp: delete mem_jobset_def fun_eq_iff split: option.splits)
  show ?thesis
    by (rule cluster_invariantI [OF inv]) (auto simp: jobs jobsets split: if_splits option.splits)
next
  case (queue key available)
  have "mem_aijob w' = mem_aijob w" "mem_jobset w' = mem_jobset w"
    by (simp_all add: queue mem_aijob_def mem_jobset_def fun_eq_iff)
  then show ?thesis using inv by (simp add: cluster_invariant_def aijob_jobset_def)
next
  case (suspend key js s)
  show ?thesis unfolding suspend(1) by (rule rewrite_keeps_invariant [OF inv suspend(2)]) simp_all
next
  case (progress key js conditions)
  show ?thesis
    unfolding progress(1) by (rule rewrite_keeps_invariant [OF inv progress(2)]) (use progress in simp_all)
next
  case (other_controller js)
  show ?thesis
    unfolding other_controller(1)
    by (rule cluster_invariantI [OF inv])
      (use other_controller in \<open>auto simp: mem_jobset_store split: if_splits\<close>)
next
  case (reconciled metrics now key)
  show ?thesis unfolding reconciled(1) by (rule reconcile_keeps_invariant [OF hook inv])
qed

lemma reachable_invariant: "reachable hook w \<Longrightarrow> keeps_gang hook \<Longrightarrow> cluster_invariant w"
proof (induction rule: reachable.induct)
  case start
  then show ?case by (simp add: cluster_invariant_def mem_aijob_def mem_jobset_def)
next
  case (step w w')
  then show ?case using step_keeps_invariant by blast
qed

section \<open>Properties of reachable states\<close>


lemma job_key_of: "mem_aijob w key = Some job \<Longrightarrow> jobset_key job = key"
  by (auto simp: jobset_key_def mem_aijob_def split: option.splits if_splits)

lemma jobset_before_facts:
  assumes inv: "cluster_invariant w" and job: "mem_aijob w key = Some job"
    and "\<nexists>js. mem_jobset w key = Some js \<and> foreign js" and js_def: "js = jobset_before (mem_views hook) job w"
  shows "\<not> foreign js \<and> m_name (js_meta js) = m_name (aj_meta job) \<and>
    condition_queue_ready \<notin> c_type ` set (js_conditions js)"
proof (cases "mem_jobset w key")
  case None
  then show ?thesis
    using job_key_of [OF job]
    by (simp add: js_def jobset_before_def new_jobset_def new_meta_def foreign_def desired_jobset_def Let_def)
next
  case (Some cur)
  then have "js = cur" "\<not> foreign cur" "meta_key (js_meta cur) = jobset_key job"
    using assms job_key_of [OF job] mem_jobset_someD [OF Some] by (auto simp: js_def jobset_before_def)
  then show ?thesis
    using aijob_jobsetI [OF inv Some] by (simp add: aijob_jobset_def name_of_key jobset_key_def)
qed

lemma reference_accepted:
  assumes "\<not> foreign js" "m_name (js_meta js) = m_name m"
  shows "\<exists>os. mem_reference m (m_owners (js_meta js)) = Inr os"
proof -
  have "aijob_owner m = aijob_owner (js_meta js)" using assms(2) by (simp add: aijob_owner_def)
  then have "\<not> (\<exists>r \<in> set (m_owners (js_meta js)). o_controller r \<and> \<not> same_owner r (aijob_owner m))"
    using assms(1) by (auto simp: foreign_def list_ex_iff)
  then show ?thesis by (simp add: mem_reference_def)
qed

lemma gang_settles:
  assumes "reachable hook w" "keeps_gang hook"
    and job: "mem_aijob w key = Some job" and queue: "mw_queues w (queue_key job)"
    and suspend: "suspend_kept (mem_views hook) job w"
    and run: "reconcile (mem_kube hook) std_conditions metrics now key w = (out, w')"
    and own: "\<nexists>js. mem_jobset w key = Some js \<and> foreign js"
  shows "ro_error out = None \<and> ro_requeue_after out = 0 \<and>
    (\<exists>status js. mem_aijob w' key = Some (job\<lparr>aj_status := status\<rparr>) \<and>
       st_observed_generation status = m_generation (aj_meta job) \<and>
       mem_jobset w' key = Some js \<and> \<not> foreign js \<and> gang_of (js_spec js) = gang_of (js_spec (desired_jobset job))) \<and>
    snd (reconcile (mem_kube hook) std_conditions metrics' now' key w') = w'"
proof -
  let ?before = "jobset_before (mem_views hook) job w"
  have inv: "cluster_invariant w" by (rule reachable_invariant [OF assms(1,2)])
  have before: "\<not> foreign ?before" "m_name (js_meta ?before) = m_name (aj_meta job)"
    "condition_queue_ready \<notin> c_type ` set (js_conditions ?before)"
    using jobset_before_facts [OF inv job own refl] by auto
  then obtain js1 where "mutate_jobset (mem_kube hook) job ?before = Inr js1"
    using reference_accepted [OF before(1,2)] by (auto simp: mutate_jobset_def)
  from mem_env.reconcile_settles [OF _ _ this before(3) suspend] job queue
  obtain events where settles: "reconcile (mem_kube hook) std_conditions metrics now key w =
      (reconcile_done metrics events 0 reconcile_success None, w')"
    "settled (mem_kube hook) std_conditions (mem_views hook) key w'"
    "\<exists>status. mem_aijob w' key = Some (job\<lparr>aj_status := status\<rparr>)"
    using run by (metis mem_kube_simps(6,7) prod.inject)
  obtain status js where job': "mem_aijob w' key = Some (job\<lparr>aj_status := status\<rparr>)"
    and js: "mem_jobset w' key = Some js" "mutate_jobset (mem_kube hook) job js = Inr js"
    and derived: "projected_status std_conditions now (job\<lparr>aj_status := status\<rparr>) js = status"
    using settles(2,3) by (auto simp: settled_def)
  have "m_name (js_meta js) = m_name (aj_meta job)"
    using mem_jobset_someD [OF js(1)] job_key_of [OF job] by (simp add: name_of_key jobset_key_def)
  then have "\<not> foreign js" using mutate_owner(1) [OF js(2)] by blast
  have "cluster_invariant w'"
    using reconcile_keeps_invariant [OF assms(2) inv, of std_conditions metrics now key] run by simp
  then have "gang_of (js_spec js) = gang_of (js_spec (desired_jobset job))"
    using aijob_jobsetI [of w' key js] js(1) job' mem_jobset_someD [OF js(1)] \<open>\<not> foreign js\<close>
    by (simp add: aijob_jobset_def)
  moreover have "st_observed_generation status = m_generation (aj_meta job)"
    using arg_cong [OF derived, of st_observed_generation] by (simp add: projected_status_def status_with_queue_def Let_def)
  ultimately show ?thesis
    using job' js(1) \<open>\<not> foreign js\<close> settles(1) run mem_env.settled_stays [OF settles(2), of metrics' now'] by auto
qed


text \<open>An AIJob is submitted and its queue is created; then it is reconciled.\<close>

definition submitted_world :: mem_world where
  "submitted_world = (let w = \<lparr>mw_aijobs = Map.empty, mw_queues = (\<lambda>_. False), mw_jobsets = Map.empty\<rparr>;
     w1 = w\<lparr>mw_aijobs := (mw_aijobs w)(sample_key \<mapsto> sample_job None)\<rparr>
     in w1\<lparr>mw_queues := (mw_queues w1)(queue_key (sample_job None) := True)\<rparr>)"

lemma submitted_reachable: "reachable hook submitted_world"
proof -
  let ?w = "\<lparr>mw_aijobs = Map.empty, mw_queues = (\<lambda>_. False), mw_jobsets = Map.empty\<rparr>"
  have "crd_valid (aj_spec (sample_job None))"
    by (simp add: crd_valid_def sample_job_def sample_spec_def preference_enum_def required_enum_def topology_nvlink_def)
  then have "cluster_step hook ?w (?w\<lparr>mw_aijobs := (mw_aijobs ?w)(sample_key \<mapsto> sample_job None)\<rparr>)"
    by (intro cluster_step.submit) (simp_all add: mem_aijob_def)
  from reachable.step [OF reachable.step [OF reachable.start this] cluster_step.queue
      [of _ _ "queue_key (sample_job None)" True]]
  show ?thesis by (simp only: submitted_world_def Let_def)
qed

lemma submitted_simps [simp]:
  "mem_aijob submitted_world sample_key = Some (sample_job None)"
  "mw_queues submitted_world (queue_key (sample_job None))"
  "mem_jobset submitted_world key = None"
  by (simp_all add: submitted_world_def mem_aijob_def mem_jobset_def Let_def)

lemma suspending_keeps_gang: "keeps_gang suspending_hook"
  by (simp add: keeps_gang_def suspending_hook_def)



section \<open>What the controller does not repair\<close>

lemma same_if_both_refl [simp]: "same_if_both x x"
  by (simp add: same_if_both_def split: option.split)

text \<open>
  Admission calls the arguments immutable but accepts them on an AIJob that was submitted without
  any; the JobSet that exists by then is converged as before, so its Pods never get them.
\<close>

lemma late_args_ignored:
  assumes "s_args (aj_spec job) = []" "crd_valid (aj_spec job)" "m_creation (js_meta js) \<noteq> 0"
    and new: "new = job\<lparr>aj_spec := (aj_spec job)\<lparr>s_args := args\<rparr>\<rparr>"
  shows "crd_valid_update (aj_spec job) (aj_spec new)"
    and "mutate_jobset k new js = mutate_jobset k job js"
proof -
  show "crd_valid_update (aj_spec job) (aj_spec new)"
    using assms by (simp add: crd_valid_update_def crd_valid_def split: option.split)
  have "m_labels (js_meta (desired_jobset new)) = m_labels (js_meta (desired_jobset job))"
    "jss_suspend (js_spec (desired_jobset new)) = jss_suspend (js_spec (desired_jobset job))"
    by (simp_all add: new desired_jobset_def Let_def split: option.split)
  then show "mutate_jobset k new js = mutate_jobset k job js"
    using assms(3) by (simp add: mutate_jobset_def reconcile_owned_fields_def new Let_def split: sum.split)
qed

text \<open>
  A JobSet without a controlling owner, created by hand under the name of an AIJob, is adopted as it
  is: the controller becomes its owner but leaves its replicated Jobs alone, and reports its
  conditions as those of the AIJob.
\<close>

lemma unowned_jobset_adopted:
  assumes "m_owners (js_meta js) = []" "m_creation (js_meta js) \<noteq> 0"
  obtains js' where "mutate_jobset (mem_kube hook) job js = Inr js'" "m_owners (js_meta js') = [aijob_owner (aj_meta job)]"
    "jss_replicated_jobs (js_spec js') = jss_replicated_jobs (js_spec js)"
proof -
  let ?js = "reconcile_owned_fields (js\<lparr>js_meta := (js_meta js)\<lparr>m_owners := [aijob_owner (aj_meta job)]\<rparr>\<rparr>) (desired_jobset job)"
  have "mutate_jobset (mem_kube hook) job js = Inr ?js"
    by (simp add: mutate_jobset_def mem_reference_def assms(1))
  moreover have "m_owners (js_meta ?js) = [aijob_owner (aj_meta job)]"
    "jss_replicated_jobs (js_spec ?js) = jss_replicated_jobs (js_spec js)"
    using assms(2) by (simp_all add: reconcile_owned_fields_def Let_def split: option.split)
  ultimately show ?thesis by (rule that)
qed

end
