(* ===== verification/GPU_Topology.thy ===== *)
theory GPU_Topology
  imports Kube_Types
begin

text \<open>
  The scheduler plugin, \<open>internal/plugin/gputopology/plugin.go\<close> and \<open>metrics.go\<close>. A
  scheduling cycle first calls \<open>PreFilter\<close> (and before scoring \<open>PreScore\<close>), which parse the
  Pod's annotations into the cycle state; \<open>Filter\<close> and \<open>Score\<close> then read that state for each
  node. The cycle state is the scheduler framework's: its \<open>Write\<close> and \<open>Read\<close> are the
  parameters of the model, gathered in \<open>cycle_ops\<close>, with the documented behaviour stated by
  the locale \<open>cycle_store\<close>. The Prometheus calls are returned as the list of events.
\<close>

section \<open>Cycle state\<close>

record topology_state =
  ts_preference :: string
  ts_required :: string

text \<open>What a cycle-state entry can hold: this plugin's state, or a value of another type.\<close>

datatype state_data = TopologyState topology_state | OtherState string

record 'c cycle_ops =
  cs_write :: "string \<Rightarrow> state_data \<Rightarrow> 'c \<Rightarrow> 'c"
  cs_read :: "'c \<Rightarrow> string \<Rightarrow> state_data option"

definition plugin_name :: string where "plugin_name = ''GPUTopology''"
definition topology_state_key :: string where "topology_state_key = plugin_name"

definition clone :: "topology_state \<Rightarrow> state_data" where
  "clone s = TopologyState \<lparr>ts_preference = ts_preference s, ts_required = ts_required s\<rparr>"

datatype status_code = StatusError | Unschedulable

text \<open>A nil \<open>*fwk.Status\<close> is success, here \<open>None\<close>.\<close>

datatype status = Status status_code string

record node_info =
  ni_node :: "node option"
  ni_string :: string

section \<open>Metrics\<close>

datatype plugin_event =
    ScoreEvaluation string
  | ScoreDuration string
  | TopologyObservation string string
  | PluginError string string

definition score_success :: string where "score_success = ''success''"
definition score_error :: string where "score_error = ''error''"
definition error_operation_score :: string where "error_operation_score = ''score''"
definition error_reason_node_missing :: string where
  "error_reason_node_missing = ''node_missing''"

definition normalize_preference :: "string \<Rightarrow> string" where
  "normalize_preference value =
     (if value = [] \<or> value = ''any'' then ''any''
      else if value = ''nvlink'' \<or> value = ''pcie'' \<or> value = ''same-rack'' then value
      else ''other'')"

definition normalize_topology_class :: "string \<Rightarrow> string" where
  "normalize_topology_class value =
     (if value = [] then ''missing''
      else if value = ''nvlink-capable'' \<or> value = ''pcie-only'' then value
      else ''other'')"

text \<open>The plugin; its \<open>metrics\<close> pointer is nil when built by \<open>New\<close>.\<close>

record plugin =
  has_metrics :: bool

definition new_plugin :: plugin where "new_plugin = \<lparr>has_metrics = False\<rparr>"

definition new_factory :: "bool \<Rightarrow> plugin" where
  "new_factory metrics = \<lparr>has_metrics = metrics\<rparr>"

definition observe_score :: "plugin \<Rightarrow> string \<Rightarrow> string \<Rightarrow> string \<Rightarrow> plugin_event list" where
  "observe_score p result preference topology_class =
     (if \<not> has_metrics p then []
      else [ScoreEvaluation result, ScoreDuration result] @
        (if result = score_success
         then [TopologyObservation (normalize_preference preference)
                 (normalize_topology_class topology_class)]
         else []))"

definition record_plugin_error :: "plugin \<Rightarrow> string \<Rightarrow> plugin_event list" where
  "record_plugin_error p reason =
     (if has_metrics p then [PluginError error_operation_score reason] else [])"

section \<open>The extension points\<close>

definition topology_state_from_pod :: "pod \<Rightarrow> topology_state" where
  "topology_state_from_pod pod =
     \<lparr>ts_preference = go_lookup (nilmap (m_annotations (p_meta pod))) preference_annotation,
      ts_required =
        go_lookup (nilmap (m_annotations (p_meta pod))) required_topology_class_annotation\<rparr>"

text \<open>\<open>PreFilter\<close> returns a nil result and a nil status, \<open>PreScore\<close> a nil status.\<close>

definition pre_filter :: "'c cycle_ops \<Rightarrow> 'c \<Rightarrow> pod \<Rightarrow> status option \<times> 'c" where
  "pre_filter ops state pod =
     (None, cs_write ops topology_state_key (TopologyState (topology_state_from_pod pod)) state)"

definition pre_score :: "'c cycle_ops \<Rightarrow> 'c \<Rightarrow> pod \<Rightarrow> status option \<times> 'c" where
  "pre_score ops state pod =
     (None, cs_write ops topology_state_key (TopologyState (topology_state_from_pod pod)) state)"

definition topology_state_from_cycle :: "'c cycle_ops \<Rightarrow> 'c \<Rightarrow> status + topology_state" where
  "topology_state_from_cycle ops state =
     (case cs_read ops state topology_state_key of
        None \<Rightarrow> Inl (Status StatusError ''GPU topology cycle state not found'')
      | Some (TopologyState intent) \<Rightarrow> Inr intent
      | Some (OtherState _) \<Rightarrow>
          Inl (Status StatusError ''GPU topology cycle state has unexpected type''))"

definition node_topology_class :: "strmap option \<Rightarrow> string" where
  "node_topology_class labels = go_lookup (nilmap labels) gpu_topology_class_label"

definition observe_filter_and_score ::
    "plugin \<Rightarrow> topology_state \<Rightarrow> node_info \<Rightarrow> (status + node) \<times> plugin_event list" where
  "observe_filter_and_score p intent info =
     (case ni_node info of
        None \<Rightarrow> (Inl (Status StatusError (''node not found in '' @ ni_string info)),
          record_plugin_error p error_reason_node_missing @
          observe_score p score_error (ts_preference intent) [])
      | Some node \<Rightarrow> (Inr node,
          observe_score p score_success (ts_preference intent)
            (node_topology_class (m_labels (n_meta node)))))"

definition topology_requirement_status :: "string \<Rightarrow> strmap option \<Rightarrow> status option" where
  "topology_requirement_status want labels =
     (if want = [] \<or> want = ''any'' then None
      else if want = topology_nvlink then
        (if node_topology_class labels = topology_class_nvlink_capable then None
         else Some (Status Unschedulable
                (''requires GPU topology compatible with '' @ topology_nvlink)))
      else if want = topology_pcie then
        (let class = node_topology_class labels in
         if class = topology_class_nvlink_capable \<or> class = topology_class_pcie_only then None
         else Some (Status Unschedulable
                (''requires GPU topology compatible with '' @ topology_pcie)))
      else None)"

definition max_node_score :: int64 where "max_node_score = 100"

definition topology_preference_score :: "string \<Rightarrow> strmap option \<Rightarrow> int64" where
  "topology_preference_score want labels =
     (let class = node_topology_class labels in
      if want = topology_nvlink then
        (if class = topology_class_nvlink_capable then max_node_score
         else if class = topology_class_pcie_only then 50 else 0)
      else if want = topology_pcie then
        (if class = topology_class_nvlink_capable then max_node_score
         else if class = topology_class_pcie_only then 80 else 0)
      else 0)"

definition plugin_filter ::
    "plugin \<Rightarrow> 'c cycle_ops \<Rightarrow> 'c \<Rightarrow> node_info \<Rightarrow> status option \<times> plugin_event list" where
  "plugin_filter p ops state info =
     (case topology_state_from_cycle ops state of
        Inl status \<Rightarrow> (Some status, [])
      | Inr intent \<Rightarrow>
          (case observe_filter_and_score p intent info of
             (Inl status, events) \<Rightarrow> (Some status, events)
           | (Inr node, events) \<Rightarrow>
               (topology_requirement_status (ts_required intent) (m_labels (n_meta node)), events)))"

definition plugin_score ::
    "plugin \<Rightarrow> 'c cycle_ops \<Rightarrow> 'c \<Rightarrow> node_info
      \<Rightarrow> (int64 \<times> status option) \<times> plugin_event list" where
  "plugin_score p ops state info =
     (case topology_state_from_cycle ops state of
        Inl status \<Rightarrow> ((0, Some status), [])
      | Inr intent \<Rightarrow>
          (case observe_filter_and_score p intent info of
             (Inl status, events) \<Rightarrow> ((0, Some status), events)
           | (Inr node, events) \<Rightarrow>
               ((topology_preference_score (ts_preference intent) (m_labels (n_meta node)), None),
                events)))"

section \<open>The framework's cycle state\<close>

text \<open>
  Documented behaviour of the framework's \<open>CycleState\<close>: a read returns what was last written
  under its key, and a write under one key leaves the others alone.
\<close>

locale cycle_store =
  fixes ops :: "'c cycle_ops"
  assumes read_write: "cs_read ops (cs_write ops k d c) k = Some d"
    and read_write_other: "k' \<noteq> k \<Longrightarrow> cs_read ops (cs_write ops k d c) k' = cs_read ops c k'"
begin

lemma read_other_writes:
  "(\<forall>(k, d) \<in> set ws. k \<noteq> key) \<Longrightarrow>
     cs_read ops (fold (\<lambda>(k, d). cs_write ops k d) ws c) key = cs_read ops c key"
proof (induction ws arbitrary: c)
  case Nil
  then show ?case by simp
next
  case (Cons w ws)
  then show ?case by (cases w) (auto simp: read_write_other)
qed

lemma intent_after_write:
  assumes "\<forall>(k, d) \<in> set ws. k \<noteq> topology_state_key"
  shows "topology_state_from_cycle ops
           (fold (\<lambda>(k, d). cs_write ops k d) ws
             (cs_write ops topology_state_key (TopologyState s) c)) = Inr s"
  by (simp add: topology_state_from_cycle_def read_other_writes [OF assms] read_write)

lemmas intent_after_pre_filter = intent_after_write [folded pre_filter_def]

end

text \<open>A cycle state that is a map, as the framework's own is.\<close>

definition map_cycle_ops :: "(string \<rightharpoonup> state_data) cycle_ops" where
  "map_cycle_ops = \<lparr>cs_write = (\<lambda>k d c. c(k \<mapsto> d)), cs_read = (\<lambda>c k. c k)\<rparr>"

interpretation map_cycle: cycle_store map_cycle_ops
  by unfold_locales (simp_all add: map_cycle_ops_def)

text \<open>Writes of other plugins, which use their own keys, in between.\<close>

definition other_writes :: "(string \<times> state_data) list \<Rightarrow> bool" where
  "other_writes ws \<longleftrightarrow> (\<forall>(k, d) \<in> set ws. k \<noteq> topology_state_key)"

definition run_writes :: "'c cycle_ops \<Rightarrow> (string \<times> state_data) list \<Rightarrow> 'c \<Rightarrow> 'c" where
  "run_writes ops ws c = fold (\<lambda>(k, d). cs_write ops k d) ws c"

lemma intent_survives:
  assumes "cycle_store ops" and "other_writes ws"
  shows "topology_state_from_cycle ops (run_writes ops ws (snd (pre_filter ops c pod)))
           = Inr (topology_state_from_pod pod)"
    and "topology_state_from_cycle ops (run_writes ops ws (snd (pre_score ops c pod)))
           = Inr (topology_state_from_pod pod)"
  using assms cycle_store.intent_after_write [OF assms(1)]
  by (simp_all add: run_writes_def other_writes_def pre_filter_def pre_score_def)

section \<open>What the extension points share\<close>

text \<open>
  \<open>Filter\<close> and \<open>Score\<close> follow one protocol: no intent in the cycle state is an error with no
  metrics, a missing node is an error with one observation, and otherwise the answer depends on
  the intent and the node only. \<open>failed\<close> and \<open>answer\<close> are the two shapes of the result.
\<close>

locale extension_point =
  fixes p :: plugin
    and intent_of :: "'c \<Rightarrow> status + topology_state"
    and run :: "'c \<Rightarrow> node_info \<Rightarrow> 'r \<times> plugin_event list"
    and failed :: "status \<Rightarrow> 'r"
    and answer :: "topology_state \<Rightarrow> node \<Rightarrow> 'r"
  assumes no_intent: "intent_of c = Inl s \<Longrightarrow> run c info = (failed s, [])"
    and no_node: "intent_of c = Inr i \<Longrightarrow> ni_node info = None \<Longrightarrow>
      run c info = (failed (Status StatusError (''node not found in '' @ ni_string info)),
        record_plugin_error p error_reason_node_missing @
        observe_score p score_error (ts_preference i) [])"
    and with_node: "intent_of c = Inr i \<Longrightarrow> ni_node info = Some n \<Longrightarrow>
      run c info = (answer i n, observe_score p score_success (ts_preference i)
        (node_topology_class (m_labels (n_meta n))))"
begin

lemma run_cases:
  obtains (intent) s where "intent_of c = Inl s" "run c info = (failed s, [])"
  | (missing) i where "intent_of c = Inr i" "ni_node info = None"
      "run c info = (failed (Status StatusError (''node not found in '' @ ni_string info)),
        record_plugin_error p error_reason_node_missing @
        observe_score p score_error (ts_preference i) [])"
  | (node) i n where "intent_of c = Inr i" "ni_node info = Some n"
      "run c info = (answer i n, observe_score p score_success (ts_preference i)
        (node_topology_class (m_labels (n_meta n))))"
proof (cases "intent_of c")
  case (Inl s)
  then show ?thesis using intent no_intent by blast
next
  case (Inr i)
  then show ?thesis
    by (cases "ni_node info") (use missing no_node node with_node in blast)+
qed

lemma no_metrics: "\<not> has_metrics p \<Longrightarrow> snd (run c info) = []"
  by (cases rule: run_cases [of c info])
    (auto simp: record_plugin_error_def observe_score_def)

end

text \<open>The label values a metric may carry.\<close>

fun bounded_event :: "plugin_event \<Rightarrow> bool" where
  "bounded_event (ScoreEvaluation r) \<longleftrightarrow> r \<in> {score_success, score_error}"
| "bounded_event (ScoreDuration r) \<longleftrightarrow> r \<in> {score_success, score_error}"
| "bounded_event (TopologyObservation a b) \<longleftrightarrow>
     a \<in> {''any'', ''nvlink'', ''pcie'', ''same-rack'', ''other''} \<and>
     b \<in> {''missing'', ''nvlink-capable'', ''pcie-only'', ''other''}"
| "bounded_event (PluginError a b) \<longleftrightarrow> a = error_operation_score \<and> b = error_reason_node_missing"

lemma normalize_preference_bounded:
  "normalize_preference v \<in> {''any'', ''nvlink'', ''pcie'', ''same-rack'', ''other''}"
  unfolding normalize_preference_def by simp

lemma normalize_topology_class_bounded:
  "normalize_topology_class v \<in> {''missing'', ''nvlink-capable'', ''pcie-only'', ''other''}"
  unfolding normalize_topology_class_def by simp

lemma observe_score_bounded:
  assumes "r \<in> {score_success, score_error}" and "e \<in> set (observe_score p r a b)"
  shows "bounded_event e"
proof -
  have "e \<in> {ScoreEvaluation r, ScoreDuration r,
      TopologyObservation (normalize_preference a) (normalize_topology_class b)}"
    using assms(2) by (auto simp: observe_score_def split: if_splits)
  then show ?thesis
    using assms(1) normalize_preference_bounded [of a] normalize_topology_class_bounded [of b]
    by fastforce
qed

lemma record_plugin_error_bounded:
  "e \<in> set (record_plugin_error p error_reason_node_missing) \<Longrightarrow> bounded_event e"
  by (auto simp: record_plugin_error_def split: if_splits)

context extension_point
begin

lemma events_bounded: "\<forall>e \<in> set (snd (run c info)). bounded_event e"
proof (cases rule: run_cases [of c info])
  case (missing i)
  then show ?thesis
    using record_plugin_error_bounded observe_score_bounded [of score_error] by auto
next
  case (node i n)
  then show ?thesis using observe_score_bounded [of score_success] by auto
qed simp

lemma evaluations:
  "has_metrics p \<Longrightarrow> intent_of c = Inr i \<Longrightarrow>
     filter (\<lambda>e. case e of ScoreEvaluation _ \<Rightarrow> True | _ \<Rightarrow> False) (snd (run c info))
       = [ScoreEvaluation (if ni_node info = None then score_error else score_success)]"
  by (cases rule: run_cases [of c info])
    (auto simp: observe_score_def record_plugin_error_def score_success_def score_error_def)

end

interpretation filter_point: extension_point p "topology_state_from_cycle ops"
  "plugin_filter p ops" Some
  "\<lambda>i n. topology_requirement_status (ts_required i) (m_labels (n_meta n))"
  for p :: plugin and ops :: "'c cycle_ops"
  by unfold_locales (simp_all add: plugin_filter_def observe_filter_and_score_def)

interpretation score_point: extension_point p "topology_state_from_cycle ops"
  "plugin_score p ops" "\<lambda>s. (0, Some s)"
  "\<lambda>i n. (topology_preference_score (ts_preference i) (m_labels (n_meta n)), None)"
  for p :: plugin and ops :: "'c cycle_ops"
  by unfold_locales (simp_all add: plugin_score_def observe_filter_and_score_def)

section \<open>Topology ranks: the abstract specification\<close>

text \<open>
  The classes form a chain: a node that is NVLink-capable also serves PCIe workloads. A request
  and a node class have a rank in it; \<open>Filter\<close> compares ranks and \<open>Score\<close> orders by them.
\<close>

definition class_rank :: "string \<Rightarrow> nat" where
  "class_rank c = (if c = topology_class_nvlink_capable then 2
     else if c = topology_class_pcie_only then 1 else 0)"

definition request_rank :: "string \<Rightarrow> nat" where
  "request_rank w = (if w = topology_nvlink then 2 else if w = topology_pcie then 1 else 0)"

definition node_rank :: "node \<Rightarrow> nat" where
  "node_rank n = class_rank (node_topology_class (m_labels (n_meta n)))"

lemma requirement_status_rank:
  "topology_requirement_status w l =
     (if request_rank w \<le> class_rank (node_topology_class l) then None
      else Some (Status Unschedulable (''requires GPU topology compatible with '' @ w)))"
proof -
  consider "w = topology_nvlink" | "w = topology_pcie"
    | "w \<noteq> topology_nvlink" "w \<noteq> topology_pcie"
    by blast
  then show ?thesis
    by cases (auto simp: topology_requirement_status_def request_rank_def class_rank_def)
qed

lemma preference_score_rank:
  "topology_preference_score w l =
     (if request_rank w = 0 \<or> class_rank (node_topology_class l) = 0 then 0
      else if class_rank (node_topology_class l) = 2 then max_node_score
      else if request_rank w = 2 then 50 else 80)"
  by (simp add: topology_preference_score_def request_rank_def class_rank_def Let_def)

lemma preference_score_less:
  "0 < request_rank w \<Longrightarrow>
     topology_preference_score w l < topology_preference_score w l' \<longleftrightarrow>
     class_rank (node_topology_class l) < class_rank (node_topology_class l')"
  by (auto simp: preference_score_rank max_node_score_def class_rank_def)

lemma preference_score_zero: "request_rank w = 0 \<Longrightarrow> topology_preference_score w l = 0"
  by (simp add: preference_score_rank)

section \<open>Properties\<close>

text \<open>A Pod with the given annotations and a node of the given class, for the witnesses.\<close>

definition sample_pod :: "string \<Rightarrow> string \<Rightarrow> pod" where
  "sample_pod preference required = \<lparr>p_meta = (new_meta ''worker-0'' ''default'')
      \<lparr>m_annotations := Some [preference_annotation \<mapsto> preference,
         required_topology_class_annotation \<mapsto> required]\<rparr>,
     p_node_name = [], p_containers = [], p_init_containers = [], p_overhead = Map.empty,
     p_phase = ''Pending'', p_conditions = [], p_container_statuses = []\<rparr>"

definition sample_node :: "string \<Rightarrow> node" where
  "sample_node class = \<lparr>n_meta = (new_meta ''node-a'' [])
      \<lparr>m_labels := Some [gpu_topology_class_label \<mapsto> class]\<rparr>, n_allocatable = Map.empty\<rparr>"

definition sample_info :: "string \<Rightarrow> node_info" where
  "sample_info class = \<lparr>ni_node = Some (sample_node class), ni_string = ''node-a''\<rparr>"

lemma sample_simps [simp]:
  "topology_state_from_pod (sample_pod preference required)
     = \<lparr>ts_preference = preference, ts_required = required\<rparr>"
  "ni_node (sample_info class) = Some (sample_node class)"
  "node_rank (sample_node class) = class_rank class"
  by (simp_all add: sample_pod_def sample_node_def sample_info_def topology_state_from_pod_def
      node_rank_def node_topology_class_def)

text \<open>
  C8: after \<open>PreFilter\<close>, and whatever other plugins write to the cycle state, \<open>Filter\<close> on an
  existing node is decided by the ranks of the Pod's required class and of the node's class: it
  succeeds when the node's rank reaches the request's and otherwise rejects the node as
  Unschedulable, naming the requirement.
\<close>

theorem filter_honours_requirement:
  assumes "cycle_store ops" and "other_writes ws" and "ni_node info = Some n"
  shows "fst (plugin_filter p ops (run_writes ops ws (snd (pre_filter ops c pod))) info) =
    (let required = ts_required (topology_state_from_pod pod) in
     if request_rank required \<le> node_rank n then None
     else Some (Status Unschedulable (''requires GPU topology compatible with '' @ required)))"
  using filter_point.with_node [OF intent_survives(1) [OF assms(1,2)] assms(3)]
  by (simp add: requirement_status_rank node_rank_def Let_def)

theorem filter_honours_requirement_witness:
  "fst (plugin_filter \<lparr>has_metrics = True\<rparr> map_cycle_ops
     (run_writes map_cycle_ops [(''Other'', OtherState ''x'')]
       (snd (pre_filter map_cycle_ops Map.empty (sample_pod [] topology_nvlink))))
     (sample_info topology_class_pcie_only))
   = Some (Status Unschedulable (''requires GPU topology compatible with '' @ topology_nvlink))"
proof -
  have "other_writes [(''Other'', OtherState ''x'')]"
    by (simp add: other_writes_def topology_state_key_def plugin_name_def)
  from filter_honours_requirement [OF map_cycle.cycle_store_axioms this,
      where info = "sample_info topology_class_pcie_only"]
  show ?thesis by (simp add: request_rank_def class_rank_def)
qed

text \<open>
  After \<open>PreScore\<close>, \<open>Score\<close> succeeds on every existing node with a value in the
  framework's range \<open>0..MaxNodeScore\<close>; when the Pod prefers a topology, of two nodes the one
  with the higher class rank scores strictly higher; without a known preference every node
  scores \<open>0\<close>, so the plugin does not influence the ranking.
\<close>

lemma score_orders_by_rank:
  assumes "cycle_store ops" and "other_writes ws"
    and "ni_node info = Some n" and "ni_node info' = Some n'"
    and st: "st = run_writes ops ws (snd (pre_score ops c pod))"
  shows "snd (fst (plugin_score p ops st info)) = None \<and>
    fst (fst (plugin_score p ops st info)) \<in> {0..max_node_score} \<and>
    (if 0 < request_rank (ts_preference (topology_state_from_pod pod))
     then (fst (fst (plugin_score p ops st info)) < fst (fst (plugin_score p ops st info'))
           \<longleftrightarrow> node_rank n < node_rank n')
     else fst (fst (plugin_score p ops st info)) = 0)"
proof (intro conjI)
  note intent = intent_survives(2) [OF assms(1,2), of c pod, folded st]
  note eqs = score_point.with_node [OF intent assms(3), of p]
    score_point.with_node [OF intent assms(4), of p]
  show "snd (fst (plugin_score p ops st info)) = None"
    by (simp add: eqs)
  show "fst (fst (plugin_score p ops st info)) \<in> {0..max_node_score}"
    by (simp add: eqs preference_score_rank max_node_score_def)
  show "if 0 < request_rank (ts_preference (topology_state_from_pod pod))
         then (fst (fst (plugin_score p ops st info)) < fst (fst (plugin_score p ops st info'))
               \<longleftrightarrow> node_rank n < node_rank n')
         else fst (fst (plugin_score p ops st info)) = 0"
    by (cases "0 < request_rank (ts_preference (topology_state_from_pod pod))")
      (simp_all add: eqs preference_score_less node_rank_def preference_score_zero)
qed

lemma score_orders_by_rank_example:
  "let st = run_writes map_cycle_ops [] (snd (pre_score map_cycle_ops Map.empty
              (sample_pod topology_pcie [])))
   in fst (fst (plugin_score new_plugin map_cycle_ops st (sample_info topology_class_pcie_only)))
      < fst (fst (plugin_score new_plugin map_cycle_ops st
                    (sample_info topology_class_nvlink_capable)))"
proof -
  have "other_writes []" by (simp add: other_writes_def)
  from score_orders_by_rank [OF map_cycle.cycle_store_axioms this, where p = new_plugin
      and info = "sample_info topology_class_pcie_only"
      and info' = "sample_info topology_class_nvlink_capable"
      and pod = "sample_pod topology_pcie []" and c = Map.empty]
  show ?thesis
    by (simp add: request_rank_def class_rank_def Let_def)
qed

text \<open>
  \<open>Filter\<close> and \<open>Score\<close> agree: if the cycle state holds an intent whose preference equals
  its requirement, a node that passes \<open>Filter\<close> scores strictly higher than a node that
  \<open>Filter\<close> rejects as Unschedulable.
\<close>

lemma feasible_nodes_score_higher:
  assumes "topology_state_from_cycle ops c = Inr intent"
    and "ts_preference intent = ts_required intent"
    and "fst (plugin_filter p ops c info) = None"
    and "ni_node info' = Some n'"
    and "fst (plugin_filter p ops c info') \<noteq> None"
  shows "fst (fst (plugin_score p ops c info')) < fst (fst (plugin_score p ops c info))"
proof -
  obtain n where n: "ni_node info = Some n"
    using assms(1,3) filter_point.no_node [of ops c intent info p]
    by (cases "ni_node info") auto
  note filters = filter_point.with_node [OF assms(1) n, of p]
    filter_point.with_node [OF assms(1,4), of p]
  note scores = score_point.with_node [OF assms(1) n, of p]
    score_point.with_node [OF assms(1,4), of p]
  from assms(3,5) have "request_rank (ts_required intent) \<le> node_rank n"
    and "node_rank n' < request_rank (ts_required intent)"
    by (auto simp: filters requirement_status_rank node_rank_def split: if_splits)
  then show ?thesis
    using preference_score_less [of "ts_required intent"]
    by (simp add: scores assms(2) node_rank_def)
qed

text \<open>
  Every metric either extension point emits carries label values from a fixed finite set,
  whatever the annotations and node labels hold, and with metrics enabled each call that finds
  its intent counts exactly one score evaluation: also a call of \<open>Filter\<close>.
\<close>

lemma metrics_bounded_and_counted:
  assumes i: "topology_state_from_cycle ops c = Inr i"
  shows "(\<forall>e \<in> set (snd (plugin_filter p ops c info)) \<union> set (snd (plugin_score p ops c info)).
            bounded_event e) \<and>
         snd (plugin_score p ops c info) = snd (plugin_filter p ops c info) \<and>
         filter (\<lambda>e. case e of ScoreEvaluation _ \<Rightarrow> True | _ \<Rightarrow> False)
           (snd (plugin_filter p ops c info))
         = (if has_metrics p
            then [ScoreEvaluation (if ni_node info = None then score_error else score_success)]
            else [])"
proof (intro conjI)
  show "\<forall>e \<in> set (snd (plugin_filter p ops c info)) \<union> set (snd (plugin_score p ops c info)).
          bounded_event e"
    using filter_point.events_bounded [of p ops c info]
      score_point.events_bounded [of p ops c info] by blast
  show "snd (plugin_score p ops c info) = snd (plugin_filter p ops c info)"
    by (cases "ni_node info")
      (simp_all add: filter_point.no_node [OF i] score_point.no_node [OF i]
        filter_point.with_node [OF i] score_point.with_node [OF i])
  show "filter (\<lambda>e. case e of ScoreEvaluation _ \<Rightarrow> True | _ \<Rightarrow> False)
      (snd (plugin_filter p ops c info))
    = (if has_metrics p
       then [ScoreEvaluation (if ni_node info = None then score_error else score_success)]
       else [])"
    using filter_point.evaluations [OF _ i, of p info] filter_point.no_metrics [of p ops c info]
    by (cases "has_metrics p") (simp_all split: option.split)
qed

lemma metrics_bounded_and_counted_example:
  "filter (\<lambda>e. case e of ScoreEvaluation _ \<Rightarrow> True | _ \<Rightarrow> False)
     (snd (plugin_filter \<lparr>has_metrics = True\<rparr> map_cycle_ops
        (snd (pre_filter map_cycle_ops Map.empty (sample_pod [] [])))
        (sample_info topology_class_pcie_only)))
   = [ScoreEvaluation score_success]"
  using metrics_bounded_and_counted [where p = "\<lparr>has_metrics = True\<rparr>" and ops = map_cycle_ops
      and c = "snd (pre_filter map_cycle_ops Map.empty (sample_pod [] []))"
      and info = "sample_info topology_class_pcie_only"
      and i = "\<lparr>ts_preference = [], ts_required = []\<rparr>"]
  by (simp add: pre_filter_def map_cycle_ops_def topology_state_from_cycle_def)

end
