(* ===== verification/Metrics_Registration.thy ===== *)
theory Metrics_Registration
  imports Controller_Properties GPU_Topology
begin

text \<open>
  \<open>NewMetrics\<close> of \<open>internal/controller/metrics.go\<close> and \<open>internal/plugin/gputopology/metrics.go\<close>: the
  metrics they register, and the metric each event of the models is counted in. The Prometheus
  registry is kept as the list of registered metrics; it refuses a name it knows, and a vector
  panics on a number of label values other than it declares.
\<close>

section \<open>The registry\<close>

datatype metric_kind = Counter | Histogram

record metric_vec =
  mv_namespace :: string
  mv_subsystem :: string
  mv_name :: string
  mv_kind :: metric_kind
  mv_labels :: "string list"

definition full_name :: "metric_vec \<Rightarrow> string" where
  "full_name m = mv_namespace m @ ''_'' @ mv_subsystem m @ ''_'' @ mv_name m"

text \<open>\<open>MustRegister\<close>; \<open>None\<close> is its panic.\<close>

fun must_register :: "metric_vec list \<Rightarrow> metric_vec list \<Rightarrow> metric_vec list option" where
  "must_register registry [] = Some registry"
| "must_register registry (m # ms) =
     (if full_name m \<in> full_name ` set registry then None else must_register (registry @ [m]) ms)"

section \<open>The controller's metrics\<close>

definition controller_metric :: "string \<Rightarrow> metric_kind \<Rightarrow> string \<Rightarrow> metric_vec" where
  "controller_metric name kind label = \<lparr>mv_namespace = ''aijob'', mv_subsystem = ''controller'',
     mv_name = name, mv_kind = kind, mv_labels = [label]\<rparr>"

definition reconciliations :: metric_vec where
  "reconciliations = controller_metric ''reconciliations_total'' Counter ''result''"
definition errors_total :: metric_vec where
  "errors_total = controller_metric ''errors_total'' Counter ''operation''"
definition jobset_changes :: metric_vec where
  "jobset_changes = controller_metric ''jobset_changes_total'' Counter ''operation''"
definition status_changes :: metric_vec where
  "status_changes = controller_metric ''status_changes_total'' Counter ''result''"
definition reconcile_duration :: metric_vec where
  "reconcile_duration = controller_metric ''reconcile_duration_seconds'' Histogram ''result''"

definition controller_metrics :: "metric_vec list" where
  "controller_metrics = [reconciliations, errors_total, jobset_changes, status_changes, reconcile_duration]"

definition new_controller_metrics :: "metric_vec list \<Rightarrow> metric_vec list option" where
  "new_controller_metrics registry = must_register registry controller_metrics"

text \<open>The vector an event is counted in, with its label values.\<close>

fun controller_target :: "controller_event \<Rightarrow> metric_vec \<times> string list" where
  "controller_target (Reconciliation result) = (reconciliations, [result])"
| "controller_target (ReconcileDuration result) = (reconcile_duration, [result])"
| "controller_target (ControllerError operation) = (errors_total, [operation])"
| "controller_target (JobSetChange operation) = (jobset_changes, [operation])"
| "controller_target (StatusChange result) = (status_changes, [result])"

section \<open>The plugin's metrics\<close>

definition plugin_metric :: "string \<Rightarrow> metric_kind \<Rightarrow> string list \<Rightarrow> metric_vec" where
  "plugin_metric name kind labels = \<lparr>mv_namespace = ''aijob'', mv_subsystem = ''scheduler'',
     mv_name = name, mv_kind = kind, mv_labels = labels\<rparr>"

definition score_evaluations :: metric_vec where
  "score_evaluations = plugin_metric ''score_evaluations_total'' Counter [''result'']"
definition topology_observations :: metric_vec where
  "topology_observations = plugin_metric ''topology_observations_total'' Counter [''preference'', ''topology_class'']"
definition plugin_errors :: metric_vec where
  "plugin_errors = plugin_metric ''errors_total'' Counter [''operation'', ''reason'']"
definition score_duration :: metric_vec where
  "score_duration = plugin_metric ''score_duration_seconds'' Histogram [''result'']"

definition plugin_metrics :: "metric_vec list" where
  "plugin_metrics = [score_evaluations, topology_observations, plugin_errors, score_duration]"

definition new_plugin_metrics :: "metric_vec list \<Rightarrow> metric_vec list option" where
  "new_plugin_metrics registry = must_register registry plugin_metrics"

fun plugin_target :: "plugin_event \<Rightarrow> metric_vec \<times> string list" where
  "plugin_target (ScoreEvaluation result) = (score_evaluations, [result])"
| "plugin_target (ScoreDuration result) = (score_duration, [result])"
| "plugin_target (TopologyObservation preference topology_class) = (topology_observations, [preference, topology_class])"
| "plugin_target (PluginError operation reason) = (plugin_errors, [operation, reason])"

section \<open>The scheduler's command\<close>

text \<open>
  \<open>cmd/scheduler/main.go\<close>: the plugin's metrics go to the registry of kube-scheduler, whose command
  \<open>run_command\<close> gets the plugin under its name; the exit code, or \<open>None\<close> for a panic.
\<close>

definition scheduler_main :: "metric_vec list \<Rightarrow> (string \<Rightarrow> plugin \<Rightarrow> metric_vec list \<Rightarrow> int) \<Rightarrow> int option" where
  "scheduler_main registry run_command =
     map_option (run_command plugin_name (new_factory True)) (new_plugin_metrics registry)"

section \<open>Registration\<close>

lemma must_register_eq:
  "must_register registry ms = (if full_name ` set registry \<inter> full_name ` set ms = {} \<and> distinct (map full_name ms)
     then Some (registry @ ms) else None)"
proof (induction ms arbitrary: registry)
  case (Cons m ms)
  then show ?case by auto
qed simp

lemmas metric_defs = controller_metrics_def reconciliations_def errors_total_def jobset_changes_def status_changes_def
  reconcile_duration_def controller_metric_def plugin_metrics_def score_evaluations_def topology_observations_def
  plugin_errors_def score_duration_def plugin_metric_def

lemma metric_names:
  "map full_name controller_metrics = map (\<lambda>n. ''aijob_controller_'' @ n) [''reconciliations_total'', ''errors_total'',
     ''jobset_changes_total'', ''status_changes_total'', ''reconcile_duration_seconds'']"
  "map full_name plugin_metrics = map (\<lambda>n. ''aijob_scheduler_'' @ n) [''score_evaluations_total'',
     ''topology_observations_total'', ''errors_total'', ''score_duration_seconds'']"
  by (simp_all add: metric_defs full_name_def)


end
