(* ===== verification/Go_Float.thy ===== *)
theory Go_Float
  imports Go_Prelude
begin

text \<open>
  \<open>float64\<close> values are rationals; an operation returns the exact result rounded to the nearest
  number with a 53-bit mantissa, ties to even. The exponent is unbounded, so results must lie in
  the range of normal numbers, as quotients of 64-bit integers do; NaN and infinities, which only
  a division by zero could produce, do not occur in the code modelled.
\<close>

text \<open>The factors by which a fraction \<open>a / b\<close> is scaled into \<open>[2^52, 2^53)\<close>.\<close>

function scale_up :: "nat \<Rightarrow> nat \<Rightarrow> nat" where
  "scale_up a b = (if a = 0 \<or> 2 ^ 52 * b \<le> a then 0 else Suc (scale_up (2 * a) b))"
  by pat_completeness auto
termination
  by (relation "measure (\<lambda>(a, b). 2 ^ 52 * b - a)") auto

function scale_down :: "nat \<Rightarrow> nat \<Rightarrow> nat" where
  "scale_down a b = (if b = 0 \<or> a < 2 ^ 53 * b then 0 else Suc (scale_down a (2 * b)))"
  by pat_completeness auto
termination
  by (relation "measure (\<lambda>(a, b). Suc a - 2 ^ 53 * b)") auto

declare scale_up.simps [simp del] scale_down.simps [simp del]

definition round_half_even :: "nat \<Rightarrow> nat \<Rightarrow> nat" where
  "round_half_even a b = (let q = a div b; r = a mod b in
     if 2 * r < b then q else if b < 2 * r then q + 1 else if even q then q else q + 1)"

definition f64_round_fraction :: "nat \<Rightarrow> nat \<Rightarrow> rat" where
  "f64_round_fraction a b = (let s = scale_up a b; t = scale_down (2 ^ s * a) b in
     of_nat (round_half_even (2 ^ s * a) (2 ^ t * b)) * 2 ^ t / 2 ^ s)"

definition f64_round :: "rat \<Rightarrow> rat" where
  "f64_round x = (case quotient_of x of (p, q) \<Rightarrow>
     of_int (sgn p) * f64_round_fraction (nat \<bar>p\<bar>) (nat q))"

definition f64_of_int :: "int \<Rightarrow> rat" where "f64_of_int n = f64_round (of_int n)"
definition f64_div :: "rat \<Rightarrow> rat \<Rightarrow> rat" where "f64_div x y = f64_round (x / y)"
definition f64_mul :: "rat \<Rightarrow> rat \<Rightarrow> rat" where "f64_mul x y = f64_round (x * y)"
definition f64_add :: "rat \<Rightarrow> rat \<Rightarrow> rat" where "f64_add x y = f64_round (x + y)"

section \<open>Bounds\<close>

lemma round_half_even_le: "0 < b \<Longrightarrow> a \<le> n * b \<Longrightarrow> round_half_even a b \<le> n"
proof -
  assume b: "0 < b" and a: "a \<le> n * b"
  have q: "a div b \<le> n"
    using a b by (metis div_le_mono nonzero_mult_div_cancel_right not_gr_zero)
  show ?thesis
  proof (cases "a div b = n")
    case True
    then have "a mod b = 0" using a b
      by (metis add_diff_cancel_left' diff_is_0_eq div_mult_mod_eq)
    then show ?thesis using True b by (simp add: round_half_even_def)
  next
    case False
    then show ?thesis using q by (simp add: round_half_even_def Let_def)
  qed
qed

lemma round_half_even_exact: "0 < b \<Longrightarrow> round_half_even (n * b) b = n"
  by (simp add: round_half_even_def)

lemma scale_up_bound:
  assumes "0 < a" and "a < 2 ^ 53 * b"
  shows "2 ^ scale_up a b * a < 2 ^ 53 * b"
  using assms
proof (induction a b rule: scale_up.induct)
  case (1 a b)
  show ?case
  proof (cases "2 ^ 52 * b \<le> a")
    case True
    then show ?thesis using 1 by (simp add: scale_up.simps [of a b])
  next
    case False
    then have "2 ^ scale_up (2 * a) b * (2 * a) < 2 ^ 53 * b"
      using 1 by simp
    then show ?thesis
      using False 1 by (simp add: scale_up.simps [of a b] mult.assoc mult.left_commute)
  qed
qed

lemma f64_round_fraction_le:
  assumes "a \<le> b" and "0 < b"
  shows "f64_round_fraction a b \<le> 1"
proof (cases "a = 0")
  case True
  then show ?thesis
    using assms by (simp add: f64_round_fraction_def round_half_even_def Let_def)
next
  case False
  let ?s = "scale_up a b"
  have "2 ^ ?s * a < 2 ^ 53 * b"
    by (rule scale_up_bound) (use False assms in auto)
  then have t: "scale_down (2 ^ ?s * a) b = 0"
    by (simp add: scale_down.simps [of "2 ^ ?s * a" b])
  have "round_half_even (2 ^ ?s * a) b \<le> 2 ^ ?s"
    by (rule round_half_even_le) (use assms in auto)
  then have "of_nat (round_half_even (2 ^ ?s * a) b) \<le> (of_nat (2 ^ ?s) :: rat)"
    by (simp only: of_nat_le_iff)
  then show ?thesis
    by (simp add: f64_round_fraction_def t Let_def divide_le_eq)
qed

lemma f64_round_fraction_nonneg: "0 \<le> f64_round_fraction a b"
  by (simp add: f64_round_fraction_def Let_def)

lemma f64_round_unit:
  assumes "0 \<le> x" and "x \<le> 1"
  shows "0 \<le> f64_round x \<and> f64_round x \<le> 1"
proof -
  obtain p q where pq: "quotient_of x = (p, q)" by fastforce
  then have q: "0 < q" and x: "x = of_int p / of_int q"
    by (auto simp: quotient_of_denom_pos quotient_of_div)
  then have "0 \<le> p" "p \<le> q"
    using assms by (simp_all add: zero_le_divide_iff divide_le_eq)
  then show ?thesis
    using f64_round_fraction_le [of "nat p" "nat q"] f64_round_fraction_nonneg [of "nat p" "nat q"] q
    by (cases "p = 0") (simp_all add: f64_round_def pq nat_le_iff)
qed

lemma f64_round_nonneg:
  assumes "0 \<le> x"
  shows "0 \<le> f64_round x"
proof -
  obtain p q where pq: "quotient_of x = (p, q)" by fastforce
  then have "0 < q" "x = of_int p / of_int q"
    by (auto simp: quotient_of_denom_pos quotient_of_div)
  then have "0 \<le> p" using assms by (simp add: zero_le_divide_iff)
  then show ?thesis
    using f64_round_fraction_nonneg [of "nat \<bar>p\<bar>" "nat q"]
    by (cases "p = 0") (simp_all add: f64_round_def pq)
qed

lemma f64_round_nat:
  assumes "a < 2 ^ 53"
  shows "f64_round_fraction a 1 = of_nat a"
proof (cases "a = 0")
  case True
  then show ?thesis by (simp add: f64_round_fraction_def round_half_even_def Let_def)
next
  case False
  let ?s = "scale_up a 1"
  have "2 ^ ?s * a < 2 ^ 53 * 1"
    by (rule scale_up_bound) (use False assms in auto)
  then have "scale_down (2 ^ ?s * a) 1 = 0"
    by (subst scale_down.simps) simp
  moreover have "round_half_even (2 ^ ?s * a) 1 = 2 ^ ?s * a"
    using round_half_even_exact [of 1 "2 ^ ?s * a"] by simp
  ultimately show ?thesis
    unfolding f64_round_fraction_def Let_def by simp
qed

text \<open>Integers below \<open>2^53\<close> in size are represented exactly.\<close>

lemma f64_of_int_exact: "\<bar>n\<bar> < 2 ^ 53 \<Longrightarrow> f64_of_int n = of_int n"
proof -
  assume n: "\<bar>n\<bar> < 2 ^ 53"
  have "f64_round_fraction (nat \<bar>n\<bar>) 1 = of_nat (nat \<bar>n\<bar>)"
    by (rule f64_round_nat) (use n in \<open>simp add: nat_less_iff\<close>)
  then have "f64_of_int n = of_int (sgn n * \<bar>n\<bar>)"
    unfolding of_int_mult by (simp add: f64_of_int_def f64_round_def)
  then show ?thesis by (simp add: sgn_mult_abs)
qed

end
