(* ===== verification/Go_Time.thy ===== *)
theory Go_Time
  imports Go_Text Go_Float
begin

text \<open>
  \<open>time.Duration\<close>: its text form and \<open>time.ParseDuration\<close>, as the Go standard library
  computes them. A duration is an \<open>int64\<close> number of nanoseconds.
\<close>

section \<open>Printing\<close>

text \<open>
  \<open>fmtFrac\<close>: the last \<open>prec\<close> decimal digits of \<open>v\<close> after a point, without trailing zeros, and
  the remaining number.
\<close>

fun fmt_frac :: "nat \<Rightarrow> bool \<Rightarrow> nat \<Rightarrow> string \<Rightarrow> string \<times> nat" where
  "fmt_frac 0 p v acc = ((if p then CHR ''.'' # acc else acc), v)"
| "fmt_frac (Suc i) p v acc =
     (let digit = v mod 10; p' = p \<or> digit \<noteq> 0
      in fmt_frac i p' (v div 10) (if p' then digit_char digit # acc else acc))"

definition fmt_units :: "nat \<Rightarrow> nat \<Rightarrow> string \<Rightarrow> string" where
  "fmt_units prec u suffix =
     (case fmt_frac prec False u [] of (fr, n) \<Rightarrow> show_nat n @ fr @ suffix)"

definition micro_sign :: string where "micro_sign = [CHR 0xC2, CHR 0xB5]"

text \<open>The text of \<open>u\<close> nanoseconds; below a second in a smaller unit.\<close>

definition duration_text :: "nat \<Rightarrow> string" where
  "duration_text u =
     (if u = 0 then ''0s''
      else if u < 10 ^ 3 then fmt_units 0 u ''ns''
      else if u < 10 ^ 6 then fmt_units 3 u (micro_sign @ ''s'')
      else if u < 10 ^ 9 then fmt_units 6 u ''ms''
      else (case fmt_frac 9 False u [] of (fr, secs) \<Rightarrow>
        (let mins = secs div 60; hours = mins div 60
         in (if mins = 0 then []
             else (if hours = 0 then [] else show_nat hours @ ''h'') @
               show_nat (mins mod 60) @ ''m'') @
            show_nat (secs mod 60) @ fr @ ''s'')))"

definition duration_string :: "int64 \<Rightarrow> string" where
  "duration_string d =
     (if d < 0 then CHR ''-'' # duration_text (nat (- d)) else duration_text (nat d))"

text \<open>\<open>d.Seconds()\<close>.\<close>

definition duration_seconds :: "int64 \<Rightarrow> rat" where
  "duration_seconds d =
     (let sec = go_div d (10 ^ 9); nsec = d - sec * 10 ^ 9
      in f64_add (f64_of_int sec) (f64_div (f64_of_int nsec) (10 ^ 9)))"

section \<open>Parsing\<close>

fun leading_int :: "nat \<Rightarrow> string \<Rightarrow> (nat \<times> string) option" where
  "leading_int x [] = Some (x, [])"
| "leading_int x (c # s) =
     (if \<not> is_digit c then Some (x, c # s)
      else if x > 2 ^ 63 div 10 then None
      else let y = x * 10 + digit_val c in if y > 2 ^ 63 then None else leading_int y s)"

fun leading_fraction :: "bool \<Rightarrow> nat \<Rightarrow> rat \<Rightarrow> string \<Rightarrow> nat \<times> rat \<times> string" where
  "leading_fraction overflow x scale [] = (x, scale, [])"
| "leading_fraction overflow x scale (c # s) =
     (if \<not> is_digit c then (x, scale, c # s)
      else if overflow then leading_fraction True x scale s
      else if x > (2 ^ 63 - 1) div 10 then leading_fraction True x scale s
      else let y = x * 10 + digit_val c in
        if y > 2 ^ 63 then leading_fraction True x scale s
        else leading_fraction False y (f64_mul scale 10) s)"

definition unit_map :: "(string \<times> nat) list" where
  "unit_map = [(''ns'', 1), (''us'', 10 ^ 3), (micro_sign @ ''s'', 10 ^ 3),
     ([CHR 0xCE, CHR 0xBC] @ ''s'', 10 ^ 3), (''ms'', 10 ^ 6), (''s'', 10 ^ 9),
     (''m'', 60 * 10 ^ 9), (''h'', 3600 * 10 ^ 9)]"

definition unit_char :: "char \<Rightarrow> bool" where
  "unit_char c \<longleftrightarrow> c \<noteq> CHR ''.'' \<and> \<not> is_digit c"

text \<open>One number with its unit: its value in nanoseconds and the rest of the string.\<close>

definition parse_unit :: "string \<Rightarrow> (nat \<times> string) option" where
  "parse_unit s =
     (if s = [] \<or> \<not> (hd s = CHR ''.'' \<or> is_digit (hd s)) then None
      else case leading_int 0 s of
        None \<Rightarrow> None
      | Some (v, s1) \<Rightarrow>
          (let pre = length s1 \<noteq> length s;
               (f, scale, s2) = (if s1 \<noteq> [] \<and> hd s1 = CHR ''.''
                 then leading_fraction False 0 1 (tl s1) else (0, 1, s1));
               post = (s1 \<noteq> [] \<and> hd s1 = CHR ''.'' \<and> length s2 \<noteq> length (tl s1));
               u = takeWhile unit_char s2;
               s3 = dropWhile unit_char s2
           in if \<not> pre \<and> \<not> post then None
              else if u = [] then None
              else case map_of unit_map u of
                None \<Rightarrow> None
              | Some unit \<Rightarrow>
                  (if v > 2 ^ 63 div unit then None
                   else let v' = v * unit + (if f > 0 then
                          nat \<lfloor>f64_mul (f64_of_int (int f)) (f64_div (of_nat unit) scale)\<rfloor> else 0)
                     in if v' > 2 ^ 63 then None else Some (v', s3))))"

lemma leading_int_shrinks: "leading_int x s = Some (v, r) \<Longrightarrow> length r \<le> length s"
  by (induction x s rule: leading_int.induct) (auto simp: Let_def split: if_splits)

lemma leading_fraction_shrinks:
  "leading_fraction b x sc s = (f, sc', r) \<Longrightarrow> length r \<le> length s"
proof (induction b x sc s arbitrary: f sc' r rule: leading_fraction.induct)
  case (2 b x sc c s)
  note run = "2.prems"
  consider (stop) "r = c # s"
    | (skip) "is_digit c" "b \<or> x > (2 ^ 63 - 1) div 10 \<or> x * 10 + digit_val c > 2 ^ 63"
        "leading_fraction True x sc s = (f, sc', r)"
    | (next_digit) "is_digit c" "\<not> b" "\<not> x > (2 ^ 63 - 1) div 10" "\<not> x * 10 + digit_val c > 2 ^ 63"
        "leading_fraction False (x * 10 + digit_val c) (f64_mul sc 10) s = (f, sc', r)"
    using run unfolding leading_fraction.simps Let_def by (metis prod.inject)
  then show ?case
  proof cases
    case skip
    then have "length r \<le> length s" using "2.IH" by blast
    then show ?thesis by simp
  next
    case next_digit
    then have "length r \<le> length s" using "2.IH"(4) by blast
    then show ?thesis by simp
  qed simp
qed simp

lemma parse_unit_shrinks: "parse_unit s = Some (v, r) \<Longrightarrow> length r < length s"
proof -
  assume run: "parse_unit s = Some (v, r)"
  obtain v1 s1 where lead: "leading_int 0 s = Some (v1, s1)"
    using run unfolding parse_unit_def by (cases "leading_int 0 s") (auto split: if_splits)
  obtain f sc s2 where split: "(if s1 \<noteq> [] \<and> hd s1 = CHR ''.''
      then leading_fraction False 0 1 (tl s1) else (0, 1, s1)) = (f, sc, s2)"
    by (metis prod.exhaust)
  have u: "takeWhile unit_char s2 \<noteq> []" and r: "r = dropWhile unit_char s2"
    using run unfolding parse_unit_def lead Let_def option.case prod.case split
    by (simp_all split: if_split_asm option.split_asm)
  have "length s2 \<le> length s1"
    using split leading_fraction_shrinks [of False 0 1 "tl s1" f sc s2] by (auto split: if_splits)
  moreover have "length s2 = length (takeWhile unit_char s2) + length r"
    unfolding r by (metis length_append takeWhile_dropWhile_id)
  ultimately show ?thesis using leading_int_shrinks [OF lead] u by (simp flip: length_greater_0_conv)
qed

text \<open>The loop; the sum \<open>d\<close> is a \<open>uint64\<close>.\<close>

function parse_units :: "string \<Rightarrow> nat \<Rightarrow> nat option" where
  "parse_units s d = (if s = [] then Some d else case parse_unit s of
      None \<Rightarrow> None
    | Some (v, r) \<Rightarrow> (let d' = (d + v) mod 2 ^ 64 in
        if d' > 2 ^ 63 then None else parse_units r d'))"
  by pat_completeness auto
termination
  by (relation "measure (\<lambda>(s, d). length s)") (auto simp: parse_unit_shrinks)

declare parse_units.simps [simp del]

definition parse_duration :: "string \<Rightarrow> int64 option" where
  "parse_duration orig =
     (let neg = (orig \<noteq> [] \<and> hd orig = CHR ''-'');
          s = (if orig \<noteq> [] \<and> (hd orig = CHR ''-'' \<or> hd orig = CHR ''+'') then tl orig else orig)
      in if s = ''0'' then Some 0
         else if s = [] then None
         else case parse_units s 0 of
           None \<Rightarrow> None
         | Some d \<Rightarrow> if neg then Some (- int d)
             else if d > 2 ^ 63 - 1 then None else Some (int d))"

section \<open>Printing and parsing\<close>

lemma read_nat_foldl: "foldl (\<lambda>n c. n * 10 + digit_val c) x ds = x * 10 ^ length ds + read_nat ds"
proof (induction ds arbitrary: x)
  case (Cons c ds)
  have "read_nat (c # ds) = foldl (\<lambda>n c. n * 10 + digit_val c) (digit_val c) ds"
    by (simp add: read_nat_def)
  then show ?case using Cons [of "x * 10 + digit_val c"] Cons [of "digit_val c"]
    by (simp add: algebra_simps)
qed (simp add: read_nat_def)

lemma read_nat_Nil [simp]: "read_nat [] = 0"
  by (simp add: read_nat_def)

lemma read_nat_Cons: "read_nat (c # ds) = digit_val c * 10 ^ length ds + read_nat ds"
  using read_nat_foldl [of "digit_val c" ds] by (simp add: read_nat_def)

definition no_digit :: "string \<Rightarrow> bool" where
  "no_digit r \<longleftrightarrow> r = [] \<or> \<not> is_digit (hd r)"

lemma leading_int_digits:
  assumes "list_all is_digit ds" and "no_digit r" and "x * 10 ^ length ds + read_nat ds \<le> 2 ^ 63"
  shows "leading_int x (ds @ r) = Some (x * 10 ^ length ds + read_nat ds, r)"
  using assms
proof (induction ds arbitrary: x)
  case Nil
  then show ?case by (cases r) (auto simp: no_digit_def)
next
  case (Cons c ds)
  let ?y = "x * 10 + digit_val c"
  have val: "x * 10 ^ length (c # ds) + read_nat (c # ds) = ?y * 10 ^ length ds + read_nat ds"
    by (simp add: read_nat_Cons algebra_simps)
  have "?y \<le> ?y * 10 ^ length ds" by simp
  then have y: "?y \<le> 2 ^ 63" using Cons.prems(3) val by linarith
  then have "\<not> x > 2 ^ 63 div 10" by simp
  then show ?case using Cons.IH [of ?y] Cons.prems y val by (simp add: Let_def)
qed

lemma f64_round_nat': "x = of_nat n \<Longrightarrow> n < 2 ^ 53 \<Longrightarrow> f64_round x = of_nat n"
  using f64_of_int_exact [of "int n"] by (simp add: f64_of_int_def)

lemma scale_exact: "10 * n < 2 ^ 53 \<Longrightarrow> f64_mul (of_nat n) 10 = of_nat (10 * n)"
  unfolding f64_mul_def by (rule f64_round_nat') simp_all

lemma leading_fraction_digits:
  assumes "list_all is_digit ds" and "no_digit r" and "j + length ds \<le> 9" and "x < 10 ^ j"
  shows "leading_fraction False x (of_nat (10 ^ j)) (ds @ r)
    = (x * 10 ^ length ds + read_nat ds, of_nat (10 ^ (j + length ds)), r)"
  using assms
proof (induction ds arbitrary: x j)
  case Nil
  then show ?case by (cases r) (auto simp: no_digit_def)
next
  case (Cons c ds)
  let ?y = "x * 10 + digit_val c"
  have "(10::nat) ^ j \<le> 10 ^ 8" by (rule power_increasing) (use Cons.prems in auto)
  then have small: "10 * 10 ^ j < (2::nat) ^ 53" "x < 10 ^ 8" using Cons.prems(4) by simp_all
  have d: "digit_val c < 10" using Cons.prems(1) by (auto simp: is_digit_def digit_val_def)
  then have "?y < 10 ^ Suc j" using Cons.prems(4) by simp
  moreover have "f64_mul (of_nat (10 ^ j)) 10 = of_nat (10 ^ Suc j)"
    using scale_exact [OF small(1)] by simp
  ultimately have "leading_fraction False x (of_nat (10 ^ j)) ((c # ds) @ r)
      = leading_fraction False ?y (of_nat (10 ^ Suc j)) (ds @ r)"
    using Cons.prems(1) small(2) d by (simp add: Let_def)
  also have "\<dots> = (?y * 10 ^ length ds + read_nat ds, of_nat (10 ^ (Suc j + length ds)), r)"
    by (rule Cons.IH) (use Cons.prems \<open>?y < 10 ^ Suc j\<close> in auto)
  finally show ?case by (simp add: read_nat_Cons algebra_simps)
qed

text \<open>What \<open>fmtFrac\<close> prints.\<close>

lemma fmt_frac_spec:
  assumes "p \<longleftrightarrow> acc \<noteq> []" and "list_all is_digit acc"
  shows "\<exists>t. fmt_frac i p v acc = (t, v div 10 ^ i) \<and>
    (t = [] \<and> acc = [] \<and> v mod 10 ^ i = 0 \<or>
     (\<exists>ds. t = CHR ''.'' # ds \<and> list_all is_digit ds \<and> ds \<noteq> [] \<and>
       (if acc = [] then length ds \<le> i \<and> read_nat ds * 10 ^ (i - length ds) = v mod 10 ^ i
        else length ds = i + length acc \<and>
          read_nat ds = (v mod 10 ^ i) * 10 ^ length acc + read_nat acc)))"
  using assms
proof (induction i arbitrary: p v acc)
  case (Suc i)
  let ?d = "v mod 10" and ?v = "v div 10"
  have split: "v mod 10 ^ Suc i = 10 * (?v mod 10 ^ i) + ?d"
    using mod_mult2_eq [of v 10 "10 ^ i"] by simp
  have quot: "v div 10 ^ Suc i = ?v div 10 ^ i" by (simp add: div_mult2_eq)
  show ?case
  proof (cases "p \<or> ?d \<noteq> 0")
    case True
    then have "fmt_frac (Suc i) p v acc = fmt_frac i True ?v (digit_char ?d # acc)"
      by (auto simp: Let_def)
    with Suc.IH [of True "digit_char ?d # acc" ?v] Suc.prems quot
    obtain ds where run: "fmt_frac (Suc i) p v acc = (CHR ''.'' # ds, v div 10 ^ Suc i)"
      and ds: "list_all is_digit ds" "length ds = i + Suc (length acc)"
        "read_nat ds = (?v mod 10 ^ i) * 10 ^ Suc (length acc) + read_nat (digit_char ?d # acc)"
      by auto
    have "read_nat ds = (v mod 10 ^ Suc i) * 10 ^ length acc + read_nat acc"
      unfolding split by (simp add: ds(3) read_nat_Cons algebra_simps)
    then show ?thesis using run ds(1,2) by (intro exI [of _ "CHR ''.'' # ds"]) auto
  next
    case False
    then have "fmt_frac (Suc i) p v acc = fmt_frac i False ?v []" and acc: "acc = []"
      using Suc.prems by (auto simp: Let_def)
    with Suc.IH [of False "[]" ?v] quot
    obtain t where run: "fmt_frac (Suc i) p v acc = (t, v div 10 ^ Suc i)"
      and t: "t = [] \<and> ?v mod 10 ^ i = 0 \<or> (\<exists>ds. t = CHR ''.'' # ds \<and> list_all is_digit ds \<and>
        ds \<noteq> [] \<and> length ds \<le> i \<and> read_nat ds * 10 ^ (i - length ds) = ?v mod 10 ^ i)"
      by auto
    show ?thesis
    proof (intro exI [of _ t] conjI run)
      show "t = [] \<and> acc = [] \<and> v mod 10 ^ Suc i = 0 \<or>
        (\<exists>ds. t = CHR ''.'' # ds \<and> list_all is_digit ds \<and> ds \<noteq> [] \<and>
          (if acc = [] then length ds \<le> Suc i \<and> read_nat ds * 10 ^ (Suc i - length ds) = v mod 10 ^ Suc i
           else length ds = Suc i + length acc \<and>
             read_nat ds = (v mod 10 ^ Suc i) * 10 ^ length acc + read_nat acc))"
        using t
      proof
        assume "t = [] \<and> ?v mod 10 ^ i = 0"
        then show ?thesis unfolding split using False acc by simp
      next
        assume "\<exists>ds. t = CHR ''.'' # ds \<and> list_all is_digit ds \<and>
          ds \<noteq> [] \<and> length ds \<le> i \<and> read_nat ds * 10 ^ (i - length ds) = ?v mod 10 ^ i"
        then obtain ds where ds: "t = CHR ''.'' # ds" "list_all is_digit ds" "ds \<noteq> []"
          "length ds \<le> i" "read_nat ds * 10 ^ (i - length ds) = ?v mod 10 ^ i" by blast
        have "read_nat ds * 10 ^ (Suc i - length ds) = 10 * (?v mod 10 ^ i) + ?d"
          using ds(4,5) False by (simp add: Suc_diff_le)
        then show ?thesis unfolding split using ds acc by auto
      qed
    qed
  qed
qed simp


lemma read_nat_bound: "list_all is_digit ds \<Longrightarrow> read_nat ds < 10 ^ length ds"
proof (induction ds)
  case (Cons c ds)
  then have "digit_val c \<le> 9" "read_nat ds < 10 ^ length ds"
    by (auto simp: is_digit_def digit_val_def)
  moreover from this(1) have "digit_val c * 10 ^ length ds \<le> 9 * 10 ^ length ds"
    by (rule mult_right_mono) simp
  ultimately show ?case unfolding read_nat_Cons length_Cons power_Suc by linarith
qed simp

text \<open>A fraction printed with \<open>prec\<close> digits is read back exactly.\<close>

lemma fraction_exact:
  assumes "list_all is_digit ds" and "length ds \<le> prec" and "prec \<le> 9"
  shows "nat \<lfloor>f64_mul (f64_of_int (int (read_nat ds)))
      (f64_div (of_nat (10 ^ prec)) (of_nat (10 ^ length ds)))\<rfloor> = read_nat ds * 10 ^ (prec - length ds)"
proof -
  let ?k = "prec - length ds"
  have p9: "(10::nat) ^ prec \<le> 10 ^ 9" by (rule power_increasing) (use assms in auto)
  have k9: "(10::nat) ^ ?k \<le> 10 ^ 9" by (rule power_increasing) (use assms in auto)
  have split: "(10::nat) ^ prec = 10 ^ ?k * 10 ^ length ds"
    using assms(2) by (simp flip: power_add)
  have quotient: "of_nat (10 ^ prec) / of_nat (10 ^ length ds) = (of_nat (10 ^ ?k) :: rat)"
    unfolding split by simp
  have unit: "f64_div (of_nat (10 ^ prec)) (of_nat (10 ^ length ds)) = of_nat (10 ^ ?k)"
    unfolding f64_div_def by (rule f64_round_nat' [OF quotient]) (use k9 in simp)
  have bound: "read_nat ds * 10 ^ ?k < 10 ^ prec"
    unfolding split using read_nat_bound [OF assms(1)] by (simp add: mult.commute)
  then have "read_nat ds * 10 ^ ?k < 10 ^ 9" using p9 by (rule less_le_trans)
  also have "(10::nat) ^ 9 < 2 ^ 53" by simp
  finally have small: "read_nat ds * 10 ^ ?k < 2 ^ 53" .
  moreover have "read_nat ds \<le> read_nat ds * 10 ^ ?k" by simp
  ultimately have small': "read_nat ds < 2 ^ 53" by (rule le_less_trans [rotated])
  have "f64_of_int (int (read_nat ds)) = of_nat (read_nat ds)"
    using f64_of_int_exact [of "int (read_nat ds)"] small' by simp
  moreover have "f64_mul (of_nat (read_nat ds)) (of_nat (10 ^ ?k)) = of_nat (read_nat ds * 10 ^ ?k)"
    unfolding f64_mul_def by (rule f64_round_nat' [OF _ small]) simp
  ultimately show ?thesis unfolding unit by (simp only: floor_of_nat nat_int)
qed

text \<open>Reading one printed number with its unit.\<close>

lemma parse_unit_printed:
  assumes unit: "map_of unit_map u = Some (10 ^ prec * m)" and "u \<noteq> []" "list_all unit_char u"
    and fraction: "t = [] \<and> f = 0 \<or> m = 1 \<and> prec \<le> 9 \<and> (\<exists>ds. t = CHR ''.'' # ds \<and> list_all is_digit ds \<and> ds \<noteq> [] \<and>
      length ds \<le> prec \<and> read_nat ds * 10 ^ (prec - length ds) = f)"
    and "r \<noteq> [] \<longrightarrow> \<not> unit_char (hd r)"
    and "n * (10 ^ prec * m) + f \<le> 2 ^ 63" and "0 < m"
  shows "parse_unit (show_nat n @ t @ u @ r) = Some (n * (10 ^ prec * m) + f, r)"
proof -
  let ?unit = "10 ^ prec * m"
  have unit_pos: "0 < ?unit" using assms by simp
  have "n * ?unit \<le> 2 ^ 63" using assms by linarith
  then have n: "n \<le> 2 ^ 63 div ?unit"
    using unit_pos by (metis div_le_mono nonzero_mult_div_cancel_right less_numeral_extra(3))
  then have n': "n \<le> 2 ^ 63" using div_le_dividend order_trans by blast
  have hd_u: "unit_char (hd u)" using assms(2,3) by (cases u) auto
  have digits: "list_all is_digit (show_nat n)" "is_digit (hd (show_nat n))"
    using show_nat_digits [of _ n] by (auto simp: list_all_iff)
  have nd: "no_digit (t @ u @ r)"
    using fraction hd_u assms(2) by (auto simp: no_digit_def unit_char_def is_digit_def)
  have lead: "leading_int 0 (show_nat n @ t @ u @ r) = Some (n, t @ u @ r)"
    using leading_int_digits [OF digits(1) nd, of 0] n' by simp
  have split: "takeWhile unit_char (u @ r) = u" "dropWhile unit_char (u @ r) = r"
    using assms(3,5) by (cases r; simp add: list_all_iff takeWhile_append dropWhile_append)+
  obtain f' sc where rest: "(if t @ u @ r \<noteq> [] \<and> hd (t @ u @ r) = CHR ''.''
      then leading_fraction False 0 1 (tl (t @ u @ r)) else (0, 1, t @ u @ r)) = (f', sc, u @ r)"
    and val: "(if f' > 0 then nat \<lfloor>f64_mul (f64_of_int (int f')) (f64_div (of_nat ?unit) sc)\<rfloor> else 0) = f"
  proof (cases "t = []")
    case True
    then have "hd (t @ u @ r) \<noteq> CHR ''.''" using hd_u assms(2) by (simp add: unit_char_def)
    then show ?thesis using that [of 0 1] True fraction by simp
  next
    case False
    then obtain ds where ds: "t = CHR ''.'' # ds" "list_all is_digit ds" "ds \<noteq> []" "length ds \<le> prec"
      "read_nat ds * 10 ^ (prec - length ds) = f" and m: "m = 1" "prec \<le> 9" using fraction by auto
    have "no_digit (u @ r)" using hd_u assms(2) by (simp add: no_digit_def unit_char_def)
    then have "leading_fraction False 0 1 (ds @ u @ r) = (read_nat ds, of_nat (10 ^ length ds), u @ r)"
      using leading_fraction_digits [OF ds(2), of "u @ r" 0 0] ds(4) m by simp
    moreover have "nat \<lfloor>f64_mul (f64_of_int (int (read_nat ds)))
        (f64_div (of_nat ?unit) (of_nat (10 ^ length ds)))\<rfloor> = f"
      using fraction_exact [OF ds(2,4) m(2)] ds(5) m(1) by simp
    moreover have "read_nat ds = 0 \<Longrightarrow> f = 0" using ds(5) by simp
    ultimately show ?thesis using that [of "read_nat ds"] ds(1) by auto
  qed
  have nonempty: "show_nat n @ t @ u @ r \<noteq> []" "is_digit (hd (show_nat n @ t @ u @ r))"
    using digits(2) by simp_all
  have pre: "length (t @ u @ r) \<noteq> length (show_nat n @ t @ u @ r)" by simp
  show ?thesis
    unfolding parse_unit_def lead option.case prod.case rest Let_def split unit val
    using nonempty pre n assms(2,6) by simp
qed


lemma digit_char_0: "digit_char 0 = CHR ''0''"
  by code_simp

lemma parse_units_Nil: "parse_units [] d = Some d"
  by (subst parse_units.simps) simp

lemma parse_units_step:
  assumes "parse_unit s = Some (v, r)" and "d + v \<le> 2 ^ 63"
  shows "parse_units s d = parse_units r (d + v)"
proof -
  have "s \<noteq> []" using assms(1) by (auto simp: parse_unit_def)
  moreover have "(d + v) mod 2 ^ 64 = d + v" using assms(2) by simp
  ultimately show ?thesis using assms by (subst parse_units.simps) (simp add: Let_def)
qed

text \<open>A printed number with its unit, with \<open>m = 1\<close> and digits after the point, or without any.\<close>

lemma fmt_frac_printed:
  assumes "prec \<le> 9"
  obtains t where "fmt_frac prec False v [] = (t, v div 10 ^ prec)"
    and "t = [] \<and> v mod 10 ^ prec = 0 \<or> (1::nat) = 1 \<and> prec \<le> 9 \<and>
      (\<exists>ds. t = CHR ''.'' # ds \<and> list_all is_digit ds \<and> ds \<noteq> [] \<and> length ds \<le> prec \<and>
        read_nat ds * 10 ^ (prec - length ds) = v mod 10 ^ prec)"
  using fmt_frac_spec [of False "[]" prec v] assms by auto

lemma parse_fmt_units:
  assumes unit: "map_of unit_map u = Some (10 ^ prec)" and u: "u \<noteq> []" "list_all unit_char u"
    and prec: "prec \<le> 9" and v: "v \<le> 2 ^ 63"
  shows "parse_units (fmt_units prec v u) 0 = Some v"
proof -
  obtain t where t: "fmt_frac prec False v [] = (t, v div 10 ^ prec)"
    and fraction: "t = [] \<and> v mod 10 ^ prec = 0 \<or> (1::nat) = 1 \<and> prec \<le> 9 \<and>
      (\<exists>ds. t = CHR ''.'' # ds \<and> list_all is_digit ds \<and> ds \<noteq> [] \<and> length ds \<le> prec \<and>
        read_nat ds * 10 ^ (prec - length ds) = v mod 10 ^ prec)"
    by (rule fmt_frac_printed [OF prec])
  have "v div 10 ^ prec * (10 ^ prec * 1) + v mod 10 ^ prec = v"
    by (simp only: mult_1_right div_mult_mod_eq)
  with parse_unit_printed [of u prec 1 t _ "[]", OF _ u fraction, of "v div 10 ^ prec"]
  have "parse_unit (fmt_units prec v u) = Some (v, [])"
    using unit v by (simp add: fmt_units_def t)
  then show ?thesis using parse_units_step [of _ v "[]" 0] v by (simp add: parse_units_Nil)
qed

lemma parse_whole:
  assumes "map_of unit_map u = Some m" and "u \<noteq> []" "list_all unit_char u"
    and "r = [] \<or> is_digit (hd r)" and "d + n * m \<le> 2 ^ 63" and "0 < m"
  shows "parse_units (show_nat n @ u @ r) d = parse_units r (d + n * m)"
proof -
  have "parse_unit (show_nat n @ [] @ u @ r) = Some (n * (10 ^ 0 * m) + 0, r)"
    by (rule parse_unit_printed) (use assms in \<open>auto simp: unit_char_def\<close>)
  then have "parse_unit (show_nat n @ u @ r) = Some (n * m, r)" by simp
  then show ?thesis by (rule parse_units_step) (rule assms)
qed

lemma unit_facts:
  "map_of unit_map ''ns'' = Some (10 ^ 0)" "map_of unit_map (micro_sign @ ''s'') = Some (10 ^ 3)"
  "map_of unit_map ''ms'' = Some (10 ^ 6)" "map_of unit_map ''s'' = Some (10 ^ 9)"
  "map_of unit_map ''m'' = Some (60 * 10 ^ 9)" "map_of unit_map ''h'' = Some (3600 * 10 ^ 9)"
  "list_all unit_char ''ns''" "list_all unit_char (micro_sign @ ''s'')" "list_all unit_char ''ms''"
  "list_all unit_char ''s''" "list_all unit_char ''m''" "list_all unit_char ''h''"
  by (simp_all add: unit_map_def micro_sign_def unit_char_def is_digit_def)

lemma mixed_radix:
  "s * N + r = u \<Longrightarrow> m * 60 + s' = s \<Longrightarrow> h * 60 + m' = m \<Longrightarrow>
    h * (3600 * N) + m' * (60 * N) + (s' * N + r) = (u :: nat)"
  by (auto simp: algebra_simps)

lemma parse_duration_text:
  assumes "u \<le> 2 ^ 63"
  shows "parse_units (duration_text u) 0 = Some u"
proof -
  consider "u = 0" | "0 < u" "u < 10 ^ 3" | "10 ^ 3 \<le> u" "u < 10 ^ 6" | "10 ^ 6 \<le> u" "u < 10 ^ 9" | "10 ^ 9 \<le> u"
    by linarith
  then show ?thesis
  proof cases
    case 1
    have "duration_text u = show_nat 0 @ ''s'' @ []"
      by (subst show_nat.simps) (simp add: duration_text_def 1 digit_char_0)
    then show ?thesis
      using parse_whole [OF unit_facts(4) _ unit_facts(10), of "[]" 0 0] 1
      by (simp add: parse_units_Nil)
  next
    case 2
    then show ?thesis
      unfolding duration_text_def using parse_fmt_units [OF unit_facts(1), of u] assms unit_facts by simp
  next
    case 3
    then have "duration_text u = fmt_units 3 u (micro_sign @ ''s'')"
      unfolding duration_text_def by simp
    then show ?thesis
      using parse_fmt_units [OF unit_facts(2), of u] assms unit_facts(8) by (simp add: micro_sign_def)
  next
    case 4
    then have "duration_text u = fmt_units 6 u ''ms''"
      unfolding duration_text_def by simp
    then show ?thesis
      using parse_fmt_units [OF unit_facts(3), of u] assms unit_facts(9) by simp
  next
    case 5
    obtain t where t: "fmt_frac 9 False u [] = (t, u div 10 ^ 9)"
      and fraction: "t = [] \<and> u mod 10 ^ 9 = 0 \<or> (1::nat) = 1 \<and> (9::nat) \<le> 9 \<and>
        (\<exists>ds. t = CHR ''.'' # ds \<and> list_all is_digit ds \<and> ds \<noteq> [] \<and> length ds \<le> 9 \<and>
          read_nat ds * 10 ^ (9 - length ds) = u mod 10 ^ 9)"
      by (rule fmt_frac_printed [of 9 u]) simp_all
    define secs where "secs = u div 10 ^ 9"
    define mins where "mins = secs div 60"
    define hours where "hours = mins div 60"
    have total: "hours * (3600 * 10 ^ 9) + mins mod 60 * (60 * 10 ^ 9) + (secs mod 60 * 10 ^ 9 + u mod 10 ^ 9) = u"
    proof -
      have "secs * 10 ^ 9 + u mod 10 ^ 9 = u" unfolding secs_def by (rule div_mult_mod_eq)
      moreover have "mins * 60 + secs mod 60 = secs" unfolding mins_def by (rule div_mult_mod_eq)
      moreover have "hours * 60 + mins mod 60 = mins" unfolding hours_def by (rule div_mult_mod_eq)
      ultimately show ?thesis by (rule mixed_radix)
    qed
    have last: "parse_units (show_nat (secs mod 60) @ t @ ''s'') d = Some u"
      if d: "d + (secs mod 60 * 10 ^ 9 + u mod 10 ^ 9) = u" for d
    proof -
      have "parse_unit (show_nat (secs mod 60) @ t @ ''s'' @ [])
          = Some (secs mod 60 * (10 ^ 9 * 1) + u mod 10 ^ 9, [])"
        by (rule parse_unit_printed) (use unit_facts fraction d assms in auto)
      then show ?thesis
        using parse_units_step [of _ "secs mod 60 * 10 ^ 9 + u mod 10 ^ 9" "[]" d] d assms
        by (simp add: parse_units_Nil)
    qed
    have digit: "is_digit (hd (show_nat k @ r))" for k r
      using show_nat_digits [of _ k] by simp
    have middle: "parse_units (show_nat (mins mod 60) @ ''m'' @ show_nat (secs mod 60) @ t @ ''s'') d = Some u"
      if d: "d + mins mod 60 * (60 * 10 ^ 9) + (secs mod 60 * 10 ^ 9 + u mod 10 ^ 9) = u" for d
      using parse_whole [OF unit_facts(5) _ unit_facts(11), of "show_nat (secs mod 60) @ t @ ''s''" d "mins mod 60"]
        last [OF d] digit d assms by simp
    have printed: "duration_text u =
        (if mins = 0 then [] else (if hours = 0 then [] else show_nat hours @ ''h'') @ show_nat (mins mod 60) @ ''m'')
        @ show_nat (secs mod 60) @ t @ ''s''"
      using 5 unfolding duration_text_def t secs_def mins_def hours_def by (simp add: Let_def)
    show ?thesis
    proof (cases "mins = 0")
      case True
      then show ?thesis unfolding printed using last [of 0] total by (simp add: hours_def)
    next
      case False
      show ?thesis
      proof (cases "hours = 0")
        case True
        then show ?thesis unfolding printed using False middle [of 0] total by simp
      next
        case hours: False
        have "duration_text u = show_nat hours @ ''h'' @ show_nat (mins mod 60) @ ''m'' @ show_nat (secs mod 60) @ t @ ''s''"
          unfolding printed using False hours by simp
        then show ?thesis
          using parse_whole [OF unit_facts(6) _ unit_facts(12),
              of "show_nat (mins mod 60) @ ''m'' @ show_nat (secs mod 60) @ t @ ''s''" 0 hours]
            middle [of "hours * (3600 * 10 ^ 9)"] total digit assms by simp
      qed
    qed
  qed
qed

lemma duration_text_hd: "duration_text u \<noteq> [] \<and> is_digit (hd (duration_text u))"
proof -
  have digit: "is_digit (hd (show_nat k @ r))" "is_digit (hd (show_nat k))" for k r
    using show_nat_digits [of _ k] by simp_all
  obtain t n where frac9: "fmt_frac 9 False u [] = (t, n)" by fastforce
  have units: "fmt_units prec u s \<noteq> [] \<and> is_digit (hd (fmt_units prec u s))" for prec s
    by (cases "fmt_frac prec False u []") (simp add: fmt_units_def digit)
  show ?thesis
    unfolding duration_text_def frac9
    by (simp add: units digit Let_def) (simp add: is_digit_def)
qed

lemma duration_round_trip:
  assumes "in64 d"
  shows "parse_duration (duration_string d) = Some d"
proof -
  let ?u = "nat \<bar>d\<bar>"
  have u: "?u \<le> 2 ^ 63" using assms by (simp add: in64_def nat_le_iff abs_le_iff)
  note printed = duration_text_hd [of ?u] parse_duration_text [OF u]
  have "parse_unit ''0'' = None"
    by (simp add: parse_unit_def is_digit_def digit_val_def Let_def)
  then have "parse_units ''0'' 0 = None" by (subst parse_units.simps) simp
  then have not0: "duration_text ?u \<noteq> ''0''" using printed(2) by auto
  have sign: "hd (duration_text ?u) \<noteq> CHR ''-''" "hd (duration_text ?u) \<noteq> CHR ''+''"
    using printed(1) by (auto simp: is_digit_def)
  show ?thesis
  proof (cases "d < 0")
    case True
    then have "duration_string d = CHR ''-'' # duration_text ?u" by (simp add: duration_string_def)
    then show ?thesis using printed not0 True by (simp add: parse_duration_def)
  next
    case False
    then have "duration_string d = duration_text ?u" "?u \<le> 2 ^ 63 - 1"
      using assms by (simp_all add: duration_string_def in64_def nat_le_iff)
    then show ?thesis using printed not0 sign False by (simp add: parse_duration_def)
  qed
qed

end
