(* ===== verification/Go_Flag.thy ===== *)
theory Go_Flag
  imports Go_Text Go_Time
begin

text \<open>
  Go's \<open>flag\<close> package as the commands use it: \<open>FlagSet.Parse\<close> over the declared names and the
  setter of a flag, and the values of string, duration and integer flags. Printing the usage is
  left out.
\<close>

section \<open>Parse\<close>

definition invalid_flag_value :: "string \<Rightarrow> string \<Rightarrow> string \<Rightarrow> go_error" where
  "invalid_flag_value name v reason =
     Err (''invalid value '' @ go_quote v @ '' for flag -'' @ name @ '': '' @ reason)"

definition flag_not_defined :: "string \<Rightarrow> go_error" where
  "flag_not_defined name =
     (if name = ''help'' \<or> name = ''h'' then Err ''flag: help requested''
      else Err (''flag provided but not defined: -'' @ name))"

text \<open>The bound values and the remaining arguments; a setter fails with a reason.\<close>

fun parse_flag_set ::
    "string list \<Rightarrow> ('v \<Rightarrow> string \<Rightarrow> string \<Rightarrow> string + 'v) \<Rightarrow> 'v \<Rightarrow> string list \<Rightarrow> go_error + 'v \<times> string list" where
  "parse_flag_set names set_value vs [] = Inr (vs, [])"
| "parse_flag_set names set_value vs (s # args) =
     (if length s < 2 \<or> hd s \<noteq> CHR ''-'' then Inr (vs, s # args)
      else if s = ''--'' then Inr (vs, args)
      else
        let body = (if hd (tl s) = CHR ''-'' then tl (tl s) else tl s);
            name = takeWhile (\<lambda>c. c \<noteq> CHR ''='') body
        in if body = [] \<or> hd body = CHR ''-'' \<or> hd body = CHR ''=''
           then Inl (Err (''bad flag syntax: '' @ s))
           else if name \<notin> set names then Inl (flag_not_defined name)
           else if CHR ''='' \<in> set body then
             (let v = drop (Suc (length name)) body in
              case set_value vs name v of
                Inl reason \<Rightarrow> Inl (invalid_flag_value name v reason)
              | Inr vs' \<Rightarrow> parse_flag_set names set_value vs' args)
           else (case args of
               [] \<Rightarrow> Inl (Err (''flag needs an argument: -'' @ name))
             | v # args' \<Rightarrow>
                 (case set_value vs name v of
                    Inl reason \<Rightarrow> Inl (invalid_flag_value name v reason)
                  | Inr vs' \<Rightarrow> parse_flag_set names set_value vs' args')))"

text \<open>A property that every setter keeps holds of the parsed values.\<close>

lemma parse_flag_set_keeps:
  assumes "\<And>vs name v vs'. set_value vs name v = Inr vs' \<Longrightarrow> P vs \<Longrightarrow> P vs'"
  shows "parse_flag_set names set_value vs args = Inr (vs', rest) \<Longrightarrow> P vs \<Longrightarrow> P vs'"
proof (induction args arbitrary: vs rule: measure_induct_rule [of length])
  case (less args)
  have later: "P vs'" if "set_value vs name v = Inr vs1" "parse_flag_set names set_value vs1 rest' = Inr (vs', rest)"
    "length rest' < length args" for name v vs1 rest'
    using less.IH [OF that(3,2) assms [OF that(1) less.prems(2)]] .
  show ?case
  proof (cases args)
    case (Cons s as)
    show ?thesis
      using less.prems unfolding Cons
      by (simp add: Let_def split: if_split_asm sum.split_asm list.split_asm) (auto intro: later simp: Cons)
  qed (use less.prems in simp)
qed

text \<open>An argument \<open>--name=value\<close>.\<close>

lemma parse_flag_set_step:
  assumes "name \<in> set names" and "set_value vs name v = Inr vs'"
    and name: "name \<noteq> []" "hd name \<noteq> CHR ''-''" "CHR ''='' \<notin> set name"
  shows "parse_flag_set names set_value vs ((''--'' @ name @ ''='' @ v) # args) = parse_flag_set names set_value vs' args"
proof -
  have "hd name \<noteq> CHR ''=''" using name(1,3) by (cases name) auto
  moreover have "takeWhile (\<lambda>c. c \<noteq> CHR ''='') (name @ CHR ''='' # v) = name"
    by (subst takeWhile_append2) (use name(3) in auto)
  ultimately show ?thesis using assms by (simp add: Let_def)
qed

text \<open>What \<open>errParse\<close> reports.\<close>

definition or_parse_error :: "'a option \<Rightarrow> string + 'a" where
  "or_parse_error r = (case r of None \<Rightarrow> Inl ''parse error'' | Some x \<Rightarrow> Inr x)"

lemma or_parse_error_simps [simp]:
  "or_parse_error None = Inl ''parse error''" "or_parse_error (Some x) = Inr x"
  "or_parse_error r = Inr y \<longleftrightarrow> r = Some y"
  by (auto simp: or_parse_error_def split: option.splits)

section \<open>Integers\<close>

text \<open>
  \<open>strconv.ParseInt(s, 0, 64)\<close>: an optional sign, a base prefix, digits, and underscores between
  digits and after the prefix.
\<close>

definition lower_char :: "char \<Rightarrow> char" where
  "lower_char c = (let n = (of_char c :: nat) in if 65 \<le> n \<and> n \<le> 90 then char_of (n + 32) else c)"

definition digit_of :: "char \<Rightarrow> nat option" where
  "digit_of c = (let n = of_char (lower_char c) in
     if 48 \<le> n \<and> n \<le> 57 then Some (n - 48) else if 97 \<le> n \<and> n \<le> 122 then Some (n - 87) else None)"

datatype int_error = SyntaxError | RangeError

text \<open>The digits, of which an overflow is reported before any later syntax error.\<close>

fun uint_loop :: "nat \<Rightarrow> string \<Rightarrow> nat \<Rightarrow> int_error + nat" where
  "uint_loop base [] n = Inr n"
| "uint_loop base (c # s) n =
     (if c = CHR ''_'' then uint_loop base s n
      else case digit_of c of
        None \<Rightarrow> Inl SyntaxError
      | Some d \<Rightarrow>
          (if base \<le> d then Inl SyntaxError
           else if 2 ^ 64 \<le> n * base + d then Inl RangeError
           else uint_loop base s (n * base + d)))"

datatype last_seen = SeenStart | SeenDigit | SeenUnderscore | SeenOther

fun underscores_loop :: "bool \<Rightarrow> last_seen \<Rightarrow> string \<Rightarrow> bool" where
  "underscores_loop hex i [] = (i \<noteq> SeenUnderscore)"
| "underscores_loop hex i (c # s) =
     (if is_digit c \<or> hex \<and> lower_char c \<in> set ''abcdef'' then underscores_loop hex SeenDigit s
      else if c = CHR ''_'' then (if i \<noteq> SeenDigit then False else underscores_loop hex SeenUnderscore s)
      else if i = SeenUnderscore then False else underscores_loop hex SeenOther s)"

text \<open>The base and the digits after its prefix.\<close>

definition base_of :: "string \<Rightarrow> nat \<times> string" where
  "base_of s =
     (if hd s \<noteq> CHR ''0'' then (10, s)
      else if 3 \<le> length s \<and> lower_char (s ! 1) = CHR ''b'' then (2, drop 2 s)
      else if 3 \<le> length s \<and> lower_char (s ! 1) = CHR ''o'' then (8, drop 2 s)
      else if 3 \<le> length s \<and> lower_char (s ! 1) = CHR ''x'' then (16, drop 2 s)
      else (8, tl s))"

definition underscore_ok :: "string \<Rightarrow> bool" where
  "underscore_ok s =
     (if 2 \<le> length s \<and> hd s = CHR ''0'' \<and> lower_char (s ! 1) \<in> set ''box''
      then underscores_loop (lower_char (s ! 1) = CHR ''x'') SeenDigit (drop 2 s)
      else underscores_loop False SeenStart s)"

definition parse_uint :: "string \<Rightarrow> int_error + nat" where
  "parse_uint s =
     (if s = [] then Inl SyntaxError
      else case base_of s of
        (base, digits) \<Rightarrow>
          (case uint_loop base digits 0 of
             Inl e \<Rightarrow> Inl e
           | Inr n \<Rightarrow> if CHR ''_'' \<in> set digits \<and> \<not> underscore_ok s then Inl SyntaxError else Inr n))"

definition parse_int :: "string \<Rightarrow> int_error + int64" where
  "parse_int s =
     (let neg = s \<noteq> [] \<and> hd s = CHR ''-'';
          digits = (if s \<noteq> [] \<and> (hd s = CHR ''-'' \<or> hd s = CHR ''+'') then tl s else s)
      in case parse_uint digits of
           Inl e \<Rightarrow> Inl e
         | Inr n \<Rightarrow> if \<not> neg \<and> 2 ^ 63 \<le> n then Inl RangeError
             else if neg \<and> 2 ^ 63 < n then Inl RangeError
             else Inr (if neg then - int n else int n))"

lemma parse_int_in64: "parse_int s = Inr v \<Longrightarrow> in64 v"
  by (auto simp: parse_int_def in64_def Let_def split: sum.split_asm if_split_asm)

text \<open>A decimal number without a leading zero reads as \<open>strconv.Atoi\<close> reads it.\<close>

lemma digit_of_digit: "is_digit c \<Longrightarrow> digit_of c = Some (digit_val c)"
  by (auto simp: digit_of_def lower_char_def is_digit_def digit_val_def)

lemma uint_loop_digits:
  assumes "list_all is_digit s" and "foldl (\<lambda>n c. n * 10 + digit_val c) n s < 2 ^ 64"
  shows "uint_loop 10 s n = Inr (foldl (\<lambda>n c. n * 10 + digit_val c) n s)"
  using assms
proof (induction s arbitrary: n)
  case (Cons c s)
  have grows: "m \<le> foldl (\<lambda>n c. n * 10 + digit_val c) m s" for m
  proof (induction s arbitrary: m)
    case (Cons a s)
    have "m \<le> m * 10 + digit_val a" by simp
    also have "\<dots> \<le> foldl (\<lambda>n c. n * 10 + digit_val c) m (a # s)" using Cons by simp
    finally show ?case .
  qed simp
  have "n * 10 + digit_val c < 2 ^ 64"
    using grows [of "n * 10 + digit_val c"] Cons.prems(2) by simp
  moreover have "digit_val c < 10" "c \<noteq> CHR ''_''"
    using Cons.prems(1) by (auto simp: is_digit_def digit_val_def)
  ultimately show ?case using Cons by (simp add: digit_of_digit)
qed simp

lemma parse_int_decimal:
  assumes "list_all is_digit s" "s \<noteq> []" "hd s \<noteq> CHR ''0''" "read_nat s < 2 ^ 63"
  shows "parse_int s = Inr (int (read_nat s))"
proof -
  have "hd s \<noteq> CHR ''-''" "hd s \<noteq> CHR ''+''" "CHR ''_'' \<notin> set s"
    using assms(1,2) by (cases s; auto simp: is_digit_def list_all_iff)+
  moreover have "uint_loop 10 s 0 = Inr (read_nat s)"
    using uint_loop_digits [OF assms(1), of 0] assms(4) by (simp add: read_nat_def)
  ultimately show ?thesis using assms by (simp add: parse_int_def parse_uint_def base_of_def Let_def)
qed

section \<open>Values\<close>

text \<open>The declared flags of a command, with their kinds and defaults, and their values.\<close>

datatype flag_value = FlagString string | FlagDuration int64 | FlagInt int64

type_synonym flag_set = "(string \<times> flag_value) list"
type_synonym flag_values = "string \<rightharpoonup> flag_value"

definition int_flag_reason :: "int_error \<Rightarrow> string" where
  "int_flag_reason e = (case e of SyntaxError \<Rightarrow> ''parse error'' | RangeError \<Rightarrow> ''value out of range'')"

definition read_flag :: "flag_value \<Rightarrow> string \<Rightarrow> string + flag_value" where
  "read_flag declared v = (case declared of
       FlagString _ \<Rightarrow> Inr (FlagString v)
     | FlagDuration _ \<Rightarrow> or_parse_error (map_option FlagDuration (parse_duration v))
     | FlagInt _ \<Rightarrow> (case parse_int v of Inl e \<Rightarrow> Inl (int_flag_reason e) | Inr n \<Rightarrow> Inr (FlagInt n)))"

definition set_declared :: "flag_set \<Rightarrow> flag_values \<Rightarrow> string \<Rightarrow> string \<Rightarrow> string + flag_values" where
  "set_declared declared vs name v =
     (case map_of declared name of
        None \<Rightarrow> Inl []
      | Some d \<Rightarrow> (case read_flag d v of Inl reason \<Rightarrow> Inl reason | Inr x \<Rightarrow> Inr (vs(name \<mapsto> x))))"

definition parse_declared :: "flag_set \<Rightarrow> string list \<Rightarrow> go_error + flag_values \<times> string list" where
  "parse_declared declared args =
     parse_flag_set (map fst declared) (set_declared declared) (map_of declared) args"

definition string_flag :: "flag_values \<Rightarrow> string \<Rightarrow> string" where
  "string_flag vs name = (case vs name of Some (FlagString s) \<Rightarrow> s | _ \<Rightarrow> [])"

definition int_flag :: "flag_values \<Rightarrow> string \<Rightarrow> int64" where
  "int_flag vs name = (case vs name of Some (FlagInt n) \<Rightarrow> n | Some (FlagDuration d) \<Rightarrow> d | _ \<Rightarrow> 0)"

text \<open>Every declared flag has a value of its kind after parsing.\<close>

definition same_kind :: "flag_value \<Rightarrow> flag_value \<Rightarrow> bool" where
  "same_kind a b = (case (a, b) of (FlagString _, FlagString _) \<Rightarrow> True
     | (FlagDuration _, FlagDuration _) \<Rightarrow> True | (FlagInt _, FlagInt _) \<Rightarrow> True | _ \<Rightarrow> False)"

lemma read_flag_kind: "read_flag d v = Inr x \<Longrightarrow> same_kind d x"
  by (auto simp: read_flag_def same_kind_def split: flag_value.splits sum.splits)

lemma parse_declared_kinds:
  assumes "parse_declared declared args = Inr (vs, rest)" and "map_of declared name = Some d"
  shows "\<exists>x. vs name = Some x \<and> same_kind d x"
proof -
  have "\<forall>name d. map_of declared name = Some d \<longrightarrow> (\<exists>x. vs name = Some x \<and> same_kind d x)"
  proof (rule parse_flag_set_keeps [OF _ assms(1) [unfolded parse_declared_def]])
    fix vs name v vs'
    assume "set_declared declared vs name v = Inr vs'"
      and "\<forall>name d. map_of declared name = Some d \<longrightarrow> (\<exists>x. vs name = Some x \<and> same_kind d x)"
    then show "\<forall>name d. map_of declared name = Some d \<longrightarrow> (\<exists>x. vs' name = Some x \<and> same_kind d x)"
      using read_flag_kind by (fastforce simp: set_declared_def split: option.splits sum.splits)
  next
    show "\<forall>name d. map_of declared name = Some d \<longrightarrow> (\<exists>x. map_of declared name = Some x \<and> same_kind d x)"
      by (auto simp: same_kind_def split: flag_value.splits)
  qed
  then show ?thesis using assms(2) by blast
qed

end
