(* ===== verification/Worker.thy ===== *)
theory Worker
  imports Go_Flag
begin

text \<open>
  \<open>internal/worker/worker.go\<close>: the process every worker container runs. \<open>parse_config\<close> is
  \<open>ParseConfig\<close> with the part of the \<open>flag\<close> package it uses; \<open>wait\<close> and \<open>run\<close> are the
  functions of those names. A run is driven by a \<open>worker_env\<close>: when it starts, when its context
  is done, and for each \<open>select\<close> how late it is entered and which case it picks when both are
  ready. Standard output is the sequence of records given to the JSON encoder, whose write errors
  the code ignores; \<open>stamp\<close> stands for the RFC 3339 form of a time.
\<close>

section \<open>Data\<close>

definition exit_success :: int where "exit_success = 0"
definition exit_validation :: int where "exit_validation = 2"
definition exit_failure :: int where "exit_failure = 10"
definition exit_termination :: int where "exit_termination = 3"

definition mode_complete :: string where "mode_complete = ''complete''"
definition mode_wait :: string where "mode_wait = ''wait''"

lemmas exit_defs = exit_success_def exit_validation_def exit_failure_def exit_termination_def

lemma modes_distinct [simp]: "mode_complete \<noteq> mode_wait" "mode_wait \<noteq> mode_complete"
  by (simp_all add: mode_complete_def mode_wait_def)

record config =
  cfg_mode :: string
  cfg_duration :: int64
  cfg_startup_delay :: int64
  cfg_fail_indexes :: "int set"
  cfg_index :: "int option"

record parameter_summary =
  ps_mode :: string
  ps_duration :: string
  ps_startup_delay :: string
  ps_fail_indexes :: "int list"

record worker_record =
  r_type :: string
  r_timestamp :: string
  r_mode :: string
  r_index :: "int option"
  r_duration :: string
  r_outcome :: string
  r_parameters :: parameter_summary
  r_exit_reason :: string
  r_exit_code :: "int option"

section \<open>Flags\<close>

text \<open>The variables the four flags are bound to.\<close>

record raw_flags =
  f_mode :: string
  f_duration :: int64
  f_startup_delay :: int64
  f_fail_indexes :: string

definition default_flags :: raw_flags where
  "default_flags = \<lparr>f_mode = mode_wait, f_duration = 10 ^ 9, f_startup_delay = 0, f_fail_indexes = []\<rparr>"

text \<open>\<open>flag.Value.Set\<close> of the named flag; \<open>None\<close> is \<open>errParse\<close>.\<close>

definition set_flag :: "raw_flags \<Rightarrow> string \<Rightarrow> string \<Rightarrow> raw_flags option" where
  "set_flag raw name v =
     (if name = ''mode'' then Some (raw\<lparr>f_mode := v\<rparr>)
      else if name = ''duration'' then map_option (\<lambda>d. raw\<lparr>f_duration := d\<rparr>) (parse_duration v)
      else if name = ''startup-delay''
        then map_option (\<lambda>d. raw\<lparr>f_startup_delay := d\<rparr>) (parse_duration v)
      else Some (raw\<lparr>f_fail_indexes := v\<rparr>))"

definition flag_names :: "string list" where
  "flag_names = [''mode'', ''duration'', ''startup-delay'', ''fail-indexes'']"

text \<open>\<open>FlagSet.Parse\<close>: the bound values and the remaining arguments.\<close>

abbreviation parse_flags :: "raw_flags \<Rightarrow> string list \<Rightarrow> go_error + raw_flags \<times> string list" where
  "parse_flags \<equiv> parse_flag_set flag_names (\<lambda>raw name v. or_parse_error (set_flag raw name v))"

section \<open>Configuration\<close>

fun parse_index_items :: "string list \<Rightarrow> int set \<Rightarrow> go_error + int set" where
  "parse_index_items [] indexes = Inr indexes"
| "parse_index_items (item # items) indexes =
     (case atoi (trim_space item) of
        None \<Rightarrow> Inl (Err (''invalid --fail-indexes value '' @ go_quote item))
      | Some index \<Rightarrow>
          (if index < 0 then Inl (Err (''invalid --fail-indexes value '' @ go_quote item))
           else parse_index_items items (insert index indexes)))"

definition parse_indexes :: "string \<Rightarrow> go_error + int set" where
  "parse_indexes v = (if v = [] then Inr {} else parse_index_items (split_on CHR '','' v) {})"

definition parse_index :: "string \<Rightarrow> go_error + int option" where
  "parse_index v =
     (if v = [] then Inr None
      else case atoi v of
        None \<Rightarrow> Inl (Err (''invalid JOB_COMPLETION_INDEX '' @ go_quote v))
      | Some index \<Rightarrow>
          (if index < 0 then Inl (Err (''invalid JOB_COMPLETION_INDEX '' @ go_quote v))
           else Inr (Some index)))"

definition parse_config :: "string list \<Rightarrow> (string \<Rightarrow> string) \<Rightarrow> go_error + config" where
  "parse_config args getenv =
     (case parse_flags default_flags args of
        Inl e \<Rightarrow> Inl (Wrapped ''invalid flags'' e)
      | Inr (raw, rest) \<Rightarrow>
          (if rest \<noteq> [] then Inl (Err (''unexpected positional arguments: '' @ join_with '' '' rest))
           else if f_mode raw \<noteq> mode_complete \<and> f_mode raw \<noteq> mode_wait
             then Inl (Err (''invalid --mode '' @ go_quote (f_mode raw) @ '': use complete or wait''))
           else if f_duration raw < 0 then Inl (Err ''--duration must not be negative'')
           else if f_startup_delay raw < 0 then Inl (Err ''--startup-delay must not be negative'')
           else case parse_indexes (f_fail_indexes raw) of
             Inl e \<Rightarrow> Inl e
           | Inr selected \<Rightarrow>
               (case parse_index (getenv ''JOB_COMPLETION_INDEX'') of
                  Inl e \<Rightarrow> Inl e
                | Inr index \<Rightarrow> Inr \<lparr>cfg_mode = f_mode raw, cfg_duration = f_duration raw,
                    cfg_startup_delay = f_startup_delay raw, cfg_fail_indexes = selected,
                    cfg_index = index\<rparr>)))"

section \<open>Running\<close>

type_synonym sched = "nat \<times> bool"

definition is_done :: "time option \<Rightarrow> time \<Rightarrow> bool" where
  "is_done finish now = (case finish of None \<Rightarrow> False | Some t \<Rightarrow> t \<le> now)"

text \<open>Whether the wait ran to its end, and when the worker goes on.\<close>

definition wait :: "time option \<Rightarrow> sched \<Rightarrow> time \<Rightarrow> int64 \<Rightarrow> bool \<times> time" where
  "wait finish sched now d =
     (if d = 0 then (\<not> is_done finish now, now)
      else
        let timer = now + d; entry = now + int (fst sched)
        in if timer \<le> entry \<and> is_done finish entry then (snd sched, entry)
           else if timer \<le> entry then (True, entry)
           else if is_done finish entry then (False, entry)
           else (case finish of
               None \<Rightarrow> (True, timer)
             | Some t \<Rightarrow>
                 (if timer < t then (True, timer) else if t < timer then (False, t)
                  else (snd sched, timer))))"

definition write_record ::
    "(time \<Rightarrow> string) \<Rightarrow> time \<Rightarrow> config \<Rightarrow> string \<Rightarrow> string \<Rightarrow> int option \<Rightarrow> worker_record" where
  "write_record stamp now config record_type outcome exit_code =
     \<lparr>r_type = record_type, r_timestamp = stamp now, r_mode = cfg_mode config,
      r_index = cfg_index config, r_duration = duration_string (cfg_duration config),
      r_outcome = outcome,
      r_parameters = \<lparr>ps_mode = cfg_mode config, ps_duration = duration_string (cfg_duration config),
        ps_startup_delay = duration_string (cfg_startup_delay config),
        ps_fail_indexes = sorted_list_of_set (cfg_fail_indexes config)\<rparr>,
      r_exit_reason = (if record_type = ''result'' then outcome else []),
      r_exit_code = exit_code\<rparr>"

datatype run_end = Exits int | Blocks | Panics

record run_out =
  out_end :: run_end
  out_stdout :: "worker_record list"
  out_stderr :: string

record worker_env =
  we_start :: time
  we_done :: "time option"
  we_startup_sched :: sched
  we_work_sched :: sched

definition run :: "(time \<Rightarrow> string) \<Rightarrow> worker_env \<Rightarrow> string list \<Rightarrow> (string \<Rightarrow> string) \<Rightarrow> run_out" where
  "run stamp env args getenv =
     (case parse_config args getenv of
        Inl e \<Rightarrow> \<lparr>out_end = Exits exit_validation, out_stdout = [],
          out_stderr = ''worker: '' @ error_text e @ [CHR 0x0A]\<rparr>
      | Inr config \<Rightarrow>
          (let started = write_record stamp (we_start env) config ''start'' ''started'' None;
               finish = (\<lambda>now outcome code. \<lparr>out_end = Exits code,
                 out_stdout = [started, write_record stamp now config ''result'' outcome (Some code)],
                 out_stderr = []\<rparr>)
           in case wait (we_done env) (we_startup_sched env) (we_start env) (cfg_startup_delay config) of
                (False, t1) \<Rightarrow> finish t1 ''terminated'' exit_termination
              | (True, t1) \<Rightarrow>
                  (if cfg_mode config = mode_wait then
                     (case we_done env of
                        None \<Rightarrow> \<lparr>out_end = Blocks, out_stdout = [started], out_stderr = []\<rparr>
                      | Some t \<Rightarrow> finish (max t1 t) ''terminated'' exit_termination)
                   else if cfg_mode config = mode_complete then
                     (case wait (we_done env) (we_work_sched env) t1 (cfg_duration config) of
                        (False, t2) \<Rightarrow> finish t2 ''terminated'' exit_termination
                      | (True, t2) \<Rightarrow>
                          (case cfg_index config of
                             Some index \<Rightarrow>
                               (if index \<in> cfg_fail_indexes config
                                then finish t2 ''failed'' exit_failure
                                else finish t2 ''succeeded'' exit_success)
                           | None \<Rightarrow> finish t2 ''succeeded'' exit_success))
                   else \<lparr>out_end = Panics, out_stdout = [started], out_stderr = []\<rparr>)))"

end
