(* ===== verification/Worker_Properties.thy ===== *)
theory Worker_Properties
  imports Worker
begin

text \<open>
  What a worker promises: a configuration it accepts is in range, every run writes one of a few
  transcripts that agree with its exit code, and cancellation and the selected failures decide
  which. The locale \<open>worker_protocol\<close> is the part of the contract that readers of the records
  rely on.
\<close>

section \<open>Accepted configurations\<close>

definition valid_config :: "config \<Rightarrow> bool" where
  "valid_config c \<longleftrightarrow> (cfg_mode c = mode_complete \<or> cfg_mode c = mode_wait) \<and>
     0 \<le> cfg_duration c \<and> cfg_duration c < 2 ^ 63 \<and>
     0 \<le> cfg_startup_delay c \<and> cfg_startup_delay c < 2 ^ 63 \<and>
     finite (cfg_fail_indexes c) \<and> cfg_fail_indexes c \<subseteq> {0..<2 ^ 63} \<and>
     set_option (cfg_index c) \<subseteq> {0..<2 ^ 63}"

lemma parse_units_bound: "parse_units s d = Some e \<Longrightarrow> d \<le> 2 ^ 63 \<Longrightarrow> e \<le> 2 ^ 63"
proof (induction s d arbitrary: e rule: parse_units.induct)
  case (1 s d)
  show ?case
  proof (cases "s = []")
    case True
    then show ?thesis using 1(2,3) by (simp add: parse_units_Nil)
  next
    case False
    obtain v r where unit: "parse_unit s = Some (v, r)"
      using 1(2) False by (subst (asm) parse_units.simps) (auto split: option.splits)
    then have "parse_units r ((d + v) mod 2 ^ 64) = Some e" "(d + v) mod 2 ^ 64 \<le> 2 ^ 63"
      using 1(2) False by (subst (asm) parse_units.simps; simp add: Let_def split: if_split_asm)+
    then show ?thesis using 1(1) [OF False unit refl refl] by simp
  qed
qed

lemma parse_duration_in64: "parse_duration s = Some d \<Longrightarrow> in64 d"
proof -
  assume run: "parse_duration s = Some d"
  have bound: "parse_units r 0 = Some e \<Longrightarrow> e \<le> 2 ^ 63" for r e
    using parse_units_bound [of r 0 e] by simp
  let ?r = "if s \<noteq> [] \<and> (hd s = CHR ''-'' \<or> hd s = CHR ''+'') then tl s else s"
  show ?thesis
  proof (cases "?r = ''0''")
    case True
    then have "d = 0" using run by (simp add: parse_duration_def Let_def)
    then show ?thesis by (simp add: in64_def)
  next
    case False
    then obtain e where e: "parse_units ?r 0 = Some e"
      and d: "d = - int e \<or> d = int e \<and> e \<le> 2 ^ 63 - 1"
      using run unfolding parse_duration_def Let_def
      by (auto split: option.split_asm if_split_asm)
    then show ?thesis using bound [OF e] by (auto simp: in64_def)
  qed
qed

definition flags_in_range :: "raw_flags \<Rightarrow> bool" where
  "flags_in_range raw \<longleftrightarrow> in64 (f_duration raw) \<and> in64 (f_startup_delay raw)"

lemma set_flag_in_range:
  "set_flag raw name v = Some raw' \<Longrightarrow> flags_in_range raw \<Longrightarrow> flags_in_range raw'"
  by (auto simp: set_flag_def flags_in_range_def parse_duration_in64 split: if_split_asm)

lemma parse_flags_in_range:
  "parse_flags raw args = Inr (raw', rest) \<Longrightarrow> flags_in_range raw \<Longrightarrow> flags_in_range raw'"
  by (rule parse_flag_set_keeps) (auto intro: set_flag_in_range)

lemma parse_index_items_range:
  "parse_index_items items acc = Inr indexes \<Longrightarrow> finite acc \<Longrightarrow> acc \<subseteq> {0..<2 ^ 63} \<Longrightarrow>
    finite indexes \<and> indexes \<subseteq> {0..<2 ^ 63}"
proof (induction items acc rule: parse_index_items.induct)
  case (2 item items acc)
  then show ?case
    using atoi_in64 [of "trim_space item"]
    by (auto simp: in64_def split: option.split_asm if_split_asm)
qed simp

lemma parse_indexes_range:
  "parse_indexes v = Inr indexes \<Longrightarrow> finite indexes \<and> indexes \<subseteq> {0..<2 ^ 63}"
  using parse_index_items_range by (auto simp: parse_indexes_def split: if_split_asm)

lemma parse_index_range: "parse_index v = Inr i \<Longrightarrow> set_option i \<subseteq> {0..<2 ^ 63}"
  using atoi_in64 [of v]
  by (auto simp: parse_index_def in64_def split: if_split_asm option.split_asm)

lemma parse_config_valid: "parse_config args getenv = Inr c \<Longrightarrow> valid_config c"
proof -
  assume run: "parse_config args getenv = Inr c"
  obtain raw rest where flags: "parse_flags default_flags args = Inr (raw, rest)"
    using run by (auto simp: parse_config_def split: sum.split_asm)
  have range: "flags_in_range raw"
    by (rule parse_flags_in_range [OF flags]) (simp add: flags_in_range_def default_flags_def in64_def)
  obtain selected index where "parse_indexes (f_fail_indexes raw) = Inr selected"
    and "parse_index (getenv ''JOB_COMPLETION_INDEX'') = Inr index"
    and "f_mode raw = mode_complete \<or> f_mode raw = mode_wait"
    and "0 \<le> f_duration raw" "0 \<le> f_startup_delay raw"
    and "c = \<lparr>cfg_mode = f_mode raw, cfg_duration = f_duration raw,
      cfg_startup_delay = f_startup_delay raw, cfg_fail_indexes = selected, cfg_index = index\<rparr>"
    using run by (auto simp: parse_config_def flags split: if_split_asm sum.split_asm)
  then show ?thesis
    using range parse_indexes_range parse_index_range
    by (simp add: valid_config_def flags_in_range_def in64_def)
qed

section \<open>Transcripts\<close>

text \<open>The outcomes a result record can have, each with its exit code.\<close>

definition verdict_codes :: "(string \<times> int) list" where
  "verdict_codes = [(''terminated'', exit_termination), (''failed'', exit_failure),
     (''succeeded'', exit_success)]"

definition start_record :: "(time \<Rightarrow> string) \<Rightarrow> worker_env \<Rightarrow> config \<Rightarrow> worker_record" where
  "start_record stamp env c = write_record stamp (we_start env) c ''start'' ''started'' None"

definition result_record ::
    "(time \<Rightarrow> string) \<Rightarrow> time \<Rightarrow> config \<Rightarrow> string \<Rightarrow> int \<Rightarrow> worker_record" where
  "result_record stamp t c outcome code = write_record stamp t c ''result'' outcome (Some code)"

text \<open>The verdict of a worker that completes without being cancelled.\<close>

definition completion_verdict :: "config \<Rightarrow> string \<times> int" where
  "completion_verdict c =
     (if \<exists>i \<in> set_option (cfg_index c). i \<in> cfg_fail_indexes c
      then (''failed'', exit_failure) else (''succeeded'', exit_success))"

lemma completion_verdict_code: "completion_verdict c \<in> set verdict_codes"
  by (simp add: completion_verdict_def verdict_codes_def)

text \<open>Everything a run with an accepted configuration can do.\<close>

inductive transcript ::
    "(time \<Rightarrow> string) \<Rightarrow> worker_env \<Rightarrow> config \<Rightarrow> worker_record list \<Rightarrow> run_end \<Rightarrow> bool"
  for stamp env c where
  blocked: "cfg_mode c = mode_wait \<Longrightarrow> we_done env = None \<Longrightarrow>
    transcript stamp env c [start_record stamp env c] Blocks"
| cancelled: "we_done env = Some t0 \<Longrightarrow> we_start env \<le> t \<Longrightarrow> t0 \<le> t \<Longrightarrow>
    transcript stamp env c
      [start_record stamp env c, result_record stamp t c ''terminated'' exit_termination]
      (Exits exit_termination)"
| completed: "cfg_mode c = mode_complete \<Longrightarrow> completion_verdict c = (outcome, code) \<Longrightarrow>
    we_start env + cfg_startup_delay c + cfg_duration c \<le> t \<Longrightarrow>
    transcript stamp env c
      [start_record stamp env c, result_record stamp t c outcome code] (Exits code)"

inductive_cases transcript_blocks: "transcript stamp env c rs Blocks"
inductive_cases transcript_exits: "transcript stamp env c rs (Exits code)"
inductive_cases transcript_panics: "transcript stamp env c rs Panics"

lemma wait_bounds:
  assumes "wait finish sched now d = (elapsed, t)" and "0 \<le> d"
  shows "now \<le> t \<and> (elapsed \<longrightarrow> now + d \<le> t) \<and>
    (\<not> elapsed \<longrightarrow> (\<exists>t0. finish = Some t0 \<and> t0 \<le> t))"
  using assms
  by (cases finish) (auto simp: wait_def is_done_def Let_def split: if_split_asm)

lemma run_accepted:
  assumes config: "parse_config args getenv = Inr c"
  shows "transcript stamp env c (out_stdout (run stamp env args getenv))
      (out_end (run stamp env args getenv)) \<and> out_stderr (run stamp env args getenv) = []"
proof -
  note valid = parse_config_valid [OF config, unfolded valid_config_def]
  obtain elapsed t1 where w1: "wait (we_done env) (we_startup_sched env) (we_start env)
      (cfg_startup_delay c) = (elapsed, t1)" by fastforce
  note b1 = wait_bounds [OF w1]
  obtain elapsed' t2 where w2: "wait (we_done env) (we_work_sched env) t1 (cfg_duration c)
      = (elapsed', t2)" by fastforce
  note b2 = wait_bounds [OF w2]
  note run = run_def config sum.case w1 w2 prod.case Let_def
  show ?thesis
  proof (cases elapsed)
    case False
    then show ?thesis
      unfolding run using b1 valid transcript.cancelled [of env _ t1 stamp c]
      by (auto simp: start_record_def result_record_def)
  next
    case startup: True
    show ?thesis
    proof (cases "cfg_mode c = mode_wait")
      case True
      then show ?thesis
        unfolding run using b1 valid startup transcript.blocked [of c env stamp]
          transcript.cancelled [of env _ "max t1 _" stamp c]
        by (cases "we_done env") (auto simp: start_record_def result_record_def)
    next
      case False
      then have mode: "cfg_mode c = mode_complete" using valid by simp
      show ?thesis
      proof (cases elapsed')
        case True
        then show ?thesis
          unfolding run using b1 b2 valid startup mode transcript.completed [of c _ _ env t2 stamp]
          by (cases "cfg_index c")
            (auto simp: start_record_def result_record_def completion_verdict_def)
      next
        case False
        then show ?thesis
          unfolding run using b1 b2 valid startup mode transcript.cancelled [of env _ t2 stamp c]
          by (auto simp: start_record_def result_record_def)
      qed
    qed
  qed
qed

lemma first_record:
  assumes "parse_config args getenv = Inr c"
  shows "out_stdout (run stamp env args getenv) \<noteq> [] \<and>
    r_index (hd (out_stdout (run stamp env args getenv))) = cfg_index c"
proof -
  have "transcript stamp env c (out_stdout (run stamp env args getenv))
      (out_end (run stamp env args getenv))"
    using run_accepted [OF assms] by simp
  then show ?thesis
    by (cases rule: transcript.cases) (auto simp: start_record_def write_record_def)
qed

section \<open>The protocol readers of the records rely on\<close>

locale worker_protocol =
  fixes emits :: "worker_record list \<Rightarrow> run_end \<Rightarrow> bool"
  assumes finished: "emits rs (Exits code) \<Longrightarrow> rs = [] \<or> (\<exists>s r. rs = [s, r] \<and>
      r_type s = ''start'' \<and> r_type r = ''result'' \<and> r_exit_code r = Some code \<and>
      r_exit_reason r = r_outcome r \<and> (r_outcome r, code) \<in> set verdict_codes \<and>
      r_parameters r = r_parameters s)"
    and unfinished: "emits rs Blocks \<Longrightarrow> \<exists>s. rs = [s] \<and> r_type s = ''start''"
    and no_panic: "\<not> emits rs Panics"
begin

lemma starts_first: "emits (r # rs) e \<Longrightarrow> r_type r = ''start''"
  using finished unfinished no_panic by (cases e) fastforce+

lemma at_most_two: "emits rs e \<Longrightarrow> length rs \<le> 2"
  using finished unfinished no_panic by (cases e) fastforce+

end

text \<open>The records and the end of some run of the worker, whatever its arguments and timing.\<close>

definition worker_emits :: "(time \<Rightarrow> string) \<Rightarrow> worker_record list \<Rightarrow> run_end \<Rightarrow> bool" where
  "worker_emits stamp rs e \<longleftrightarrow> (\<exists>env args getenv.
     rs = out_stdout (run stamp env args getenv) \<and> e = out_end (run stamp env args getenv))"

lemma run_rejected:
  "parse_config args getenv = Inl e \<Longrightarrow> run stamp env args getenv =
    \<lparr>out_end = Exits exit_validation, out_stdout = [], out_stderr = ''worker: '' @ error_text e @ [CHR 0x0A]\<rparr>"
  by (simp add: run_def)

lemma worker_emits_cases:
  assumes "worker_emits stamp rs e"
  obtains (rejected) "rs = []" "e = Exits exit_validation"
    | (ran) env c where "valid_config c" "transcript stamp env c rs e"
  using assms run_accepted run_rejected parse_config_valid
  unfolding worker_emits_def by (metis old.sum.exhaust run_out.select_convs(1,2))

lemma record_fields:
  "r_type (start_record stamp env c) = ''start''"
  "r_type (result_record stamp t c outcome code) = ''result''"
  "r_exit_code (result_record stamp t c outcome code) = Some code"
  "r_exit_reason (result_record stamp t c outcome code) = outcome"
  "r_outcome (result_record stamp t c outcome code) = outcome"
  "r_parameters (result_record stamp t c outcome code) = r_parameters (start_record stamp env c)"
  "r_timestamp (start_record stamp env c) = stamp (we_start env)"
  "r_timestamp (result_record stamp t c outcome code) = stamp t"
  by (simp_all add: start_record_def result_record_def write_record_def)

interpretation worker: worker_protocol "worker_emits stamp"
proof
  fix rs code
  assume "worker_emits stamp rs (Exits code)"
  then show "rs = [] \<or> (\<exists>s r. rs = [s, r] \<and>
      r_type s = ''start'' \<and> r_type r = ''result'' \<and> r_exit_code r = Some code \<and>
      r_exit_reason r = r_outcome r \<and> (r_outcome r, code) \<in> set verdict_codes \<and>
      r_parameters r = r_parameters s)"
  proof (cases rule: worker_emits_cases)
    case (ran env c)
    from ran(2) show ?thesis
      using completion_verdict_code [of c]
      by (cases rule: transcript_exits) (auto simp: record_fields verdict_codes_def)
  qed simp
next
  fix rs
  assume "worker_emits stamp rs Blocks"
  then show "\<exists>s. rs = [s] \<and> r_type s = ''start''"
    by (cases rule: worker_emits_cases) (auto elim: transcript_blocks simp: record_fields)
next
  fix rs
  show "\<not> worker_emits stamp rs Panics"
    by (auto elim!: worker_emits_cases transcript_panics)
qed

section \<open>Arguments that reproduce a configuration\<close>

text \<open>The arguments spelled from the parameters of a record, and the environment of its index.\<close>

definition rerun_args :: "parameter_summary \<Rightarrow> string list" where
  "rerun_args p = [''--mode='' @ ps_mode p, ''--duration='' @ ps_duration p,
     ''--startup-delay='' @ ps_startup_delay p,
     ''--fail-indexes='' @ join_with '','' (map show_int (ps_fail_indexes p))]"

definition index_env :: "int option \<Rightarrow> string \<Rightarrow> string" where
  "index_env index key = (case index of None \<Rightarrow> [] | Some i \<Rightarrow> show_int i)"

lemma parse_flags_step:
  assumes "name \<in> set flag_names" and "set_flag raw name v = Some raw'"
  shows "parse_flags raw ((''--'' @ name @ ''='' @ v) # args) = parse_flags raw' args"
  by (rule parse_flag_set_step) (use assms in \<open>auto simp: flag_names_def\<close>)

lemma show_int_digits:
  assumes "0 \<le> i"
  shows "show_int i \<noteq> []" "c \<in> set (show_int i) \<Longrightarrow> is_digit c"
  using assms show_nat_digits [of c "nat i"] by (simp_all add: show_int_def)

lemma atoi_show_int: "0 \<le> i \<Longrightarrow> i < 2 ^ 63 \<Longrightarrow> atoi (show_int i) = Some i"
  using atoi_show_nat [of "nat i"] by (simp add: show_int_def)

lemma trim_show_int:
  assumes "0 \<le> i"
  shows "trim_space (show_int i) = show_int i"
  by (rule trim_space_graphic) (use show_int_digits [OF assms] is_digit_graphic in simp)

lemma parse_index_items_shown:
  "set xs \<subseteq> {0..<2 ^ 63} \<Longrightarrow> parse_index_items (map show_int xs) acc = Inr (acc \<union> set xs)"
  by (induction xs arbitrary: acc) (auto simp: trim_show_int atoi_show_int)

lemma parse_indexes_shown:
  assumes "set xs \<subseteq> {0..<2 ^ 63}"
  shows "parse_indexes (join_with '','' (map show_int xs)) = Inr (set xs)"
proof (cases "xs = []")
  case False
  have "\<forall>x \<in> set (map show_int xs). CHR '','' \<notin> set x"
    using assms show_int_digits(2) by (fastforce simp: is_digit_def)
  then have "split_on CHR '','' (join_with '','' (map show_int xs)) = map show_int xs"
    using False by (intro split_on_join) simp_all
  moreover from False obtain y ys where "xs = y # ys" by (cases xs) auto
  moreover from this have "join_with '','' (map show_int xs) \<noteq> []"
    using assms show_int_digits(1) [of y] by (cases ys) auto
  ultimately show ?thesis
    using parse_index_items_shown [OF assms, of "{}"] by (simp add: parse_indexes_def)
qed (simp add: parse_indexes_def)

lemma parse_index_shown:
  "set_option index \<subseteq> {0..<2 ^ 63} \<Longrightarrow> parse_index (index_env index key) = Inr index"
  using show_int_digits(1) by (cases index) (auto simp: parse_index_def index_env_def atoi_show_int)

lemma parse_rerun_args:
  assumes "valid_config c" and p: "p = r_parameters (write_record stamp t c ty outcome code)"
  shows "parse_config (rerun_args p) (index_env (cfg_index c)) = Inr c"
proof -
  note valid = assms(1) [unfolded valid_config_def]
  have durations: "parse_duration (duration_string (cfg_duration c)) = Some (cfg_duration c)"
    "parse_duration (duration_string (cfg_startup_delay c)) = Some (cfg_startup_delay c)"
    using valid by (auto intro!: duration_round_trip simp: in64_def)
  let ?indexes = "join_with '','' (map show_int (sorted_list_of_set (cfg_fail_indexes c)))"
  let ?raw = "\<lparr>f_mode = cfg_mode c, f_duration = cfg_duration c,
    f_startup_delay = cfg_startup_delay c, f_fail_indexes = ?indexes\<rparr>"
  have args: "rerun_args p = [''--'' @ ''mode'' @ ''='' @ cfg_mode c,
      ''--'' @ ''duration'' @ ''='' @ duration_string (cfg_duration c),
      ''--'' @ ''startup-delay'' @ ''='' @ duration_string (cfg_startup_delay c),
      ''--'' @ ''fail-indexes'' @ ''='' @ ?indexes]"
    unfolding rerun_args_def p write_record_def by simp
  have sets: "set_flag raw ''mode'' v = Some (raw\<lparr>f_mode := v\<rparr>)"
    "set_flag raw ''duration'' (duration_string (cfg_duration c))
      = Some (raw\<lparr>f_duration := cfg_duration c\<rparr>)"
    "set_flag raw ''startup-delay'' (duration_string (cfg_startup_delay c))
      = Some (raw\<lparr>f_startup_delay := cfg_startup_delay c\<rparr>)"
    "set_flag raw ''fail-indexes'' v = Some (raw\<lparr>f_fail_indexes := v\<rparr>)" for raw v
    by (simp_all add: set_flag_def durations)
  have names: "''mode'' \<in> set flag_names" "''duration'' \<in> set flag_names"
    "''startup-delay'' \<in> set flag_names" "''fail-indexes'' \<in> set flag_names"
    by (simp_all add: flag_names_def)
  have flags: "parse_flags default_flags (rerun_args p) = Inr (?raw, [])"
    unfolding args parse_flags_step [OF names(1) sets(1)]
      parse_flags_step [OF names(2) sets(2)]
      parse_flags_step [OF names(3) sets(3)]
      parse_flags_step [OF names(4) sets(4)]
    by (simp add: default_flags_def)
  have "parse_indexes ?indexes = Inr (cfg_fail_indexes c)"
    using parse_indexes_shown [of "sorted_list_of_set (cfg_fail_indexes c)"] valid by simp
  then show ?thesis
    using valid parse_index_shown by (auto simp: parse_config_def flags)
qed

text \<open>Arguments of a worker whose completion index is selected to fail.\<close>

definition sample_args :: "string list" where
  "sample_args = [''--mode=complete'', ''--duration'', ''0'', ''--fail-indexes=1, 2'']"

definition sample_config :: config where
  "sample_config = \<lparr>cfg_mode = mode_complete, cfg_duration = 0, cfg_startup_delay = 0,
     cfg_fail_indexes = {1, 2}, cfg_index = Some 1\<rparr>"

definition sample_env :: "time option \<Rightarrow> worker_env" where
  "sample_env finish = \<lparr>we_start = 100, we_done = finish, we_startup_sched = (0, True),
     we_work_sched = (0, True)\<rparr>"

lemma sample_worker_simps:
  "we_start (sample_env finish) = 100" "we_done (sample_env finish) = finish"
  "fst (we_startup_sched (sample_env finish)) = 0" "fst (we_work_sched (sample_env finish)) = 0"
  "cfg_mode sample_config = mode_complete" "cfg_duration sample_config = 0"
  "cfg_startup_delay sample_config = 0" "cfg_fail_indexes sample_config = {1, 2}"
  "cfg_index sample_config = Some 1"
  by (simp_all add: sample_env_def sample_config_def)

lemma sample_parses: "parse_config sample_args (\<lambda>_. ''1'') = Inr sample_config"
proof -
  have zero: "parse_duration ''0'' = Some 0" by (simp add: parse_duration_def)
  have flags: "parse_flags default_flags sample_args =
      Inr (\<lparr>f_mode = mode_complete, f_duration = 0, f_startup_delay = 0, f_fail_indexes = ''1, 2''\<rparr>, [])"
    by (simp add: sample_args_def flag_names_def set_flag_def default_flags_def zero mode_complete_def)
  have items: "trim_space ''1'' = ''1''" "trim_space '' 2'' = ''2''" "atoi ''1'' = Some 1" "atoi ''2'' = Some 2"
    by code_simp+
  show ?thesis
    by (simp add: parse_config_def flags parse_indexes_def items parse_index_def sample_config_def
        insert_commute)
qed

section \<open>Properties\<close>

text \<open>
  C6: whatever its arguments, environment and timing, the worker either rejects its arguments,
  then exits with 2 and writes no record, or writes a start record first and, unless it blocks,
  exactly one result record whose exit code is the process's, whose outcome matches the code
  (3 terminated, 10 failed, 0 succeeded) and which is not earlier than the start; it blocks exactly
  in wait mode without a cancellation, and never panics.
\<close>

theorem worker_exit_contract:
  "let out = run stamp env args getenv in
   case parse_config args getenv of
     Inl e \<Rightarrow> out_end out = Exits exit_validation \<and> out_stdout out = [] \<and> out_stderr out \<noteq> []
   | Inr c \<Rightarrow> out_stderr out = [] \<and>
       (case out_end out of
          Panics \<Rightarrow> False
        | Blocks \<Rightarrow> cfg_mode c = mode_wait \<and> we_done env = None \<and>
            out_stdout out = [start_record stamp env c]
        | Exits code \<Rightarrow> \<not> (cfg_mode c = mode_wait \<and> we_done env = None) \<and>
            (\<exists>outcome t. (outcome, code) \<in> set verdict_codes \<and> we_start env \<le> t \<and>
              out_stdout out = [start_record stamp env c, result_record stamp t c outcome code]))"
proof (cases "parse_config args getenv")
  case (Inl e)
  then show ?thesis by (simp add: run_rejected)
next
  case (Inr c)
  note accepted = run_accepted [OF Inr, of stamp env]
  have t: "0 \<le> cfg_startup_delay c" "0 \<le> cfg_duration c"
    using parse_config_valid [OF Inr] by (simp_all add: valid_config_def)
  show ?thesis
  proof (cases "out_end (run stamp env args getenv)")
    case (Exits code)
    have "transcript stamp env c (out_stdout (run stamp env args getenv)) (Exits code)"
      using accepted Exits by simp
    then show ?thesis
    proof (cases rule: transcript.cases)
      case cancelled
      then show ?thesis using accepted Exits Inr
        by (auto simp: Let_def verdict_codes_def)
    next
      case (completed outcome t)
      moreover have "we_start env \<le> t" using completed t by linarith
      ultimately show ?thesis using accepted Exits Inr completion_verdict_code [of c]
        by (auto simp: Let_def)
    qed
  next
    case Blocks
    then show ?thesis using accepted Inr by (auto simp: Let_def elim: transcript_blocks)
  next
    case Panics
    then show ?thesis using accepted by (auto elim: transcript_panics)
  qed
qed

text \<open>
  A worker that completes without being cancelled runs at least its startup delay and its
  duration, and exits with 10 exactly when its completion index is one of the selected ones,
  otherwise with 0.
\<close>

lemma selected_index_fails:
  assumes config: "parse_config args getenv = Inr c" and mode: "cfg_mode c = mode_complete"
    and "we_done env = None"
  shows "\<exists>t outcome code. we_start env + cfg_startup_delay c + cfg_duration c \<le> t \<and>
    out_stdout (run stamp env args getenv)
      = [start_record stamp env c, result_record stamp t c outcome code] \<and>
    out_end (run stamp env args getenv) = Exits code \<and>
    code = (if \<exists>i. cfg_index c = Some i \<and> i \<in> cfg_fail_indexes c then exit_failure else exit_success)"
proof -
  have "transcript stamp env c (out_stdout (run stamp env args getenv))
      (out_end (run stamp env args getenv))"
    using run_accepted [OF config] by simp
  then show ?thesis
    using assms(2,3)
    by (cases rule: transcript.cases) (auto simp: completion_verdict_def split: if_splits)
qed

text \<open>The worker ends at the time \<open>t\<close> with a verdict.\<close>

definition ends_at :: "(time \<Rightarrow> string) \<Rightarrow> worker_env \<Rightarrow> config \<Rightarrow> run_out \<Rightarrow> time \<Rightarrow> string \<times> int \<Rightarrow> bool" where
  "ends_at stamp env c out t verdict \<longleftrightarrow> out_end out = Exits (snd verdict) \<and>
     out_stdout out = [start_record stamp env c, result_record stamp t c (fst verdict) (snd verdict)]"

lemma prompt_wait:
  assumes "fst sched = 0" "0 \<le> d" "wait (Some t) sched now d = (elapsed, e)"
  shows "e = (if t < now + d then max now t else now + d)" "t < now + d \<Longrightarrow> \<not> elapsed" "now + d < t \<Longrightarrow> elapsed"
  using assms by (auto simp: wait_def is_done_def Let_def split: if_split_asm)

lemma undisturbed_wait: "fst sched = 0 \<Longrightarrow> 0 \<le> d \<Longrightarrow> wait None sched now d = (True, now + d)"
  by (simp add: wait_def is_done_def Let_def)

lemma run_ends:
  assumes config: "parse_config args getenv = Inr c" and out: "out = run stamp env args getenv"
    and startup: "wait (we_done env) (we_startup_sched env) (we_start env) (cfg_startup_delay c) = (elapsed, t1)"
    and work: "wait (we_done env) (we_work_sched env) t1 (cfg_duration c) = (elapsed', t2)"
  shows "\<not> elapsed \<Longrightarrow> ends_at stamp env c out t1 (''terminated'', exit_termination)"
    and "elapsed \<Longrightarrow> cfg_mode c = mode_wait \<Longrightarrow> we_done env = None \<Longrightarrow> out_end out = Blocks"
    and "elapsed \<Longrightarrow> cfg_mode c = mode_wait \<Longrightarrow> we_done env = Some t \<Longrightarrow>
      ends_at stamp env c out (max t1 t) (''terminated'', exit_termination)"
    and "elapsed \<Longrightarrow> cfg_mode c = mode_complete \<Longrightarrow>
      ends_at stamp env c out t2 (if elapsed' then completion_verdict c else (''terminated'', exit_termination))"
  using startup work
  by (auto simp: out run_def config ends_at_def start_record_def result_record_def completion_verdict_def Let_def
      mode_wait_def mode_complete_def split: option.split)

text \<open>
  C17: with selects entered at once, an accepted worker terminates unless it waits without a
  cancellation, and at a known time: without one when the startup delay and the duration are over,
  with the verdict of its index; with one at \<open>t\<close> before that deadline, or at any time in wait mode,
  at \<open>t\<close> with 3, at once if it comes before the start; a later one does not change the verdict.
\<close>

theorem worker_terminates:
  assumes config: "parse_config args getenv = Inr c"
    and prompt: "fst (we_startup_sched env) = 0" "fst (we_work_sched env) = 0"
    and deadline: "deadline = we_start env + cfg_startup_delay c + cfg_duration c"
    and out: "out = run stamp env args getenv"
  shows "case we_done env of
      None \<Rightarrow> if cfg_mode c = mode_wait then out_end out = Blocks
        else ends_at stamp env c out deadline (completion_verdict c)
    | Some t \<Rightarrow>
        (cfg_mode c = mode_wait \<or> t < deadline \<longrightarrow>
          ends_at stamp env c out (max (we_start env) t) (''terminated'', exit_termination)) \<and>
        (cfg_mode c = mode_complete \<and> deadline < t \<longrightarrow> ends_at stamp env c out deadline (completion_verdict c))"
proof -
  note valid = parse_config_valid [OF config, unfolded valid_config_def]
  obtain b1 t1 where w1: "wait (we_done env) (we_startup_sched env) (we_start env) (cfg_startup_delay c) = (b1, t1)"
    by fastforce
  obtain b2 t2 where w2: "wait (we_done env) (we_work_sched env) t1 (cfg_duration c) = (b2, t2)" by fastforce
  note ends = run_ends [OF config out w1 w2]
  show ?thesis
  proof (cases "we_done env")
    case None
    then have "b1" "b2" "t2 = deadline"
      using w1 w2 undisturbed_wait prompt valid deadline by auto
    then show ?thesis using None ends(2,4) valid by auto
  next
    case (Some t)
    have first: "t1 = (if t < we_start env + cfg_startup_delay c then max (we_start env) t else we_start env + cfg_startup_delay c)"
      "t < we_start env + cfg_startup_delay c \<Longrightarrow> \<not> b1" "we_start env + cfg_startup_delay c < t \<Longrightarrow> b1"
      using prompt_wait [OF prompt(1) _ w1 [unfolded Some]] valid by auto
    have second: "t2 = (if t < t1 + cfg_duration c then max t1 t else t1 + cfg_duration c)"
      "t < t1 + cfg_duration c \<Longrightarrow> \<not> b2" "t1 + cfg_duration c < t \<Longrightarrow> b2"
      using prompt_wait [OF prompt(2) _ w2 [unfolded Some]] valid by auto
    show ?thesis
    proof (cases b1)
      case False
      then have "t \<le> we_start env + cfg_startup_delay c" using first(3) by force
      then have "t1 = max (we_start env) t" using first(1) valid by auto
      moreover have "t \<le> deadline" using \<open>t \<le> we_start env + cfg_startup_delay c\<close> valid deadline by simp
      ultimately show ?thesis using Some False ends(1) by auto
    next
      case True
      then have "t1 = we_start env + cfg_startup_delay c" "t1 \<le> t" using first by (auto split: if_split_asm)
      then show ?thesis
        using Some True second valid deadline ends(3) [of t] ends(4) by (auto simp: max_def split: if_split_asm)
    qed
  qed
qed

theorem worker_terminates_witness:
  "out_end (run (\<lambda>_. []) (sample_env (Some 50)) sample_args (\<lambda>_. ''1'')) = Exits 3 \<and>
   out_end (run (\<lambda>_. []) (sample_env (Some 101)) sample_args (\<lambda>_. ''1'')) = Exits 10 \<and>
   out_end (run (\<lambda>_. []) (sample_env None) sample_args (\<lambda>_. ''1'')) = Exits 10"
  using worker_terminates [OF sample_parses, of "sample_env (Some 50)" 100 _ "\<lambda>_. []"]
    worker_terminates [OF sample_parses, of "sample_env (Some 101)" 100 _ "\<lambda>_. []"]
    worker_terminates [OF sample_parses, of "sample_env None" 100 _ "\<lambda>_. []"]
  by (simp add: sample_worker_simps completion_verdict_def exit_defs ends_at_def mode_wait_def mode_complete_def)

text \<open>
  C16: every record the worker writes reproduces its configuration: started again with the flags
  spelled from the record's parameters and with the record's completion index in its environment,
  a worker parses the same configuration. Durations and indexes survive printing and parsing.
\<close>

theorem record_replays_config:
  assumes "r \<in> set (out_stdout (run stamp env args getenv))"
  shows "parse_config (rerun_args (r_parameters r)) (index_env (r_index r)) = parse_config args getenv"
proof (cases "parse_config args getenv")
  case (Inl e)
  then show ?thesis using assms by (simp add: run_rejected)
next
  case (Inr c)
  have "transcript stamp env c (out_stdout (run stamp env args getenv))
      (out_end (run stamp env args getenv))"
    using run_accepted [OF Inr] by simp
  then obtain t ty outcome code where r: "r = write_record stamp t c ty outcome code"
    using assms by (cases rule: transcript.cases) (auto simp: start_record_def result_record_def)
  moreover have "r_index r = cfg_index c" by (simp add: r write_record_def)
  ultimately show ?thesis
    using parse_rerun_args [OF parse_config_valid [OF Inr]] Inr by simp
qed

theorem record_replays_config_witness:
  "parse_config (rerun_args (r_parameters (hd (out_stdout
       (run (\<lambda>_. []) (sample_env None) sample_args (\<lambda>_. ''1'')))))) (index_env (Some 1))
     = Inr sample_config"
proof -
  let ?rs = "out_stdout (run (\<lambda>_. []) (sample_env None) sample_args (\<lambda>_. ''1''))"
  have "?rs \<noteq> []" and "r_index (hd ?rs) = Some 1"
    using first_record [OF sample_parses, of "\<lambda>_. []" "sample_env None"]
    by (simp_all add: sample_worker_simps)
  then show ?thesis
    using record_replays_config [of "hd ?rs" "\<lambda>_. []" "sample_env None" sample_args "\<lambda>_. ''1''"]
    by (simp add: sample_parses)
qed

text \<open>
  C40: an accepted configuration is in range: a known mode, durations that are neither negative nor
  wrapped, finitely many failing indexes and an index that are all natural numbers below
  \<open>2^63\<close>; anything else is rejected with an error.
\<close>

theorem accepted_config_in_range:
  "case parse_config args getenv of Inl e \<Rightarrow> True | Inr c \<Rightarrow> valid_config c"
  using parse_config_valid by (simp split: sum.split)

end
