(* ===== verification/Go_Path.thy ===== *)
theory Go_Path
  imports Go_Text
begin

text \<open>
  \<open>path/filepath\<close> on Unix: \<open>Join\<close> with \<open>Clean\<close>, and \<open>Base\<close>. A cleaned path is determined by
  whether it is rooted and by its components.
\<close>

definition slash :: char where "slash = CHR ''/''"

definition rooted :: "string \<Rightarrow> bool" where
  "rooted p \<longleftrightarrow> p \<noteq> [] \<and> hd p = slash"

text \<open>One step of the lexical processing: \<open>.\<close> is dropped, \<open>..\<close> removes what precedes it.\<close>

definition path_step :: "bool \<Rightarrow> string list \<Rightarrow> string \<Rightarrow> string list" where
  "path_step r done c =
     (if c = [] \<or> c = ''.'' then done
      else if c = ''..'' then
        (if done \<noteq> [] \<and> last done \<noteq> ''..'' then butlast done
         else if r then done else done @ [c])
      else done @ [c])"

definition path_comps :: "string \<Rightarrow> string list" where
  "path_comps p = foldl (path_step (rooted p)) [] (split_on slash p)"

definition clean :: "string \<Rightarrow> string" where
  "clean p =
     (let comps = path_comps p; body = join_with [slash] comps
      in if rooted p then slash # body else if body = [] then ''.'' else body)"

definition path_join :: "string list \<Rightarrow> string" where
  "path_join elems =
     (let rest = dropWhile (\<lambda>e. e = []) elems
      in if rest = [] then [] else clean (join_with [slash] rest))"

text \<open>\<open>filepath.Base\<close>: the last element, trailing slashes removed.\<close>

definition path_base :: "string \<Rightarrow> string" where
  "path_base p =
     (if p = [] then ''.''
      else let q = rev (dropWhile (\<lambda>c. c = slash) (rev p))
           in if q = [] then [slash] else last (split_on slash q))"

text \<open>\<open>filepath.Dir\<close>: what precedes the last slash, cleaned.\<close>

definition path_dir :: "string \<Rightarrow> string" where
  "path_dir p = clean (rev (dropWhile (\<lambda>c. c \<noteq> slash) (rev p)))"

text \<open>A component that names a file or directory of its own.\<close>

definition plain_comp :: "string \<Rightarrow> bool" where
  "plain_comp c \<longleftrightarrow> c \<noteq> [] \<and> c \<noteq> ''.'' \<and> c \<noteq> ''..'' \<and> slash \<notin> set c"

lemma path_step_plain: "plain_comp c \<Longrightarrow> path_step r cs c = cs @ [c]"
  by (simp add: path_step_def plain_comp_def)

lemma path_steps_plain: "list_all plain_comp cs \<Longrightarrow> foldl (path_step r) ds cs = ds @ cs"
  by (induction cs arbitrary: ds) (simp_all add: path_step_plain)

lemma split_on_append_sep: "split_on d (x @ d # s) = split_on d x @ split_on d s"
  by (induction x) (auto split: list.splits)

lemma path_comps_append:
  assumes "p \<noteq> []" and "list_all plain_comp cs" and "cs \<noteq> []"
  shows "path_comps (p @ slash # join_with [slash] cs) = path_comps p @ cs"
proof -
  have "split_on slash (join_with [slash] cs) = cs"
    by (rule split_on_join) (use assms in \<open>auto simp: list_all_iff plain_comp_def\<close>)
  moreover have "rooted (p @ slash # join_with [slash] cs) = rooted p"
    using assms(1) by (simp add: rooted_def)
  ultimately show ?thesis
    by (simp add: path_comps_def split_on_append_sep path_steps_plain [OF assms(2)])
qed

text \<open>Joining plain components below a directory appends them to the directory's components.\<close>

lemma path_join_below:
  assumes "dir \<noteq> []" and "list_all plain_comp cs" and "cs \<noteq> []"
  shows "path_join [dir, join_with [slash] cs] =
    (if rooted dir then slash # join_with [slash] (path_comps dir @ cs)
     else join_with [slash] (path_comps dir @ cs))"
proof -
  obtain c cs' where cs: "cs = c # cs'" using assms(3) by (cases cs) auto
  then have "c \<noteq> []" using assms(2) by (simp add: plain_comp_def)
  then have "join_with [slash] cs \<noteq> []" unfolding cs by (cases cs') simp_all
  moreover have "join_with [slash] (path_comps dir @ cs) \<noteq> []"
  proof (cases "path_comps dir")
    case Nil
    then show ?thesis using \<open>join_with [slash] cs \<noteq> []\<close> by simp
  next
    case (Cons d ds)
    then show ?thesis using assms(3) by (simp add: join_with_Cons)
  qed
  moreover have "rooted (dir @ slash # join_with [slash] cs) = rooted dir"
    using assms(1) by (simp add: rooted_def)
  ultimately show ?thesis
    using assms path_comps_append [OF assms]
    by (simp add: path_join_def clean_def Let_def)
qed

lemma path_join_plain:
  assumes "list_all plain_comp cs" and "cs \<noteq> []"
  shows "path_join cs = join_with [slash] cs"
proof -
  obtain c cs' where cs: "cs = c # cs'" using assms(2) by (cases cs) auto
  have c: "c \<noteq> []" "slash \<notin> set c" using assms(1) by (simp_all add: cs plain_comp_def)
  then have "hd c \<noteq> slash" by (metis hd_in_set)
  then have "\<not> rooted (join_with [slash] cs)" "join_with [slash] cs \<noteq> []"
    using c by (cases cs'; simp add: cs rooted_def)+
  moreover have "split_on slash (join_with [slash] cs) = cs"
    by (rule split_on_join) (use assms in \<open>auto simp: list_all_iff plain_comp_def\<close>)
  ultimately show ?thesis
    using c path_steps_plain [OF assms(1)] by (simp add: path_join_def cs clean_def path_comps_def Let_def)
qed

end
