(* ===== verification/Device_Plugin.thy ===== *)
theory Device_Plugin
  imports Go_Path
begin

text \<open>
  \<open>internal/deviceplugin/plugin.go\<close>: the device plugin that advertises simulated GPUs. The
  operating system, gRPC and the kubelet are parameters, the fields of \<open>device_os\<close>, which take
  and return the world \<open>'w\<close>; \<open>run_plugin\<close> is \<open>Run\<close> with its deferred calls.
\<close>

section \<open>The plugin's devices\<close>

definition default_device_count :: int where "default_device_count = 4"
definition resource_name :: string where "resource_name = ''example.com/gpu''"
definition endpoint :: string where "endpoint = ''simulated-gpu.sock''"

definition healthy :: string where "healthy = ''Healthy''"

record device =
  dev_id :: string
  dev_health :: string

record device_plugin =
  dp_devices :: "device list"
  dp_ids :: "string set"

definition device_id :: "nat \<Rightarrow> string" where
  "device_id index = ''simulated-gpu-'' @ show_nat index"

fun add_devices :: "nat list \<Rightarrow> device_plugin \<Rightarrow> device_plugin" where
  "add_devices [] result = result"
| "add_devices (index # indexes) result =
     (let ident = device_id index
      in add_devices indexes
           \<lparr>dp_devices = dp_devices result @ [\<lparr>dev_id = ident, dev_health = healthy\<rparr>],
            dp_ids = insert ident (dp_ids result)\<rparr>)"

definition new_device_plugin :: "int \<Rightarrow> go_error + device_plugin" where
  "new_device_plugin device_count =
     (if device_count < 1 then Inl (Err ''device count must be positive'')
      else Inr (add_devices [0..<nat device_count] \<lparr>dp_devices = [], dp_ids = {}\<rparr>))"

section \<open>Serving the kubelet\<close>

datatype rpc_error = InvalidArgument string

definition unknown_device :: "string \<Rightarrow> rpc_error" where
  "unknown_device ident = InvalidArgument (''unknown simulated GPU '' @ go_quote ident)"

text \<open>The container requests are their lists of device IDs; a container response is empty.\<close>

fun first_unknown :: "device_plugin \<Rightarrow> string list \<Rightarrow> string option" where
  "first_unknown p [] = None"
| "first_unknown p (ident # ids) = (if ident \<notin> dp_ids p then Some ident else first_unknown p ids)"

fun allocate_loop :: "device_plugin \<Rightarrow> string list list \<Rightarrow> unit list \<Rightarrow> rpc_error + unit list" where
  "allocate_loop p [] responses = Inr responses"
| "allocate_loop p (ids # requests) responses =
     (case first_unknown p ids of
        Some ident \<Rightarrow> Inl (unknown_device ident)
      | None \<Rightarrow> allocate_loop p requests (responses @ [()]))"

definition allocate :: "device_plugin \<Rightarrow> string list list \<Rightarrow> rpc_error + unit list" where
  "allocate p requests = allocate_loop p requests []"

text \<open>
  \<open>ListAndWatch\<close> with the stream's \<open>Send\<close> and whether its context is ever done; \<open>None\<close> is a
  call that does not return.
\<close>

definition list_and_watch ::
    "device_plugin \<Rightarrow> (device list \<Rightarrow> go_error option) \<Rightarrow> bool \<Rightarrow> device list list \<times> go_error option option" where
  "list_and_watch p send stream_done =
     (case send (dp_devices p) of
        Some e \<Rightarrow> ([dp_devices p], Some (Some e))
      | None \<Rightarrow> ([dp_devices p], if stream_done then Some None else None))"

section \<open>Run\<close>

record register_request =
  rq_version :: string
  rq_endpoint :: string
  rq_resource_name :: string

record 'w device_os =
  os_remove :: "string \<Rightarrow> 'w \<Rightarrow> go_error option \<times> 'w"
  is_not_exist :: "go_error \<Rightarrow> bool"
  net_listen :: "string \<Rightarrow> 'w \<Rightarrow> go_error option \<times> 'w"
  close_listener :: "'w \<Rightarrow> 'w"
  start_server :: "device_plugin \<Rightarrow> 'w \<Rightarrow> 'w"
  stop_server :: "'w \<Rightarrow> 'w"
  dial :: "string \<Rightarrow> 'w \<Rightarrow> go_error option \<times> 'w"
  call_register :: "register_request \<Rightarrow> 'w \<Rightarrow> go_error option \<times> 'w"
  close_connection :: "'w \<Rightarrow> 'w"
  await :: "'w \<Rightarrow> (go_error + unit) option \<times> 'w"
  plugin_path :: string
  kubelet_socket :: string
  api_version :: string

definition register :: "'w device_os \<Rightarrow> string \<Rightarrow> 'w \<Rightarrow> go_error option \<times> 'w" where
  "register os socket_dir w =
     (case dial os (path_join [socket_dir, path_base (kubelet_socket os)]) w of
        (Some e, w1) \<Rightarrow> (Some (Wrapped ''connect to kubelet socket'' e), w1)
      | (None, w1) \<Rightarrow>
          (case call_register os \<lparr>rq_version = api_version os, rq_endpoint = endpoint,
               rq_resource_name = resource_name\<rparr> w1 of
             (Some e, w2) \<Rightarrow> (Some (Wrapped ''register simulated GPU resource'' e), close_connection os w2)
           | (None, w2) \<Rightarrow> (None, close_connection os w2)))"

text \<open>The deferred calls, last deferred first.\<close>

definition run_deferred :: "'w device_os \<Rightarrow> string \<Rightarrow> 'w \<Rightarrow> 'w" where
  "run_deferred os socket w = close_listener os (snd (os_remove os socket w))"

text \<open>\<open>await\<close> is the final \<open>select\<close>: a serve error, the context's end, or neither, ever.\<close>

definition run_plugin ::
    "'w device_os \<Rightarrow> int \<Rightarrow> string \<Rightarrow> 'w \<Rightarrow> go_error option option \<times> 'w" where
  "run_plugin os device_count dir w =
     (let count = (if device_count = 0 then default_device_count else device_count);
          socket_dir = (if dir = [] then plugin_path os else dir);
          socket = path_join [socket_dir, endpoint]
      in case new_device_plugin count of
           Inl e \<Rightarrow> (Some (Some e), w)
         | Inr p \<Rightarrow>
             (case os_remove os socket w of
                (removed, w1) \<Rightarrow>
                  (if \<exists>e \<in> set_option removed. \<not> is_not_exist os e
                   then (Some (Some (Wrapped ''remove stale socket'' (the removed))), w1)
                   else case net_listen os socket w1 of
                     (Some e, w2) \<Rightarrow> (Some (Some (Wrapped (''listen on '' @ socket) e)), w2)
                   | (None, w2) \<Rightarrow>
                       (case register os socket_dir (start_server os p w2) of
                          (Some e, w3) \<Rightarrow>
                            (Some (Some e), run_deferred os socket (stop_server os w3))
                        | (None, w3) \<Rightarrow>
                            (case await os w3 of
                               (None, w4) \<Rightarrow> (None, w4)
                             | (Some (Inr _), w4) \<Rightarrow>
                                 (Some None, run_deferred os socket (stop_server os w4))
                             | (Some (Inl e), w4) \<Rightarrow>
                                 (Some (Some (Wrapped ''serve device plugin'' e)),
                                  run_deferred os socket w4))))))"

section \<open>Devices\<close>

lemma add_devices_eq:
  "add_devices is p = \<lparr>dp_devices = dp_devices p @
      map (\<lambda>i. \<lparr>dev_id = device_id i, dev_health = healthy\<rparr>) is,
    dp_ids = dp_ids p \<union> device_id ` set is\<rparr>"
  by (induction "is" p rule: add_devices.induct) (auto simp: Let_def)

lemma device_id_inject [simp]: "device_id i = device_id j \<longleftrightarrow> i = j"
  by (simp add: device_id_def)

lemma new_device_plugin_eq:
  "new_device_plugin n = Inr p \<longleftrightarrow> 1 \<le> n \<and>
    p = \<lparr>dp_devices = map (\<lambda>i. \<lparr>dev_id = device_id i, dev_health = healthy\<rparr>) [0..<nat n],
         dp_ids = device_id ` {..<nat n}\<rparr>"
  by (auto simp: new_device_plugin_def add_devices_eq atLeast0LessThan)

lemma first_unknown_iff: "first_unknown p ids = None \<longleftrightarrow> set ids \<subseteq> dp_ids p"
  by (induction ids) auto

lemma first_unknown_Some: "first_unknown p ids = Some i \<Longrightarrow> i \<in> set ids \<and> i \<notin> dp_ids p"
  by (induction ids) (auto split: if_splits)

lemma allocate_loop_eq:
  "(\<forall>ids \<in> set requests. set ids \<subseteq> dp_ids p) \<Longrightarrow>
    allocate_loop p requests rs = Inr (rs @ replicate (length requests) ())"
  by (induction requests arbitrary: rs)
    (auto simp: first_unknown_iff [symmetric] replicate_append_same [symmetric])

lemma allocate_loop_unknown:
  "\<not> (\<forall>ids \<in> set requests. set ids \<subseteq> dp_ids p) \<Longrightarrow>
    \<exists>i. i \<in> \<Union> (set ` set requests) - dp_ids p \<and>
      allocate_loop p requests rs = Inl (unknown_device i)"
proof (induction requests arbitrary: rs)
  case (Cons ids requests)
  show ?case
  proof (cases "first_unknown p ids")
    case None
    then have "\<not> (\<forall>ids \<in> set requests. set ids \<subseteq> dp_ids p)"
      using Cons.prems by (auto simp: first_unknown_iff)
    then obtain i where "i \<in> \<Union> (set ` set requests) - dp_ids p"
      and "allocate_loop p requests (rs @ [()]) = Inl (unknown_device i)"
      using Cons.IH [of "rs @ [()]"] by blast
    then show ?thesis using None by (intro exI [of _ i]) auto
  next
    case (Some i)
    then show ?thesis using first_unknown_Some [OF Some] by auto
  qed
qed simp

text \<open>
  C33: a plugin for \<open>n \<ge> 1\<close> devices advertises exactly \<open>n\<close> healthy devices with distinct IDs,
  and allocates a request if and only if every ID in it is one that it advertises: then with one
  response per container, otherwise with an error that names an ID of the request it does not
  know. No other plugin is created.
\<close>

theorem allocates_what_it_advertises:
  "case new_device_plugin n of
     Inl e \<Rightarrow> n < 1
   | Inr p \<Rightarrow> int (length (dp_devices p)) = n \<and> distinct (map dev_id (dp_devices p)) \<and>
       list_all (\<lambda>d. dev_health d = healthy) (dp_devices p) \<and>
       fst (list_and_watch p send stream_done) = [dp_devices p] \<and>
       (if \<Union> (set ` set requests) \<subseteq> dev_id ` set (dp_devices p)
        then allocate p requests = Inr (replicate (length requests) ())
        else \<exists>i \<in> \<Union> (set ` set requests) - dev_id ` set (dp_devices p). allocate p requests
          = Inl (unknown_device i))"
proof (cases "new_device_plugin n")
  case (Inl e)
  then show ?thesis by (auto simp: new_device_plugin_def split: if_splits)
next
  case (Inr p)
  then have n: "1 \<le> n" and p: "p = \<lparr>dp_devices = map (\<lambda>i. \<lparr>dev_id = device_id i, dev_health = healthy\<rparr>)
      [0..<nat n], dp_ids = device_id ` {..<nat n}\<rparr>"
    by (simp_all add: new_device_plugin_eq)
  have ids: "dev_id ` set (dp_devices p) = dp_ids p"
    by (auto simp: p image_iff)
  have "distinct (map dev_id (dp_devices p))"
    by (simp add: p distinct_map inj_on_def)
  moreover have "fst (list_and_watch p send stream_done) = [dp_devices p]"
    by (simp add: list_and_watch_def split: option.split)
  moreover have "if \<Union> (set ` set requests) \<subseteq> dev_id ` set (dp_devices p)
      then allocate p requests = Inr (replicate (length requests) ())
      else \<exists>i \<in> \<Union> (set ` set requests) - dev_id ` set (dp_devices p). allocate p requests
        = Inl (unknown_device i)"
  proof (cases "\<Union> (set ` set requests) \<subseteq> dp_ids p")
    case True
    then have "\<forall>ids \<in> set requests. set ids \<subseteq> dp_ids p" by blast
    then show ?thesis using allocate_loop_eq [of requests p "[]"] True by (simp add: allocate_def ids)
  next
    case False
    then have "\<not> (\<forall>ids \<in> set requests. set ids \<subseteq> dp_ids p)" by blast
    then show ?thesis
      using allocate_loop_unknown [of requests p "[]"] False unfolding allocate_def ids by auto
  qed
  moreover have "int (length (dp_devices p)) = n" "list_all (\<lambda>d. dev_health d = healthy) (dp_devices p)"
    using n by (auto simp: p list_all_iff)
  ultimately show ?thesis by (simp only: Inr sum.case)
qed

section \<open>What a run leaves behind\<close>

text \<open>
  What \<open>Run\<close> relies on, over two views of the world: whether a listener is open and whether the
  server is serving. Opening and closing act on one of them, everything else on neither; a serve
  error means that the server has stopped.
\<close>

locale socket_os =
  fixes os :: "'w device_os" and listening :: "'w \<Rightarrow> bool" and serving :: "'w \<Rightarrow> bool"
  assumes remove_keeps: "listening (snd (os_remove os s w)) = listening w"
      "serving (snd (os_remove os s w)) = serving w"
    and listen_fails: "net_listen os s w = (Some e, w') \<Longrightarrow> listening w' = listening w"
    and listen_keeps: "serving (snd (net_listen os s w)) = serving w"
    and close_closes: "\<not> listening (close_listener os w)"
      "serving (close_listener os w) = serving w"
    and start_keeps: "listening (start_server os p w) = listening w"
    and stop_stops: "\<not> serving (stop_server os w)" "listening (stop_server os w) = listening w"
    and serve_error: "await os w = (Some (Inl e), w') \<Longrightarrow> \<not> serving w'"
begin

lemma deferred_views:
  "\<not> listening (run_deferred os s w)" "serving (run_deferred os s w) = serving w"
  by (simp_all add: run_deferred_def close_closes remove_keeps)

lemma no_leak:
  assumes run: "run_plugin os n dir w = (Some r, w')"
    and before: "\<not> listening w" "\<not> serving w"
  shows "\<not> listening w' \<and> \<not> serving w'"
proof -
  define count where "count = (if n = 0 then default_device_count else n)"
  define d where "d = (if dir = [] then plugin_path os else dir)"
  define s where "s = path_join [d, endpoint]"
  note run = run [unfolded run_plugin_def Let_def, folded count_def d_def, folded s_def]
  show ?thesis
  proof (cases "new_device_plugin count")
    case (Inl e)
    then show ?thesis using run before by simp
  next
    case (Inr p)
    obtain removed w1 where w1: "os_remove os s w = (removed, w1)" by fastforce
    have v1: "\<not> listening w1" "\<not> serving w1"
      using remove_keeps [of s w] before w1 by simp_all
    show ?thesis
    proof (cases "\<exists>e \<in> set_option removed. \<not> is_not_exist os e")
      case True
      then show ?thesis using run Inr w1 v1 by simp
    next
      case removed: False
      obtain err w2 where w2: "net_listen os s w1 = (err, w2)" by fastforce
      have v2: "\<not> serving w2" using listen_keeps [of s w1] v1 w2 by simp
      show ?thesis
      proof (cases err)
        case (Some e)
        then show ?thesis
          using run Inr w1 w2 removed listen_fails [of s w1 e w2] v1 v2
          by simp
      next
        case None
        obtain reg w3 where w3: "register os d (start_server os p w2) = (reg, w3)" by fastforce
        obtain sel w4 where w4: "await os w3 = (sel, w4)" by fastforce
        note run = run Inr w1 w2 w3 w4 removed None
        have "w' = run_deferred os s (stop_server os w3) \<or> w' = run_deferred os s (stop_server os w4)
          \<or> (\<exists>e. sel = Some (Inl e)) \<and> w' = run_deferred os s w4"
        proof (cases reg)
          case (Some e)
          then show ?thesis using run by auto
        next
          case reg: None
          show ?thesis using run reg by (auto split: option.split_asm sum.split_asm)
        qed
        then show ?thesis
          using serve_error [of w3 _ w4] w4 by (auto simp: deferred_views stop_stops)
      qed
    qed
  qed
qed

end

text \<open>An operating system in memory, with failures to register or to serve on demand.\<close>

record os_world =
  ow_listening :: bool
  ow_serving :: bool
  ow_sockets :: "string set"

definition mem_os :: "go_error option \<Rightarrow> go_error option \<Rightarrow> os_world device_os" where
  "mem_os register_error stop_error = \<lparr>
     os_remove = (\<lambda>s w. if s \<in> ow_sockets w then (None, w\<lparr>ow_sockets := ow_sockets w - {s}\<rparr>)
       else (Some (Err ''file does not exist''), w)),
     is_not_exist = (\<lambda>e. e = Err ''file does not exist''),
     net_listen = (\<lambda>s w. if s \<in> ow_sockets w then (Some (Err ''address already in use''), w)
       else (None, w\<lparr>ow_sockets := insert s (ow_sockets w), ow_listening := True\<rparr>)),
     close_listener = (\<lambda>w. w\<lparr>ow_listening := False\<rparr>),
     start_server = (\<lambda>p w. w\<lparr>ow_serving := True\<rparr>),
     stop_server = (\<lambda>w. w\<lparr>ow_serving := False\<rparr>),
     dial = (\<lambda>s w. (None, w)),
     call_register = (\<lambda>r w. (register_error, w)),
     close_connection = (\<lambda>w. w),
     await = (\<lambda>w. case stop_error of None \<Rightarrow> (Some (Inr ()), w)
       | Some e \<Rightarrow> (Some (Inl e), w\<lparr>ow_serving := False\<rparr>)),
     plugin_path = ''/var/lib/kubelet/device-plugins/'',
     kubelet_socket = ''/var/lib/kubelet/device-plugins/kubelet.sock'',
     api_version = ''v1beta1''\<rparr>"

interpretation mem_os: socket_os "mem_os register_error stop_error" ow_listening ow_serving
  by unfold_locales (auto simp: mem_os_def split: if_splits option.splits)



end
