(* ===== verification/Manifests.thy ===== *)
theory Manifests
  imports Topology_Labels Go_Text
begin

text \<open>
  \<open>internal/manifests/kueue.go\<close>: the Kueue objects the project installs and their rendering.
  A quantity is kept as the text given to \<open>resource.MustParse\<close>; JSON and YAML encoding are
  parameters of \<open>marshal_resource\<close>, and so is the API version.
\<close>

definition benchmark_queue_name :: string where "benchmark_queue_name = ''benchmark''"
definition topology_name :: string where "topology_name = ''gpu-topology''"
definition scheduler_flavor_name :: string where "scheduler_flavor_name = ''gpu-scheduler''"
definition default_ns :: string where "default_ns = ''default''"
definition shared_cohort :: string where "shared_cohort = ''shared-gpu''"
definition gpu_node_label :: string where "gpu_node_label = ''infra.example.io/gpu-node''"
definition rack_node_label :: string where "rack_node_label = ''infra.example.io/rack''"
definition kueue_gpu_resource :: string where "kueue_gpu_resource = ''example.com/gpu''"

text \<open>\<open>corev1.LabelHostname\<close>, \<open>corev1.ResourceCPU\<close> and \<open>corev1.ResourceMemory\<close>.\<close>

definition label_hostname :: string where "label_hostname = ''kubernetes.io/hostname''"
definition resource_cpu :: string where "resource_cpu = ''cpu''"
definition resource_memory :: string where "resource_memory = ''memory''"

record queue_config =
  qc_name :: string
  qc_cpu :: string
  qc_memory :: string
  qc_gpu :: string
  qc_flavor :: string

definition queue_configs :: "queue_config list" where
  "queue_configs =
     [\<lparr>qc_name = ''training'', qc_cpu = ''80'', qc_memory = ''80Gi'', qc_gpu = ''10'',
       qc_flavor = topology_name\<rparr>,
      \<lparr>qc_name = ''batch'', qc_cpu = ''20'', qc_memory = ''20Gi'', qc_gpu = ''2'',
       qc_flavor = topology_name\<rparr>,
      \<lparr>qc_name = benchmark_queue_name, qc_cpu = ''80'', qc_memory = ''80Gi'', qc_gpu = ''12'',
       qc_flavor = scheduler_flavor_name\<rparr>]"

section \<open>Objects\<close>

record flavor_quotas =
  fq_name :: string
  fq_resources :: "(string \<times> string) list"

record resource_group =
  rg_covered :: "string list"
  rg_flavors :: "flavor_quotas list"

datatype kueue_spec =
    TopologySpec "string list"
  | ResourceFlavorSpec strmap "string option"
  | ClusterQueueSpec string "resource_group list"
  | LocalQueueSpec string

record kueue_object =
  ko_api_version :: string
  ko_kind :: string
  ko_name :: string
  ko_namespace :: string
  ko_spec :: kueue_spec

definition topology :: "string \<Rightarrow> kueue_object" where
  "topology api = \<lparr>ko_api_version = api, ko_kind = ''Topology'', ko_name = topology_name,
     ko_namespace = [], ko_spec = TopologySpec [rack_node_label, label_hostname]\<rparr>"

definition topology_resource_flavor :: "string \<Rightarrow> kueue_object" where
  "topology_resource_flavor api = \<lparr>ko_api_version = api, ko_kind = ''ResourceFlavor'',
     ko_name = topology_name, ko_namespace = [],
     ko_spec = ResourceFlavorSpec [gpu_node_label \<mapsto> ''true''] (Some topology_name)\<rparr>"

definition scheduler_resource_flavor :: "string \<Rightarrow> kueue_object" where
  "scheduler_resource_flavor api = \<lparr>ko_api_version = api, ko_kind = ''ResourceFlavor'',
     ko_name = scheduler_flavor_name, ko_namespace = [],
     ko_spec = ResourceFlavorSpec [gpu_node_label \<mapsto> ''true''] None\<rparr>"

definition cluster_queue :: "string \<Rightarrow> queue_config \<Rightarrow> kueue_object" where
  "cluster_queue api config = \<lparr>ko_api_version = api, ko_kind = ''ClusterQueue'',
     ko_name = qc_name config, ko_namespace = [],
     ko_spec = ClusterQueueSpec shared_cohort
       [\<lparr>rg_covered = [resource_cpu, resource_memory, kueue_gpu_resource],
         rg_flavors = [\<lparr>fq_name = qc_flavor config,
           fq_resources = [(resource_cpu, qc_cpu config), (resource_memory, qc_memory config),
             (kueue_gpu_resource, qc_gpu config)]\<rparr>]\<rparr>]\<rparr>"

definition local_queue :: "string \<Rightarrow> queue_config \<Rightarrow> kueue_object" where
  "local_queue api config = \<lparr>ko_api_version = api, ko_kind = ''LocalQueue'',
     ko_name = qc_name config, ko_namespace = default_ns,
     ko_spec = LocalQueueSpec (qc_name config)\<rparr>"

fun queue_objects :: "string \<Rightarrow> queue_config list \<Rightarrow> kueue_object list \<Rightarrow> kueue_object list" where
  "queue_objects api [] resources = resources"
| "queue_objects api (config # configs) resources =
     queue_objects api configs (resources @ [cluster_queue api config, local_queue api config])"

definition kueue_resources :: "string \<Rightarrow> kueue_object list" where
  "kueue_resources api = queue_objects api queue_configs
     [topology api, topology_resource_flavor api, scheduler_resource_flavor api]"

section \<open>Rendering\<close>

record encoders =
  json_fields :: "kueue_object \<Rightarrow> go_error + strmap"
  fields_json :: "strmap \<Rightarrow> go_error + string"
  json_to_yaml :: "string \<Rightarrow> go_error + string"

definition marshal_resource :: "encoders \<Rightarrow> kueue_object \<Rightarrow> go_error + string" where
  "marshal_resource enc obj =
     (case json_fields enc obj of
        Inl e \<Rightarrow> Inl e
      | Inr raw \<Rightarrow>
          (case fields_json enc (raw(''status'' := None)) of
             Inl e \<Rightarrow> Inl e
           | Inr encoded \<Rightarrow> json_to_yaml enc encoded))"

definition render_header :: string where
  "render_header = ''# Code generated by go run ./cmd/manifestgen; DO NOT EDIT.'' @ [newline] @
     ''# yaml-language-server: $schema=./schemas/kueue-v1beta1.schema.json'' @ [newline]"

definition document_separator :: string where "document_separator = ''---'' @ [newline]"

fun render_loop :: "encoders \<Rightarrow> nat \<Rightarrow> kueue_object list \<Rightarrow> string \<Rightarrow> go_error + string" where
  "render_loop enc index [] output = Inr output"
| "render_loop enc index (obj # objs) output =
     (let output = (if 0 < index then output @ document_separator else output)
      in case marshal_resource enc obj of
           Inl e \<Rightarrow> Inl (Wrapped (''marshal Kueue resource '' @ show_nat index) e)
         | Inr encoded \<Rightarrow> render_loop enc (Suc index) objs (output @ encoded))"

definition render_kueue_resources :: "string \<Rightarrow> encoders \<Rightarrow> go_error + string" where
  "render_kueue_resources api enc = render_loop enc 0 (kueue_resources api) render_header"

section \<open>References between the objects\<close>

definition object_named :: "kueue_object list \<Rightarrow> string \<Rightarrow> string \<Rightarrow> string \<Rightarrow> bool" where
  "object_named objs kind namespace name \<longleftrightarrow>
     list_ex (\<lambda>ob. ko_kind ob = kind \<and> ko_namespace ob = namespace \<and> ko_name ob = name) objs"

text \<open>
  What Kueue requires of an object: the objects it names exist, and a resource group gives every
  flavor a quota for exactly the resources it covers.
\<close>

definition well_referenced :: "kueue_object list \<Rightarrow> kueue_object \<Rightarrow> bool" where
  "well_referenced objs ob =
     (case ko_spec ob of
        TopologySpec levels \<Rightarrow> levels \<noteq> [] \<and> distinct levels
      | ResourceFlavorSpec labels topo \<Rightarrow>
          (case topo of None \<Rightarrow> True | Some t \<Rightarrow> object_named objs ''Topology'' [] t)
      | ClusterQueueSpec cohort groups \<Rightarrow> list_all (\<lambda>g. list_all (\<lambda>f.
          object_named objs ''ResourceFlavor'' [] (fq_name f) \<and>
          map fst (fq_resources f) = rg_covered g) (rg_flavors g)) groups
      | LocalQueueSpec q \<Rightarrow> object_named objs ''ClusterQueue'' [] q)"

lemma kueue_resources_list:
  "kueue_resources api = [topology api, topology_resource_flavor api, scheduler_resource_flavor api,
     cluster_queue api (queue_configs ! 0), local_queue api (queue_configs ! 0),
     cluster_queue api (queue_configs ! 1), local_queue api (queue_configs ! 1),
     cluster_queue api (queue_configs ! 2), local_queue api (queue_configs ! 2)]"
  by (simp add: kueue_resources_def queue_configs_def)

lemmas kueue_object_defs = topology_def topology_resource_flavor_def scheduler_resource_flavor_def
  cluster_queue_def local_queue_def

lemmas kueue_name_defs = topology_name_def scheduler_flavor_name_def benchmark_queue_name_def
  default_ns_def


text \<open>The rendered documents with the separators between them.\<close>

lemma render_loop_Inr:
  "render_loop enc (Suc i) objs out = Inr out' \<Longrightarrow> \<exists>docs. map (marshal_resource enc) objs = map Inr docs \<and>
    out' = out @ concat (map (\<lambda>d. document_separator @ d) docs)"
proof (induction objs arbitrary: i out)
  case (Cons ob objs)
  then obtain d where d: "marshal_resource enc ob = Inr d"
    and rest: "render_loop enc (Suc (Suc i)) objs ((out @ document_separator) @ d) = Inr out'"
    by (auto split: sum.split_asm)
  from Cons.IH [OF rest] obtain docs where "map (marshal_resource enc) objs = map Inr docs"
    and "out' = out @ document_separator @ d @ concat (map (\<lambda>d. document_separator @ d) docs)"
    by auto
  then show ?case using d by (intro exI [of _ "d # docs"]) simp
qed simp

lemma render_loop_Inl:
  "render_loop enc i objs out = Inl e \<Longrightarrow> \<exists>j < length objs. \<exists>e'.
    marshal_resource enc (objs ! j) = Inl e' \<and>
    e = Wrapped (''marshal Kueue resource '' @ show_nat (i + j)) e'"
proof (induction objs arbitrary: i out)
  case (Cons ob objs)
  show ?case
  proof (cases "marshal_resource enc ob")
    case (Inl e')
    then show ?thesis using Cons.prems by (intro exI [of _ 0]) (auto simp: Let_def)
  next
    case (Inr d)
    then obtain j e' where "j < length objs" "marshal_resource enc (objs ! j) = Inl e'"
      "e = Wrapped (''marshal Kueue resource '' @ show_nat (Suc i + j)) e'"
      using Cons.prems Cons.IH [of "Suc i"] by (fastforce simp: Let_def)
    then show ?thesis by (intro exI [of _ "Suc j"]) simp
  qed
qed simp

lemma separated: "concat (map (\<lambda>d. sep @ d) docs) = (if docs = [] then [] else sep @ join_with sep docs)"
  by (induction docs rule: induct_list012) simp_all

text \<open>
  The output is the header followed by the encodings of all objects in their order, with a
  separator between any two; an object that cannot be encoded makes the rendering fail with an
  error that gives its position, and then there is no output.
\<close>

lemma rendering_complete:
  "case render_kueue_resources api enc of
     Inr out \<Rightarrow> (\<exists>docs. map (marshal_resource enc) (kueue_resources api) = map Inr docs \<and>
       out = render_header @ join_with document_separator docs)
   | Inl e \<Rightarrow> (\<exists>j < length (kueue_resources api). \<exists>e'.
       marshal_resource enc (kueue_resources api ! j) = Inl e' \<and>
       e = Wrapped (''marshal Kueue resource '' @ show_nat j) e')"
proof (cases "render_kueue_resources api enc")
  case (Inl e)
  then show ?thesis
    using render_loop_Inl [of enc 0 "kueue_resources api" render_header e]
    by (simp add: render_kueue_resources_def)
next
  case (Inr out)
  obtain ob objs where objs: "kueue_resources api = ob # objs"
    by (simp add: kueue_resources_list)
  obtain d where d: "marshal_resource enc ob = Inr d"
    and rest: "render_loop enc (Suc 0) objs (render_header @ d) = Inr out"
    using Inr by (auto simp: render_kueue_resources_def objs split: sum.split_asm)
  from render_loop_Inr [OF rest] obtain docs where "map (marshal_resource enc) objs = map Inr docs"
    and "out = render_header @ d @ concat (map (\<lambda>d. document_separator @ d) docs)" by auto
  then show ?thesis
    by (simp add: Inr objs) (intro exI [of _ "d # docs"], cases docs, simp_all add: d separated join_with_Cons)
qed

end
