(* ===== verification/Commands.thy ===== *)
theory Commands
  imports Worker Device_Plugin Manifests Go_Flag
begin

text \<open>
  The small \<open>main\<close> functions under \<open>cmd/\<close>: \<open>worker\<close>, \<open>deviceplugin\<close>, \<open>manifestgen\<close> and \<open>controller\<close>,
  with their exit codes and what they write to the standard error. Signals arrive through the
  parameters of the functions they call. \<open>cmd/scheduler\<close> is in \<open>Metrics_Registration\<close>.
\<close>

definition line :: "string \<Rightarrow> string" where "line s = s @ [newline]"

section \<open>manifestgen\<close>

definition output_path :: string where "output_path = ''deploy/kueue-resources.yaml''"

definition manifestgen_run ::
    "string \<Rightarrow> encoders \<Rightarrow> (string \<Rightarrow> string \<Rightarrow> 'w \<Rightarrow> go_error option \<times> 'w) \<Rightarrow> 'w \<Rightarrow> go_error option \<times> 'w" where
  "manifestgen_run api enc write_file w =
     (case render_kueue_resources api enc of
        Inl e \<Rightarrow> (Some e, w)
      | Inr manifest \<Rightarrow> write_file output_path manifest w)"

definition manifestgen_main ::
    "string \<Rightarrow> encoders \<Rightarrow> (string \<Rightarrow> string \<Rightarrow> 'w \<Rightarrow> go_error option \<times> 'w) \<Rightarrow> 'w \<Rightarrow> (int \<times> string) \<times> 'w" where
  "manifestgen_main api enc write_file w =
     (case manifestgen_run api enc write_file w of
        (Some e, w1) \<Rightarrow> ((1, line (error_text e)), w1)
      | (None, w1) \<Rightarrow> ((0, []), w1))"

section \<open>deviceplugin\<close>

definition device_flags :: flag_set where
  "device_flags = [(''devices'', FlagInt default_device_count), (''socket-dir'', FlagString [])]"

text \<open>
  \<open>flag.Parse\<close> of the command line exits with 2 on an error and with 0 when help is asked for;
  \<open>None\<close> is a plugin that serves until it is killed.
\<close>

definition device_plugin_main ::
    "'w device_os \<Rightarrow> string list \<Rightarrow> 'w \<Rightarrow> (int \<times> string) option \<times> 'w" where
  "device_plugin_main os args w =
     (case parse_declared device_flags args of
        Inl e \<Rightarrow> (Some (if e = Err ''flag: help requested'' then 0 else 2, line (error_text e)), w)
      | Inr (vs, rest) \<Rightarrow>
          (case run_plugin os (int_flag vs ''devices'') (string_flag vs ''socket-dir'') w of
             (None, w1) \<Rightarrow> (None, w1)
           | (Some (Some e), w1) \<Rightarrow> (Some (1, line (''simulated-device-plugin: '' @ error_text e)), w1)
           | (Some None, w1) \<Rightarrow> (Some (0, []), w1)))"

section \<open>worker\<close>

definition worker_main ::
    "(time \<Rightarrow> string) \<Rightarrow> worker_env \<Rightarrow> string list \<Rightarrow> (string \<Rightarrow> string) \<Rightarrow> run_end" where
  "worker_main stamp env args getenv = out_end (run stamp env args getenv)"

section \<open>controller\<close>

text \<open>\<open>must\<close> around each step: the first error is printed and ends the process with 1.\<close>

fun run_musts :: "('w \<Rightarrow> go_error option \<times> 'w) list \<Rightarrow> 'w \<Rightarrow> (int \<times> string) \<times> 'w" where
  "run_musts [] w = ((0, []), w)"
| "run_musts (step # steps) w =
     (case step w of
        (Some e, w1) \<Rightarrow> ((1, line (error_text e)), w1)
      | (None, w1) \<Rightarrow> run_musts steps w1)"

record 'w manager_ops =
  mg_add_client_go :: "'w \<Rightarrow> go_error option \<times> 'w"
  mg_add_v1alpha1 :: "'w \<Rightarrow> go_error option \<times> 'w"
  mg_add_jobset :: "'w \<Rightarrow> go_error option \<times> 'w"
  mg_add_kueue :: "'w \<Rightarrow> go_error option \<times> 'w"
  mg_new_manager :: "'w \<Rightarrow> go_error option \<times> 'w"
  mg_setup :: "'w \<Rightarrow> go_error option \<times> 'w"
  mg_start :: "'w \<Rightarrow> go_error option \<times> 'w"

definition controller_main :: "'w manager_ops \<Rightarrow> 'w \<Rightarrow> (int \<times> string) \<times> 'w" where
  "controller_main ops = run_musts [mg_add_client_go ops, mg_add_v1alpha1 ops, mg_add_jobset ops, mg_add_kueue ops,
     mg_new_manager ops, mg_setup ops, mg_start ops]"

section \<open>What they do\<close>

text \<open>The file is written once, whole, or not at all.\<close>

lemma manifestgen_writes_whole:
  "fst (fst (manifestgen_main api enc write_file w)) = 0 \<longleftrightarrow>
    (\<exists>manifest. render_kueue_resources api enc = Inr manifest \<and> fst (write_file output_path manifest w) = None)"
  "render_kueue_resources api enc = Inl e \<Longrightarrow> manifestgen_main api enc write_file w = ((1, line (error_text e)), w)"
  by (auto simp: manifestgen_main_def manifestgen_run_def split: sum.split prod.split option.split)

text \<open>A step after a failing one is not reached.\<close>

lemma run_musts_stops:
  "list_all (\<lambda>step. \<forall>w. step w = (None, w)) pre \<Longrightarrow> step w = (Some e, w') \<Longrightarrow>
    run_musts (pre @ step # post) w = ((1, line (error_text e)), w')"
  by (induction pre) auto

text \<open>Without arguments the plugin offers the default number of devices.\<close>

lemma device_plugin_main_defaults:
  "device_plugin_main os [] w = (case run_plugin os default_device_count [] w of
     (None, w1) \<Rightarrow> (None, w1)
   | (Some (Some e), w1) \<Rightarrow> (Some (1, line (''simulated-device-plugin: '' @ error_text e)), w1)
   | (Some None, w1) \<Rightarrow> (Some (0, []), w1))"
  by (simp add: device_plugin_main_def parse_declared_def device_flags_def int_flag_def string_flag_def)

end
