(* ===== verification/Lab_Result.thy ===== *)
theory Lab_Result
  imports Kube_Types Go_Float
begin

text \<open>
  \<open>internal/lab/result.go\<close>: the benchmark's result document. A pointer field is an \<open>option\<close>,
  a \<open>float64\<close> a rational (see \<open>Go_Float\<close>).
\<close>

definition result_schema_version :: string where "result_schema_version = ''v2''"

record environment =
  en_kubernetes_version :: string
  en_tool_version :: string
  en_components :: strmap

record cluster_capacity =
  cc_eligible_nodes :: int
  cc_gpu_per_node :: int64
  cc_total_gpus :: int64

record workload_definition =
  wd_name :: string
  wd_workers :: int32
  wd_gpu_per_worker :: int64
  wd_args :: "string list"

record lifecycle =
  lc_name :: string
  lc_submitted :: time
  lc_workload_created :: "time option"
  lc_pod_created :: "time option"
  lc_admitted :: "time option"
  lc_scheduled :: "time option"
  lc_terminal :: "time option"
  lc_admission_wait :: "rat option"
  lc_scheduling_latency :: "rat option"

record pod_placement =
  pp_pod :: string
  pp_workload :: string
  pp_completion_index :: string
  pp_node :: string
  pp_phase :: string

record worker_parameters =
  wp_mode :: string
  wp_duration :: string
  wp_startup_delay :: string
  wp_fail_indexes :: "int list"

record worker_runtime =
  wr_pod :: string
  wr_workload :: string
  wr_completion_index :: string
  wr_started :: "time option"
  wr_finished :: "time option"
  wr_exit_reason :: string
  wr_exit_code :: "int option"
  wr_parameters :: worker_parameters

record fragmentation =
  fr_target :: int64
  fr_domain :: string
  fr_nodes :: "string list"
  fr_free :: "string \<rightharpoonup> int64"
  fr_total :: int64
  fr_usable :: int64
  fr_ratio :: rat

record recovery =
  rc_attempted :: bool
  rc_initially_unschedulable :: bool
  rc_released_workload :: string
  rc_unschedulable_at :: "time option"
  rc_released_at :: "time option"
  rc_recovered_at :: "time option"
  rc_latency :: "rat option"
  rc_recovered :: bool

record measurements =
  me_makespan :: "rat option"
  me_unschedulable :: int
  me_fragmentation :: fragmentation
  me_recovery :: recovery

record benchmark_result =
  br_schema_version :: string
  br_run_id :: string
  br_timestamp :: time
  br_complete :: bool
  br_missing :: "string list"
  br_environment :: environment
  br_profile :: string
  br_cluster :: cluster_capacity
  br_workloads :: "workload_definition list"
  br_lifecycle :: "lifecycle list"
  br_placements :: "pod_placement list"
  br_workers :: "worker_runtime list"
  br_outcomes :: strmap
  br_measurements :: measurements
  br_evidence :: "string list"

text \<open>The zero values of the records the program fills in step by step.\<close>

definition empty_fragmentation :: fragmentation where
  "empty_fragmentation = \<lparr>fr_target = 0, fr_domain = [], fr_nodes = [], fr_free = Map.empty,
     fr_total = 0, fr_usable = 0, fr_ratio = 0\<rparr>"

definition empty_recovery :: recovery where
  "empty_recovery = \<lparr>rc_attempted = False, rc_initially_unschedulable = False,
     rc_released_workload = [], rc_unschedulable_at = None, rc_released_at = None,
     rc_recovered_at = None, rc_latency = None, rc_recovered = False\<rparr>"

definition empty_measurements :: measurements where
  "empty_measurements = \<lparr>me_makespan = None, me_unschedulable = 0,
     me_fragmentation = empty_fragmentation, me_recovery = empty_recovery\<rparr>"

definition empty_parameters :: worker_parameters where
  "empty_parameters = \<lparr>wp_mode = [], wp_duration = [], wp_startup_delay = [], wp_fail_indexes = []\<rparr>"

end
