(* ===== verification/Lab_Calculate.thy ===== *)
theory Lab_Calculate
  imports Lab_Result
begin

text \<open>
  \<open>internal/lab/calculate.go\<close>: free capacity per node and the fragmentation metric. Sums are
  \<open>int64\<close> and wrap. A loop over a Go map visits its keys in an unspecified order, which is the
  argument \<open>order\<close> of \<open>calculate_fragmentation\<close>.
\<close>

definition quantity_value :: "resource_list \<Rightarrow> string \<Rightarrow> int64" where
  "quantity_value resources name = (case resources name of None \<Rightarrow> 0 | Some q \<Rightarrow> q)"

definition pod_succeeded :: string where "pod_succeeded = ''Succeeded''"
definition pod_failed :: string where "pod_failed = ''Failed''"
definition pod_scheduled :: string where "pod_scheduled = ''PodScheduled''"
definition reason_unschedulable :: string where "reason_unschedulable = ''Unschedulable''"

fun sum_requests :: "container list \<Rightarrow> int64 \<Rightarrow> int64" where
  "sum_requests [] regular = regular"
| "sum_requests (c # cs) regular =
     sum_requests cs (wrap64 (regular + quantity_value (ct_requests c) gpu_resource))"

fun max_request :: "container list \<Rightarrow> int64 \<Rightarrow> int64" where
  "max_request [] init_max = init_max"
| "max_request (c # cs) init_max =
     (let request = quantity_value (ct_requests c) gpu_resource
      in max_request cs (if request > init_max then request else init_max))"

definition pod_gpu_request :: "pod \<Rightarrow> int64" where
  "pod_gpu_request pod =
     (let regular = sum_requests (p_containers pod) 0;
          init_max = max_request (p_init_containers pod) 0;
          regular = (if init_max > regular then init_max else regular)
      in wrap64 (regular + quantity_value (p_overhead pod) gpu_resource))"

definition gpu_node :: "node \<Rightarrow> bool" where
  "gpu_node n \<longleftrightarrow> label_of (n_meta n) ''infra.example.io/gpu-node'' = ''true''"

fun free_nodes :: "node list \<Rightarrow> (string \<rightharpoonup> int64) \<Rightarrow> (string \<rightharpoonup> int64)" where
  "free_nodes [] free = free"
| "free_nodes (n # ns) free =
     free_nodes ns (if gpu_node n
       then free(m_name (n_meta n) \<mapsto> quantity_value (n_allocatable n) gpu_resource) else free)"

definition holds_gpus :: "pod \<Rightarrow> bool" where
  "holds_gpus pod \<longleftrightarrow> \<not> (p_node_name pod = [] \<or> p_phase pod = pod_succeeded \<or> p_phase pod = pod_failed)"

fun take_pods :: "pod list \<Rightarrow> (string \<rightharpoonup> int64) \<Rightarrow> (string \<rightharpoonup> int64)" where
  "take_pods [] free = free"
| "take_pods (pod # pods) free =
     (if \<not> holds_gpus pod then take_pods pods free
      else case free (p_node_name pod) of
        None \<Rightarrow> take_pods pods free
      | Some f \<Rightarrow>
          (let left = wrap64 (f - pod_gpu_request pod)
           in take_pods pods (free(p_node_name pod \<mapsto> if left < 0 then 0 else left))))"

definition free_gpus :: "node list \<Rightarrow> pod list \<Rightarrow> (string \<rightharpoonup> int64)" where
  "free_gpus nodes pods = take_pods pods (free_nodes nodes Map.empty)"

fun fragmentation_loop ::
    "(string \<rightharpoonup> int64) \<Rightarrow> int64 \<Rightarrow> string list \<Rightarrow> fragmentation \<Rightarrow> fragmentation" where
  "fragmentation_loop free target [] result = result"
| "fragmentation_loop free target (n # ns) result =
     (let available = the (free n)
      in fragmentation_loop free target ns
           (result\<lparr>fr_nodes := fr_nodes result @ [n], fr_free := (fr_free result)(n \<mapsto> available),
              fr_total := wrap64 (fr_total result + available),
              fr_usable := (if target > 0
                then wrap64 (fr_usable result + wrap64 (go_div available target * target))
                else fr_usable result)\<rparr>))"

definition calculate_fragmentation ::
    "string list \<Rightarrow> (string \<rightharpoonup> int64) \<Rightarrow> int64 \<Rightarrow> string \<Rightarrow> fragmentation" where
  "calculate_fragmentation order free target domain =
     (let result = fragmentation_loop free target order
            (empty_fragmentation\<lparr>fr_target := target, fr_domain := domain\<rparr>);
          result = result\<lparr>fr_nodes := sort (fr_nodes result)\<rparr>
      in if fr_total result > 0
         then result\<lparr>fr_ratio := f64_div (f64_of_int (wrap64 (fr_total result - fr_usable result)))
                (f64_of_int (fr_total result))\<rparr>
         else result)"

fun unschedulable_condition :: "pod_condition list \<Rightarrow> bool" where
  "unschedulable_condition [] = False"
| "unschedulable_condition (c # cs) =
     (if pc_type c = pod_scheduled \<and> pc_status c = condition_false \<and>
         pc_reason c = reason_unschedulable then True else unschedulable_condition cs)"

fun unschedulable_loop :: "pod list \<Rightarrow> int \<Rightarrow> int" where
  "unschedulable_loop [] n = n"
| "unschedulable_loop (pod # pods) n =
     unschedulable_loop pods (if unschedulable_condition (p_conditions pod) then n + 1 else n)"

definition unschedulable_count :: "pod list \<Rightarrow> int" where
  "unschedulable_count pods = unschedulable_loop pods 0"

section \<open>Free capacity\<close>

definition held_on :: "pod list \<Rightarrow> string \<Rightarrow> int" where
  "held_on pods n = sum_list (map pod_gpu_request
     (filter (\<lambda>pod. holds_gpus pod \<and> p_node_name pod = n) pods))"

lemma held_on_Cons: "held_on (pod # pods) n =
    (if holds_gpus pod \<and> p_node_name pod = n then pod_gpu_request pod else 0) + held_on pods n"
  by (simp add: held_on_def)

lemma pod_gpu_request_in64: "in64 (pod_gpu_request pod)"
  by (simp add: pod_gpu_request_def Let_def in64_wrap64)

definition no_negative_request :: "pod list \<Rightarrow> bool" where
  "no_negative_request pods \<longleftrightarrow> (\<forall>pod \<in> set pods. holds_gpus pod \<longrightarrow> 0 \<le> pod_gpu_request pod)"

lemma held_on_nonneg: "no_negative_request pods \<Longrightarrow> 0 \<le> held_on pods n"
  by (auto simp: no_negative_request_def held_on_def intro!: sum_list_nonneg)

text \<open>Clamping at zero after every Pod gives the same as clamping the final difference.\<close>

lemma take_pods_eq:
  assumes "no_negative_request pods" and "\<forall>f. free n = Some f \<longrightarrow> 0 \<le> f \<and> f < 2 ^ 63"
  shows "take_pods pods free n = map_option (\<lambda>f. max 0 (f - held_on pods n)) (free n)"
  using assms
proof (induction pods arbitrary: free)
  case Nil
  then show ?case by (cases "free n") (auto simp: held_on_def)
next
  case (Cons pod pods)
  have neg: "no_negative_request pods" using Cons.prems(1) by (simp add: no_negative_request_def)
  note IH = Cons.IH [OF neg]
  show ?case
  proof (cases "holds_gpus pod \<and> p_node_name pod = n \<and> free n \<noteq> None")
    case False
    have eq: "(if left then free(p_node_name pod \<mapsto> x) else free) n = free n"
      if "holds_gpus pod" "free (p_node_name pod) \<noteq> None" for left x
      using False that by auto
    then have "take_pods (pod # pods) free n = map_option (\<lambda>f. max 0 (f - held_on pods n)) (free n)"
      using IH Cons.prems(2) False by (auto simp: Let_def split: option.split)
    then show ?thesis using False by (cases "free n") (auto simp: held_on_Cons)
  next
    case True
    then obtain f where f: "free n = Some f" by auto
    let ?r = "pod_gpu_request pod"
    define l where "l = (if f - ?r < 0 then 0 else f - ?r)"
    have r: "0 \<le> ?r" "?r < 2 ^ 63"
      using Cons.prems(1) True pod_gpu_request_in64 [of pod] by (auto simp: no_negative_request_def in64_def)
    have bounds: "0 \<le> f" "f < 2 ^ 63" using Cons.prems(2) f by auto
    then have left: "wrap64 (f - ?r) = f - ?r" using r by (intro wrap64_id) (simp add: in64_def)
    have l: "0 \<le> l" "l < 2 ^ 63" using bounds r by (auto simp: l_def)
    have "take_pods (pod # pods) free n = take_pods pods (free(n \<mapsto> l)) n"
      using True f left by (simp add: Let_def l_def)
    also have "\<dots> = Some (max 0 (l - held_on pods n))"
      using IH [of "free(n \<mapsto> l)"] l by (simp del: fun_upd_apply add: fun_upd_same)
    also have "\<dots> = Some (max 0 (f - held_on (pod # pods) n))"
      using held_on_nonneg [OF neg, of n] True by (auto simp: held_on_Cons l_def)
    finally show ?thesis by (simp add: f)
  qed
qed

lemma free_nodes_eq:
  "distinct (map (m_name \<circ> n_meta) nodes) \<Longrightarrow> free_nodes nodes free n =
    (case find (\<lambda>nd. gpu_node nd \<and> m_name (n_meta nd) = n) nodes of
       None \<Rightarrow> free n | Some nd \<Rightarrow> Some (quantity_value (n_allocatable nd) gpu_resource))"
proof (induction nodes arbitrary: free)
  case (Cons nd nodes)
  have "find (\<lambda>nd. gpu_node nd \<and> m_name (n_meta nd) = n) nodes = None" if "m_name (n_meta nd) = n"
    using Cons.prems that by (simp add: find_None_iff image_iff) metis
  then show ?case
    using Cons by (cases "find (\<lambda>nd. gpu_node nd \<and> m_name (n_meta nd) = n) nodes") auto
qed simp

lemma find_Some_set: "find P xs = Some x \<Longrightarrow> x \<in> set xs \<and> P x"
  by (induction xs) (auto split: if_splits)

lemma free_gpus_eq:
  assumes "distinct (map (m_name \<circ> n_meta) nodes)" and "no_negative_request pods"
    and "\<forall>nd \<in> set nodes. 0 \<le> quantity_value (n_allocatable nd) gpu_resource \<and>
      quantity_value (n_allocatable nd) gpu_resource < 2 ^ 63"
  shows "free_gpus nodes pods n = map_option (\<lambda>nd. max 0 (quantity_value (n_allocatable nd) gpu_resource -
      held_on pods n)) (find (\<lambda>nd. gpu_node nd \<and> m_name (n_meta nd) = n) nodes)"
proof -
  have "\<forall>f. free_nodes nodes Map.empty n = Some f \<longrightarrow> 0 \<le> f \<and> f < 2 ^ 63"
    unfolding free_nodes_eq [OF assms(1)] using assms(3)
    by (auto split: option.splits dest!: find_Some_set)
  with take_pods_eq [OF assms(2), of "free_nodes nodes Map.empty" n] show ?thesis
    unfolding free_gpus_def free_nodes_eq [OF assms(1)] by (simp split: option.split)
qed


definition bench_node :: "string \<Rightarrow> node" where
  "bench_node name = \<lparr>n_meta = (new_meta name [])\<lparr>m_labels := Some [''infra.example.io/gpu-node'' \<mapsto> ''true'']\<rparr>,
     n_allocatable = [gpu_resource \<mapsto> 4]\<rparr>"

definition bench_pod :: "string \<Rightarrow> string \<Rightarrow> int \<Rightarrow> string \<Rightarrow> pod" where
  "bench_pod name node gpus phase = \<lparr>p_meta = new_meta name ''default'', p_node_name = node,
     p_containers = [\<lparr>ct_name = ''worker'', ct_image = [], ct_pull_policy = [], ct_command = [],
       ct_args = [], ct_env = [], ct_requests = [gpu_resource \<mapsto> gpus], ct_limits = Map.empty\<rparr>],
     p_init_containers = [], p_overhead = Map.empty, p_phase = phase, p_conditions = [],
     p_container_statuses = []\<rparr>"

lemma bench_pod_request: "0 \<le> g \<Longrightarrow> g < 2 ^ 63 \<Longrightarrow> pod_gpu_request (bench_pod name node g phase) = g"
  by (simp add: pod_gpu_request_def bench_pod_def quantity_value_def wrap64_id in64_def Let_def)

lemma bench_pod_simps [simp]: "p_node_name (bench_pod name node g phase) = node"
  "p_phase (bench_pod name node g phase) = phase"
  by (simp_all add: bench_pod_def)


section \<open>Fragmentation\<close>

definition usable_part :: "int64 \<Rightarrow> int64 \<Rightarrow> int64" where
  "usable_part target available = wrap64 (go_div available target * target)"

lemma wrap64_idem [simp]: "wrap64 (wrap64 x) = wrap64 x"
  by (rule wrap64_id) (rule in64_wrap64)

lemma fragmentation_loop_closed:
  assumes "wrap64 (fr_total r) = fr_total r" and "wrap64 (fr_usable r) = fr_usable r"
  shows "fragmentation_loop free target order r =
    r\<lparr>fr_nodes := fr_nodes r @ order,
      fr_free := (\<lambda>k. if k \<in> set order then Some (the (free k)) else fr_free r k),
      fr_total := wrap64 (fr_total r + (\<Sum>n \<leftarrow> order. the (free n))),
      fr_usable := (if target > 0
        then wrap64 (fr_usable r + (\<Sum>n \<leftarrow> order. usable_part target (the (free n))))
        else fr_usable r)\<rparr>"
  using assms
proof (induction order arbitrary: r)
  case Nil
  then show ?case by simp
next
  case (Cons n order)
  show ?case
    by (simp add: Cons.IH Cons.prems wrap64_add_left add.assoc fun_eq_iff Let_def cong: if_cong
        flip: usable_part_def)
qed

lemma calculate_fragmentation_eq:
  "calculate_fragmentation order free target domain =
    (let total = wrap64 (\<Sum>n \<leftarrow> order. the (free n));
         usable = (if target > 0 then wrap64 (\<Sum>n \<leftarrow> order. usable_part target (the (free n))) else 0)
     in \<lparr>fr_target = target, fr_domain = domain, fr_nodes = sort order,
         fr_free = (\<lambda>k. if k \<in> set order then Some (the (free k)) else None),
         fr_total = total, fr_usable = usable,
         fr_ratio = (if total > 0 then f64_div (f64_of_int (wrap64 (total - usable))) (f64_of_int total)
           else 0)\<rparr>)"
proof -
  have "wrap64 0 = 0" by (simp add: wrap64_def)
  then show ?thesis
    by (simp add: calculate_fragmentation_def fragmentation_loop_closed empty_fragmentation_def Let_def
        cong: if_cong)
qed

text \<open>
  The fragmentation metric does not depend on the order in which the map of free GPUs is
  visited, whatever the values are and also when the sums wrap.
\<close>

lemma fragmentation_order_independent:
  assumes "mset order = mset order'"
  shows "calculate_fragmentation order free target domain
    = calculate_fragmentation order' free target domain"
proof -
  have sums: "(\<Sum>n \<leftarrow> order. f n) = (\<Sum>n \<leftarrow> order'. f n)" for f :: "string \<Rightarrow> int"
    using assms by (metis mset_map sum_mset_sum_list)
  have "sort order = sort order'" and "set order = set order'"
    using assms by (metis sorted_list_of_multiset_mset, metis set_mset_mset)
  then show ?thesis
    unfolding calculate_fragmentation_eq by (simp add: sums)
qed

lemma usable_part_eq:
  "0 \<le> v \<Longrightarrow> v < 2 ^ 63 \<Longrightarrow> 0 < target \<Longrightarrow> usable_part target v = v - v mod target"
proof -
  assume v: "0 \<le> v" "v < 2 ^ 63" and t: "0 < target"
  have "0 \<le> v mod target" "v mod target \<le> v" using v t by (simp_all add: zmod_le_nonneg_dividend)
  then have "in64 (v - v mod target)" using v by (simp add: in64_def)
  then show ?thesis
    using v t unfolding usable_part_def
    by (simp add: go_div_nonneg minus_mod_eq_div_mult [symmetric] wrap64_id)
qed

lemma unit_quotient:
  "0 \<le> a \<Longrightarrow> a \<le> b \<Longrightarrow> 0 < b \<Longrightarrow> 0 \<le> of_int a / (of_int b :: rat) \<and> of_int a / (of_int b :: rat) \<le> 1"
  by (simp add: divide_le_eq)

lemma calculate_fragmentation_target: "fr_target (calculate_fragmentation order free target domain) = target"
  by (simp add: calculate_fragmentation_eq Let_def)

lemma fragmentation_facts:
  assumes order: "distinct order" "set order = dom free" and target: "0 < target"
    and nonneg: "\<forall>n \<in> dom free. 0 \<le> the (free n)"
    and bound: "(\<Sum>n \<in> dom free. the (free n)) < 2 ^ 53"
    and r: "r = calculate_fragmentation order free target domain"
  shows "fr_nodes r = sorted_list_of_set (dom free) \<and> fr_free r = free \<and>
    fr_total r = (\<Sum>n \<in> dom free. the (free n)) \<and>
    fr_total r - fr_usable r = (\<Sum>n \<in> dom free. the (free n) mod target) \<and>
    (0 < fr_usable r \<longleftrightarrow> (\<exists>n \<in> dom free. target \<le> the (free n))) \<and>
    0 \<le> fr_ratio r \<and> fr_ratio r \<le> 1"
proof -
  let ?v = "\<lambda>n. the (free n)" and ?D = "dom free"
  have fin: "finite ?D" using order(2) by (metis List.finite_set)
  have sums: "(\<Sum>n \<leftarrow> order. f n) = (\<Sum>n \<in> ?D. f n)" for f :: "string \<Rightarrow> int"
    using order by (metis sum_list_distinct_conv_sum_set)
  have each: "?v n \<le> (\<Sum>n \<in> ?D. ?v n)" if "n \<in> ?D" for n
    using that nonneg fin by (intro member_le_sum) auto
  have small: "?v n < 2 ^ 63" if "n \<in> ?D" for n using each [OF that] bound by simp
  have part: "usable_part target (?v n) = ?v n - ?v n mod target" if "n \<in> ?D" for n
    using that nonneg small target by (intro usable_part_eq) auto
  have parts: "(\<Sum>n \<in> ?D. usable_part target (?v n)) = (\<Sum>n \<in> ?D. ?v n - ?v n mod target)"
    using part by (intro sum.cong) auto
  have mods: "0 \<le> (\<Sum>n \<in> ?D. ?v n mod target)" "(\<Sum>n \<in> ?D. ?v n mod target) \<le> (\<Sum>n \<in> ?D. ?v n)"
    using nonneg target by (auto intro!: sum_nonneg sum_mono zmod_le_nonneg_dividend)
  have total: "fr_total r = (\<Sum>n \<in> ?D. ?v n)"
    using bound mods by (simp add: r calculate_fragmentation_eq Let_def sums wrap64_id in64_def)
  have usable: "fr_usable r = (\<Sum>n \<in> ?D. ?v n - ?v n mod target)"
    using bound mods target
    by (simp add: r calculate_fragmentation_eq Let_def sums parts sum_subtractf wrap64_id in64_def)
  have unused: "fr_total r - fr_usable r = (\<Sum>n \<in> ?D. ?v n mod target)"
    by (simp add: total usable sum_subtractf)
  have "(\<Sum>n \<in> ?D. ?v n - ?v n mod target) = 0 \<longleftrightarrow> (\<forall>n \<in> ?D. ?v n - ?v n mod target = 0)"
    using nonneg target fin by (intro sum_nonneg_eq_0_iff) (auto intro!: zmod_le_nonneg_dividend)
  moreover have "?v n - ?v n mod target = 0 \<longleftrightarrow> ?v n < target" if "n \<in> ?D" for n
    using that nonneg target by (metis cancel_ab_semigroup_add_class.diff_right_commute eq_iff_diff_eq_0
        mod_pos_pos_trivial pos_mod_bound)
  moreover have "0 \<le> fr_usable r" using mods by (simp add: usable sum_subtractf)
  ultimately have fits: "0 < fr_usable r \<longleftrightarrow> (\<exists>n \<in> ?D. target \<le> ?v n)"
    by (metis linorder_not_less order_less_le usable)
  have ratio: "0 \<le> fr_ratio r \<and> fr_ratio r \<le> 1"
  proof (cases "fr_total r > 0")
    case True
    let ?u = "\<Sum>n \<in> ?D. ?v n mod target"
    have "fr_ratio r = f64_div (f64_of_int (wrap64 (fr_total r - fr_usable r))) (f64_of_int (fr_total r))"
      using True by (simp add: r calculate_fragmentation_eq Let_def)
    also have "wrap64 (fr_total r - fr_usable r) = ?u"
      unfolding unused using mods bound by (intro wrap64_id) (simp add: in64_def)
    finally have "fr_ratio r = f64_round (of_int ?u / of_int (fr_total r))"
      using mods bound total by (simp add: f64_div_def f64_of_int_exact)
    moreover have "0 \<le> of_int ?u / (of_int (fr_total r) :: rat) \<and> of_int ?u / (of_int (fr_total r) :: rat) \<le> 1"
      by (rule unit_quotient) (use mods True total in simp_all)
    ultimately show ?thesis using f64_round_unit by metis
  qed (simp add: r calculate_fragmentation_eq Let_def)
  have "fr_nodes r = sorted_list_of_set ?D"
    using order by (simp add: r calculate_fragmentation_eq Let_def sorted_list_of_set_sort_remdups
        distinct_remdups_id flip: order(2))
  moreover have "fr_free r = free"
    by (auto simp: r calculate_fragmentation_eq Let_def order(2) fun_eq_iff domIff)
  ultimately show ?thesis using total unused fits ratio by simp
qed

text \<open>A cluster within the documented limit of 5000 nodes.\<close>

definition sane_nodes :: "node list \<Rightarrow> bool" where
  "sane_nodes nodes \<longleftrightarrow> distinct (map (m_name \<circ> n_meta) nodes) \<and> length nodes \<le> 5000 \<and>
     (\<forall>nd \<in> set nodes. 0 \<le> quantity_value (n_allocatable nd) gpu_resource \<and>
        quantity_value (n_allocatable nd) gpu_resource < 2 ^ 32)"

lemma free_gpus_bounded:
  assumes "sane_nodes nodes" and "no_negative_request pods"
  shows "finite (dom (free_gpus nodes pods))" and "\<forall>n \<in> dom (free_gpus nodes pods). 0 \<le> the (free_gpus nodes pods n)"
    and "(\<Sum>n \<in> dom (free_gpus nodes pods). the (free_gpus nodes pods n)) < 2 ^ 53"
proof -
  let ?free = "free_gpus nodes pods"
  have eq: "?free n = map_option (\<lambda>nd. max 0 (quantity_value (n_allocatable nd) gpu_resource - held_on pods n))
      (find (\<lambda>nd. gpu_node nd \<and> m_name (n_meta nd) = n) nodes)" for n
    using assms by (intro free_gpus_eq) (auto simp: sane_nodes_def)
  have sub: "dom ?free \<subseteq> (m_name \<circ> n_meta) ` set nodes"
    by (auto simp: eq dom_def dest!: find_Some_set)
  then show fin: "finite (dom ?free)" by (rule finite_subset) simp
  have each: "0 \<le> the (?free n) \<and> the (?free n) \<le> 2 ^ 32" if free: "n \<in> dom ?free" for n
  proof -
    obtain nd where nd: "find (\<lambda>nd. gpu_node nd \<and> m_name (n_meta nd) = n) nodes = Some nd"
      using free by (auto simp: eq)
    then have "nd \<in> set nodes" by (auto dest!: find_Some_set)
    then have "quantity_value (n_allocatable nd) gpu_resource < 2 ^ 32" using assms(1) by (simp add: sane_nodes_def)
    moreover have "0 \<le> held_on pods n" using assms(2) by (rule held_on_nonneg)
    ultimately show ?thesis by (simp add: eq nd)
  qed
  then show "\<forall>n \<in> dom ?free. 0 \<le> the (?free n)" by blast
  have "card (dom ?free) \<le> 5000"
    using card_mono [OF _ sub] card_image_le [of "set nodes" "m_name \<circ> n_meta"] card_length [of nodes] assms(1)
    by (simp add: sane_nodes_def)
  moreover have "(\<Sum>n \<in> dom ?free. the (?free n)) \<le> of_nat (card (dom ?free)) * 2 ^ 32"
    by (rule sum_bounded_above) (use each in blast)
  ultimately show "(\<Sum>n \<in> dom ?free. the (?free n)) < 2 ^ 53" by simp
qed

text \<open>
  C19: as long as there are fewer than \<open>2^53\<close> free GPUs in total, the metric is exact where it
  is a count and a ratio between 0 and 1: the total is the sum over the nodes, what is not usable
  is the sum of the remainders that no Pod of the target size can use, and something is usable
  exactly when such a Pod fits on some node.
\<close>

theorem fragmentation_metric:
  assumes order: "distinct order" "set order = dom free" and target: "0 < target"
    and nonneg: "\<forall>n \<in> dom free. 0 \<le> the (free n)"
    and bound: "(\<Sum>n \<in> dom free. the (free n)) < 2 ^ 53"
    and r: "r = calculate_fragmentation order free target domain"
  shows "fr_nodes r = sorted_list_of_set (dom free) \<and> fr_free r = free \<and>
    fr_total r = (\<Sum>n \<in> dom free. the (free n)) \<and>
    fr_total r - fr_usable r = (\<Sum>n \<in> dom free. the (free n) mod target) \<and>
    (0 < fr_usable r \<longleftrightarrow> (\<exists>n \<in> dom free. target \<le> the (free n))) \<and>
    0 \<le> fr_ratio r \<and> fr_ratio r \<le> 1"
  using assms by (rule fragmentation_facts)

text \<open>Three holders of two GPUs each on three nodes of four: spread evenly no target of four fits.\<close>

theorem fragmentation_metric_witness:
  "let r = calculate_fragmentation [''a'', ''b'', ''c''] [''a'' \<mapsto> 2, ''b'' \<mapsto> 2, ''c'' \<mapsto> 2] 4 []
   in fr_total r = 6 \<and> \<not> 0 < fr_usable r"
proof -
  have "dom [''a'' \<mapsto> 2, ''b'' \<mapsto> 2, ''c'' \<mapsto> (2::int)] = {''a'', ''b'', ''c''}" by auto
  then show ?thesis
    using fragmentation_metric [of "[''a'', ''b'', ''c'']" "[''a'' \<mapsto> 2, ''b'' \<mapsto> 2, ''c'' \<mapsto> 2]" 4
        "calculate_fragmentation [''a'', ''b'', ''c''] [''a'' \<mapsto> 2, ''b'' \<mapsto> 2, ''c'' \<mapsto> 2] 4 []" "[]"]
    by (simp add: Let_def)
qed

section \<open>Unschedulable Pods\<close>

lemma unschedulable_loop_eq:
  "unschedulable_loop pods n = n + int (length (filter (\<lambda>p. unschedulable_condition (p_conditions p)) pods))"
  by (induction pods arbitrary: n) simp_all

lemma unschedulable_condition_iff:
  "unschedulable_condition cs \<longleftrightarrow> (\<exists>c \<in> set cs. pc_type c = pod_scheduled \<and>
    pc_status c = condition_false \<and> pc_reason c = reason_unschedulable)"
  by (induction cs) auto

end
