(* ===== verification/Go_IO.thy ===== *)
theory Go_IO
  imports Go_Prelude
begin

text \<open>
  Calls that reach another process: they take the world \<open>'w\<close> and return an error or a value, and
  the world afterwards. \<open>io_bind\<close> is the early return \<open>if err != nil { return err }\<close>.
\<close>

type_synonym ('w, 'a) io = "'w \<Rightarrow> (go_error + 'a) \<times> 'w"

definition io_return :: "'a \<Rightarrow> ('w, 'a) io" where
  "io_return x w = (Inr x, w)"

definition io_fail :: "go_error \<Rightarrow> ('w, 'a) io" where
  "io_fail e w = (Inl e, w)"

definition io_bind :: "('w, 'a) io \<Rightarrow> ('a \<Rightarrow> ('w, 'b) io) \<Rightarrow> ('w, 'b) io" where
  "io_bind m f w = (case m w of (Inl e, w') \<Rightarrow> (Inl e, w') | (Inr x, w') \<Rightarrow> f x w')"

text \<open>\<open>fmt.Errorf("...: %w", err)\<close> around a call.\<close>

definition io_wrap :: "string \<Rightarrow> ('w, 'a) io \<Rightarrow> ('w, 'a) io" where
  "io_wrap msg m w = (case m w of (Inl e, w') \<Rightarrow> (Inl (Wrapped msg e), w') | (Inr x, w') \<Rightarrow> (Inr x, w'))"

text \<open>Looking at the result of a call without returning early.\<close>

definition io_try :: "('w, 'a) io \<Rightarrow> (go_error + 'a \<Rightarrow> ('w, 'b) io) \<Rightarrow> ('w, 'b) io" where
  "io_try m f w = (case m w of (r, w') \<Rightarrow> f r w')"

lemma io_bind_Inr:
  "io_bind m f w = (Inr y, w') \<longleftrightarrow> (\<exists>x w1. m w = (Inr x, w1) \<and> f x w1 = (Inr y, w'))"
  by (auto simp: io_bind_def split: prod.splits sum.splits)

lemma io_bind_Inl:
  "io_bind m f w = (Inl e, w') \<longleftrightarrow>
    m w = (Inl e, w') \<or> (\<exists>x w1. m w = (Inr x, w1) \<and> f x w1 = (Inl e, w'))"
  by (auto simp: io_bind_def split: prod.splits sum.splits)

lemma io_wrap_Inr: "io_wrap msg m w = (Inr y, w') \<longleftrightarrow> m w = (Inr y, w')"
  by (auto simp: io_wrap_def split: prod.splits sum.splits)

lemma io_return_eq: "io_return x w = (Inr y, w') \<longleftrightarrow> y = x \<and> w' = w"
  by (auto simp: io_return_def)

lemma io_fail_eq: "io_fail e w = (Inr y, w') \<longleftrightarrow> False"
  by (simp add: io_fail_def)

lemma io_try_eq: "io_try m f w = r \<longleftrightarrow> (\<exists>x w1. m w = (x, w1) \<and> f x w1 = r)"
  by (auto simp: io_try_def split: prod.splits)

lemmas io_Inr = io_bind_Inr io_wrap_Inr io_return_eq io_fail_eq

text \<open>Calls that leave what a view shows of the world alone.\<close>

definition io_keeps :: "('w \<Rightarrow> 'v) \<Rightarrow> ('w, 'a) io \<Rightarrow> bool" where
  "io_keeps view m \<longleftrightarrow> (\<forall>w. view (snd (m w)) = view w)"

lemma io_keeps_bind [intro]:
  assumes "io_keeps view m" and "\<And>x. io_keeps view (f x)"
  shows "io_keeps view (io_bind m f)"
  unfolding io_keeps_def
proof
  fix w
  obtain r w1 where "m w = (r, w1)" by fastforce
  moreover from this have "view w1 = view w" using assms(1) by (metis io_keeps_def snd_conv)
  ultimately show "view (snd (io_bind m f w)) = view w"
    using assms(2) by (cases r) (simp_all add: io_bind_def io_keeps_def)
qed

lemma io_keeps_wrap [intro]: "io_keeps view m \<Longrightarrow> io_keeps view (io_wrap msg m)"
  unfolding io_keeps_def io_wrap_def by (metis (no_types, lifting) case_prod_beta snd_conv sum.case_eq_if)

lemma io_keeps_return [intro, simp]: "io_keeps view (io_return x)" "io_keeps view (io_fail e)"
  by (simp_all add: io_keeps_def io_return_def io_fail_def)

end
