(* ===== verification/Lab_Cluster.thy ===== *)
theory Lab_Cluster
  imports AIJob_API Lab_Calculate Go_IO
begin

text \<open>
  \<open>internal/lab/cluster.go\<close> and \<open>kueue_types.go\<close>: the lab's view of a cluster. The typed client,
  the clientset and \<open>wait.PollUntilContextTimeout\<close> are third-party code and the fields of
  \<open>cluster\<close>; the operations built on them are those of the source.
\<close>

section \<open>Objects\<close>

record workload =
  wl_meta :: object_meta
  wl_conditions :: "condition list"

record flavor_quota =
  fl_name :: string
  fl_resources :: "(string \<times> int64) list"

record queue_group =
  qg_covered :: "string list"
  qg_flavors :: "flavor_quota list"

record cluster_queue_object =
  cq_meta :: object_meta
  cq_groups :: "queue_group list"

record deployment =
  dp_meta :: object_meta
  dp_replicas :: "int32 option"
  dp_template_annotations :: "strmap option"
  dp_images :: "string list"
  dp_observed_generation :: int64
  dp_updated_replicas :: int32
  dp_available_replicas :: int32

record config_map =
  cm_meta :: object_meta
  cm_data :: "strmap option"

record event =
  ev_involved :: string

record snapshot =
  sn_aijobs :: "aijob list"
  sn_jobsets :: "jobset list"
  sn_workloads :: "workload list"
  sn_jobs :: "job list"
  sn_pods :: "pod list"
  sn_nodes :: "node list"
  sn_deployments :: "deployment list"
  sn_events :: "event list"

section \<open>Parameters\<close>

type_synonym selector = "(string \<times> string) list"

text \<open>What a polled condition has found when it is done.\<close>

datatype observation = SeenPod pod | SeenAIJob aijob | SeenReady | SeenStage string

text \<open>
  \<open>poll interval timeout cond\<close> is \<open>PollUntilContextTimeout\<close> with an immediate first attempt. The
  condition's captured variables are the \<open>time option\<close> it passes on to its next attempt and the
  observation it ends with.
\<close>

record 'w cluster =
  list_aijobs :: "string \<Rightarrow> selector \<Rightarrow> ('w, aijob list) io"
  list_jobsets :: "string \<Rightarrow> selector \<Rightarrow> ('w, jobset list) io"
  list_jobs :: "string \<Rightarrow> selector \<Rightarrow> ('w, job list) io"
  list_pods :: "string \<Rightarrow> selector \<Rightarrow> ('w, pod list) io"
  list_workloads :: "string \<Rightarrow> ('w, workload list) io"
  list_nodes :: "selector \<Rightarrow> ('w, node list) io"
  list_deployments :: "string \<Rightarrow> ('w, deployment list) io"
  list_events :: "string \<Rightarrow> ('w, event list) io"
  fetch_aijob :: "nsname \<Rightarrow> ('w, aijob) io"
  fetch_deployment :: "nsname \<Rightarrow> ('w, deployment) io"
  fetch_config_map :: "nsname \<Rightarrow> ('w, config_map) io"
  fetch_cluster_queue :: "string \<Rightarrow> ('w, cluster_queue_object) io"
  create_aijob_object :: "aijob \<Rightarrow> ('w, unit) io"
  delete_aijob_object :: "nsname \<Rightarrow> ('w, unit) io"
  put_deployment :: "deployment \<Rightarrow> ('w, deployment) io"
  put_config_map :: "config_map \<Rightarrow> ('w, unit) io"
  core_pods :: "string \<Rightarrow> string \<Rightarrow> ('w, pod list) io"
  core_delete_pod :: "string \<Rightarrow> string \<Rightarrow> ('w, unit) io"
  pod_logs :: "string \<Rightarrow> string \<Rightarrow> string \<Rightarrow> ('w, string) io"
  service_proxy :: "string \<Rightarrow> string \<Rightarrow> ('w, string) io"
  server_version :: "('w, string) io"
  clock :: "'w \<Rightarrow> time \<times> 'w"
  poll :: "int64 \<Rightarrow> int64 \<Rightarrow> (time option \<Rightarrow> 'w \<Rightarrow> ((go_error + observation option) \<times> time option) \<times> 'w)
    \<Rightarrow> ('w, observation) io"

text \<open>A condition that captures no variable it reads.\<close>

definition plain_condition ::
    "('w, observation option) io \<Rightarrow> time option \<Rightarrow> 'w \<Rightarrow> ((go_error + observation option) \<times> time option) \<times> 'w"
  where "plain_condition c s w = (case c w of (r, w') \<Rightarrow> ((r, s), w'))"

definition half_second :: int64 where "half_second = 500 * 10 ^ 6"
definition one_second :: int64 where "one_second = 10 ^ 9"

definition system_namespace :: string where "system_namespace = ''ai-infra-system''"

section \<open>Helpers\<close>

definition validate_context :: "string \<Rightarrow> string \<Rightarrow> go_error option" where
  "validate_context current want =
     (if current \<noteq> want then Some (Err (''refusing mutation: current context '' @ go_quote current @
        '', want '' @ go_quote want)) else None)"

text \<open>\<open>ValidateKindContext\<close>, given the kubeconfig's current context or the error of loading it.\<close>

definition validate_kind_context :: "go_error + string \<Rightarrow> string \<Rightarrow> go_error option" where
  "validate_kind_context loaded cluster_name =
     (case loaded of
        Inl e \<Rightarrow> Some (Wrapped ''load kubeconfig context'' e)
      | Inr current \<Rightarrow> validate_context current (''kind-'' @ cluster_name))"

fun owner_named :: "owner_ref list \<Rightarrow> string \<Rightarrow> bool" where
  "owner_named [] name = False"
| "owner_named (ow # owners) name = (if o_name ow = name then True else owner_named owners name)"

definition pod_condition_is :: "string \<Rightarrow> string \<Rightarrow> pod_condition \<Rightarrow> bool" where
  "pod_condition_is ty st c \<longleftrightarrow> pc_type c = ty \<and> pc_status c = st"

fun has_condition_true :: "pod_condition list \<Rightarrow> string \<Rightarrow> bool" where
  "has_condition_true [] ty = False"
| "has_condition_true (c # cs) ty =
     (if pc_type c = ty \<and> pc_status c = condition_true then True else has_condition_true cs ty)"

fun meta_condition_true :: "condition list \<Rightarrow> string \<Rightarrow> bool" where
  "meta_condition_true [] ty = False"
| "meta_condition_true (c # cs) ty =
     (if equal_fold (c_type c) ty \<and> c_status c = condition_true then True else meta_condition_true cs ty)"

fun worker_container_started :: "container_status list \<Rightarrow> bool" where
  "worker_container_started [] = False"
| "worker_container_started (s # ss) =
     (if cs_name s = ''worker'' \<and> (cs_running s \<noteq> None \<or> cs_terminated s \<noteq> None) then True
      else worker_container_started ss)"

text \<open>The set of names is a Go map; whether some name owns a Workload does not depend on its order.\<close>

fun related_loop :: "string set \<Rightarrow> workload list \<Rightarrow> workload list \<Rightarrow> workload list" where
  "related_loop names [] result = result"
| "related_loop names (wl # wls) result =
     (if label_of (wl_meta wl) job_label \<in> names then related_loop names wls (result @ [wl])
      else if \<exists>name \<in> names. owner_named (m_owners (wl_meta wl)) name
      then related_loop names wls (result @ [wl])
      else related_loop names wls result)"

definition related_workloads :: "workload list \<Rightarrow> aijob list \<Rightarrow> jobset list \<Rightarrow> workload list" where
  "related_workloads workloads aijobs jobsets =
     related_loop (set (map (m_name \<circ> aj_meta) aijobs) \<union> set (map (m_name \<circ> js_meta) jobsets))
       workloads []"

fun events_loop :: "string set \<Rightarrow> event list \<Rightarrow> event list \<Rightarrow> event list" where
  "events_loop names [] result = result"
| "events_loop names (e # es) result =
     events_loop names es (if ev_involved e \<in> names then result @ [e] else result)"

definition filter_events :: "event list \<Rightarrow> snapshot \<Rightarrow> event list" where
  "filter_events events snap =
     events_loop (set (map (m_name \<circ> aj_meta) (sn_aijobs snap)) \<union>
         set (map (m_name \<circ> js_meta) (sn_jobsets snap)) \<union>
         set (map (m_name \<circ> wl_meta) (sn_workloads snap)) \<union>
         set (map (m_name \<circ> jb_meta) (sn_jobs snap)) \<union>
         set (map (m_name \<circ> p_meta) (sn_pods snap)))
       events []"

section \<open>Discovery\<close>

definition empty_snapshot :: snapshot where
  "empty_snapshot = \<lparr>sn_aijobs = [], sn_jobsets = [], sn_workloads = [], sn_jobs = [], sn_pods = [],
     sn_nodes = [], sn_deployments = [], sn_events = []\<rparr>"

text \<open>\<open>Discover\<close>; every caller ignores the snapshot that comes with an error.\<close>

definition discover :: "'w cluster \<Rightarrow> string \<Rightarrow> string \<Rightarrow> ('w, snapshot) io" where
  "discover cl namespace run_id =
     (let sel = [(run_id_label, run_id)] in
      io_bind (io_wrap ''list *v1alpha1.AIJobList'' (list_aijobs cl namespace sel)) (\<lambda>aijobs.
      io_bind (io_wrap ''list *v1alpha2.JobSetList'' (list_jobsets cl namespace sel)) (\<lambda>jobsets.
      io_bind (io_wrap ''list *v1.JobList'' (list_jobs cl namespace sel)) (\<lambda>jobs.
      io_bind (io_wrap ''list *v1.PodList'' (list_pods cl namespace sel)) (\<lambda>pods.
      io_bind (io_wrap ''list *lab.WorkloadList'' (list_workloads cl namespace)) (\<lambda>workloads.
      io_bind (io_wrap ''list Nodes'' (list_nodes cl [])) (\<lambda>nodes.
      io_bind (io_wrap ''list Deployments'' (list_deployments cl system_namespace)) (\<lambda>deployments.
      io_bind (io_wrap ''list Events'' (list_events cl namespace)) (\<lambda>events.
        let result = \<lparr>sn_aijobs = aijobs, sn_jobsets = jobsets,
              sn_workloads = related_workloads workloads aijobs jobsets, sn_jobs = jobs,
              sn_pods = pods, sn_nodes = nodes, sn_deployments = deployments, sn_events = []\<rparr>
        in io_return (result\<lparr>sn_events := filter_events events result\<rparr>))))))))))"

section \<open>Waiting\<close>

fun find_scheduled :: "pod list \<Rightarrow> pod option" where
  "find_scheduled [] = None"
| "find_scheduled (pod # pods) =
     (if p_node_name pod \<noteq> [] \<and> has_condition_true (p_conditions pod) pod_scheduled then Some pod
      else find_scheduled pods)"

fun find_unschedulable :: "pod list \<Rightarrow> pod option" where
  "find_unschedulable [] = None"
| "find_unschedulable (pod # pods) =
     (if unschedulable_condition (p_conditions pod) then Some pod else find_unschedulable pods)"

definition workload_selector :: "string \<Rightarrow> string \<Rightarrow> selector" where
  "workload_selector run_id wl = [(run_id_label, run_id), (job_label, wl)]"

definition wait_for_pod_scheduled ::
    "'w cluster \<Rightarrow> string \<Rightarrow> string \<Rightarrow> string \<Rightarrow> int64 \<Rightarrow> ('w, observation) io" where
  "wait_for_pod_scheduled cl namespace run_id wl timeout =
     io_wrap (''wait for workload '' @ wl @ '' PodScheduled'') (poll cl half_second timeout
       (plain_condition (io_bind (list_pods cl namespace (workload_selector run_id wl)) (\<lambda>pods.
          io_return (map_option SeenPod (find_scheduled pods))))))"

definition wait_for_pod_unschedulable ::
    "'w cluster \<Rightarrow> string \<Rightarrow> string \<Rightarrow> string \<Rightarrow> int64 \<Rightarrow> ('w, observation) io" where
  "wait_for_pod_unschedulable cl namespace run_id wl timeout =
     io_wrap (''wait for workload '' @ wl @ '' Unschedulable'') (poll cl half_second timeout
       (plain_condition (io_bind (list_pods cl namespace (workload_selector run_id wl)) (\<lambda>pods.
          io_return (map_option SeenPod (find_unschedulable pods))))))"

definition nsname_text :: "nsname \<Rightarrow> string" where
  "nsname_text key = ns_namespace key @ ''/'' @ ns_name key"

text \<open>A lookup error ends the wait unless the AIJob is absent (\<open>client.IgnoreNotFound\<close>).\<close>

definition aijob_condition :: "'w cluster \<Rightarrow> nsname \<Rightarrow> string \<Rightarrow> ('w, observation option) io" where
  "aijob_condition cl key ty =
     io_try (fetch_aijob cl key) (\<lambda>r. case r of
         Inl e \<Rightarrow> if is_not_found e then io_return None else io_fail e
       | Inr job \<Rightarrow> io_return (if meta_condition_true (st_conditions (aj_status job)) ty
           then Some (SeenAIJob job) else None))"

definition wait_for_aijob_condition ::
    "'w cluster \<Rightarrow> nsname \<Rightarrow> string \<Rightarrow> int64 \<Rightarrow> ('w, observation) io" where
  "wait_for_aijob_condition cl key ty timeout =
     io_wrap (''wait for AIJob '' @ nsname_text key @ '' condition '' @ ty)
       (poll cl half_second timeout (plain_condition (aijob_condition cl key ty)))"

definition deployment_ready :: "int64 \<Rightarrow> deployment \<Rightarrow> bool" where
  "deployment_ready generation d \<longleftrightarrow>
     (let want = (case dp_replicas d of None \<Rightarrow> 1 | Some r \<Rightarrow> r)
      in dp_observed_generation d \<ge> generation \<and> dp_updated_replicas d = want \<and>
         dp_available_replicas d = want)"

definition wait_for_deployment :: "'w cluster \<Rightarrow> nsname \<Rightarrow> int64 \<Rightarrow> int64 \<Rightarrow> ('w, unit) io" where
  "wait_for_deployment cl key generation timeout =
     io_bind (poll cl one_second timeout (plain_condition (io_bind (fetch_deployment cl key) (\<lambda>d.
       io_return (if deployment_ready generation d then Some SeenReady else None)))))
       (\<lambda>_. io_return ())"

section \<open>Logs and metrics\<close>

fun component_pod_logs :: "'w cluster \<Rightarrow> string \<Rightarrow> pod list \<Rightarrow> strmap \<Rightarrow> ('w, strmap) io" where
  "component_pod_logs cl component [] result = io_return result"
| "component_pod_logs cl component (pod # pods) result =
     io_bind (pod_logs cl (m_namespace (p_meta pod)) (m_name (p_meta pod)) []) (\<lambda>data.
       component_pod_logs cl component pods (result(component @ ''-'' @ m_name (p_meta pod) \<mapsto> data)))"

fun component_logs_loop :: "'w cluster \<Rightarrow> string list \<Rightarrow> strmap \<Rightarrow> ('w, strmap) io" where
  "component_logs_loop cl [] result = io_return result"
| "component_logs_loop cl (component # components) result =
     io_bind (core_pods cl system_namespace (''app='' @ component)) (\<lambda>pods.
     io_bind (component_pod_logs cl component pods result) (\<lambda>result'.
       component_logs_loop cl components result'))"

definition component_logs :: "'w cluster \<Rightarrow> ('w, strmap) io" where
  "component_logs cl = component_logs_loop cl [''aijob-controller'', ''ai-scheduler''] Map.empty"

fun worker_logs_loop :: "'w cluster \<Rightarrow> pod list \<Rightarrow> strmap \<Rightarrow> go_error option list \<Rightarrow> 'w
    \<Rightarrow> (strmap \<times> go_error option list) \<times> 'w" where
  "worker_logs_loop cl [] result errs w = ((result, errs), w)"
| "worker_logs_loop cl (pod # pods) result errs w =
     (if \<not> worker_container_started (p_container_statuses pod)
      then worker_logs_loop cl pods result errs w
      else case pod_logs cl (m_namespace (p_meta pod)) (m_name (p_meta pod)) ''worker'' w of
        (Inl e, w') \<Rightarrow> worker_logs_loop cl pods result
          (errs @ [Some (Wrapped (''worker log '' @ m_name (p_meta pod)) e)]) w'
      | (Inr data, w') \<Rightarrow> worker_logs_loop cl pods (result(m_name (p_meta pod) \<mapsto> data)) errs w')"

text \<open>The logs that could be read, and the joined errors of the others.\<close>

definition worker_logs :: "'w cluster \<Rightarrow> pod list \<Rightarrow> 'w \<Rightarrow> (strmap \<times> go_error option) \<times> 'w" where
  "worker_logs cl pods w = (case worker_logs_loop cl pods Map.empty [] w of
     ((result, errs), w') \<Rightarrow> ((result, errors_join errs), w'))"

definition metrics_snapshot :: "'w cluster \<Rightarrow> string \<Rightarrow> int \<Rightarrow> ('w, string) io" where
  "metrics_snapshot cl service port =
     (let name = (if service = ''aijob-controller-metrics''
        then ''http:'' @ service @ '':'' @ show_int port else ''https:'' @ service @ '':'' @ show_int port)
      in service_proxy cl system_namespace name)"

end
