(* ===== verification/Lab_Reports.thy ===== *)
theory Lab_Reports
  imports Lab_Cluster Worker_Properties
begin

text \<open>
  \<open>internal/lab/worker_reports.go\<close>: what the lab reports about each worker, from the state of its
  container and from the records in its log. The JSON decoder and \<open>time.Parse\<close> are the fields of
  \<open>log_codec\<close>: the records a log holds, with the error that stops the decoding, if it is not the
  end of the input.
\<close>

record log_codec =
  decode_records :: "string \<Rightarrow> worker_record list \<times> go_error option"
  parse_time :: "string \<Rightarrow> go_error + time"

definition completion_index_label :: string where
  "completion_index_label = ''batch.kubernetes.io/job-completion-index''"

fun apply_container_state :: "worker_runtime \<Rightarrow> container_status list \<Rightarrow> worker_runtime" where
  "apply_container_state report [] = report"
| "apply_container_state report (st # statuses) =
     (if cs_name st \<noteq> ''worker'' then apply_container_state report statuses
      else
        let report = (case cs_running st of
              Some started \<Rightarrow> if wr_started report = None then report\<lparr>wr_started := Some started\<rparr> else report
            | None \<Rightarrow> report)
        in (case cs_terminated st of
              None \<Rightarrow> apply_container_state report statuses
            | Some t \<Rightarrow>
                (let report = (if wr_started report = None then report\<lparr>wr_started := Some (t_started t)\<rparr>
                   else report)
                 in apply_container_state (report\<lparr>wr_finished := Some (t_finished t),
                      wr_exit_reason := t_reason t, wr_exit_code := Some (t_exit_code t)\<rparr>) statuses)))"

definition apply_record :: "worker_runtime \<Rightarrow> worker_record \<Rightarrow> time \<Rightarrow> worker_runtime" where
  "apply_record report r timestamp =
     (let p = r_parameters r;
          report = report\<lparr>wr_parameters := \<lparr>wp_mode = ps_mode p, wp_duration = ps_duration p,
            wp_startup_delay = ps_startup_delay p, wp_fail_indexes = ps_fail_indexes p\<rparr>\<rparr>
      in if r_type r = ''start'' then report\<lparr>wr_started := Some timestamp\<rparr>
         else if r_type r = ''result'' then
           (let report = report\<lparr>wr_finished := Some timestamp, wr_exit_reason := r_exit_reason r\<rparr>
            in case r_exit_code r of
                 None \<Rightarrow> report
               | Some code \<Rightarrow> report\<lparr>wr_exit_code := Some code\<rparr>)
         else report)"

fun record_loop ::
    "log_codec \<Rightarrow> worker_record list \<Rightarrow> go_error option \<Rightarrow> worker_runtime \<Rightarrow> worker_runtime \<times> go_error option" where
  "record_loop codec [] err report = (report, err)"
| "record_loop codec (r # rs) err report =
     (case parse_time codec (r_timestamp r) of
        Inl e \<Rightarrow> (report, Some (Wrapped (''parse timestamp '' @ go_quote (r_timestamp r)) e))
      | Inr timestamp \<Rightarrow> record_loop codec rs err (apply_record report r timestamp))"

definition apply_worker_records ::
    "log_codec \<Rightarrow> worker_runtime \<Rightarrow> string \<Rightarrow> worker_runtime \<times> go_error option" where
  "apply_worker_records codec report data =
     (case decode_records codec data of (rs, err) \<Rightarrow> record_loop codec rs err report)"

definition new_report :: "pod \<Rightarrow> worker_runtime" where
  "new_report pod = \<lparr>wr_pod = m_name (p_meta pod), wr_workload = label_of (p_meta pod) job_label,
     wr_completion_index = label_of (p_meta pod) completion_index_label, wr_started = None,
     wr_finished = None, wr_exit_reason = [], wr_exit_code = None, wr_parameters = empty_parameters\<rparr>"

definition pod_report :: "log_codec \<Rightarrow> strmap \<Rightarrow> pod \<Rightarrow> worker_runtime \<times> go_error option" where
  "pod_report codec logs pod =
     (let report = apply_container_state (new_report pod) (p_container_statuses pod)
      in case logs (m_name (p_meta pod)) of
           None \<Rightarrow> (report, None)
         | Some data \<Rightarrow>
             (case apply_worker_records codec report data of
                (report, err) \<Rightarrow>
                  (report, map_option (Wrapped (''parse worker log '' @ m_name (p_meta pod))) err)))"

fun reports_loop :: "log_codec \<Rightarrow> strmap \<Rightarrow> pod list \<Rightarrow> worker_runtime list \<Rightarrow> go_error option list
    \<Rightarrow> worker_runtime list \<times> go_error option list" where
  "reports_loop codec logs [] reports errs = (reports, errs)"
| "reports_loop codec logs (pod # pods) reports errs =
     (case pod_report codec logs pod of
        (report, err) \<Rightarrow> reports_loop codec logs pods (reports @ [report])
          (case err of None \<Rightarrow> errs | Some e \<Rightarrow> errs @ [Some e]))"

text \<open>\<open>sort.Slice\<close> by Pod name; names in a namespace are distinct, so stability does not matter.\<close>

definition worker_runtime_reports ::
    "log_codec \<Rightarrow> pod list \<Rightarrow> strmap \<Rightarrow> worker_runtime list \<times> go_error option" where
  "worker_runtime_reports codec pods logs =
     (case reports_loop codec logs pods [] [] of
        (reports, errs) \<Rightarrow> (sort_key wr_pod reports, errors_join errs))"

section \<open>One report per Pod\<close>

lemma reports_loop_eq:
  "reports_loop codec logs pods reports errs =
    (reports @ map (fst \<circ> pod_report codec logs) pods,
     errs @ filter (\<lambda>e. e \<noteq> None) (map (snd \<circ> pod_report codec logs) pods))"
  by (induction pods arbitrary: reports errs) (auto split: prod.split option.split)

lemma worker_runtime_reports_eq:
  "worker_runtime_reports codec pods logs =
    (sort_key wr_pod (map (fst \<circ> pod_report codec logs) pods),
     errors_join (filter (\<lambda>e. e \<noteq> None) (map (snd \<circ> pod_report codec logs) pods)))"
  by (simp add: worker_runtime_reports_def reports_loop_eq)

lemma apply_container_state_keeps:
  "wr_pod (apply_container_state report sts) = wr_pod report \<and>
   wr_workload (apply_container_state report sts) = wr_workload report"
  by (induction report sts rule: apply_container_state.induct) (auto simp: Let_def split: option.split)

lemma apply_record_keeps:
  "wr_pod (apply_record report r t) = wr_pod report"
  "wr_workload (apply_record report r t) = wr_workload report"
  by (simp_all add: apply_record_def Let_def split: option.split)

lemma record_loop_keeps:
  "wr_pod (fst (record_loop codec rs err report)) = wr_pod report \<and>
   wr_workload (fst (record_loop codec rs err report)) = wr_workload report"
  by (induction rs arbitrary: report) (simp_all add: apply_record_keeps split: sum.split)

lemma pod_report_names:
  "wr_pod (fst (pod_report codec logs pod)) = m_name (p_meta pod) \<and>
   wr_workload (fst (pod_report codec logs pod)) = label_of (p_meta pod) job_label"
proof -
  let ?r = "apply_container_state (new_report pod) (p_container_statuses pod)"
  have r: "wr_pod ?r = m_name (p_meta pod) \<and> wr_workload ?r = label_of (p_meta pod) job_label"
    using apply_container_state_keeps [of "new_report pod"] by (simp add: new_report_def)
  show ?thesis
  proof (cases "logs (m_name (p_meta pod))")
    case None
    then show ?thesis using r by (simp add: pod_report_def)
  next
    case (Some data)
    obtain rs err where "decode_records codec data = (rs, err)" by fastforce
    moreover obtain report' err' where "record_loop codec rs err ?r = (report', err')" by fastforce
    ultimately show ?thesis
      using Some r record_loop_keeps [of codec rs err ?r]
      by (simp add: pod_report_def apply_worker_records_def)
  qed
qed

text \<open>
  There is one report per Pod, in the order of the Pod names, each for its Pod and the AIJob
  its label names, and an error is returned exactly when some log could not be read to its end;
  a Pod without a log is reported from its container state alone.
\<close>

lemma one_report_per_pod:
  "case worker_runtime_reports codec pods logs of (reports, err) \<Rightarrow>
     mset (map (\<lambda>r. (wr_pod r, wr_workload r)) reports)
       = mset (map (\<lambda>pod. (m_name (p_meta pod), label_of (p_meta pod) job_label)) pods) \<and>
     sorted (map wr_pod reports) \<and>
     set reports = fst ` pod_report codec logs ` set pods \<and>
     (err = None \<longleftrightarrow> list_all (\<lambda>pod. snd (pod_report codec logs pod) = None) pods)"
proof -
  let ?rs = "map (fst \<circ> pod_report codec logs) pods"
  let ?errs = "filter (\<lambda>e. e \<noteq> None) (map (snd \<circ> pod_report codec logs) pods)"
  have "mset (map (\<lambda>r. (wr_pod r, wr_workload r)) (sort_key wr_pod ?rs))
      = mset (map (\<lambda>r. (wr_pod r, wr_workload r)) ?rs)" by (simp only: mset_map mset_sort)
  also have "map (\<lambda>r. (wr_pod r, wr_workload r)) ?rs
      = map (\<lambda>pod. (m_name (p_meta pod), label_of (p_meta pod) job_label)) pods"
    by (simp add: pod_report_names)
  finally have names: "mset (map (\<lambda>r. (wr_pod r, wr_workload r)) (sort_key wr_pod ?rs))
      = mset (map (\<lambda>pod. (m_name (p_meta pod), label_of (p_meta pod) job_label)) pods)" .
  have sorted: "sorted (map wr_pod (sort_key wr_pod ?rs))" by (rule sorted_sort_key)
  have reports: "set (sort_key wr_pod ?rs) = fst ` pod_report codec logs ` set pods"
    by (simp add: image_image comp_def)
  have errors: "errors_join ?errs = None \<longleftrightarrow> list_all (\<lambda>pod. snd (pod_report codec logs pod) = None) pods"
    unfolding errors_join_None_iff list_all_iff by (induction pods) auto
  show ?thesis
    unfolding worker_runtime_reports_eq prod.case using names sorted reports errors by (intro conjI)
qed

section \<open>What a worker's own records say\<close>

context worker_protocol
begin

text \<open>A finished worker's records overwrite what the container state said.\<close>

lemma finished_report:
  assumes "emits rs (Exits code)" and "rs \<noteq> []"
    and times: "\<forall>r \<in> set rs. parse_time codec (r_timestamp r) = Inr (time_of r)"
  shows "\<exists>report'. record_loop codec rs None report = (report', None) \<and>
    wr_exit_code report' = Some code \<and> (wr_exit_reason report', code) \<in> set verdict_codes \<and>
    wr_started report' = Some (time_of (hd rs)) \<and> wr_finished report' = Some (time_of (last rs)) \<and>
    wp_fail_indexes (wr_parameters report') = ps_fail_indexes (r_parameters (hd rs)) \<and>
    wp_mode (wr_parameters report') = ps_mode (r_parameters (hd rs))"
proof -
  obtain s r where rs: "rs = [s, r]" and "r_type s = ''start''" "r_type r = ''result''"
    "r_exit_code r = Some code" "r_exit_reason r = r_outcome r"
    "(r_outcome r, code) \<in> set verdict_codes" "r_parameters r = r_parameters s"
    using finished [OF assms(1)] assms(2) by blast
  then show ?thesis
    using times by (simp add: rs apply_record_def Let_def)
qed

lemma unfinished_report:
  assumes "emits rs Blocks"
    and times: "\<forall>r \<in> set rs. parse_time codec (r_timestamp r) = Inr (time_of r)"
  shows "\<exists>report'. record_loop codec rs None report = (report', None) \<and>
    wr_exit_code report' = wr_exit_code report \<and> wr_finished report' = wr_finished report \<and>
    wr_started report' = Some (time_of (hd rs))"
proof -
  obtain s where "rs = [s]" "r_type s = ''start''" using unfinished [OF assms(1)] by blast
  then show ?thesis using times by (simp add: apply_record_def Let_def)
qed

end


text \<open>Timestamps printed in decimal, and a log that holds the records of the sample worker.\<close>

definition decimal_time :: "string \<Rightarrow> go_error + time" where
  "decimal_time s = Inr (if s \<noteq> [] \<and> hd s = CHR ''-'' then - int (read_nat (tl s)) else int (read_nat s))"

lemma decimal_time_show: "decimal_time (show_int t) = Inr t"
proof -
  have "is_digit (hd (show_nat n))" for n using show_nat_digits [of _ n] by simp
  moreover have "\<not> is_digit CHR ''-''" by (simp add: is_digit_def)
  ultimately have "hd (show_nat n) \<noteq> CHR ''-''" for n by metis
  then show ?thesis by (auto simp: decimal_time_def show_int_def)
qed

definition sample_log :: log_codec where
  "sample_log = \<lparr>decode_records = (\<lambda>_. (out_stdout (run show_int (sample_env None) sample_args (\<lambda>_. ''1'')), None)),
     parse_time = decimal_time\<rparr>"


end
