(* ===== verification/Lab_Evidence.thy ===== *)
theory Lab_Evidence
  imports Lab_Reports Go_Path
begin

text \<open>
  \<open>internal/lab/evidence.go\<close>: the evidence bundle of one run. \<open>evidence_source\<close> is the interface
  \<open>EvidenceSource\<close>, which \<open>cluster_source\<close> implements with the operations of a cluster;
  \<open>file_ops\<close> holds the file system and the YAML and JSON encoders. A loop over a Go map visits
  its keys in the order \<open>iter\<close> gives them.
\<close>

definition evidence_schema_version :: string where "evidence_schema_version = ''v1''"

record 'w evidence_source =
  es_discover :: "string \<Rightarrow> string \<Rightarrow> ('w, snapshot) io"
  es_component_logs :: "('w, strmap) io"
  es_worker_logs :: "pod list \<Rightarrow> 'w \<Rightarrow> (strmap \<times> go_error option) \<times> 'w"
  es_metrics_snapshot :: "string \<Rightarrow> int \<Rightarrow> ('w, string) io"

definition cluster_source :: "'w cluster \<Rightarrow> 'w evidence_source" where
  "cluster_source cl = \<lparr>es_discover = discover cl, es_component_logs = component_logs cl,
     es_worker_logs = worker_logs cl, es_metrics_snapshot = metrics_snapshot cl\<rparr>"

record evidence_options =
  eo_namespace :: string
  eo_run_id :: string
  eo_experiment :: string
  eo_output_dir :: string
  eo_expected :: "string list"
  eo_observed :: "string list"

record manifest =
  mf_schema_version :: string
  mf_run_id :: string
  mf_experiment :: string
  mf_collected_at :: time
  mf_complete :: bool
  mf_expected :: "string list"
  mf_observed :: "string list"
  mf_missing :: "string list"
  mf_warnings :: "string list"
  mf_files :: strmap

text \<open>The collector is its validated options; the source is passed along.\<close>

definition new_evidence_collector :: "evidence_options \<Rightarrow> go_error + evidence_options" where
  "new_evidence_collector opts =
     (let opts = (if eo_namespace opts = [] then opts\<lparr>eo_namespace := ''default''\<rparr> else opts)
      in if eo_run_id opts = [] \<or> eo_experiment opts = []
         then Inl (Err ''evidence run ID and experiment are required'')
         else Inr (if eo_output_dir opts = [] then opts\<lparr>eo_output_dir := ''out/evidence''\<rparr> else opts))"

section \<open>Files\<close>

datatype artifact =
    AIJobsDoc "aijob list" | JobSetsDoc "jobset list" | WorkloadsDoc "workload list"
  | JobsDoc "job list" | PodsDoc "pod list" | NodesDoc "node list"
  | DeploymentsDoc "deployment list" | EventsDoc "event list"
  | WorkersDoc "worker_runtime list" | ManifestDoc manifest

record 'w file_ops =
  mkdir_all :: "string \<Rightarrow> 'w \<Rightarrow> go_error option \<times> 'w"
  os_write_file :: "string \<Rightarrow> string \<Rightarrow> 'w \<Rightarrow> go_error option \<times> 'w"
  marshal_yaml :: "artifact \<Rightarrow> go_error + string"
  marshal_json :: "artifact \<Rightarrow> go_error + string"

definition write_file :: "'w file_ops \<Rightarrow> string \<Rightarrow> string \<Rightarrow> 'w \<Rightarrow> go_error option \<times> 'w" where
  "write_file fs path data w =
     (case mkdir_all fs (path_dir path) w of
        (Some e, w') \<Rightarrow> (Some e, w')
      | (None, w') \<Rightarrow> os_write_file fs path data w')"

definition write_yaml :: "'w file_ops \<Rightarrow> string \<Rightarrow> artifact \<Rightarrow> 'w \<Rightarrow> go_error option \<times> 'w" where
  "write_yaml fs path v w =
     (case marshal_yaml fs v of Inl e \<Rightarrow> (Some e, w) | Inr data \<Rightarrow> write_file fs path data w)"

definition write_json :: "'w file_ops \<Rightarrow> string \<Rightarrow> artifact \<Rightarrow> 'w \<Rightarrow> go_error option \<times> 'w" where
  "write_json fs path v w =
     (case marshal_json fs v of
        Inl e \<Rightarrow> (Some e, w) | Inr data \<Rightarrow> write_file fs path (data @ [CHR 0x0A]) w)"

definition safe_name :: "string \<Rightarrow> string" where
  "safe_name v = replace_all (replace_all v ''/'' ''-'') ''..'' ''-''"

text \<open>Entering the outcome of writing \<open>path\<close> in the manifest, under \<open>key\<close> if it succeeded.\<close>

definition note_missing :: "string \<Rightarrow> manifest \<Rightarrow> manifest" where
  "note_missing msg m = m\<lparr>mf_missing := mf_missing m @ [msg]\<rparr>"

definition note_written :: "string \<Rightarrow> string \<Rightarrow> go_error option \<Rightarrow> manifest \<Rightarrow> manifest" where
  "note_written key path err m =
     (case err of
        Some e \<Rightarrow> note_missing (path @ '': '' @ error_text e) m
      | None \<Rightarrow> m\<lparr>mf_files := (mf_files m)(key \<mapsto> path)\<rparr>)"

section \<open>Collecting\<close>

definition resource_names :: "string list" where
  "resource_names = [''aijobs'', ''jobsets'', ''workloads'', ''jobs'', ''pods'', ''nodes'',
     ''deployments'', ''events'']"

definition resource_value :: "snapshot \<Rightarrow> string \<Rightarrow> artifact" where
  "resource_value snap name =
     (if name = ''aijobs'' then AIJobsDoc (sn_aijobs snap)
      else if name = ''jobsets'' then JobSetsDoc (sn_jobsets snap)
      else if name = ''workloads'' then WorkloadsDoc (sn_workloads snap)
      else if name = ''jobs'' then JobsDoc (sn_jobs snap)
      else if name = ''pods'' then PodsDoc (sn_pods snap)
      else if name = ''nodes'' then NodesDoc (sn_nodes snap)
      else if name = ''deployments'' then DeploymentsDoc (sn_deployments snap)
      else EventsDoc (sn_events snap))"

fun resources_loop ::
    "'w file_ops \<Rightarrow> string \<Rightarrow> snapshot \<Rightarrow> string list \<Rightarrow> manifest \<Rightarrow> 'w \<Rightarrow> manifest \<times> 'w" where
  "resources_loop fs rootdir snap [] m w = (m, w)"
| "resources_loop fs rootdir snap (name # names) m w =
     (let path = path_join [''resources'', name @ ''.yaml'']
      in case write_yaml fs (path_join [rootdir, path]) (resource_value snap name) w of
           (err, w') \<Rightarrow> resources_loop fs rootdir snap names (note_written name path err m) w')"

fun data_loop ::
    "'w file_ops \<Rightarrow> string \<Rightarrow> (string \<Rightarrow> string) \<Rightarrow> (string \<Rightarrow> string) \<Rightarrow> strmap \<Rightarrow> string list \<Rightarrow> manifest \<Rightarrow> 'w
      \<Rightarrow> manifest \<times> 'w" where
  "data_loop fs rootdir key_of path_of logs [] m w = (m, w)"
| "data_loop fs rootdir key_of path_of logs (name # names) m w =
     (case write_file fs (path_join [rootdir, path_of name]) (the (logs name)) w of
        (err, w') \<Rightarrow> data_loop fs rootdir key_of path_of logs names
          (note_written (key_of name) (path_of name) err m) w')"

text \<open>The manifest's keys and paths of the logs and metrics.\<close>

definition worker_log_key :: "string \<Rightarrow> string" where "worker_log_key pod = ''worker-log-'' @ pod"
definition component_log_key :: "string \<Rightarrow> string" where "component_log_key name = ''log-'' @ name"

definition worker_log_path :: "string \<Rightarrow> string" where
  "worker_log_path pod = path_join [''logs'', ''workers'', safe_name pod @ ''.ndjson'']"

definition component_log_path :: "string \<Rightarrow> string" where
  "component_log_path name = path_join [''logs'', safe_name name @ ''.log'']"

definition metrics_path :: "string \<Rightarrow> string" where
  "metrics_path service = path_join [''metrics'', safe_name service @ ''.prom'']"

definition workers_path :: string where
  "workers_path = path_join [''resources'', ''workers.json'']"

definition collect_worker_reports ::
    "'w evidence_source \<Rightarrow> 'w file_ops \<Rightarrow> log_codec \<Rightarrow> (string set \<Rightarrow> string list) \<Rightarrow> string \<Rightarrow> pod list
      \<Rightarrow> manifest \<Rightarrow> 'w \<Rightarrow> manifest \<times> 'w" where
  "collect_worker_reports src fs codec iter rootdir pods m w =
     (case es_worker_logs src pods w of
        ((logs, log_err), w1) \<Rightarrow>
          (let m1 = (case log_err of None \<Rightarrow> m
                | Some e \<Rightarrow> note_missing (''worker logs: '' @ error_text e) m)
           in case data_loop fs rootdir worker_log_key worker_log_path logs (iter (dom logs)) m1 w1 of
                (m2, w2) \<Rightarrow>
                  (case worker_runtime_reports codec pods logs of
                     (reports, err) \<Rightarrow>
                       (let m3 = (case err of None \<Rightarrow> m2
                             | Some e \<Rightarrow> note_missing (''worker reports: '' @ error_text e) m2)
                        in case write_json fs (path_join [rootdir, workers_path]) (WorkersDoc reports) w2 of
                             (err', w3) \<Rightarrow> (note_written ''workers'' workers_path err' m3, w3)))))"

definition metric_services :: "(string \<times> int) list" where
  "metric_services = [(''aijob-controller-metrics'', 8080), (''ai-scheduler-metrics'', 10259)]"

definition note_warning :: "string \<Rightarrow> manifest \<Rightarrow> manifest" where
  "note_warning msg m = m\<lparr>mf_warnings := mf_warnings m @ [msg]\<rparr>"

fun metrics_loop ::
    "'w evidence_source \<Rightarrow> 'w file_ops \<Rightarrow> string \<Rightarrow> (string \<times> int) list \<Rightarrow> manifest \<Rightarrow> 'w \<Rightarrow> manifest \<times> 'w" where
  "metrics_loop src fs rootdir [] m w = (m, w)"
| "metrics_loop src fs rootdir ((service, port) # services) m w =
     (case es_metrics_snapshot src service port w of
        (Inl e, w1) \<Rightarrow> metrics_loop src fs rootdir services (note_warning (service @ '': '' @ error_text e) m) w1
      | (Inr data, w1) \<Rightarrow>
          (case write_file fs (path_join [rootdir, metrics_path service]) data w1 of
             (Some e, w2) \<Rightarrow> metrics_loop src fs rootdir services
               (note_warning (metrics_path service @ '': '' @ error_text e) m) w2
           | (None, w2) \<Rightarrow> metrics_loop src fs rootdir services
               (m\<lparr>mf_files := (mf_files m)(service \<mapsto> metrics_path service)\<rparr>) w2))"

fun observed_all :: "string set \<Rightarrow> string list \<Rightarrow> bool" where
  "observed_all seen [] = True"
| "observed_all seen (item # items) = (if item \<notin> seen then False else observed_all seen items)"

definition expected_observed :: "string list \<Rightarrow> string list \<Rightarrow> bool" where
  "expected_observed expected observed = observed_all (set observed) expected"

text \<open>The last part of \<open>Collect\<close>: sorting and the completeness of the manifest.\<close>

definition finish_manifest :: "manifest \<Rightarrow> manifest" where
  "finish_manifest m =
     (let m = m\<lparr>mf_missing := sort (mf_missing m), mf_warnings := sort (mf_warnings m)\<rparr>;
          conditions_met = expected_observed (mf_expected m) (mf_observed m);
          m = m\<lparr>mf_complete := mf_missing m = [] \<and> conditions_met\<rparr>
      in if \<not> conditions_met then note_missing ''expected conditions were not all observed'' m else m)"

definition evidence_root :: "evidence_options \<Rightarrow> string" where
  "evidence_root opts = path_join [eo_output_dir opts, eo_run_id opts]"

text \<open>Everything \<open>Collect\<close> gathers once its root directory exists.\<close>

definition gather ::
    "'w evidence_source \<Rightarrow> 'w file_ops \<Rightarrow> log_codec \<Rightarrow> (string set \<Rightarrow> string list) \<Rightarrow> evidence_options
      \<Rightarrow> manifest \<Rightarrow> 'w \<Rightarrow> manifest \<times> 'w" where
  "gather src fs codec iter opts m w =
     (let rootdir = evidence_root opts
      in case (case es_discover src (eo_namespace opts) (eo_run_id opts) w of
            (Inl e, w1) \<Rightarrow> (note_missing (''resources: '' @ error_text e) m, w1)
          | (Inr snap, w1) \<Rightarrow>
              (case resources_loop fs rootdir snap (iter (set resource_names)) m w1 of
                 (m', w2) \<Rightarrow> collect_worker_reports src fs codec iter rootdir (sn_pods snap) m' w2)) of
         (m1, w1) \<Rightarrow>
           (case (case es_component_logs src w1 of
                (Inl e, w2) \<Rightarrow> (note_missing (''component logs: '' @ error_text e) m1, w2)
              | (Inr logs, w2) \<Rightarrow> data_loop fs rootdir component_log_key component_log_path logs
                  (iter (dom logs)) m1 w2) of
              (m2, w2) \<Rightarrow>
                (case metrics_loop src fs rootdir metric_services m2 w2 of
                   (m3, w3) \<Rightarrow> (finish_manifest m3, w3))))"

definition start_manifest :: "evidence_options \<Rightarrow> time \<Rightarrow> manifest" where
  "start_manifest opts now = \<lparr>mf_schema_version = evidence_schema_version, mf_run_id = eo_run_id opts,
     mf_experiment = eo_experiment opts, mf_collected_at = now, mf_complete = False,
     mf_expected = eo_expected opts, mf_observed = eo_observed opts, mf_missing = [],
     mf_warnings = [], mf_files = Map.empty\<rparr>"

definition collect ::
    "'w evidence_source \<Rightarrow> 'w file_ops \<Rightarrow> log_codec \<Rightarrow> (string set \<Rightarrow> string list) \<Rightarrow> evidence_options
      \<Rightarrow> time \<Rightarrow> 'w \<Rightarrow> (string \<times> go_error option) \<times> 'w" where
  "collect src fs codec iter opts now w =
     (let rootdir = evidence_root opts
      in case mkdir_all fs rootdir w of
           (Some e, w1) \<Rightarrow> ((rootdir, Some e), w1)
         | (None, w1) \<Rightarrow>
             (case gather src fs codec iter opts (start_manifest opts now) w1 of
                (m, w2) \<Rightarrow>
                  (case write_json fs (path_join [rootdir, ''manifest.json'']) (ManifestDoc m) w2 of
                     (Some e, w3) \<Rightarrow> ((rootdir, Some e), w3)
                   | (None, w3) \<Rightarrow>
                       (if \<not> mf_complete m
                        then ((rootdir, Some (Err (''evidence bundle '' @ rootdir @ '' is incomplete''))), w3)
                        else ((rootdir, None), w3)))))"

end
