(* ===== verification/Lab_Memory.thy ===== *)
theory Lab_Memory
  imports Lab_Evidence
begin

text \<open>
  A small cluster in memory on which the properties of the lab's tools are applied to concrete
  inputs: three GPU nodes of four, on which the first three AIJobs have a bound Pod each and any
  further one an unschedulable Pod. It also interprets the contract of polling.
\<close>

section \<open>Polling\<close>

text \<open>
  What a poll promises: it ends with an observation only if its condition was just evaluated to
  that observation, and with an error only if the condition failed or the context expired.
\<close>

locale polling =
  fixes p :: "int64 \<Rightarrow> int64 \<Rightarrow> (time option \<Rightarrow> 'w \<Rightarrow> ((go_error + observation option) \<times> time option) \<times> 'w)
    \<Rightarrow> ('w, observation) io"
  assumes observed: "p interval timeout c w = (Inr ob, w') \<Longrightarrow>
    \<exists>s s' w0. c s w0 = ((Inr (Some ob), s'), w')"
begin

lemma plain_observed:
  assumes "p interval timeout (plain_condition c) w = (Inr ob, w')"
  shows "\<exists>w0. c w0 = (Inr (Some ob), w')"
proof -
  obtain s s' w0 where "plain_condition c s w0 = ((Inr (Some ob), s'), w')"
    using observed [OF assms] by blast
  then show ?thesis by (cases "c w0") (auto simp: plain_condition_def)
qed

end

text \<open>At most \<open>n\<close> attempts before the deadline.\<close>

fun attempts :: "nat \<Rightarrow> (time option \<Rightarrow> 'w \<Rightarrow> ((go_error + observation option) \<times> time option) \<times> 'w)
    \<Rightarrow> time option \<Rightarrow> ('w, observation) io" where
  "attempts 0 c s w = (Inl (Err ''context deadline exceeded''), w)"
| "attempts (Suc n) c s w = (case c s w of
      ((Inl e, s'), w') \<Rightarrow> (Inl e, w')
    | ((Inr (Some ob), s'), w') \<Rightarrow> (Inr ob, w')
    | ((Inr None, s'), w') \<Rightarrow> attempts n c s' w')"

lemma attempts_observed:
  "attempts n c s w = (Inr ob, w') \<Longrightarrow> \<exists>s0 s' w0. c s0 w0 = ((Inr (Some ob), s'), w')"
  by (induction n arbitrary: s w) (auto split: prod.splits sum.splits option.splits)

interpretation attempts: polling "\<lambda>interval timeout c. attempts n c None"
  by unfold_locales (rule attempts_observed)

section \<open>A cluster\<close>

record lab_world =
  lw_time :: nat
  lw_jobs :: "aijob list"
  lw_files :: strmap
  lw_config :: config_map
  lw_scheduler :: deployment

definition matches :: "string \<Rightarrow> selector \<Rightarrow> object_meta \<Rightarrow> bool" where
  "matches namespace sel m \<longleftrightarrow> m_namespace m = namespace \<and> list_all (\<lambda>(k, v). label_of m k = v) sel"

definition bench_nodes :: "node list" where
  "bench_nodes = map bench_node [''a'', ''b'', ''c'']"

definition pod_meta_of :: "aijob \<Rightarrow> object_meta" where
  "pod_meta_of job = (aj_meta job)\<lparr>m_labels := Some
     ((lab_labels (m_labels (aj_meta job)))(job_label \<mapsto> m_name (aj_meta job)))\<rparr>"

text \<open>The Pod of an AIJob, whose request fits in 32 bits: bound to a node, or unschedulable without one.\<close>

definition pod_of :: "aijob \<Rightarrow> string \<Rightarrow> pod" where
  "pod_of job nd = (bench_pod [] nd (s_gpu_per_worker (aj_spec job) mod 2 ^ 32) ''Running'')
     \<lparr>p_meta := pod_meta_of job,
      p_conditions := [\<lparr>pc_type = pod_scheduled,
        pc_status = (if nd = [] then condition_false else condition_true),
        pc_reason = (if nd = [] then reason_unschedulable else []), pc_transition = 5\<rparr>]\<rparr>"

definition lab_pods :: "lab_world \<Rightarrow> pod list" where
  "lab_pods w = map (\<lambda>(job, nd). pod_of job nd) (zip (lw_jobs w)
     ([''a'', ''b'', ''c''] @ replicate (length (lw_jobs w)) []))"

definition finished_job :: "aijob \<Rightarrow> aijob" where
  "finished_job job = job\<lparr>aj_status := \<lparr>st_observed_generation = 1, st_conditions =
     [\<lparr>c_type = ''Completed'', c_status = condition_true, c_observed_generation = 1,
       c_transition = 9, c_reason = [], c_message = []\<rparr>]\<rparr>\<rparr>"

definition bench_queue :: cluster_queue_object where
  "bench_queue = \<lparr>cq_meta = new_meta ''benchmark'' [], cq_groups = [\<lparr>qg_covered = [gpu_resource],
     qg_flavors = [\<lparr>fl_name = ''gpu-scheduler'', fl_resources = [(gpu_resource, 12)]\<rparr>]\<rparr>]\<rparr>"

definition lab_cluster :: "lab_world cluster" where
  "lab_cluster = \<lparr>
     list_aijobs = (\<lambda>ns sel w. (Inr (filter (\<lambda>j. matches ns sel (aj_meta j)) (lw_jobs w)), w)),
     list_jobsets = (\<lambda>ns sel w. (Inr [], w)),
     list_jobs = (\<lambda>ns sel w. (Inr [], w)),
     list_pods = (\<lambda>ns sel w. (Inr (filter (\<lambda>p. matches ns sel (p_meta p)) (lab_pods w)), w)),
     list_workloads = (\<lambda>ns w. (Inr [], w)),
     list_nodes = (\<lambda>sel w. (Inr (filter (\<lambda>n. matches [] sel (n_meta n)) bench_nodes), w)),
     list_deployments = (\<lambda>ns w. (Inr [], w)),
     list_events = (\<lambda>ns w. (Inr [], w)),
     fetch_aijob = (\<lambda>key w. ((case find (\<lambda>j. meta_key (aj_meta j) = key) (lw_jobs w) of
         None \<Rightarrow> Inl (ApiNotFound (ns_name key)) | Some j \<Rightarrow> Inr (finished_job j)), w)),
     fetch_deployment = (\<lambda>key w. (if meta_key (dp_meta (lw_scheduler w)) = key then Inr (lw_scheduler w)
       else Inl (ApiNotFound (ns_name key)), w)),
     fetch_config_map = (\<lambda>key w. (if meta_key (cm_meta (lw_config w)) = key then Inr (lw_config w)
       else Inl (ApiNotFound (ns_name key)), w)),
     fetch_cluster_queue = (\<lambda>name w. (Inr bench_queue, w)),
     create_aijob_object = (\<lambda>j w. (Inr (), w\<lparr>lw_jobs := lw_jobs w @ [j]\<rparr>)),
     delete_aijob_object = (\<lambda>key w. (Inr (), w\<lparr>lw_jobs :=
       filter (\<lambda>j. meta_key (aj_meta j) \<noteq> key) (lw_jobs w)\<rparr>)),
     put_deployment = (\<lambda>d w. if meta_key (dp_meta d) = meta_key (dp_meta (lw_scheduler w))
       then (Inr d, w\<lparr>lw_scheduler := d\<rparr>) else (Inl (ApiNotFound (m_name (dp_meta d))), w)),
     put_config_map = (\<lambda>c w. if meta_key (cm_meta c) = meta_key (cm_meta (lw_config w))
       then (Inr (), w\<lparr>lw_config := c\<rparr>) else (Inl (ApiNotFound (m_name (cm_meta c))), w)),
     core_pods = (\<lambda>ns sel w. (Inr [], w)),
     core_delete_pod = (\<lambda>ns name w. (Inr (), w)),
     pod_logs = (\<lambda>ns name ct w. (Inr [], w)),
     service_proxy = (\<lambda>ns name w. (Inr ''metrics'', w)),
     server_version = (\<lambda>w. (Inr ''v1.31'', w)),
     clock = (\<lambda>w. (int (Suc (lw_time w)), w\<lparr>lw_time := Suc (lw_time w)\<rparr>)),
     poll = (\<lambda>interval timeout c. attempts 2 c None)\<rparr>"

definition lab_files :: "lab_world file_ops" where
  "lab_files = \<lparr>
     mkdir_all = (\<lambda>path w. (None, w)),
     os_write_file = (\<lambda>path data w. (None, w\<lparr>lw_files := (lw_files w)(path \<mapsto> data)\<rparr>)),
     marshal_yaml = (\<lambda>v. Inr ''yaml''), marshal_json = (\<lambda>v. Inr ''json'')\<rparr>"

definition lab_codec :: log_codec where
  "lab_codec = \<lparr>decode_records = (\<lambda>data. ([], None)), parse_time = decimal_time\<rparr>"

definition lab_start :: lab_world where
  "lab_start = \<lparr>lw_time = 100, lw_jobs = [], lw_files = Map.empty,
     lw_config = \<lparr>cm_meta = new_meta ''ai-scheduler-config'' system_namespace, cm_data = None\<rparr>,
     lw_scheduler = \<lparr>dp_meta = new_meta ''ai-scheduler'' system_namespace, dp_replicas = None,
       dp_template_annotations = None, dp_images = [''scheduler''], dp_observed_generation = 1,
       dp_updated_replicas = 1, dp_available_replicas = 1\<rparr>\<rparr>"

lemma poll_lab: "poll lab_cluster interval timeout c = attempts 2 c None"
  by (simp add: lab_cluster_def)

interpretation lab_polling: polling "poll lab_cluster"
  by unfold_locales (auto simp: poll_lab intro: attempts_observed)

lemmas lab_polls = lab_polling.polling_axioms

text \<open>What is discovered of a run in it.\<close>

definition lab_snapshot :: "string \<Rightarrow> string \<Rightarrow> lab_world \<Rightarrow> snapshot" where
  "lab_snapshot namespace run_id w = empty_snapshot\<lparr>
     sn_aijobs := filter (\<lambda>j. matches namespace [(run_id_label, run_id)] (aj_meta j)) (lw_jobs w),
     sn_pods := filter (\<lambda>p. matches namespace [(run_id_label, run_id)] (p_meta p)) (lab_pods w),
     sn_nodes := bench_nodes\<rparr>"

lemma discover_lab: "discover lab_cluster namespace run_id w = (Inr (lab_snapshot namespace run_id w), w)"
  by (simp add: discover_def lab_cluster_def io_wrap_def io_bind_def io_return_def related_workloads_def
      filter_events_def empty_snapshot_def Let_def matches_def bench_nodes_def bench_node_def new_meta_def
      lab_snapshot_def)

lemma lab_pods_unstarted: "\<not> list_ex (\<lambda>p. worker_container_started (p_container_statuses p)) (lab_pods w)"
  by (auto simp: lab_pods_def pod_of_def bench_pod_def list_ex_iff)

text \<open>An AIJob of a run.\<close>

definition lab_job :: "string \<Rightarrow> string \<Rightarrow> int64 \<Rightarrow> aijob" where
  "lab_job run_id name gpus = \<lparr>
     aj_meta = (new_meta name ''default'')\<lparr>m_labels := Some [run_id_label \<mapsto> run_id]\<rparr>,
     aj_spec = \<lparr>s_workers = 1, s_gpu_per_worker = gpus, s_gpu_resource = gpu_resource,
       s_queue_name = [], s_topology = \<lparr>tp_preference = [], tp_required = []\<rparr>, s_image = [],
       s_args = [], s_overrides = None\<rparr>,
     aj_status = \<lparr>st_observed_generation = 0, st_conditions = []\<rparr>\<rparr>"

end
