(* ===== verification/Lab_Cluster_Properties.thy ===== *)
theory Lab_Cluster_Properties
  imports Lab_Memory
begin

text \<open>
  What discovery returns and what the waits of \<open>internal/lab/cluster.go\<close> promise, given the contract
  of polling.
\<close>

section \<open>Discovery\<close>

text \<open>A Workload belongs to a name by its label or by one of its owners.\<close>

lemma owner_named_iff: "owner_named ows name \<longleftrightarrow> name \<in> o_name ` set ows"
  by (induction ows) auto

lemma related_loop_eq:
  "related_loop names wls result = result @ filter (\<lambda>wl. label_of (wl_meta wl) job_label \<in> names \<or>
     o_name ` set (m_owners (wl_meta wl)) \<inter> names \<noteq> {}) wls"
  by (induction wls arbitrary: result) (auto simp: owner_named_iff)

lemma events_loop_eq: "events_loop names es result = result @ filter (\<lambda>e. ev_involved e \<in> names) es"
  by (induction es arbitrary: result) auto

lemma related_workloads_none: "related_workloads wls [] [] = []"
  by (simp add: related_workloads_def related_loop_eq)

lemma discover_parts:
  assumes "discover cl namespace run_id w = (Inr snap, w')"
  obtains w1 w2 w3 w4 w5 w6 w7 wls evs where
    "list_aijobs cl namespace [(run_id_label, run_id)] w = (Inr (sn_aijobs snap), w1)"
    "list_jobsets cl namespace [(run_id_label, run_id)] w1 = (Inr (sn_jobsets snap), w2)"
    "list_jobs cl namespace [(run_id_label, run_id)] w2 = (Inr (sn_jobs snap), w3)"
    "list_pods cl namespace [(run_id_label, run_id)] w3 = (Inr (sn_pods snap), w4)"
    "list_workloads cl namespace w4 = (Inr wls, w5)"
    "list_nodes cl [] w5 = (Inr (sn_nodes snap), w6)"
    "list_deployments cl system_namespace w6 = (Inr (sn_deployments snap), w7)"
    "list_events cl namespace w7 = (Inr evs, w')"
    "sn_workloads snap = related_workloads wls (sn_aijobs snap) (sn_jobsets snap)"
    "sn_events snap = filter_events evs (snap\<lparr>sn_events := []\<rparr>)"
  using assms by (auto simp: discover_def Let_def io_Inr)

definition snapshot_names :: "snapshot \<Rightarrow> string set" where
  "snapshot_names snap = m_name ` (aj_meta ` set (sn_aijobs snap) \<union> js_meta ` set (sn_jobsets snap) \<union>
     wl_meta ` set (sn_workloads snap) \<union> jb_meta ` set (sn_jobs snap) \<union> p_meta ` set (sn_pods snap))"

lemma filter_events_eq:
  "filter_events evs (snap\<lparr>sn_events := []\<rparr>) = filter (\<lambda>e. ev_involved e \<in> snapshot_names snap) evs"
  by (simp add: filter_events_def events_loop_eq snapshot_names_def image_Un image_image)

text \<open>
  C20: a snapshot is scoped to its run: its AIJobs, JobSets, Jobs and Pods are what the API lists for
  the run's label, its Workloads are exactly those of the namespace that belong to one of these
  AIJobs or JobSets by label or owner, in particular none when there are no such AIJobs and JobSets,
  and its Events are exactly those about one of the objects of the snapshot.
\<close>

theorem snapshot_is_run_scoped:
  assumes "discover cl namespace run_id w = (Inr snap, w')"
  shows "\<exists>w1 w2 w3 w4 w5 w7 wls evs.
    list_aijobs cl namespace [(run_id_label, run_id)] w = (Inr (sn_aijobs snap), w1) \<and>
    list_jobsets cl namespace [(run_id_label, run_id)] w1 = (Inr (sn_jobsets snap), w2) \<and>
    list_jobs cl namespace [(run_id_label, run_id)] w2 = (Inr (sn_jobs snap), w3) \<and>
    list_pods cl namespace [(run_id_label, run_id)] w3 = (Inr (sn_pods snap), w4) \<and>
    list_workloads cl namespace w4 = (Inr wls, w5) \<and> list_events cl namespace w7 = (Inr evs, w') \<and>
    (let names = m_name ` (aj_meta ` set (sn_aijobs snap) \<union> js_meta ` set (sn_jobsets snap))
     in sn_workloads snap = filter (\<lambda>wl. ({label_of (wl_meta wl) job_label} \<union>
          o_name ` set (m_owners (wl_meta wl))) \<inter> names \<noteq> {}) wls) \<and>
    sn_events snap = filter (\<lambda>e. ev_involved e \<in> snapshot_names snap) evs"
proof -
  obtain w1 w2 w3 w4 w5 w6 w7 wls evs where parts:
    "list_aijobs cl namespace [(run_id_label, run_id)] w = (Inr (sn_aijobs snap), w1)"
    "list_jobsets cl namespace [(run_id_label, run_id)] w1 = (Inr (sn_jobsets snap), w2)"
    "list_jobs cl namespace [(run_id_label, run_id)] w2 = (Inr (sn_jobs snap), w3)"
    "list_pods cl namespace [(run_id_label, run_id)] w3 = (Inr (sn_pods snap), w4)"
    "list_workloads cl namespace w4 = (Inr wls, w5)"
    "list_events cl namespace w7 = (Inr evs, w')"
    and wls: "sn_workloads snap = related_workloads wls (sn_aijobs snap) (sn_jobsets snap)"
    and evs: "sn_events snap = filter_events evs (snap\<lparr>sn_events := []\<rparr>)"
    using assms by (rule discover_parts)
  have "sn_workloads snap = filter (\<lambda>wl. ({label_of (wl_meta wl) job_label} \<union>
      o_name ` set (m_owners (wl_meta wl))) \<inter> m_name ` (aj_meta ` set (sn_aijobs snap) \<union>
        js_meta ` set (sn_jobsets snap)) \<noteq> {}) wls"
    unfolding wls related_workloads_def related_loop_eq append_Nil
    by (rule filter_cong [OF refl]) (auto simp: image_Un image_image)
  then show ?thesis
    using parts evs unfolding filter_events_eq Let_def by blast
qed

theorem snapshot_is_run_scoped_witness:
  "\<exists>wls evs. list_workloads lab_cluster ''default'' lab_start = (Inr wls, lab_start) \<and>
     list_events lab_cluster ''default'' lab_start = (Inr evs, lab_start) \<and>
     sn_workloads (lab_snapshot ''default'' ''run'' lab_start) = [] \<and>
     sn_nodes (lab_snapshot ''default'' ''run'' lab_start) = bench_nodes"
  using snapshot_is_run_scoped [OF discover_lab [of "''default''" "''run''" lab_start]]
  by (auto simp: lab_cluster_def lab_snapshot_def empty_snapshot_def)

section \<open>Waiting\<close>

lemma has_condition_true_iff:
  "has_condition_true cs ty \<longleftrightarrow> (\<exists>c \<in> set cs. pc_type c = ty \<and> pc_status c = condition_true)"
  by (induction cs) auto

lemma find_scheduled_Some:
  "find_scheduled pods = Some pod \<Longrightarrow> pod \<in> set pods \<and> p_node_name pod \<noteq> [] \<and>
    has_condition_true (p_conditions pod) pod_scheduled"
  by (induction pods) (auto split: if_splits)

lemma find_unschedulable_Some:
  "find_unschedulable pods = Some pod \<Longrightarrow> pod \<in> set pods \<and> unschedulable_condition (p_conditions pod)"
  by (induction pods) (auto split: if_splits)

lemma aijob_condition_Some:
  assumes "aijob_condition cl key ty w = (Inr (Some ob), w')"
  shows "\<exists>j. ob = SeenAIJob j \<and> fetch_aijob cl key w = (Inr j, w') \<and>
    meta_condition_true (st_conditions (aj_status j)) ty"
proof -
  obtain r w1 where r: "fetch_aijob cl key w = (r, w1)" by fastforce
  then show ?thesis
    using assms by (cases r) (auto simp: aijob_condition_def io_try_def io_return_def io_fail_def split: if_splits)
qed

context polling
begin

lemma pods_observed:
  assumes "io_wrap msg (p interval timeout (plain_condition (io_bind (list_pods cl namespace sel)
      (\<lambda>pods. io_return (map_option SeenPod (pick pods)))))) w = (Inr ob, w')"
  shows "\<exists>pods pod w0. list_pods cl namespace sel w0 = (Inr pods, w') \<and> pick pods = Some pod \<and> ob = SeenPod pod"
proof -
  obtain w0 where "io_bind (list_pods cl namespace sel)
      (\<lambda>pods. io_return (map_option SeenPod (pick pods))) w0 = (Inr (Some ob), w')"
    using plain_observed assms io_wrap_Inr by metis
  then show ?thesis by (auto simp: io_Inr eq_commute [of "Some ob"] map_option_eq_Some)
qed

lemma ready_observed:
  assumes "io_bind (p interval timeout (plain_condition (io_bind call
      (\<lambda>x. io_return (if ok x then Some SeenReady else None))))) (\<lambda>_. io_return ()) w = (Inr (), w')"
  shows "\<exists>x w0. call w0 = (Inr x, w') \<and> ok x"
proof -
  obtain ob where "p interval timeout (plain_condition (io_bind call
      (\<lambda>x. io_return (if ok x then Some SeenReady else None)))) w = (Inr ob, w')"
    using assms by (auto simp: io_Inr)
  from plain_observed [OF this] show ?thesis by (auto simp: io_Inr split: if_splits)
qed

end

text \<open>
  C21: the waits are sound: a wait for a scheduled Pod that succeeds returns a Pod that the last list
  of the workload's Pods contained, bound to a node and with a true \<open>PodScheduled\<close> condition; one
  for an unschedulable Pod returns one with an \<open>Unschedulable\<close> condition; one for an AIJob's
  condition returns the AIJob just read with that condition true; one for a Deployment ends with
  the wanted number of updated and available replicas of at least the generation asked for.
\<close>

theorem waits_are_sound:
  assumes "polling (poll cl)"
  shows "(case wait_for_pod_scheduled cl namespace run_id wl timeout w of
       (Inl e, w') \<Rightarrow> True
     | (Inr ob, w') \<Rightarrow> \<exists>pods pod w0. ob = SeenPod pod \<and> pod \<in> set pods \<and>
         list_pods cl namespace [(run_id_label, run_id), (job_label, wl)] w0 = (Inr pods, w') \<and>
         p_node_name pod \<noteq> [] \<and> has_condition_true (p_conditions pod) pod_scheduled) \<and>
    (case wait_for_pod_unschedulable cl namespace run_id wl timeout w of
       (Inl e, w') \<Rightarrow> True
     | (Inr ob, w') \<Rightarrow> \<exists>pods pod w0. ob = SeenPod pod \<and> pod \<in> set pods \<and>
         list_pods cl namespace [(run_id_label, run_id), (job_label, wl)] w0 = (Inr pods, w') \<and>
         unschedulable_condition (p_conditions pod)) \<and>
    (case wait_for_aijob_condition cl key ty timeout w of
       (Inl e, w') \<Rightarrow> True
     | (Inr ob, w') \<Rightarrow> \<exists>j w0. ob = SeenAIJob j \<and> fetch_aijob cl key w0 = (Inr j, w') \<and>
         meta_condition_true (st_conditions (aj_status j)) ty) \<and>
    (case wait_for_deployment cl key generation timeout w of
       (Inl e, w') \<Rightarrow> True
     | (Inr _, w') \<Rightarrow> \<exists>d w0. fetch_deployment cl key w0 = (Inr d, w') \<and>
         generation \<le> dp_observed_generation d \<and>
         dp_updated_replicas d = (case dp_replicas d of None \<Rightarrow> 1 | Some r \<Rightarrow> r) \<and>
         dp_available_replicas d = dp_updated_replicas d)"
proof (intro conjI)
  show "case wait_for_pod_scheduled cl namespace run_id wl timeout w of
       (Inl e, w') \<Rightarrow> True
     | (Inr ob, w') \<Rightarrow> \<exists>pods pod w0. ob = SeenPod pod \<and> pod \<in> set pods \<and>
         list_pods cl namespace [(run_id_label, run_id), (job_label, wl)] w0 = (Inr pods, w') \<and>
         p_node_name pod \<noteq> [] \<and> has_condition_true (p_conditions pod) pod_scheduled"
    by (auto simp: wait_for_pod_scheduled_def workload_selector_def split: prod.split sum.split
        dest!: polling.pods_observed [OF assms] find_scheduled_Some)
  show "case wait_for_pod_unschedulable cl namespace run_id wl timeout w of
       (Inl e, w') \<Rightarrow> True
     | (Inr ob, w') \<Rightarrow> \<exists>pods pod w0. ob = SeenPod pod \<and> pod \<in> set pods \<and>
         list_pods cl namespace [(run_id_label, run_id), (job_label, wl)] w0 = (Inr pods, w') \<and>
         unschedulable_condition (p_conditions pod)"
    by (auto simp: wait_for_pod_unschedulable_def workload_selector_def split: prod.split sum.split
        dest!: polling.pods_observed [OF assms] find_unschedulable_Some)
  show "case wait_for_aijob_condition cl key ty timeout w of
       (Inl e, w') \<Rightarrow> True
     | (Inr ob, w') \<Rightarrow> \<exists>j w0. ob = SeenAIJob j \<and> fetch_aijob cl key w0 = (Inr j, w') \<and>
         meta_condition_true (st_conditions (aj_status j)) ty"
    by (auto simp: wait_for_aijob_condition_def io_wrap_Inr split: prod.split sum.split
        dest!: polling.plain_observed [OF assms] aijob_condition_Some)
  show "case wait_for_deployment cl key generation timeout w of
       (Inl e, w') \<Rightarrow> True
     | (Inr _, w') \<Rightarrow> \<exists>d w0. fetch_deployment cl key w0 = (Inr d, w') \<and>
         generation \<le> dp_observed_generation d \<and>
         dp_updated_replicas d = (case dp_replicas d of None \<Rightarrow> 1 | Some r \<Rightarrow> r) \<and>
         dp_available_replicas d = dp_updated_replicas d"
    by (auto simp: wait_for_deployment_def deployment_ready_def Let_def split: prod.split sum.split
        dest!: polling.ready_observed [OF assms])
qed

theorem waits_are_sound_witness:
  "\<exists>ob w' pod. wait_for_pod_scheduled lab_cluster ''default'' ''run'' ''job'' 1
     (lab_start\<lparr>lw_jobs := [lab_job ''run'' ''job'' 2]\<rparr>) = (Inr ob, w') \<and> ob = SeenPod pod \<and>
     p_node_name pod \<noteq> []"
proof -
  let ?w = "lab_start\<lparr>lw_jobs := [lab_job ''run'' ''job'' 2]\<rparr>"
  have pods: "list_pods lab_cluster ''default'' [(run_id_label, ''run''), (job_label, ''job'')] ?w =
      (Inr [pod_of (lab_job ''run'' ''job'' 2) ''a''], ?w)"
    by (simp add: lab_cluster_def lab_pods_def matches_def pod_of_def pod_meta_of_def lab_job_def
        new_meta_def label_of_def lab_labels_apply go_lookup_def label_keys bench_pod_def)
  have "find_scheduled [pod_of (lab_job ''run'' ''job'' 2) ''a''] = Some (pod_of (lab_job ''run'' ''job'' 2) ''a'')"
    by (simp add: pod_of_def bench_pod_def)
  then have "\<exists>ob w'. wait_for_pod_scheduled lab_cluster ''default'' ''run'' ''job'' 1 ?w = (Inr ob, w')"
    using pods by (simp add: wait_for_pod_scheduled_def io_wrap_def workload_selector_def plain_condition_def
        io_bind_def io_return_def numeral_2_eq_2 poll_lab)
  then obtain ob w' where ob: "wait_for_pod_scheduled lab_cluster ''default'' ''run'' ''job'' 1 ?w = (Inr ob, w')"
    by (elim exE)
  from conjunct1 [OF waits_are_sound [OF lab_polls, of "''default''" "''run''" "''job''" 1 ?w]]
  obtain pod where "ob = SeenPod pod" "p_node_name pod \<noteq> []"
    unfolding ob by auto
  then show ?thesis using ob by blast
qed

end
