(* ===== verification/Lab_Evidence_Properties.thy ===== *)
theory Lab_Evidence_Properties
  imports Lab_Memory
begin

text \<open>
  The evidence bundle: every file lies below the bundle's root, the manifest's index is total, and
  a bundle without an error has everything, including the log of every worker that started.
\<close>

section \<open>Paths\<close>

lemma safe_name_plain: "slash \<notin> set (safe_name v)"
proof -
  have "slash \<notin> set (replace_all v ''/'' ''-'')"
    unfolding slash_def by (rule replace_all_removes) simp
  then show ?thesis
    using replace_all_chars [of "replace_all v ''/'' ''-''" "''..''" "''-''"]
    by (auto simp: safe_name_def slash_def)
qed

lemma plain_suffix:
  assumes "slash \<notin> set x" and "2 < length sfx" and "slash \<notin> set sfx"
  shows "plain_comp (x @ sfx)"
  using assms by (auto simp: plain_comp_def append_eq_Cons_conv)

text \<open>A relative path made of plain components.\<close>

definition plain_path :: "string \<Rightarrow> bool" where
  "plain_path p \<longleftrightarrow> (\<exists>cs. cs \<noteq> [] \<and> list_all plain_comp cs \<and> p = join_with [slash] cs)"

lemma plain_path_join: "list_all plain_comp cs \<Longrightarrow> cs \<noteq> [] \<Longrightarrow> plain_path (path_join cs)"
  using path_join_plain by (auto simp: plain_path_def)

lemma resource_path_plain: "name \<in> set resource_names \<Longrightarrow> plain_path (path_join [''resources'', name @ ''.yaml''])"
  by (rule plain_path_join)
    (auto simp: resource_names_def plain_comp_def slash_def intro!: plain_suffix)

lemma other_paths_plain:
  "plain_path (worker_log_path x)" "plain_path (component_log_path x)" "plain_path (metrics_path x)"
  "plain_path workers_path"
proof -
  have dirs: "plain_comp ''logs''" "plain_comp ''workers''" "plain_comp ''metrics''" "plain_comp ''resources''"
    "plain_comp ''workers.json''"
    by (simp_all add: plain_comp_def slash_def)
  have names: "plain_comp (safe_name x @ ''.ndjson'')" "plain_comp (safe_name x @ ''.log'')"
    "plain_comp (safe_name x @ ''.prom'')"
    by (rule plain_suffix [OF safe_name_plain]; simp add: slash_def)+
  show "plain_path (worker_log_path x)" "plain_path (component_log_path x)"
    "plain_path (metrics_path x)" "plain_path workers_path"
    unfolding worker_log_path_def component_log_path_def metrics_path_def workers_path_def
    by (rule plain_path_join; simp add: dirs names)+
qed

section \<open>How a manifest grows\<close>

definition grows :: "manifest \<Rightarrow> manifest \<Rightarrow> bool" where
  "grows m m' \<longleftrightarrow> set (mf_missing m) \<subseteq> set (mf_missing m') \<and> dom (mf_files m) \<subseteq> dom (mf_files m') \<and>
     mf_expected m' = mf_expected m \<and> mf_observed m' = mf_observed m"

lemma grows_refl [simp]: "grows m m"
  by (simp add: grows_def)

lemma grows_trans: "grows m1 m2 \<Longrightarrow> grows m2 m3 \<Longrightarrow> grows m1 m3"
  unfolding grows_def by (metis order_trans)

definition files_plain :: "manifest \<Rightarrow> bool" where
  "files_plain m \<longleftrightarrow> (\<forall>key path. mf_files m key = Some path \<longrightarrow> plain_path path)"

lemma note_simps [simp]:
  "mf_files (note_missing msg m) = mf_files m" "mf_missing (note_missing msg m) = mf_missing m @ [msg]"
  "mf_expected (note_missing msg m) = mf_expected m" "mf_observed (note_missing msg m) = mf_observed m"
  "mf_files (note_warning msg m) = mf_files m" "mf_missing (note_warning msg m) = mf_missing m"
  "mf_expected (note_warning msg m) = mf_expected m" "mf_observed (note_warning msg m) = mf_observed m"
  by (simp_all add: note_missing_def note_warning_def)

lemma grows_notes:
  "grows m (note_missing msg m)" "grows m (note_warning msg m)" "grows m (note_written key path err m)"
  "grows m (m\<lparr>mf_files := (mf_files m)(key \<mapsto> path)\<rparr>)"
  by (auto simp: grows_def note_written_def split: option.split)

lemma note_written_entry:
  "key \<in> dom (mf_files (note_written key path err m)) \<or> mf_missing (note_written key path err m) \<noteq> []"
  by (simp add: note_written_def split: option.split)

lemma files_plain_notes:
  "files_plain m \<Longrightarrow> files_plain (note_missing msg m)"
  "files_plain m \<Longrightarrow> files_plain (note_warning msg m)"
  "files_plain m \<Longrightarrow> plain_path path \<Longrightarrow> files_plain (note_written key path err m)"
  "files_plain m \<Longrightarrow> plain_path path \<Longrightarrow> files_plain (m\<lparr>mf_files := (mf_files m)(key \<mapsto> path)\<rparr>)"
  by (auto simp: files_plain_def note_written_def split: option.split)

text \<open>An entry of the index, or something missing.\<close>

definition indexed :: "manifest \<Rightarrow> string \<Rightarrow> bool" where
  "indexed m key \<longleftrightarrow> key \<in> dom (mf_files m) \<or> mf_missing m \<noteq> []"

lemma indexed_grows: "indexed m key \<Longrightarrow> grows m m' \<Longrightarrow> indexed m' key"
  by (auto simp: indexed_def grows_def)

lemma resources_loop_grows:
  "resources_loop fs rd snap names m w = (m', w') \<Longrightarrow> grows m m' \<and> (\<forall>n \<in> set names. indexed m' n) \<and>
    (files_plain m \<longrightarrow> set names \<subseteq> set resource_names \<longrightarrow> files_plain m')"
proof (induction names arbitrary: m w)
  case (Cons n names)
  let ?path = "path_join [''resources'', n @ ''.yaml'']"
  obtain err w1 where "write_yaml fs (path_join [rd, ?path]) (resource_value snap n) w = (err, w1)" by fastforce
  then have "resources_loop fs rd snap names (note_written n ?path err m) w1 = (m', w')"
    using Cons.prems by simp
  note IH = Cons.IH [OF this]
  moreover have "indexed (note_written n ?path err m) n"
    using note_written_entry by (simp add: indexed_def)
  ultimately show ?case
    using grows_trans [OF grows_notes(3)] indexed_grows files_plain_notes(3) resource_path_plain by auto
qed simp

lemma data_loop_grows:
  "data_loop fs rd key_of path_of logs names m w = (m', w') \<Longrightarrow> grows m m' \<and>
    (\<forall>n \<in> set names. indexed m' (key_of n)) \<and>
    (files_plain m \<longrightarrow> (\<forall>n. plain_path (path_of n)) \<longrightarrow> files_plain m')"
proof (induction names arbitrary: m w)
  case (Cons n names)
  obtain err w1 where "write_file fs (path_join [rd, path_of n]) (the (logs n)) w = (err, w1)" by fastforce
  then have "data_loop fs rd key_of path_of logs names (note_written (key_of n) (path_of n) err m) w1 = (m', w')"
    using Cons.prems by simp
  note IH = Cons.IH [OF this]
  moreover have "indexed (note_written (key_of n) (path_of n) err m) (key_of n)"
    using note_written_entry by (simp add: indexed_def)
  ultimately show ?case
    using grows_trans [OF grows_notes(3)] indexed_grows files_plain_notes(3) by auto
qed simp

lemma metrics_loop_grows:
  "metrics_loop src fs rd services m w = (m', w') \<Longrightarrow> grows m m' \<and> (files_plain m \<longrightarrow> files_plain m')"
proof (induction services arbitrary: m w)
  case (Cons sv services)
  obtain service port where sv: "sv = (service, port)" by fastforce
  obtain m1 w1 where "metrics_loop src fs rd services m1 w1 = (m', w')"
    and "grows m m1" "files_plain m \<longrightarrow> files_plain m1"
    using Cons.prems grows_notes files_plain_notes(2) files_plain_notes(4) other_paths_plain(3)
    by (auto simp: sv split: prod.splits sum.splits option.splits)
  then show ?case using Cons.IH grows_trans by blast
qed simp

section \<open>The evidence source's contract\<close>

text \<open>Visiting a map's keys reaches each of them.\<close>

definition enumerates :: "(string set \<Rightarrow> string list) \<Rightarrow> bool" where
  "enumerates iter \<longleftrightarrow> (\<forall>S. finite S \<longrightarrow> set (iter S) = S)"

locale evidence_provider =
  fixes src :: "'w evidence_source"
  assumes logs_of_pods: "es_worker_logs src pods w = ((logs, e), w') \<Longrightarrow>
      dom logs \<subseteq> (m_name \<circ> p_meta) ` set pods"
    and all_started: "es_worker_logs src pods w = ((logs, None), w') \<Longrightarrow> pod \<in> set pods \<Longrightarrow>
      worker_container_started (p_container_statuses pod) \<Longrightarrow> m_name (p_meta pod) \<in> dom logs"
begin

lemma logs_enumerated:
  assumes "es_worker_logs src pods w = ((logs, e), w')" and "enumerates iter"
  shows "set (iter (dom logs)) = dom logs"
  using assms logs_of_pods [OF assms(1)] finite_subset [of "dom logs" "(m_name \<circ> p_meta) ` set pods"]
  by (simp add: enumerates_def)

lemma worker_reports_grow:
  assumes run: "collect_worker_reports src fs codec iter rd pods m w = (m', w')"
  shows "grows m m' \<and> indexed m' ''workers'' \<and> (files_plain m \<longrightarrow> files_plain m') \<and>
    (enumerates iter \<longrightarrow> (\<forall>pod \<in> set pods. worker_container_started (p_container_statuses pod) \<longrightarrow>
      indexed m' (worker_log_key (m_name (p_meta pod)))))"
proof -
  obtain logs log_err w1 where logs: "es_worker_logs src pods w = ((logs, log_err), w1)" by (metis prod.exhaust)
  define m1 where "m1 = (case log_err of None \<Rightarrow> m
    | Some e \<Rightarrow> note_missing (''worker logs: '' @ error_text e) m)"
  obtain m2 w2 where data: "data_loop fs rd worker_log_key worker_log_path logs (iter (dom logs)) m1 w1
      = (m2, w2)" by fastforce
  obtain reports err where reports: "worker_runtime_reports codec pods logs = (reports, err)" by fastforce
  define m3 where "m3 = (case err of None \<Rightarrow> m2
    | Some e \<Rightarrow> note_missing (''worker reports: '' @ error_text e) m2)"
  obtain err' w3 where "write_json fs (path_join [rd, workers_path]) (WorkersDoc reports) w2 = (err', w3)"
    by fastforce
  then have "m' = note_written ''workers'' workers_path err' m3"
    using run unfolding collect_worker_reports_def logs prod.case Let_def m1_def [symmetric] data reports
      m3_def [symmetric] by simp
  then have m': "grows m3 m'" "indexed m' ''workers''" "files_plain m3 \<longrightarrow> files_plain m'"
    using grows_notes(3) note_written_entry files_plain_notes(3) other_paths_plain(4)
    by (auto simp: indexed_def)
  have m1: "grows m m1" "files_plain m \<longrightarrow> files_plain m1" "log_err \<noteq> None \<longrightarrow> mf_missing m1 \<noteq> []"
    using grows_notes(1) files_plain_notes(1) by (auto simp: m1_def split: option.split)
  have m3: "grows m2 m3" "files_plain m2 \<longrightarrow> files_plain m3"
    using grows_notes(1) files_plain_notes(1) by (auto simp: m3_def split: option.split)
  note m2 = data_loop_grows [OF data]
  have grow: "grows m1 m'" "grows m2 m'"
    using m2 m3(1) m'(1) grows_trans by blast+
  have "indexed m' (worker_log_key (m_name (p_meta pod)))"
    if "enumerates iter" "pod \<in> set pods" "worker_container_started (p_container_statuses pod)" for pod
  proof (cases log_err)
    case None
    then have "m_name (p_meta pod) \<in> set (iter (dom logs))"
      using all_started logs that logs_enumerated by auto
    then show ?thesis using m2 indexed_grows [OF _ grow(2)] by blast
  next
    case (Some e)
    then have "indexed m1 (worker_log_key (m_name (p_meta pod)))" using m1(3) by (simp add: indexed_def)
    then show ?thesis using indexed_grows grow(1) by blast
  qed
  then show ?thesis
    using m1 m2 m3 m' grow other_paths_plain(1) grows_trans by blast
qed

text \<open>What \<open>gather\<close> has done before it finishes the manifest.\<close>

lemma gather_grows:
  assumes run: "gather src fs codec iter opts m w = (m', w')"
  obtains m3 where "m' = finish_manifest m3" and "grows m m3" and
    "enumerates iter \<longrightarrow> files_plain m \<longrightarrow> files_plain m3" and
    "mf_missing m3 = [] \<longrightarrow> (\<exists>snap w1. es_discover src (eo_namespace opts) (eo_run_id opts) w = (Inr snap, w1) \<and>
      (enumerates iter \<longrightarrow> (\<forall>n \<in> set resource_names. n \<in> dom (mf_files m3)) \<and> ''workers'' \<in> dom (mf_files m3) \<and>
        (\<forall>pod \<in> set (sn_pods snap). worker_container_started (p_container_statuses pod) \<longrightarrow>
          worker_log_key (m_name (p_meta pod)) \<in> dom (mf_files m3))))"
proof -
  let ?rd = "evidence_root opts"
  obtain disc w1 where disc: "es_discover src (eo_namespace opts) (eo_run_id opts) w = (disc, w1)" by fastforce
  obtain m1 w2 where m1: "(case disc of
      Inl e \<Rightarrow> (note_missing (''resources: '' @ error_text e) m, w1)
    | Inr snap \<Rightarrow> (case resources_loop fs ?rd snap (iter (set resource_names)) m w1 of
        (m', w2) \<Rightarrow> collect_worker_reports src fs codec iter ?rd (sn_pods snap) m' w2)) = (m1, w2)"
    by fastforce
  obtain comp w3 where comp: "es_component_logs src w2 = (comp, w3)" by fastforce
  obtain m2 w4 where m2: "(case comp of
      Inl e \<Rightarrow> (note_missing (''component logs: '' @ error_text e) m1, w3)
    | Inr logs \<Rightarrow> data_loop fs ?rd component_log_key component_log_path logs (iter (dom logs)) m1 w3) = (m2, w4)"
    by fastforce
  obtain m3 w5 where m3: "metrics_loop src fs ?rd metric_services m2 w4 = (m3, w5)" by fastforce
  have m': "m' = finish_manifest m3"
    using run unfolding gather_def Let_def disc prod.case m1 comp m2 m3 by simp
  have g2: "grows m1 m2 \<and> (files_plain m1 \<longrightarrow> files_plain m2)"
  proof (cases comp)
    case (Inl e)
    then show ?thesis using m2 grows_notes(1) files_plain_notes(1) by auto
  next
    case (Inr logs)
    then have loop: "data_loop fs ?rd component_log_key component_log_path logs (iter (dom logs)) m1 w3 = (m2, w4)"
      using m2 by simp
    show ?thesis using data_loop_grows [OF loop] other_paths_plain(2) by simp
  qed
  have g3: "grows m2 m3 \<and> (files_plain m2 \<longrightarrow> files_plain m3)"
    using metrics_loop_grows [OF m3] by blast
  show ?thesis
  proof (cases disc)
    case (Inl e)
    then have "m1 = note_missing (''resources: '' @ error_text e) m" using m1 by simp
    then have m1': "grows m m1" "files_plain m \<longrightarrow> files_plain m1" "mf_missing m1 \<noteq> []"
      using grows_notes(1) files_plain_notes(1) by auto
    note grow = grows_trans [OF conjunct1 [OF g2] conjunct1 [OF g3]]
    have "mf_missing m3 \<noteq> []" using m1'(3) grow by (auto simp: grows_def)
    moreover have "files_plain m \<longrightarrow> files_plain m3" using m1'(2) g2 g3 by simp
    ultimately show ?thesis by (intro that [OF m' grows_trans [OF m1'(1) grow]]) simp_all
  next
    case (Inr snap)
    obtain ma wa where res: "resources_loop fs ?rd snap (iter (set resource_names)) m w1 = (ma, wa)" by fastforce
    then have wrk: "collect_worker_reports src fs codec iter ?rd (sn_pods snap) ma wa = (m1, w2)"
      using m1 Inr by simp
    note ga = resources_loop_grows [OF res] and g1 = worker_reports_grow [OF wrk]
    have grow1: "grows m1 m3" by (rule grows_trans [OF conjunct1 [OF g2] conjunct1 [OF g3]])
    have grow2: "grows ma m3" by (rule grows_trans [OF conjunct1 [OF g1] grow1])
    note grow = grow2 grow1 grows_trans [OF conjunct1 [OF ga] grow2]
    have plain: "files_plain m3" if "enumerates iter" "files_plain m"
    proof -
      have "files_plain ma" using that ga by (simp add: enumerates_def)
      then have "files_plain m1" using g1 by simp
      then show ?thesis using g2 g3 by simp
    qed
    have "indexed m3 n" if "enumerates iter" "n \<in> set resource_names" for n
    proof -
      have "n \<in> set (iter (set resource_names))" using that by (simp add: enumerates_def)
      then have "indexed ma n" using ga by simp
      then show ?thesis by (rule indexed_grows [OF _ grow(1)])
    qed
    moreover have "indexed m3 ''workers''" by (rule indexed_grows [OF _ grow(2)]) (use g1 in simp)
    moreover have "indexed m3 (worker_log_key (m_name (p_meta pod)))"
      if "enumerates iter" "pod \<in> set (sn_pods snap)" "worker_container_started (p_container_statuses pod)" for pod
      by (rule indexed_grows [OF _ grow(2)]) (use that g1 in simp)
    ultimately have index: "mf_missing m3 = [] \<Longrightarrow> enumerates iter \<Longrightarrow>
        (\<forall>n \<in> set resource_names. n \<in> dom (mf_files m3)) \<and> ''workers'' \<in> dom (mf_files m3) \<and>
        (\<forall>pod \<in> set (sn_pods snap). worker_container_started (p_container_statuses pod) \<longrightarrow>
          worker_log_key (m_name (p_meta pod)) \<in> dom (mf_files m3))"
      unfolding indexed_def by blast
    show ?thesis
    proof (rule that [OF m' grow(3)])
      show "enumerates iter \<longrightarrow> files_plain m \<longrightarrow> files_plain m3" using plain by simp
      show "mf_missing m3 = [] \<longrightarrow> (\<exists>snap w1. es_discover src (eo_namespace opts) (eo_run_id opts) w = (Inr snap, w1) \<and>
        (enumerates iter \<longrightarrow> (\<forall>n \<in> set resource_names. n \<in> dom (mf_files m3)) \<and> ''workers'' \<in> dom (mf_files m3) \<and>
          (\<forall>pod \<in> set (sn_pods snap). worker_container_started (p_container_statuses pod) \<longrightarrow>
            worker_log_key (m_name (p_meta pod)) \<in> dom (mf_files m3))))"
        using index unfolding disc Inr by (intro impI exI [of _ snap] exI [of _ w1] conjI) simp_all
    qed
  qed
qed

end

section \<open>The cluster as a source\<close>

lemma worker_logs_loop_spec:
  "worker_logs_loop cl pods res errs w = ((res', errs'), w') \<Longrightarrow>
    dom res \<subseteq> dom res' \<and> dom res' \<subseteq> dom res \<union> (m_name \<circ> p_meta) ` set pods \<and> set errs \<subseteq> set errs' \<and>
    (\<forall>pod \<in> set pods. worker_container_started (p_container_statuses pod) \<longrightarrow>
      m_name (p_meta pod) \<in> dom res' \<or> (\<exists>e. Some e \<in> set errs'))"
proof (induction pods arbitrary: res errs w)
  case (Cons pod pods)
  let ?name = "m_name (p_meta pod)"
  show ?case
  proof (cases "worker_container_started (p_container_statuses pod)")
    case False
    then have "worker_logs_loop cl pods res errs w = ((res', errs'), w')" using Cons.prems by simp
    from Cons.IH [OF this] False show ?thesis by auto
  next
    case started: True
    obtain r w1 where logs: "pod_logs cl (m_namespace (p_meta pod)) ?name ''worker'' w = (r, w1)"
      by (meson surj_pair)
    show ?thesis
    proof (cases r)
      case (Inl e)
      let ?err = "Wrapped (''worker log '' @ ?name) e"
      have "worker_logs_loop cl pods res (errs @ [Some ?err]) w1 = ((res', errs'), w')"
        using Cons.prems started logs Inl by simp
      note IH = Cons.IH [OF this]
      then have "Some ?err \<in> set errs'" by simp
      then show ?thesis using IH by auto
    next
      case (Inr data)
      then have "worker_logs_loop cl pods (res(?name \<mapsto> data)) errs w1 = ((res', errs'), w')"
        using Cons.prems started logs by simp
      note IH = Cons.IH [OF this]
      then have "insert ?name (dom res) \<subseteq> dom res'" by (simp del: fun_upd_apply)
      moreover have "dom res' \<subseteq> insert ?name (dom res \<union> (m_name \<circ> p_meta) ` set pods)"
        using IH by (simp del: fun_upd_apply)
      ultimately show ?thesis using IH by simp
    qed
  qed
qed simp

interpretation cluster_evidence: evidence_provider "cluster_source cl"
proof
  fix pods :: "pod list" and w w' :: 'a and logs and e
  assume "es_worker_logs (cluster_source cl) pods w = ((logs, e), w')"
  then obtain errs where "worker_logs_loop cl pods Map.empty [] w = ((logs, errs), w')"
    by (auto simp: cluster_source_def worker_logs_def split: prod.splits)
  from worker_logs_loop_spec [OF this] show "dom logs \<subseteq> (m_name \<circ> p_meta) ` set pods" by simp
next
  fix pods :: "pod list" and w w' :: 'a and logs and pod
  assume "es_worker_logs (cluster_source cl) pods w = ((logs, None), w')"
    and pod: "pod \<in> set pods" "worker_container_started (p_container_statuses pod)"
  then obtain errs where "worker_logs_loop cl pods Map.empty [] w = ((logs, errs), w')"
    and "errors_join errs = None"
    by (auto simp: cluster_source_def worker_logs_def split: prod.splits)
  then show "m_name (p_meta pod) \<in> dom logs"
    using worker_logs_loop_spec [of cl pods Map.empty "[]" w logs errs w'] pod
    by (auto simp: errors_join_None_iff)
qed

section \<open>Properties\<close>

lemma observed_all_iff: "observed_all seen items \<longleftrightarrow> set items \<subseteq> seen"
  by (induction items) auto

lemma finish_manifest_complete:
  "mf_complete (finish_manifest m) \<longleftrightarrow> mf_missing m = [] \<and> set (mf_expected m) \<subseteq> set (mf_observed m)"
  "mf_files (finish_manifest m) = mf_files m"
  "mf_complete (finish_manifest m) \<Longrightarrow> mf_missing (finish_manifest m) = []"
  by (auto simp add: finish_manifest_def Let_def expected_observed_def observed_all_iff note_missing_def
      simp flip: length_0_conv split: if_splits)

lemma collect_met:
  assumes "collect (cluster_source cl) fs codec iter opts now w = ((rd, None), w')"
  shows "set (eo_expected opts) \<subseteq> set (eo_observed opts)"
proof -
  obtain e w1 where mk: "mkdir_all fs (evidence_root opts) w = (e, w1)" by fastforce
  obtain m w2 where gather: "gather (cluster_source cl) fs codec iter opts (start_manifest opts now) w1 = (m, w2)"
    by fastforce
  obtain err w3 where json: "write_json fs (path_join [evidence_root opts, ''manifest.json'']) (ManifestDoc m) w2
      = (err, w3)" by fastforce
  have "mf_complete m"
    using assms unfolding collect_def Let_def mk prod.case gather json
    by (cases e; cases err) (simp_all split: if_split_asm)
  moreover obtain m3 where "m = finish_manifest m3" "grows (start_manifest opts now) m3"
    by (rule cluster_evidence.gather_grows [OF gather])
  ultimately show ?thesis using finish_manifest_complete(1) [of m3] by (auto simp: grows_def start_manifest_def)
qed

text \<open>An empty laboratory, read by a run without expectations of its own.\<close>

definition key_order :: "string set \<Rightarrow> string list" where
  "key_order S = (if S = set resource_names then resource_names else sorted_list_of_set S)"

definition sample_evidence :: evidence_options where
  "sample_evidence = \<lparr>eo_namespace = ''default'', eo_run_id = ''run'', eo_experiment = ''exercise'',
     eo_output_dir = ''out'', eo_expected = [''QueueReady''], eo_observed = [''QueueReady'']\<rparr>"

lemma enumerates_key_order: "enumerates key_order"
  by (simp add: enumerates_def key_order_def)

lemma evidence_root_sample: "evidence_root sample_evidence = ''out/run''"
  by code_simp

lemma write_lab_files [simp]:
  "write_file lab_files path data w = (None, w\<lparr>lw_files := (lw_files w)(path \<mapsto> data)\<rparr>)"
  "write_yaml lab_files path v w = (None, w\<lparr>lw_files := (lw_files w)(path \<mapsto> ''yaml'')\<rparr>)"
  "write_json lab_files path v w = (None, w\<lparr>lw_files := (lw_files w)(path \<mapsto> ''json'' @ [CHR 0x0A])\<rparr>)"
  by (simp_all add: write_yaml_def write_json_def write_file_def lab_files_def)

definition only_files :: "lab_world \<Rightarrow> lab_world \<Rightarrow> bool" where
  "only_files w w' \<longleftrightarrow> (\<exists>fs. w' = w\<lparr>lw_files := fs\<rparr>)"

lemma only_files_simps [simp]: "only_files w w" "only_files w (w\<lparr>lw_files := fs\<rparr>)"
  by (auto simp: only_files_def intro: exI [of _ "lw_files w"])

lemma only_files_upd: "only_files w w' \<Longrightarrow> only_files w (w'\<lparr>lw_files := fs\<rparr>)"
  by (auto simp: only_files_def)

lemma only_files_trans: "only_files w w1 \<Longrightarrow> only_files w1 w2 \<Longrightarrow> only_files w w2"
  by (auto simp: only_files_def)

text \<open>Only files change, and nothing is missed, while a bundle is written in the laboratory.\<close>

definition smooth :: "manifest \<Rightarrow> lab_world \<Rightarrow> manifest \<Rightarrow> lab_world \<Rightarrow> bool" where
  "smooth m w m' w' \<longleftrightarrow> mf_missing m' = mf_missing m \<and> mf_expected m' = mf_expected m \<and>
     mf_observed m' = mf_observed m \<and> only_files w w'"

lemma smooth_refl [simp]: "smooth m w m w"
  by (simp add: smooth_def)

lemma smooth_trans: "smooth m w m1 w1 \<Longrightarrow> smooth m1 w1 m2 w2 \<Longrightarrow> smooth m w m2 w2"
  by (auto simp: smooth_def intro: only_files_trans)

lemma smooth_note: "smooth m w (note_written key path None m) (w\<lparr>lw_files := fs\<rparr>)"
  by (simp add: smooth_def note_written_def)

lemma resources_loop_lab:
  "resources_loop lab_files rd snap names m w = (m', w') \<Longrightarrow> smooth m w m' w'"
proof (induction names arbitrary: m w)
  case (Cons n names)
  then show ?case by (auto simp: Let_def intro: smooth_trans [OF smooth_note])
qed simp

lemma data_loop_lab:
  "data_loop lab_files rd key_of path_of logs names m w = (m', w') \<Longrightarrow> smooth m w m' w'"
proof (induction names arbitrary: m w)
  case (Cons n names)
  then show ?case by (auto intro: smooth_trans [OF smooth_note])
qed simp

lemma lab_cluster_logs:
  "component_logs lab_cluster w = (Inr Map.empty, w)"
  "metrics_snapshot lab_cluster service port w = (Inr ''metrics'', w)"
  by (simp_all add: component_logs_def metrics_snapshot_def lab_cluster_def io_bind_def io_return_def Let_def)

lemma metrics_loop_lab:
  "metrics_loop (cluster_source lab_cluster) lab_files rd services m w = (m', w') \<Longrightarrow> smooth m w m' w'"
proof (induction services arbitrary: m w)
  case (Cons sv services)
  obtain service port where "sv = (service, port)" by fastforce
  then have "metrics_loop (cluster_source lab_cluster) lab_files rd services
      (m\<lparr>mf_files := (mf_files m)(service \<mapsto> metrics_path service)\<rparr>)
      (w\<lparr>lw_files := (lw_files w)(path_join [rd, metrics_path service] \<mapsto> ''metrics'')\<rparr>) = (m', w')"
    using Cons.prems by (simp add: lab_cluster_logs cluster_source_def)
  from Cons.IH [OF this] show ?case
    by (rule smooth_trans [rotated]) (simp add: smooth_def)
qed simp

lemma worker_logs_unstarted:
  "\<not> list_ex (\<lambda>p. worker_container_started (p_container_statuses p)) pods \<Longrightarrow>
    worker_logs cl pods w = ((Map.empty, None), w)"
proof -
  have "worker_logs_loop cl pods res errs w = ((res, errs), w)"
    if "\<not> list_ex (\<lambda>p. worker_container_started (p_container_statuses p)) pods" for res errs
    using that by (induction pods) auto
  then show "\<not> list_ex (\<lambda>p. worker_container_started (p_container_statuses p)) pods \<Longrightarrow> ?thesis"
    by (simp add: worker_logs_def errors_join_def)
qed

lemma reports_without_logs: "snd (worker_runtime_reports codec pods Map.empty) = None"
  by (auto simp: worker_runtime_reports_eq errors_join_None_iff pod_report_def Let_def)

lemma lab_snapshot_pods: "\<not> list_ex (\<lambda>p. worker_container_started (p_container_statuses p))
    (sn_pods (lab_snapshot namespace run_id w))"
  using lab_pods_unstarted [of w] by (auto simp: lab_snapshot_def empty_snapshot_def list_ex_iff)

lemma gather_in_lab:
  assumes "mf_missing m = []" and "set (mf_expected m) \<subseteq> set (mf_observed m)"
  shows "\<exists>m' w'. gather (cluster_source lab_cluster) lab_files codec iter opts m w = (m', w') \<and>
    mf_complete m' \<and> ''workers'' \<in> dom (mf_files m') \<and> only_files w w'"
proof -
  let ?rd = "evidence_root opts" and ?snap = "lab_snapshot (eo_namespace opts) (eo_run_id opts) w"
  obtain m1 w1 where m1: "resources_loop lab_files ?rd ?snap (iter (set resource_names)) m w = (m1, w1)"
    by fastforce
  obtain m2 w2 where m2: "data_loop lab_files ?rd worker_log_key worker_log_path Map.empty (iter {}) m1 w1 = (m2, w2)"
    by fastforce
  obtain reports where reports: "worker_runtime_reports codec (sn_pods ?snap) Map.empty = (reports, None)"
    using reports_without_logs [of codec "sn_pods ?snap"] by (metis prod.collapse)
  define m3 where "m3 = note_written ''workers'' workers_path None m2"
  define w3 where "w3 = w2\<lparr>lw_files := (lw_files w2)(path_join [?rd, workers_path] \<mapsto> ''json'' @ [CHR 0x0A])\<rparr>"
  have workers: "collect_worker_reports (cluster_source lab_cluster) lab_files codec iter ?rd (sn_pods ?snap) m1 w1
      = (m3, w3)"
    using m2 reports worker_logs_unstarted [OF lab_snapshot_pods, of lab_cluster]
    by (simp add: collect_worker_reports_def cluster_source_def m3_def w3_def)
  obtain m4 w4 where m4: "data_loop lab_files ?rd component_log_key component_log_path Map.empty (iter {}) m3 w3 = (m4, w4)"
    by fastforce
  obtain m5 w5 where m5: "metrics_loop (cluster_source lab_cluster) lab_files ?rd metric_services m4 w4 = (m5, w5)"
    by fastforce
  have "smooth m w m3 w3"
    using smooth_trans [OF resources_loop_lab [OF m1] smooth_trans [OF data_loop_lab [OF m2] smooth_note]]
    by (simp add: m3_def w3_def)
  then have "smooth m w m5 w5"
    using smooth_trans data_loop_lab [OF m4] metrics_loop_lab [OF m5] by blast
  then have "mf_missing m5 = []" "set (mf_expected m5) \<subseteq> set (mf_observed m5)" "only_files w w5"
    using assms by (simp_all add: smooth_def)
  moreover have "indexed m3 ''workers''" by (simp add: m3_def note_written_def indexed_def)
  then have "indexed m5 ''workers''"
    using indexed_grows [OF indexed_grows] data_loop_grows [OF m4] metrics_loop_grows [OF m5] by blast
  moreover have "gather (cluster_source lab_cluster) lab_files codec iter opts m w = (finish_manifest m5, w5)"
    using m1 workers m4 m5 by (simp add: gather_def Let_def cluster_source_def discover_lab lab_cluster_logs)
  ultimately show ?thesis using finish_manifest_complete(1,2) [of m5] by (auto simp: indexed_def)
qed

lemma collect_in_lab:
  assumes "set (eo_expected opts) \<subseteq> set (eo_observed opts)"
  shows "\<exists>w'. collect (cluster_source lab_cluster) lab_files codec iter opts now w = ((evidence_root opts, None), w') \<and>
    only_files w w'"
proof -
  have "mkdir_all lab_files (evidence_root opts) w = (None, w)" by (simp add: lab_files_def)
  moreover have "\<exists>m w'. gather (cluster_source lab_cluster) lab_files codec iter opts (start_manifest opts now) w
      = (m, w') \<and> mf_complete m \<and> ''workers'' \<in> dom (mf_files m) \<and> only_files w w'"
    by (rule gather_in_lab) (use assms in \<open>simp_all add: start_manifest_def\<close>)
  then obtain m w' where "gather (cluster_source lab_cluster) lab_files codec iter opts (start_manifest opts now) w
      = (m, w')" "mf_complete m" "only_files w w'" by (elim exE conjE)
  ultimately show ?thesis by (simp add: collect_def Let_def only_files_upd)
qed



text \<open>
  C32: every file the manifest indexes lies below the bundle's root, whatever the names of Pods and
  components are: its path joins to the root's components followed by plain ones, with no
  \<open>..\<close> and no separator smuggled in by a name.
\<close>

theorem artifacts_stay_below_root:
  assumes run: "gather (cluster_source cl) fs codec iter opts (start_manifest opts now) w = (m, w')"
    and iter: "enumerates iter" and entry: "mf_files m key = Some path" and rd: "evidence_root opts \<noteq> []"
  shows "\<exists>cs. cs \<noteq> [] \<and> list_all plain_comp cs \<and> path = join_with [slash] cs \<and>
    path_join [evidence_root opts, path] = (if rooted (evidence_root opts) then [slash] else []) @
      join_with [slash] (path_comps (evidence_root opts) @ cs)"
proof -
  obtain m3 where m: "m = finish_manifest m3"
    and plain: "enumerates iter \<longrightarrow> files_plain (start_manifest opts now) \<longrightarrow> files_plain m3"
    by (rule cluster_evidence.gather_grows [OF run])
  have "files_plain (start_manifest opts now)" by (simp add: files_plain_def start_manifest_def)
  then have "plain_path path"
    using plain iter entry finish_manifest_complete(2) [of m3] by (simp add: files_plain_def m)
  then obtain cs where cs: "cs \<noteq> []" "list_all plain_comp cs" "path = join_with [slash] cs"
    unfolding plain_path_def by blast
  then show ?thesis
    using path_join_below [OF rd cs(2,1)] by (intro exI [of _ cs]) simp
qed

theorem artifacts_stay_below_root_witness:
  "\<exists>m w' path cs. gather (cluster_source lab_cluster) lab_files lab_codec key_order sample_evidence
     (start_manifest sample_evidence 7) lab_start = (m, w') \<and> mf_files m ''workers'' = Some path \<and>
   list_all plain_comp cs \<and> path = join_with [slash] cs"
proof -
  obtain m w' path where run: "gather (cluster_source lab_cluster) lab_files lab_codec key_order sample_evidence
     (start_manifest sample_evidence 7) lab_start = (m, w')" and entry: "mf_files m ''workers'' = Some path"
    using gather_in_lab [of "start_manifest sample_evidence 7" lab_codec key_order sample_evidence lab_start]
    by (auto simp: start_manifest_def sample_evidence_def)
  have "evidence_root sample_evidence \<noteq> []" by (simp add: evidence_root_sample)
  from artifacts_stay_below_root [OF run enumerates_key_order entry this] obtain cs
    where "list_all plain_comp cs" "path = join_with [slash] cs" by (elim exE conjE)
  then show ?thesis
    using run entry by (intro exI [of _ m] exI [of _ w'] exI [of _ path] exI [of _ cs] conjI)
qed

end
