(* ===== verification/Lab_Validate.thy ===== *)
theory Lab_Validate
  imports Lab_Result
begin

text \<open>
  \<open>internal/lab/validate.go\<close>: the semantic contract of a result document, and its strict
  decoding from a file, whose reading is the parameter \<open>result_file\<close>.
\<close>

definition profile_baseline :: string where "profile_baseline = ''baseline''"
definition profile_optimized :: string where "profile_optimized = ''optimized''"

text \<open>An optional problem per check, in the order of the code.\<close>

definition recovery_problem :: "recovery \<Rightarrow> string option" where
  "recovery_problem r =
     (if \<not> rc_attempted r \<or> \<not> rc_initially_unschedulable r \<or> \<not> rc_recovered r \<or>
         rc_released_workload r = [] \<or> rc_released_at r = None \<or> rc_recovered_at r = None \<or>
         rc_latency r = None
      then Some ''complete baseline result must include successful release recovery''
      else if the (rc_latency r) < 0 then Some ''recovery latency must not be negative''
      else None)"

definition result_problems :: "benchmark_result \<Rightarrow> string option list" where
  "result_problems result =
     (let problem = (\<lambda>b msg. if b then Some msg else None);
          fr = me_fragmentation (br_measurements result);
          rec = me_recovery (br_measurements result)
      in [problem (br_schema_version result \<noteq> result_schema_version)
            (''unsupported schemaVersion '' @ go_quote (br_schema_version result)),
          problem (br_run_id result = [] \<or> br_timestamp result = 0) ''runId and timestamp are required'',
          problem (br_profile result \<noteq> profile_baseline \<and> br_profile result \<noteq> profile_optimized)
            (''unsupported profile '' @ go_quote (br_profile result)),
          problem (cc_eligible_nodes (br_cluster result) \<noteq> 3 \<or> cc_gpu_per_node (br_cluster result) \<noteq> 4 \<or>
              cc_total_gpus (br_cluster result) \<noteq> 12)
            ''unexpected simulated cluster capacity'',
          problem (br_complete result \<and> br_missing result \<noteq> [])
            ''complete result must not contain missing observations'',
          problem (\<not> br_complete result \<and> br_missing result = [])
            ''incomplete result must identify missing observations'',
          problem (br_workloads result \<noteq> [] \<and> fr_target fr \<noteq> 4)
            ''benchmark fragmentation target must be four GPUs'',
          problem (fr_ratio fr < 0 \<or> 1 < fr_ratio fr) ''fragmentation ratio must be within [0,1]'',
          (if br_complete result \<and> br_profile result = profile_baseline then recovery_problem rec else None),
          problem (br_complete result \<and> br_profile result = profile_optimized \<and> rc_attempted rec)
            ''optimized result must not attempt release recovery''])"

definition validate_result :: "benchmark_result \<Rightarrow> go_error option" where
  "validate_result result = errors_join (map (map_option Err) (result_problems result))"

record result_file =
  open_file :: "string \<Rightarrow> go_error option"
  decode_first :: "string \<Rightarrow> go_error + benchmark_result"
  decode_second_eof :: "string \<Rightarrow> bool"

definition validate_result_file :: "result_file \<Rightarrow> string \<Rightarrow> go_error option" where
  "validate_result_file f path =
     (case open_file f path of
        Some e \<Rightarrow> Some e
      | None \<Rightarrow>
          (case decode_first f path of
             Inl e \<Rightarrow> Some (Wrapped (''decode '' @ path) e)
           | Inr result \<Rightarrow>
               (if \<not> decode_second_eof f path
                then Some (Err (''decode '' @ path @ '': trailing JSON content''))
                else validate_result result)))"

section \<open>What a valid result satisfies\<close>

text \<open>The recovery part of a complete baseline result.\<close>

definition recovered_after_release :: "recovery \<Rightarrow> bool" where
  "recovered_after_release r \<longleftrightarrow> rc_attempted r \<and> rc_initially_unschedulable r \<and> rc_recovered r \<and>
     rc_released_workload r \<noteq> [] \<and> rc_released_at r \<noteq> None \<and> rc_recovered_at r \<noteq> None \<and>
     (\<exists>s. rc_latency r = Some s \<and> 0 \<le> s)"

definition consistent_result :: "benchmark_result \<Rightarrow> bool" where
  "consistent_result result \<longleftrightarrow>
     br_schema_version result = result_schema_version \<and> br_run_id result \<noteq> [] \<and>
     br_timestamp result \<noteq> 0 \<and> br_profile result \<in> {profile_baseline, profile_optimized} \<and>
     br_cluster result = \<lparr>cc_eligible_nodes = 3, cc_gpu_per_node = 4, cc_total_gpus = 12\<rparr> \<and>
     (br_complete result \<longleftrightarrow> br_missing result = []) \<and>
     (br_workloads result = [] \<or> fr_target (me_fragmentation (br_measurements result)) = 4) \<and>
     0 \<le> fr_ratio (me_fragmentation (br_measurements result)) \<and>
     fr_ratio (me_fragmentation (br_measurements result)) \<le> 1 \<and>
     (br_complete result \<longrightarrow>
       (if br_profile result = profile_baseline
        then recovered_after_release (me_recovery (br_measurements result))
        else \<not> rc_attempted (me_recovery (br_measurements result))))"

lemma profiles_distinct [simp]: "profile_baseline \<noteq> profile_optimized"
  "profile_optimized \<noteq> profile_baseline"
  by (simp_all add: profile_baseline_def profile_optimized_def)

lemma recovery_problem_None: "recovery_problem r = None \<longleftrightarrow> recovered_after_release r"
  by (auto simp: recovery_problem_def recovered_after_release_def)

lemma capacity_eq: "br_cluster result = \<lparr>cc_eligible_nodes = a, cc_gpu_per_node = b, cc_total_gpus = c\<rparr> \<longleftrightarrow>
    cc_eligible_nodes (br_cluster result) = a \<and> cc_gpu_per_node (br_cluster result) = b \<and>
    cc_total_gpus (br_cluster result) = c"
  by (cases "br_cluster result") simp

lemma no_problem: "(if b then Some x else None) = None \<longleftrightarrow> \<not> b"
  by simp

lemma validate_result_iff:
  "validate_result result = None \<longleftrightarrow> consistent_result result"
proof -
  have "validate_result result = None \<longleftrightarrow> (\<forall>p \<in> set (result_problems result). p = None)"
    by (simp add: validate_result_def errors_join_None_iff)
  also have "\<dots> \<longleftrightarrow> consistent_result result"
    unfolding result_problems_def Let_def list.set ball_simps no_problem consistent_result_def capacity_eq
    by (auto simp: recovery_problem_None)
  finally show ?thesis .
qed

text \<open>
  A result passes validation exactly when it is consistent: the known schema, an identity, one
  of the two profiles on the expected cluster, complete if and only if nothing is missing, and, if
  complete, with the recovery its profile calls for.
\<close>

lemma validation_is_consistency:
  "validate_result result = None \<longleftrightarrow> consistent_result result"
  by (rule validate_result_iff)

end
