(* ===== verification/Lab_Benchmark.thy ===== *)
theory Lab_Benchmark
  imports Lab_Evidence Lab_Validate Manifests Go_Time
begin

text \<open>
  \<open>internal/lab/benchmark.go\<close>: the benchmark runner. \<open>cl\<close> holds the operations of the cluster under
  the context of the caller and \<open>bg\<close> the same operations under the fresh contexts that cleaning up
  and restoring use, so that the caller's cancellation is a failure of \<open>cl\<close> only. The clock that
  differences are taken of is the monotonic one.
\<close>

definition tool_version :: string where "tool_version = ''dev''"

record profile =
  pf_name :: string
  pf_config_path :: string
  pf_probe_should_fit :: bool

record benchmark_options =
  bo_namespace :: string
  bo_output_dir :: string
  bo_evidence_dir :: string
  bo_timeout :: int64
  bo_repetitions :: int
  bo_profiles :: "profile list"

text \<open>The files, encoders and other services of the host the runner is on.\<close>

record 'w lab_host =
  lh_files :: "'w file_ops"
  lh_codec :: log_codec
  lh_iter :: "string set \<Rightarrow> string list"
  lh_random :: "'w \<Rightarrow> nat list \<times> 'w"
  lh_stamp :: "time \<Rightarrow> string"
  lh_read_file :: "string \<Rightarrow> ('w, string) io"
  lh_parse_profile :: "string \<Rightarrow> go_error + config_map"
  lh_create :: "string \<Rightarrow> 'w \<Rightarrow> go_error option \<times> 'w"
  lh_encode :: "string \<Rightarrow> benchmark_result \<Rightarrow> 'w \<Rightarrow> go_error option \<times> 'w"
  lh_close :: "string \<Rightarrow> 'w \<Rightarrow> go_error option \<times> 'w"
  lh_rename :: "string \<Rightarrow> string \<Rightarrow> 'w \<Rightarrow> go_error option \<times> 'w"

definition new_benchmark_runner :: "benchmark_options \<Rightarrow> go_error + benchmark_options" where
  "new_benchmark_runner opts =
     (let opts = (if bo_namespace opts = [] then opts\<lparr>bo_namespace := ''default''\<rparr> else opts);
          opts = (if bo_output_dir opts = [] then opts\<lparr>bo_output_dir := ''out/benchmark''\<rparr> else opts);
          opts = (if bo_evidence_dir opts = [] then opts\<lparr>bo_evidence_dir := ''out/evidence''\<rparr> else opts)
      in if bo_timeout opts \<le> 0 then Inl (Err ''benchmark timeout must be positive'')
         else if bo_repetitions opts < 1 then Inl (Err ''benchmark repetitions must be at least one'')
         else if bo_profiles opts = [] then Inl (Err ''at least one Scheduler profile is required'')
         else Inr opts)"

section \<open>Helpers\<close>

definition hex_digit :: "nat \<Rightarrow> char" where
  "hex_digit d = (if d < 10 then char_of (48 + d) else char_of (87 + d))"

definition hex_encode :: "nat list \<Rightarrow> string" where
  "hex_encode bytes = concat (map (\<lambda>b. [hex_digit (b div 16), hex_digit (b mod 16)]) bytes)"

definition new_run_id :: "'w cluster \<Rightarrow> 'w lab_host \<Rightarrow> string \<Rightarrow> 'w \<Rightarrow> string \<times> 'w" where
  "new_run_id cl host prefix w =
     (case lh_random host w of
        (random, w1) \<Rightarrow> (case clock cl w1 of
          (now, w2) \<Rightarrow> (prefix @ ''-'' @ show_int (now div 10 ^ 9) @ ''-'' @ hex_encode random, w2)))"

text \<open>Values of a Go map are not shared, so the copy of a map is the map.\<close>

definition clone_map :: "strmap option \<Rightarrow> strmap option" where
  "clone_map input = (case input of None \<Rightarrow> None | Some m \<Rightarrow> Some (\<lambda>k. m k))"

text \<open>\<open>t.Sub(u)\<close> saturates.\<close>

definition time_sub :: "time \<Rightarrow> time \<Rightarrow> int64" where
  "time_sub t u = max (- (2 ^ 63)) (min (2 ^ 63 - 1) (t - u))"

definition seconds_between :: "time \<Rightarrow> time \<Rightarrow> rat" where
  "seconds_between t u = duration_seconds (time_sub t u)"

fun pod_condition_time_loop :: "pod_condition list \<Rightarrow> string \<Rightarrow> string \<Rightarrow> time option" where
  "pod_condition_time_loop [] ty st = None"
| "pod_condition_time_loop (c # cs) ty st =
     (if pc_type c = ty \<and> pc_status c = st then Some (pc_transition c)
      else pod_condition_time_loop cs ty st)"

definition pod_condition_time :: "pod \<Rightarrow> string \<Rightarrow> string \<Rightarrow> time option" where
  "pod_condition_time pod ty st = pod_condition_time_loop (p_conditions pod) ty st"

definition new_benchmark_aijob :: "string \<Rightarrow> string \<Rightarrow> string \<Rightarrow> workload_definition \<Rightarrow> aijob" where
  "new_benchmark_aijob namespace run_id experiment d = \<lparr>
     aj_meta = (new_meta (wd_name d) namespace)\<lparr>m_labels := Some
       [run_id_label \<mapsto> run_id, experiment_label \<mapsto> experiment]\<rparr>,
     aj_spec = \<lparr>s_workers = wd_workers d, s_gpu_per_worker = wd_gpu_per_worker d,
       s_gpu_resource = gpu_resource, s_queue_name = benchmark_queue_name,
       s_topology = \<lparr>tp_preference = ''any'', tp_required = []\<rparr>, s_image = ''ai-infra-lab:dev'',
       s_args = wd_args d, s_overrides = None\<rparr>,
     aj_status = \<lparr>st_observed_generation = 0, st_conditions = []\<rparr>\<rparr>"

definition create_aijob ::
    "'w cluster \<Rightarrow> string \<Rightarrow> string \<Rightarrow> string \<Rightarrow> workload_definition \<Rightarrow> ('w, unit) io" where
  "create_aijob cl namespace run_id experiment d =
     io_wrap (''create AIJob '' @ wd_name d)
       (create_aijob_object cl (new_benchmark_aijob namespace run_id experiment d))"

section \<open>Fixtures\<close>

fun flavor_quota_loop :: "(string \<times> int64) list \<Rightarrow> int64 \<Rightarrow> int64" where
  "flavor_quota_loop [] acc = acc"
| "flavor_quota_loop ((name, quota) # quotas) acc =
     flavor_quota_loop quotas (if name = gpu_resource then wrap64 (acc + quota) else acc)"

fun flavors_loop :: "flavor_quota list \<Rightarrow> int64 \<Rightarrow> int64" where
  "flavors_loop [] acc = acc"
| "flavors_loop (fl # fls) acc = flavors_loop fls (flavor_quota_loop (fl_resources fl) acc)"

fun groups_loop :: "queue_group list \<Rightarrow> int64 \<Rightarrow> int64" where
  "groups_loop [] acc = acc"
| "groups_loop (g # gs) acc = groups_loop gs (flavors_loop (qg_flavors g) acc)"

definition simulated_gpu_quota :: "cluster_queue_object \<Rightarrow> int64" where
  "simulated_gpu_quota queue = groups_loop (cq_groups queue) 0"

fun check_nodes :: "node list \<Rightarrow> go_error option" where
  "check_nodes [] = None"
| "check_nodes (n # ns) =
     (let v = quantity_value (n_allocatable n) gpu_resource
      in if v \<noteq> 4 then Some (Err (''Node '' @ m_name (n_meta n) @ '' has '' @ show_int v @
           '' simulated GPUs, want 4''))
         else check_nodes ns)"

definition validate_fixtures :: "'w cluster \<Rightarrow> ('w, cluster_capacity) io" where
  "validate_fixtures cl =
     io_bind (list_nodes cl [(gpu_node_label, ''true'')]) (\<lambda>nodes.
       if length nodes \<noteq> 3
       then io_fail (Err (''benchmark requires 3 GPU Nodes, found '' @ show_nat (length nodes)))
       else case check_nodes nodes of
         Some e \<Rightarrow> io_fail e
       | None \<Rightarrow>
           io_bind (io_wrap (''get ClusterQueue '' @ benchmark_queue_name)
               (fetch_cluster_queue cl benchmark_queue_name)) (\<lambda>queue.
             if simulated_gpu_quota queue < 10
             then io_fail (Err (''ClusterQueue '' @ benchmark_queue_name @ '' has '' @
               show_int (simulated_gpu_quota queue) @ '' simulated GPUs, benchmark requires at least 10''))
             else io_return \<lparr>cc_eligible_nodes = 3, cc_gpu_per_node = 4, cc_total_gpus = 12\<rparr>))"

section \<open>The Scheduler's configuration\<close>

definition config_key :: nsname where
  "config_key = \<lparr>ns_namespace = system_namespace, ns_name = ''ai-scheduler-config''\<rparr>"

definition scheduler_key :: nsname where
  "scheduler_key = \<lparr>ns_namespace = system_namespace, ns_name = ''ai-scheduler''\<rparr>"

definition restarted_at_annotation :: string where
  "restarted_at_annotation = ''infra.example.io/config-restarted-at''"

text \<open>\<open>put_deployment\<close> returns the updated object, whose generation the wait is for.\<close>

definition switch_profile :: "'w cluster \<Rightarrow> 'w lab_host \<Rightarrow> int64 \<Rightarrow> string \<Rightarrow> ('w, unit) io" where
  "switch_profile cl host timeout path =
     io_bind (lh_read_file host path) (\<lambda>data.
     case lh_parse_profile host data of
       Inl e \<Rightarrow> io_fail (Wrapped ''parse Scheduler profile'' e)
     | Inr desired \<Rightarrow>
         io_bind (fetch_config_map cl config_key) (\<lambda>current.
         io_bind (put_config_map cl (current\<lparr>cm_data := cm_data desired\<rparr>)) (\<lambda>_.
         io_bind (fetch_deployment cl scheduler_key) (\<lambda>d.
         io_bind (\<lambda>w. case clock cl w of (now, w') \<Rightarrow> (Inr now, w')) (\<lambda>now.
         io_bind (put_deployment cl (d\<lparr>dp_template_annotations := Some
             ((nilmap (dp_template_annotations d))(restarted_at_annotation \<mapsto> lh_stamp host now))\<rparr>)) (\<lambda>d'.
           wait_for_deployment cl scheduler_key (m_generation (dp_meta d')) timeout))))))"

text \<open>What \<open>captureScheduler\<close> remembers, and the function it returns.\<close>

definition capture_scheduler :: "'w cluster \<Rightarrow> ('w, strmap option \<times> strmap option) io" where
  "capture_scheduler cl =
     io_bind (fetch_config_map cl config_key) (\<lambda>config.
     io_bind (fetch_deployment cl scheduler_key) (\<lambda>d.
       io_return (clone_map (cm_data config), clone_map (dp_template_annotations d))))"

definition restore_scheduler ::
    "'w cluster \<Rightarrow> int64 \<Rightarrow> strmap option \<Rightarrow> strmap option \<Rightarrow> ('w, unit) io" where
  "restore_scheduler cl timeout original_data original_annotations =
     io_bind (fetch_config_map cl config_key) (\<lambda>current.
     io_bind (put_config_map cl (current\<lparr>cm_data := clone_map original_data\<rparr>)) (\<lambda>_.
     io_bind (fetch_deployment cl scheduler_key) (\<lambda>d.
     io_bind (put_deployment cl (d\<lparr>dp_template_annotations := clone_map original_annotations\<rparr>)) (\<lambda>d'.
       wait_for_deployment cl scheduler_key (m_generation (dp_meta d')) timeout))))"

section \<open>Cleaning up\<close>

fun delete_jobs :: "'w cluster \<Rightarrow> aijob list \<Rightarrow> go_error option list \<Rightarrow> 'w \<Rightarrow> go_error option list \<times> 'w" where
  "delete_jobs cl [] errs w = (errs, w)"
| "delete_jobs cl (j # js) errs w =
     (case delete_aijob_object cl (meta_key (aj_meta j)) w of
        (Inl e, w') \<Rightarrow> delete_jobs cl js (if is_not_found e then errs else errs @ [Some e]) w'
      | (Inr _, w') \<Rightarrow> delete_jobs cl js errs w')"

definition nothing_left :: "snapshot \<Rightarrow> bool" where
  "nothing_left snap \<longleftrightarrow> sn_aijobs snap = [] \<and> sn_jobsets snap = [] \<and> sn_workloads snap = [] \<and>
     sn_jobs snap = [] \<and> sn_pods snap = []"

definition cleanup :: "'w cluster \<Rightarrow> string \<Rightarrow> int64 \<Rightarrow> string \<Rightarrow> ('w, unit) io" where
  "cleanup cl namespace timeout run_id =
     io_bind (list_aijobs cl namespace [(run_id_label, run_id)]) (\<lambda>jobs w.
       case delete_jobs cl jobs [] w of
         (errs, w1) \<Rightarrow>
           (case errors_join errs of
              Some e \<Rightarrow> (Inl e, w1)
            | None \<Rightarrow> io_bind (poll cl half_second timeout (plain_condition
                (io_bind (discover cl namespace run_id) (\<lambda>snap.
                   io_return (if nothing_left snap then Some SeenReady else None)))))
                (\<lambda>_. io_return ()) w1))"

section \<open>The result\<close>

definition aijob_finished :: "condition \<Rightarrow> bool" where
  "aijob_finished c \<longleftrightarrow> (c_type c = ''Completed'' \<or> c_type c = ''Failed'') \<and> c_status c = condition_true"

text \<open>The loops of \<open>lifecycleFromSnapshot\<close>; a later match overwrites an earlier one.\<close>

fun terminal_loop :: "condition list \<Rightarrow> lifecycle \<Rightarrow> lifecycle" where
  "terminal_loop [] item = item"
| "terminal_loop (c # cs) item = terminal_loop cs
     (if aijob_finished c then item\<lparr>lc_terminal := Some (c_transition c)\<rparr> else item)"

fun aijobs_loop :: "aijob list \<Rightarrow> string \<Rightarrow> lifecycle \<Rightarrow> lifecycle" where
  "aijobs_loop [] name item = item"
| "aijobs_loop (j # js) name item = aijobs_loop js name
     (if m_name (aj_meta j) = name
      then terminal_loop (st_conditions (aj_status j)) (item\<lparr>lc_submitted := m_creation (aj_meta j)\<rparr>)
      else item)"

fun admitted_loop :: "condition list \<Rightarrow> lifecycle \<Rightarrow> lifecycle" where
  "admitted_loop [] item = item"
| "admitted_loop (c # cs) item = admitted_loop cs
     (if c_type c = ''Admitted'' \<and> c_status c = condition_true
      then item\<lparr>lc_admitted := Some (c_transition c)\<rparr> else item)"

definition workload_of :: "string \<Rightarrow> workload \<Rightarrow> bool" where
  "workload_of name wl \<longleftrightarrow> label_of (wl_meta wl) job_label = name \<or> owner_named (m_owners (wl_meta wl)) name"

fun workloads_loop :: "workload list \<Rightarrow> string \<Rightarrow> lifecycle \<Rightarrow> lifecycle" where
  "workloads_loop [] name item = item"
| "workloads_loop (wl # wls) name item = workloads_loop wls name
     (if \<not> workload_of name wl then item
      else admitted_loop (wl_conditions wl) (item\<lparr>lc_workload_created := Some (m_creation (wl_meta wl))\<rparr>))"

definition earlier :: "time \<Rightarrow> time option \<Rightarrow> time option" where
  "earlier t seen = (case seen of None \<Rightarrow> Some t | Some u \<Rightarrow> if t < u then Some t else Some u)"

definition is_scheduled :: "pod_condition \<Rightarrow> bool" where
  "is_scheduled c \<longleftrightarrow> pc_type c = pod_scheduled \<and> pc_status c = condition_true"

fun scheduled_loop :: "pod_condition list \<Rightarrow> lifecycle \<Rightarrow> lifecycle" where
  "scheduled_loop [] item = item"
| "scheduled_loop (c # cs) item = scheduled_loop cs
     (if is_scheduled c then item\<lparr>lc_scheduled := earlier (pc_transition c) (lc_scheduled item)\<rparr> else item)"

fun pods_loop :: "pod list \<Rightarrow> string \<Rightarrow> lifecycle \<Rightarrow> lifecycle" where
  "pods_loop [] name item = item"
| "pods_loop (p # ps) name item = pods_loop ps name
     (if label_of (p_meta p) job_label \<noteq> name then item
      else scheduled_loop (p_conditions p)
        (item\<lparr>lc_pod_created := earlier (m_creation (p_meta p)) (lc_pod_created item)\<rparr>))"

definition span :: "time option \<Rightarrow> time option \<Rightarrow> rat option" where
  "span finish start = (case (finish, start) of (Some t, Some u) \<Rightarrow> Some (seconds_between t u) | _ \<Rightarrow> None)"

definition lifecycle_item :: "snapshot \<Rightarrow> workload_definition \<Rightarrow> lifecycle" where
  "lifecycle_item snap d =
     (let name = wd_name d;
          item = \<lparr>lc_name = name, lc_submitted = 0, lc_workload_created = None, lc_pod_created = None,
            lc_admitted = None, lc_scheduled = None, lc_terminal = None, lc_admission_wait = None,
            lc_scheduling_latency = None\<rparr>;
          item = pods_loop (sn_pods snap) name
            (workloads_loop (sn_workloads snap) name (aijobs_loop (sn_aijobs snap) name item))
      in item\<lparr>lc_admission_wait := span (lc_admitted item) (lc_workload_created item),
           lc_scheduling_latency := span (lc_scheduled item) (lc_pod_created item)\<rparr>)"

fun lifecycle_loop :: "workload_definition list \<Rightarrow> snapshot \<Rightarrow> lifecycle list \<Rightarrow> lifecycle list" where
  "lifecycle_loop [] snap result = result"
| "lifecycle_loop (d # ds) snap result = lifecycle_loop ds snap (result @ [lifecycle_item snap d])"

definition lifecycle_from_snapshot :: "workload_definition list \<Rightarrow> snapshot \<Rightarrow> lifecycle list" where
  "lifecycle_from_snapshot ds snap = lifecycle_loop ds snap []"

definition placement_of :: "pod \<Rightarrow> pod_placement" where
  "placement_of p = \<lparr>pp_pod = m_name (p_meta p), pp_workload = label_of (p_meta p) job_label,
     pp_completion_index = label_of (p_meta p) completion_index_label,
     pp_node = p_node_name p, pp_phase = p_phase p\<rparr>"

fun outcomes_loop :: "workload_definition list \<Rightarrow> strmap \<Rightarrow> strmap" where
  "outcomes_loop [] outcomes = outcomes"
| "outcomes_loop (d # ds) outcomes = outcomes_loop ds
     (if wd_name d \<notin> dom outcomes then outcomes(wd_name d \<mapsto> ''running'') else outcomes)"

fun components_loop :: "deployment list \<Rightarrow> strmap \<Rightarrow> strmap" where
  "components_loop [] components = components"
| "components_loop (d # ds) components = components_loop ds
     (if dp_images d = [] then components else components(m_name (dp_meta d) \<mapsto> hd (dp_images d)))"

text \<open>Everything \<open>collectResult\<close> derives from the snapshot once the worker reports are complete.\<close>

definition describe_run :: "snapshot \<Rightarrow> string option \<Rightarrow> benchmark_result \<Rightarrow> benchmark_result" where
  "describe_run snap version result =
     (let env = br_environment result;
          env = (case version of None \<Rightarrow> env | Some v \<Rightarrow> env\<lparr>en_kubernetes_version := v\<rparr>)
      in result\<lparr>
           br_placements := sort_key pp_pod (map placement_of (sn_pods snap)),
           br_outcomes := outcomes_loop (br_workloads result) (br_outcomes result),
           br_environment := env\<lparr>en_components := components_loop (sn_deployments snap) (en_components env)\<rparr>,
           br_lifecycle := lifecycle_from_snapshot (br_workloads result) snap\<rparr>)"

definition count_run :: "snapshot \<Rightarrow> worker_runtime list \<Rightarrow> benchmark_result \<Rightarrow> benchmark_result" where
  "count_run snap reports result = result\<lparr>
     br_measurements := (br_measurements result)\<lparr>me_unschedulable := unschedulable_count (sn_pods snap)\<rparr>,
     br_workers := reports\<rparr>"

definition collect_result ::
    "'w cluster \<Rightarrow> log_codec \<Rightarrow> string \<Rightarrow> benchmark_result \<Rightarrow> 'w \<Rightarrow> (benchmark_result \<times> go_error option) \<times> 'w" where
  "collect_result cl codec namespace result w =
     (case discover cl namespace (br_run_id result) w of
        (Inl e, w1) \<Rightarrow> ((result, Some e), w1)
      | (Inr snap, w1) \<Rightarrow>
          (case worker_logs cl (sn_pods snap) w1 of
             ((logs, log_err), w2) \<Rightarrow>
               (case worker_runtime_reports codec (sn_pods snap) logs of
                  (reports, err) \<Rightarrow>
                    (if err \<noteq> None \<or> log_err \<noteq> None
                     then ((count_run snap reports result, errors_join [err, log_err]), w2)
                     else case server_version cl w2 of
                       (version, w3) \<Rightarrow>
                         ((describe_run snap (case version of Inl e \<Rightarrow> None | Inr v \<Rightarrow> Some v)
                            (count_run snap reports result), None), w3)))))"

definition probe_completed :: string where "probe_completed = ''probe completed''"
definition probe_blocked :: string where "probe_blocked = ''probe initially unschedulable''"

definition is_completed :: "string \<Rightarrow> bool" where
  "is_completed outcome \<longleftrightarrow> outcome = ''completed'' \<or> outcome = ''completed-after-release''"

fun any_completed :: "strmap \<Rightarrow> string list \<Rightarrow> bool" where
  "any_completed outcomes [] = False"
| "any_completed outcomes (name # names) =
     (if is_completed (the (outcomes name)) then True else any_completed outcomes names)"

definition evidence_expectations ::
    "(string set \<Rightarrow> string list) \<Rightarrow> benchmark_result \<Rightarrow> string list \<times> string list" where
  "evidence_expectations iter result =
     (let baseline = br_profile result = profile_baseline;
          expected = [probe_completed] @ (if baseline then [probe_blocked] else []);
          blocked = baseline \<and> rc_initially_unschedulable (me_recovery (br_measurements result));
          finished = any_completed (br_outcomes result) (iter (dom (br_outcomes result)))
      in (expected, (if blocked then [probe_blocked] else []) @ (if finished then [probe_completed] else [])))"

text \<open>Constructing a collector and collecting with it, as all runners do; it reads the clock.\<close>

definition collect_bundle ::
    "'w cluster \<Rightarrow> 'w lab_host \<Rightarrow> evidence_options \<Rightarrow> 'w \<Rightarrow> (string \<times> go_error option) \<times> 'w" where
  "collect_bundle cl host opts w =
     (case new_evidence_collector opts of
        Inl e \<Rightarrow> (([], Some e), w)
      | Inr opts' \<Rightarrow>
          (case clock cl w of
             (now, w1) \<Rightarrow> collect (cluster_source cl) (lh_files host) (lh_codec host) (lh_iter host) opts' now w1))"

definition collect_evidence ::
    "'w cluster \<Rightarrow> 'w lab_host \<Rightarrow> benchmark_options \<Rightarrow> benchmark_result \<Rightarrow> 'w \<Rightarrow> (string \<times> go_error option) \<times> 'w" where
  "collect_evidence cl host opts result w =
     (case evidence_expectations (lh_iter host) result of
        (expected, observed) \<Rightarrow>
          collect_bundle cl host \<lparr>eo_namespace = bo_namespace opts, eo_run_id = br_run_id result,
            eo_experiment = ''benchmark-'' @ br_profile result, eo_output_dir = bo_evidence_dir opts,
            eo_expected = expected, eo_observed = observed\<rparr> w)"

definition pad2 :: "int \<Rightarrow> string" where
  "pad2 n = (let s = show_int n in if length s < 2 then ''0'' @ s else s)"

definition result_name :: "string \<Rightarrow> int \<Rightarrow> string \<Rightarrow> string" where
  "result_name profile_name repetition run_id =
     profile_name @ ''-'' @ pad2 repetition @ ''-'' @ run_id @ ''.json''"

definition write_result ::
    "'w lab_host \<Rightarrow> string \<Rightarrow> string \<Rightarrow> int \<Rightarrow> benchmark_result \<Rightarrow> 'w \<Rightarrow> go_error option \<times> 'w" where
  "write_result host output_dir profile_name repetition result w =
     (case mkdir_all (lh_files host) output_dir w of
        (Some e, w1) \<Rightarrow> (Some e, w1)
      | (None, w1) \<Rightarrow>
          (let path = path_join [output_dir, result_name profile_name repetition (br_run_id result)];
               temporary = path @ ''.tmp''
           in case lh_create host temporary w1 of
                (Some e, w2) \<Rightarrow> (Some e, w2)
              | (None, w2) \<Rightarrow>
                  (case lh_encode host temporary result w2 of
                     (encode_err, w3) \<Rightarrow>
                       (case lh_close host temporary w3 of
                          (close_err, w4) \<Rightarrow>
                            (case errors_join [encode_err, close_err] of
                               Some e \<Rightarrow> (Some e, w4)
                             | None \<Rightarrow> lh_rename host temporary path w4)))))"

section \<open>One run\<close>

text \<open>
  A part of \<open>runOne\<close>: it fills in the result and returns early with an error. \<open>stage_call\<close> is a call
  whose error ends the run.
\<close>

type_synonym 'w stage = "benchmark_result \<Rightarrow> 'w \<Rightarrow> (benchmark_result \<times> go_error option) \<times> 'w"

definition stage_done :: "'w stage" where "stage_done result w = ((result, None), w)"

definition stage_call :: "('w, 'a) io \<Rightarrow> ('a \<Rightarrow> 'w stage) \<Rightarrow> 'w stage" where
  "stage_call call f result w =
     (case call w of
        (Inl e, w1) \<Rightarrow> ((result, Some e), w1)
      | (Inr x, w1) \<Rightarrow> f x result w1)"

definition stage_then :: "'w stage \<Rightarrow> 'w stage \<Rightarrow> 'w stage" where
  "stage_then f g result w =
     (case f result w of
        ((result1, Some e), w1) \<Rightarrow> ((result1, Some e), w1)
      | ((result1, None), w1) \<Rightarrow> g result1 w1)"

definition stage_update :: "(benchmark_result \<Rightarrow> benchmark_result) \<Rightarrow> 'w stage" where
  "stage_update f result w = ((f result, None), w)"

definition read_clock :: "'w cluster \<Rightarrow> ('w, time) io" where
  "read_clock cl w = (case clock cl w of (now, w1) \<Rightarrow> (Inr now, w1))"

definition add_workload :: "workload_definition \<Rightarrow> benchmark_result \<Rightarrow> benchmark_result" where
  "add_workload d result = result\<lparr>br_workloads := br_workloads result @ [d]\<rparr>"

definition set_outcome :: "string \<Rightarrow> string \<Rightarrow> benchmark_result \<Rightarrow> benchmark_result" where
  "set_outcome name outcome result = result\<lparr>br_outcomes := (br_outcomes result)(name \<mapsto> outcome)\<rparr>"

definition update_recovery :: "(recovery \<Rightarrow> recovery) \<Rightarrow> benchmark_result \<Rightarrow> benchmark_result" where
  "update_recovery f result = result\<lparr>br_measurements := (br_measurements result)
     \<lparr>me_recovery := f (me_recovery (br_measurements result))\<rparr>\<rparr>"

definition holder_definition :: "string \<Rightarrow> nat \<Rightarrow> workload_definition" where
  "holder_definition run_id index = \<lparr>wd_name = ''holder-'' @ show_nat index @ ''-'' @ run_id,
     wd_workers = 1, wd_gpu_per_worker = 2, wd_args = [''--mode=wait'']\<rparr>"

definition probe_definition :: "string \<Rightarrow> workload_definition" where
  "probe_definition run_id = \<lparr>wd_name = ''probe-'' @ run_id, wd_workers = 1, wd_gpu_per_worker = 4,
     wd_args = [''--mode=complete'', ''--duration=1s'']\<rparr>"

fun holders_loop :: "'w cluster \<Rightarrow> benchmark_options \<Rightarrow> string \<Rightarrow> nat list \<Rightarrow> 'w stage" where
  "holders_loop cl opts run_id [] = stage_done"
| "holders_loop cl opts run_id (index # indexes) =
     stage_then (stage_update (add_workload (holder_definition run_id index)))
     (stage_call (create_aijob cl (bo_namespace opts) run_id ''benchmark'' (holder_definition run_id index)) (\<lambda>_.
      stage_call (wait_for_pod_scheduled cl (bo_namespace opts) run_id
          (wd_name (holder_definition run_id index)) (bo_timeout opts)) (\<lambda>_.
      holders_loop cl opts run_id indexes)))"

definition probe_key :: "benchmark_options \<Rightarrow> string \<Rightarrow> nsname" where
  "probe_key opts run_id =
     \<lparr>ns_namespace = bo_namespace opts, ns_name = wd_name (probe_definition run_id)\<rparr>"

definition measure_fragmentation :: "(string set \<Rightarrow> string list) \<Rightarrow> snapshot \<Rightarrow> benchmark_result \<Rightarrow> benchmark_result" where
  "measure_fragmentation iter snap result = (let free = free_gpus (sn_nodes snap) (sn_pods snap)
     in result\<lparr>br_measurements := (br_measurements result)\<lparr>me_fragmentation :=
          calculate_fragmentation (iter (dom free)) free 4 ''all-simulated-gpu-nodes''\<rparr>\<rparr>)"

text \<open>The branch in which the probe fits.\<close>

definition fit_probe :: "'w cluster \<Rightarrow> benchmark_options \<Rightarrow> string \<Rightarrow> 'w stage" where
  "fit_probe cl opts run_id =
     stage_call (wait_for_pod_scheduled cl (bo_namespace opts) run_id (wd_name (probe_definition run_id))
       (bo_timeout opts)) (\<lambda>_.
     stage_call (wait_for_aijob_condition cl (probe_key opts run_id) ''Completed'' (bo_timeout opts)) (\<lambda>_.
     stage_update (set_outcome (wd_name (probe_definition run_id)) ''completed'')))"

definition observed_pod :: "observation \<Rightarrow> pod" where
  "observed_pod ob = (case ob of SeenPod pod \<Rightarrow> pod)"

text \<open>
  The branch in which the first holder is released for the probe: before the release, the release,
  and the recovery after it.
\<close>

definition blocked_probe :: "string \<Rightarrow> pod \<Rightarrow> benchmark_result \<Rightarrow> benchmark_result" where
  "blocked_probe holder pod = update_recovery (\<lambda>r. r\<lparr>rc_attempted := True,
     rc_initially_unschedulable := True,
     rc_unschedulable_at := pod_condition_time pod pod_scheduled condition_false,
     rc_released_workload := holder\<rparr>)"

definition released_holder :: "string \<Rightarrow> time \<Rightarrow> benchmark_result \<Rightarrow> benchmark_result" where
  "released_holder holder released_at result = set_outcome holder ''released''
     (update_recovery (\<lambda>r. r\<lparr>rc_released_at := Some released_at\<rparr>) result)"

definition scheduled_probe :: "time \<Rightarrow> time \<Rightarrow> benchmark_result \<Rightarrow> benchmark_result" where
  "scheduled_probe released_at recovered_at = update_recovery (\<lambda>r. r\<lparr>rc_recovered_at := Some recovered_at,
     rc_latency := Some (seconds_between recovered_at released_at)\<rparr>)"

definition recovered_probe :: "string \<Rightarrow> benchmark_result \<Rightarrow> benchmark_result" where
  "recovered_probe probe result = set_outcome probe ''completed-after-release''
     (update_recovery (\<lambda>r. r\<lparr>rc_recovered := True\<rparr>) result)"

definition await_recovery :: "'w cluster \<Rightarrow> benchmark_options \<Rightarrow> string \<Rightarrow> time \<Rightarrow> 'w stage" where
  "await_recovery cl opts run_id released_at =
     stage_call (wait_for_pod_scheduled cl (bo_namespace opts) run_id (wd_name (probe_definition run_id))
       (bo_timeout opts)) (\<lambda>_.
     stage_call (read_clock cl) (\<lambda>recovered_at.
     stage_then (stage_update (scheduled_probe released_at recovered_at))
     (stage_call (wait_for_aijob_condition cl (probe_key opts run_id) ''Completed'' (bo_timeout opts)) (\<lambda>_.
        stage_update (recovered_probe (wd_name (probe_definition run_id)))))))"

definition release_holder :: "'w cluster \<Rightarrow> benchmark_options \<Rightarrow> string \<Rightarrow> string \<Rightarrow> 'w stage" where
  "release_holder cl opts run_id holder =
     stage_call (read_clock cl) (\<lambda>released_at.
     stage_call (io_wrap (''release holder '' @ holder)
       (delete_aijob_object cl \<lparr>ns_namespace = bo_namespace opts, ns_name = holder\<rparr>)) (\<lambda>_.
     stage_then (stage_update (released_holder holder released_at))
       (await_recovery cl opts run_id released_at)))"

definition recover_probe :: "'w cluster \<Rightarrow> benchmark_options \<Rightarrow> string \<Rightarrow> 'w stage" where
  "recover_probe cl opts run_id =
     stage_call (wait_for_pod_unschedulable cl (bo_namespace opts) run_id (wd_name (probe_definition run_id))
       (bo_timeout opts)) (\<lambda>unschedulable result.
     let holder = wd_name (hd (br_workloads result))
     in stage_then (stage_update (blocked_probe holder (observed_pod unschedulable)))
          (release_holder cl opts run_id holder) result)"

text \<open>The body of \<open>runOne\<close>: the part after the holders are placed, and all of it.\<close>

definition probe_stages :: "'w cluster \<Rightarrow> 'w lab_host \<Rightarrow> benchmark_options \<Rightarrow> profile \<Rightarrow> string \<Rightarrow> 'w stage" where
  "probe_stages cl host opts prof run_id =
     stage_call (discover cl (bo_namespace opts) run_id) (\<lambda>snap.
     stage_then (stage_update (\<lambda>result.
       add_workload (probe_definition run_id) (measure_fragmentation (lh_iter host) snap result)))
     (stage_call (create_aijob cl (bo_namespace opts) run_id ''benchmark'' (probe_definition run_id)) (\<lambda>_.
        if pf_probe_should_fit prof then fit_probe cl opts run_id else recover_probe cl opts run_id)))"

definition set_makespan :: "rat \<Rightarrow> benchmark_result \<Rightarrow> benchmark_result" where
  "set_makespan s result =
     result\<lparr>br_measurements := (br_measurements result)\<lparr>me_makespan := Some s\<rparr>\<rparr>"

definition benchmark_stages :: "'w cluster \<Rightarrow> 'w lab_host \<Rightarrow> benchmark_options \<Rightarrow> profile \<Rightarrow> string \<Rightarrow> 'w stage" where
  "benchmark_stages cl host opts prof run_id =
     stage_call (io_wrap (''switch profile '' @ pf_name prof)
       (switch_profile cl host (bo_timeout opts) (pf_config_path prof))) (\<lambda>_.
     stage_call (read_clock cl) (\<lambda>start.
     stage_then (holders_loop cl opts run_id [1, 2, 3])
     (stage_then (probe_stages cl host opts prof run_id)
     (stage_call (read_clock cl) (\<lambda>finished.
        stage_update (set_makespan (seconds_between finished start)))))))"

definition new_result :: "string \<Rightarrow> time \<Rightarrow> profile \<Rightarrow> cluster_capacity \<Rightarrow> benchmark_result" where
  "new_result run_id now prof capacity = \<lparr>br_schema_version = result_schema_version, br_run_id = run_id,
     br_timestamp = now, br_complete = False, br_missing = [],
     br_environment = \<lparr>en_kubernetes_version = [], en_tool_version = tool_version,
       en_components = [''schedulerProfile'' \<mapsto> path_base (pf_config_path prof)]\<rparr>,
     br_profile = pf_name prof, br_cluster = capacity, br_workloads = [], br_lifecycle = [],
     br_placements = [], br_workers = [], br_outcomes = Map.empty, br_measurements = empty_measurements,
     br_evidence = []\<rparr>"

definition add_missing :: "string \<Rightarrow> benchmark_result \<Rightarrow> benchmark_result" where
  "add_missing msg result = result\<lparr>br_missing := br_missing result @ [msg]\<rparr>"

text \<open>The deferred part up to the final result, given the error of the body.\<close>

definition finish_result ::
    "'w cluster \<Rightarrow> 'w lab_host \<Rightarrow> benchmark_options \<Rightarrow> go_error option \<Rightarrow> benchmark_result \<Rightarrow> 'w
      \<Rightarrow> benchmark_result \<times> 'w" where
  "finish_result bg host opts run_err result w =
     (let result = (case run_err of None \<Rightarrow> result | Some e \<Rightarrow> add_missing (error_text e) result)
      in case collect_result bg (lh_codec host) (bo_namespace opts) result w of
           ((result, err), w1) \<Rightarrow>
             (let result = (case err of None \<Rightarrow> result
                | Some e \<Rightarrow> add_missing (''final snapshot: '' @ error_text e) result)
              in case collect_evidence bg host opts result w1 of
                   ((rootdir, err'), w2) \<Rightarrow>
                     (let result = result\<lparr>br_evidence := br_evidence result @ [rootdir]\<rparr>;
                          result = (case err' of None \<Rightarrow> result
                            | Some e \<Rightarrow> add_missing (''evidence: '' @ error_text e) result)
                      in (result\<lparr>br_complete := run_err = None \<and> br_missing result = []\<rparr>, w2))))"

text \<open>The result of a run, and the error of its body, before the result is written.\<close>

definition run_result ::
    "'w cluster \<Rightarrow> 'w cluster \<Rightarrow> 'w lab_host \<Rightarrow> benchmark_options \<Rightarrow> profile \<Rightarrow> cluster_capacity \<Rightarrow> 'w
      \<Rightarrow> (benchmark_result \<times> go_error option) \<times> 'w" where
  "run_result cl bg host opts prof capacity w =
     (case new_run_id cl host (''bench-'' @ pf_name prof) w of
        (run_id, w1) \<Rightarrow> (case clock cl w1 of
          (now, w2) \<Rightarrow> (case benchmark_stages cl host opts prof run_id (new_result run_id now prof capacity) w2 of
            ((result, run_err), w3) \<Rightarrow> (case finish_result bg host opts run_err result w3 of
              (result', w4) \<Rightarrow> ((result', run_err), w4)))))"

definition run_one ::
    "'w cluster \<Rightarrow> 'w cluster \<Rightarrow> 'w lab_host \<Rightarrow> benchmark_options \<Rightarrow> profile \<Rightarrow> int \<Rightarrow> cluster_capacity \<Rightarrow> 'w
      \<Rightarrow> go_error option \<times> 'w" where
  "run_one cl bg host opts prof repetition capacity w =
     (case run_result cl bg host opts prof capacity w of
        ((result, run_err), w1) \<Rightarrow>
          (case write_result host (bo_output_dir opts) (pf_name prof) repetition result w1 of
             (write_err, w2) \<Rightarrow>
               (let run_err = (case write_err of None \<Rightarrow> run_err | Some e \<Rightarrow> errors_join [run_err, Some e])
                in case cleanup bg (bo_namespace opts) (bo_timeout opts) (br_run_id result) w2 of
                     (Inl e, w3) \<Rightarrow> (errors_join [run_err, Some e], w3)
                   | (Inr _, w3) \<Rightarrow> (run_err, w3))))"

section \<open>Run\<close>

fun repetitions_loop ::
    "(profile \<Rightarrow> int \<Rightarrow> 'w \<Rightarrow> go_error option \<times> 'w) \<Rightarrow> (profile \<times> int) list \<Rightarrow> go_error option list \<Rightarrow> 'w
      \<Rightarrow> go_error option list \<times> 'w" where
  "repetitions_loop one [] errs w = (errs, w)"
| "repetitions_loop one ((prof, repetition) # rest) errs w =
     (case one prof repetition w of
        (None, w') \<Rightarrow> repetitions_loop one rest errs w'
      | (Some e, w') \<Rightarrow> repetitions_loop one rest (errs @ [Some e]) w')"

text \<open>The nested loops over profiles and repetitions, in their order.\<close>

definition all_runs :: "benchmark_options \<Rightarrow> (profile \<times> int) list" where
  "all_runs opts = [(prof, repetition). prof \<leftarrow> bo_profiles opts, repetition \<leftarrow> [1..bo_repetitions opts]]"

definition benchmark_run ::
    "'w cluster \<Rightarrow> 'w cluster \<Rightarrow> 'w lab_host \<Rightarrow> benchmark_options \<Rightarrow> 'w \<Rightarrow> go_error option \<times> 'w" where
  "benchmark_run cl bg host opts w =
     (case validate_fixtures cl w of
        (Inl e, w1) \<Rightarrow> (Some e, w1)
      | (Inr capacity, w1) \<Rightarrow>
          (case capture_scheduler cl w1 of
             (Inl e, w2) \<Rightarrow> (Some e, w2)
           | (Inr (data, annotations), w2) \<Rightarrow>
               (case repetitions_loop (\<lambda>prof repetition. run_one cl bg host opts prof repetition capacity)
                   (all_runs opts) [] w2 of
                  (errs, w3) \<Rightarrow>
                    (case restore_scheduler bg (bo_timeout opts) data annotations w3 of
                       (restored, w4) \<Rightarrow>
                         (errors_join [errors_join errs, (case restored of Inl e \<Rightarrow> Some e | Inr _ \<Rightarrow> None)], w4)))))"

end
