(* ===== verification/Lab_Benchmark_Memory.thy ===== *)
theory Lab_Benchmark_Memory
  imports Lab_Evidence_Properties Lab_Benchmark
begin

text \<open>
  A benchmark run of the baseline profile on the cluster in memory: three holders are placed on the
  three nodes, the probe is unschedulable until the first holder is released.
\<close>

definition lab_host :: "lab_world lab_host" where
  "lab_host = \<lparr>lh_files = lab_files, lh_codec = lab_codec, lh_iter = sorted_list_of_set,
     lh_random = (\<lambda>w. ([1, 2, 3, 4], w)), lh_stamp = show_int,
     lh_read_file = (\<lambda>path w. (Inr ''profile'', w)),
     lh_parse_profile = (\<lambda>data. Inr \<lparr>cm_meta = new_meta [] [], cm_data = Some [''config'' \<mapsto> data]\<rparr>),
     lh_create = (\<lambda>path w. (None, w)), lh_encode = (\<lambda>path r w. (None, w)),
     lh_close = (\<lambda>path w. (None, w)), lh_rename = (\<lambda>path path' w. (None, w))\<rparr>"

definition lab_options :: benchmark_options where
  "lab_options = \<lparr>bo_namespace = ''default'', bo_output_dir = ''out'', bo_evidence_dir = ''evidence'',
     bo_timeout = 1, bo_repetitions = 1,
     bo_profiles = [\<lparr>pf_name = profile_baseline, pf_config_path = ''baseline.yaml'', pf_probe_should_fit = False\<rparr>]\<rparr>"

text \<open>The Scheduler is there, and available.\<close>

definition lab_ready :: "lab_world \<Rightarrow> bool" where
  "lab_ready w \<longleftrightarrow> meta_key (cm_meta (lw_config w)) = config_key \<and>
     meta_key (dp_meta (lw_scheduler w)) = scheduler_key \<and> m_generation (dp_meta (lw_scheduler w)) = 0 \<and>
     dp_observed_generation (lw_scheduler w) = 1 \<and> dp_replicas (lw_scheduler w) = None \<and>
     dp_updated_replicas (lw_scheduler w) = 1 \<and> dp_available_replicas (lw_scheduler w) = 1"

lemma lab_ready_start: "lab_ready lab_start"
  by (simp add: lab_ready_def lab_start_def meta_key_def new_meta_def config_key_def scheduler_key_def)

lemma lab_start_jobs: "lw_jobs lab_start = []"
  by (simp add: lab_start_def)

lemma lab_ready_keep [simp]: "lab_ready (w\<lparr>lw_jobs := js\<rparr>) = lab_ready w" "lab_ready (w\<lparr>lw_time := t\<rparr>) = lab_ready w"
  "lab_ready (w\<lparr>lw_files := fs\<rparr>) = lab_ready w"
  by (simp_all add: lab_ready_def)

section \<open>Calls and stages that succeed\<close>

definition runs :: "('w, 'a) io \<Rightarrow> 'w \<Rightarrow> ('a \<Rightarrow> 'w \<Rightarrow> bool) \<Rightarrow> bool" where
  "runs call w Q \<longleftrightarrow> (\<exists>x w'. call w = (Inr x, w') \<and> Q x w')"

lemma runs_bind: "runs m w (\<lambda>x w'. runs (f x) w' Q) \<Longrightarrow> runs (io_bind m f) w Q"
  by (auto simp: runs_def io_bind_def)

lemma runs_wrap: "runs m w Q \<Longrightarrow> runs (io_wrap msg m) w Q"
  by (auto simp: runs_def io_wrap_def)

lemma runs_return [simp]: "runs (io_return x) w Q \<longleftrightarrow> Q x w"
  by (simp add: runs_def io_return_def)

definition stage_runs :: "'w stage \<Rightarrow> benchmark_result \<Rightarrow> 'w \<Rightarrow> (benchmark_result \<Rightarrow> 'w \<Rightarrow> bool) \<Rightarrow> bool" where
  "stage_runs f r w Q \<longleftrightarrow> (\<exists>r' w'. f r w = ((r', None), w') \<and> Q r' w')"

lemma stage_runs_call: "runs call w (\<lambda>x w'. stage_runs (f x) r w' Q) \<Longrightarrow> stage_runs (stage_call call f) r w Q"
  by (auto simp: runs_def stage_runs_def stage_call_def)

lemma stage_runs_then: "stage_runs f r w (\<lambda>r' w'. stage_runs g r' w' Q) \<Longrightarrow> stage_runs (stage_then f g) r w Q"
  by (auto simp: stage_runs_def stage_then_def)

lemma stage_runs_update: "Q (f r) w \<Longrightarrow> stage_runs (stage_update f) r w Q"
  by (simp add: stage_runs_def stage_update_def)

lemma stage_runs_done: "Q r w \<Longrightarrow> stage_runs stage_done r w Q"
  by (simp add: stage_runs_def stage_done_def)

lemma stage_runs_conseq: "stage_runs f r w P \<Longrightarrow> (\<And>r' w'. P r' w' \<Longrightarrow> Q r' w') \<Longrightarrow> stage_runs f r w Q"
  by (auto simp: stage_runs_def)

lemmas runs_rules = runs_bind runs_wrap runs_return [THEN iffD2] stage_runs_call stage_runs_then stage_runs_update stage_runs_done

section \<open>The laboratory's calls\<close>

lemma poll_runs: "runs check w (\<lambda>x w'. \<exists>ob. x = Some ob \<and> Q ob w') \<Longrightarrow>
    runs (poll lab_cluster interval timeout (plain_condition check)) w Q"
  by (auto simp: runs_def poll_lab plain_condition_def numeral_2_eq_2)

lemma config_runs:
  "lab_ready w \<Longrightarrow> Q (lw_config w) w \<Longrightarrow> runs (fetch_config_map lab_cluster config_key) w Q"
  by (simp add: runs_def lab_cluster_def lab_ready_def)

lemma scheduler_runs:
  "lab_ready w \<Longrightarrow> Q (lw_scheduler w) w \<Longrightarrow> runs (fetch_deployment lab_cluster scheduler_key) w Q"
  by (simp add: runs_def lab_cluster_def lab_ready_def)

lemma put_config_runs:
  "lab_ready w \<Longrightarrow> meta_key (cm_meta c) = config_key \<Longrightarrow> Q () (w\<lparr>lw_config := c\<rparr>) \<Longrightarrow>
    runs (put_config_map lab_cluster c) w Q"
  by (simp add: runs_def lab_cluster_def lab_ready_def)

lemma put_scheduler_runs:
  "lab_ready w \<Longrightarrow> meta_key (dp_meta d) = scheduler_key \<Longrightarrow> Q d (w\<lparr>lw_scheduler := d\<rparr>) \<Longrightarrow>
    runs (put_deployment lab_cluster d) w Q"
  by (simp add: runs_def lab_cluster_def lab_ready_def)

lemma clock_runs:
  "Q (int (Suc (lw_time w))) (w\<lparr>lw_time := Suc (lw_time w)\<rparr>) \<Longrightarrow> runs (read_clock lab_cluster) w Q"
  "Q (int (Suc (lw_time w))) (w\<lparr>lw_time := Suc (lw_time w)\<rparr>) \<Longrightarrow>
    runs (\<lambda>w. case clock lab_cluster w of (now, w') \<Rightarrow> (Inr now, w')) w Q"
  by (simp_all add: runs_def read_clock_def lab_cluster_def)

lemma wait_deployment_runs:
  "lab_ready w \<Longrightarrow> generation \<le> 1 \<Longrightarrow> Q () w \<Longrightarrow>
    runs (wait_for_deployment lab_cluster scheduler_key generation timeout) w Q"
  unfolding wait_for_deployment_def
  by (intro runs_rules poll_runs scheduler_runs) (auto simp: lab_ready_def deployment_ready_def)

lemmas lab_rules = runs_rules poll_runs config_runs scheduler_runs put_config_runs put_scheduler_runs
  clock_runs wait_deployment_runs

lemma lab_ready_update:
  "lab_ready w \<Longrightarrow> lab_ready (w\<lparr>lw_config := (lw_config w)\<lparr>cm_data := data\<rparr>\<rparr>)"
  "lab_ready w \<Longrightarrow> lab_ready (w\<lparr>lw_scheduler := (lw_scheduler w)\<lparr>dp_template_annotations := annotations\<rparr>\<rparr>)"
  by (simp_all add: lab_ready_def)

lemma lab_host_read: "Q ''profile'' w \<Longrightarrow> runs (lh_read_file lab_host path) w Q"
  by (simp add: runs_def lab_host_def)

lemma lab_host_parse:
  "lh_parse_profile lab_host data = Inr \<lparr>cm_meta = new_meta [] [], cm_data = Some [''config'' \<mapsto> data]\<rparr>"
  by (simp add: lab_host_def)

lemma switch_runs:
  assumes "lab_ready w" and "\<And>w'. lab_ready w' \<Longrightarrow> lw_jobs w' = lw_jobs w \<Longrightarrow> Q () w'"
  shows "runs (switch_profile lab_cluster lab_host timeout path) w Q"
  unfolding switch_profile_def lab_host_parse sum.case
  by (intro lab_rules lab_host_read) (use assms in \<open>auto simp: lab_ready_def\<close>)

lemma restore_runs:
  assumes "lab_ready w" and "\<And>w'. lab_ready w' \<Longrightarrow> lw_jobs w' = lw_jobs w \<Longrightarrow> Q () w'"
  shows "runs (restore_scheduler lab_cluster timeout data annotations) w Q"
  unfolding restore_scheduler_def
  by (intro lab_rules) (use assms in \<open>auto simp: lab_ready_def\<close>)

section \<open>Workloads\<close>

lemma create_runs:
  "Q () (w\<lparr>lw_jobs := lw_jobs w @ [new_benchmark_aijob namespace run_id experiment d]\<rparr>) \<Longrightarrow>
    runs (create_aijob lab_cluster namespace run_id experiment d) w Q"
  unfolding create_aijob_def by (rule runs_wrap) (simp add: runs_def lab_cluster_def)

lemma delete_runs:
  "Q () (w\<lparr>lw_jobs := filter (\<lambda>j. meta_key (aj_meta j) \<noteq> key) (lw_jobs w)\<rparr>) \<Longrightarrow>
    runs (delete_aijob_object lab_cluster key) w Q"
  by (simp add: runs_def lab_cluster_def)

lemma discover_runs: "Q (lab_snapshot namespace run_id w) w \<Longrightarrow> runs (discover lab_cluster namespace run_id) w Q"
  by (simp add: runs_def discover_lab)

lemma list_pods_runs: "Q (filter (\<lambda>p. matches namespace sel (p_meta p)) (lab_pods w)) w \<Longrightarrow>
    runs (list_pods lab_cluster namespace sel) w Q"
  by (simp add: runs_def lab_cluster_def)

lemma scheduled_runs:
  assumes "find_scheduled (filter (\<lambda>p. matches namespace (workload_selector run_id name) (p_meta p)) (lab_pods w)) = Some p"
    and "Q (SeenPod p) w"
  shows "runs (wait_for_pod_scheduled lab_cluster namespace run_id name timeout) w Q"
  unfolding wait_for_pod_scheduled_def
  by (intro runs_wrap poll_runs runs_bind list_pods_runs) (use assms in simp)

lemma unschedulable_runs:
  assumes "find_unschedulable (filter (\<lambda>p. matches namespace (workload_selector run_id name) (p_meta p)) (lab_pods w)) = Some p"
    and "Q (SeenPod p) w"
  shows "runs (wait_for_pod_unschedulable lab_cluster namespace run_id name timeout) w Q"
  unfolding wait_for_pod_unschedulable_def
  by (intro runs_wrap poll_runs runs_bind list_pods_runs) (use assms in simp)

lemma completed_runs:
  assumes "find (\<lambda>j. meta_key (aj_meta j) = key) (lw_jobs w) = Some j" and "Q (SeenAIJob (finished_job j)) w"
  shows "runs (wait_for_aijob_condition lab_cluster key ''Completed'' timeout) w Q"
proof -
  have "fetch_aijob lab_cluster key w = (Inr (finished_job j), w)" using assms(1) by (simp add: lab_cluster_def)
  then have "runs (aijob_condition lab_cluster key ''Completed'') w (\<lambda>x w'. \<exists>ob. x = Some ob \<and> Q ob w')"
    using assms(2) by (simp add: runs_def aijob_condition_def io_try_def finished_job_def io_return_def equal_fold_refl)
  then show ?thesis unfolding wait_for_aijob_condition_def by (intro runs_wrap poll_runs)
qed

abbreviation lab_aijob :: "string \<Rightarrow> workload_definition \<Rightarrow> aijob" where
  "lab_aijob run_id \<equiv> new_benchmark_aijob ''default'' run_id ''benchmark''"

lemma lab_aijob_key: "meta_key (aj_meta (lab_aijob run_id d)) = \<lparr>ns_namespace = ''default'', ns_name = wd_name d\<rparr>"
  by (simp add: new_benchmark_aijob_def meta_key_def new_meta_def)

lemma lab_pod_matches:
  "run_id \<noteq> [] \<Longrightarrow> matches ''default'' (workload_selector run_id name) (p_meta (pod_of (lab_aijob run_id d) nd))
    \<longleftrightarrow> wd_name d = name"
  by (simp add: matches_def workload_selector_def pod_of_def pod_meta_of_def new_benchmark_aijob_def new_meta_def
      label_of_def lab_labels_apply go_lookup_def label_keys)

lemma lab_pods_jobs: "lab_pods (w\<lparr>lw_jobs := js\<rparr>) = map (\<lambda>(job, nd). pod_of job nd) (zip js
     ([''a'', ''b'', ''c''] @ replicate (length js) []))"
  by (simp add: lab_pods_def)

lemma lab_pod_state [simp]:
  "p_node_name (pod_of j nd) = nd"
  "has_condition_true (p_conditions (pod_of j nd)) pod_scheduled \<longleftrightarrow> nd \<noteq> []"
  "unschedulable_condition (p_conditions (pod_of j nd)) \<longleftrightarrow> nd = []"
  by (simp_all add: pod_of_def bench_pod_def reason_unschedulable_def)

lemma workload_names:
  "distinct [wd_name (holder_definition run_id 1), wd_name (holder_definition run_id 2),
     wd_name (holder_definition run_id 3), wd_name (probe_definition run_id)]"
  by (simp add: holder_definition_def probe_definition_def digit_char_def)

text \<open>A baseline run succeeds, with a recovery, and leaves the jobs of its run behind.\<close>

lemma baseline_stages:
  assumes "lab_ready w" "lw_jobs w = []" "run_id \<noteq> []" "\<not> pf_probe_should_fit prof" "br_workloads r0 = []"
  shows "stage_runs (benchmark_stages lab_cluster lab_host lab_options prof run_id) r0 w (\<lambda>r w'.
    br_outcomes r (wd_name (probe_definition run_id)) = Some ''completed-after-release'' \<and>
    dom (br_outcomes r) \<subseteq> dom (br_outcomes r0) \<union> {wd_name (holder_definition run_id 1), wd_name (probe_definition run_id)} \<and>
    rc_initially_unschedulable (me_recovery (br_measurements r)) \<and> br_missing r = br_missing r0 \<and>
    br_profile r = br_profile r0 \<and> br_run_id r = br_run_id r0 \<and> lab_ready w' \<and>
    lw_jobs w' = map (lab_aijob run_id) [holder_definition run_id 2, holder_definition run_id 3, probe_definition run_id])"
proof -
  obtain d1 d2 d3 dp where d: "d1 = holder_definition run_id 1" "d2 = holder_definition run_id 2"
    "d3 = holder_definition run_id 3" "dp = probe_definition run_id" by blast
  have names: "wd_name d1 \<noteq> wd_name d2" "wd_name d1 \<noteq> wd_name d3" "wd_name d2 \<noteq> wd_name d3"
    "wd_name d1 \<noteq> wd_name dp" "wd_name d2 \<noteq> wd_name dp" "wd_name d3 \<noteq> wd_name dp"
    using workload_names [of run_id] by (auto simp: d)
  have ns: "bo_namespace lab_options = ''default''" by (simp add: lab_options_def)
  have holders: "stage_runs (holders_loop lab_cluster lab_options run_id [1, 2, 3]) r v Q"
    if "lab_ready v" "lw_jobs v = []" "Q (r\<lparr>br_workloads := br_workloads r @ [d1, d2, d3]\<rparr>)
      (v\<lparr>lw_jobs := map (lab_aijob run_id) [d1, d2, d3]\<rparr>)" for r v Q
    unfolding holders_loop.simps ns d(1-3) [symmetric]
    by (intro stage_runs_then stage_runs_update stage_runs_call create_runs scheduled_runs stage_runs_done)
      (use that names assms(3) in \<open>simp_all add: lab_pods_jobs lab_pod_matches names [symmetric] add_workload_def numeral_2_eq_2\<close>)
  let ?post = "\<lambda>r r' v'. br_outcomes r' = (br_outcomes r)(wd_name d1 \<mapsto> ''released'', wd_name dp \<mapsto> ''completed-after-release'') \<and>
    rc_initially_unschedulable (me_recovery (br_measurements r')) \<and> br_missing r' = br_missing r \<and>
    br_profile r' = br_profile r \<and> br_run_id r' = br_run_id r \<and> lab_ready v' \<and>
    lw_jobs v' = map (lab_aijob run_id) [d2, d3, dp]"
  have await: "stage_runs (await_recovery lab_cluster lab_options run_id t) r v Q"
    if "lab_ready v" "lw_jobs v = map (lab_aijob run_id) [d2, d3, dp]"
      and "\<And>r' v'. br_outcomes r' = (br_outcomes r)(wd_name dp \<mapsto> ''completed-after-release'') \<Longrightarrow>
        rc_initially_unschedulable (me_recovery (br_measurements r')) = rc_initially_unschedulable (me_recovery (br_measurements r)) \<Longrightarrow>
        br_missing r' = br_missing r \<Longrightarrow> br_profile r' = br_profile r \<Longrightarrow> br_run_id r' = br_run_id r \<Longrightarrow>
        lab_ready v' \<Longrightarrow> lw_jobs v' = lw_jobs v \<Longrightarrow> Q r' v'" for t r v Q
    unfolding await_recovery_def ns d(4) [symmetric] probe_key_def
    by (intro stage_runs_call scheduled_runs clock_runs stage_runs_then stage_runs_update completed_runs that(3))
      (use that(1,2) names assms(3) in \<open>simp_all add: lab_pods_def lab_pod_matches lab_aijob_key scheduled_probe_def
        recovered_probe_def set_outcome_def update_recovery_def numeral_2_eq_2\<close>)
  have release: "stage_runs (release_holder lab_cluster lab_options run_id (wd_name d1)) r v Q"
    if "lab_ready v" "lw_jobs v = map (lab_aijob run_id) [d1, d2, d3, dp]"
      "rc_initially_unschedulable (me_recovery (br_measurements r))"
      and "\<And>r' v'. ?post r r' v' \<Longrightarrow> Q r' v'" for r v Q
    unfolding release_holder_def ns
    by (intro stage_runs_call clock_runs runs_wrap delete_runs stage_runs_then stage_runs_update await that(4))
      (use that(1-3) names in \<open>simp_all add: lab_aijob_key released_holder_def set_outcome_def update_recovery_def\<close>)
  have recover: "stage_runs (recover_probe lab_cluster lab_options run_id) r v Q"
    if "lab_ready v" "lw_jobs v = map (lab_aijob run_id) [d1, d2, d3, dp]" "br_workloads r = [d1, d2, d3, dp]"
      and "\<And>r' v'. ?post r r' v' \<Longrightarrow> Q r' v'" for r v Q
  proof -
    have "stage_runs (stage_call (wait_for_pod_unschedulable lab_cluster ''default'' run_id (wd_name dp) (bo_timeout lab_options))
        (\<lambda>ob. stage_then (stage_update (blocked_probe (wd_name d1) (observed_pod ob)))
          (release_holder lab_cluster lab_options run_id (wd_name d1)))) r v Q"
      by (intro stage_runs_call unschedulable_runs stage_runs_then stage_runs_update release that(4))
        (use that(1-3) names assms(3) in \<open>simp_all add: lab_pods_def lab_pod_matches blocked_probe_def
          update_recovery_def numeral_2_eq_2\<close>)
    then show ?thesis
      unfolding recover_probe_def stage_runs_def stage_call_def Let_def that(3) list.sel ns d(4) [symmetric] .
  qed
  show ?thesis
    unfolding benchmark_stages_def probe_stages_def ns d [symmetric] if_not_P [OF assms(4)]
    by (intro stage_runs_call runs_wrap switch_runs clock_runs stage_runs_then holders discover_runs stage_runs_update
        create_runs recover)
      (use assms names in \<open>auto simp: add_workload_def measure_fragmentation_def Let_def set_makespan_def split: if_splits\<close>)
qed

section \<open>A whole run\<close>

lemma outcomes_loop_eq:
  "outcomes_loop ds outcomes name = (case outcomes name of
     Some v \<Rightarrow> Some v | None \<Rightarrow> if name \<in> wd_name ` set ds then Some ''running'' else None)"
  by (induction ds arbitrary: outcomes) (auto split: option.split)

lemma any_completed_iff: "any_completed outcomes names \<longleftrightarrow> (\<exists>n \<in> set names. is_completed (the (outcomes n)))"
  by (induction names) auto

lemma collect_result_lab:
  "\<exists>r'. collect_result lab_cluster codec namespace r w = ((r', None), w) \<and>
    br_outcomes r' = outcomes_loop (br_workloads r) (br_outcomes r) \<and> br_missing r' = br_missing r \<and>
    br_profile r' = br_profile r \<and> br_run_id r' = br_run_id r \<and>
    me_recovery (br_measurements r') = me_recovery (br_measurements r)"
proof -
  let ?snap = "lab_snapshot namespace (br_run_id r) w"
  obtain reports where reports: "worker_runtime_reports codec (sn_pods ?snap) Map.empty = (reports, None)"
    using reports_without_logs [of codec "sn_pods ?snap"] by (metis prod.collapse)
  have "server_version lab_cluster w = (Inr ''v1.31'', w)" by (simp add: lab_cluster_def)
  then have "collect_result lab_cluster codec namespace r w =
      ((describe_run ?snap (Some ''v1.31'') (count_run ?snap reports r), None), w)"
    using reports worker_logs_unstarted [OF lab_snapshot_pods, of lab_cluster]
    by (simp add: collect_result_def discover_lab)
  then show ?thesis by (simp add: describe_run_def count_run_def Let_def)
qed

text \<open>The evidence of a baseline run in which the probe was blocked and then completed is complete.\<close>

lemma collect_bundle_lab:
  assumes "set (eo_expected opts) \<subseteq> set (eo_observed opts)" "new_evidence_collector opts = Inr opts" "lab_ready w"
  shows "\<exists>root w'. collect_bundle lab_cluster lab_host opts w = ((root, None), w') \<and>
    lab_ready w' \<and> lw_jobs w' = lw_jobs w"
proof -
  let ?w1 = "w\<lparr>lw_time := Suc (lw_time w)\<rparr>"
  have "clock lab_cluster w = (int (Suc (lw_time w)), ?w1)" "lh_files lab_host = lab_files"
    by (simp_all add: lab_cluster_def lab_host_def)
  moreover obtain w' where "collect (cluster_source lab_cluster) lab_files (lh_codec lab_host) (lh_iter lab_host) opts
      (int (Suc (lw_time w))) ?w1 = ((evidence_root opts, None), w')" "only_files ?w1 w'"
    using collect_in_lab [OF assms(1), of "lh_codec lab_host" "lh_iter lab_host" "int (Suc (lw_time w))" ?w1] by blast
  moreover have "lab_ready w'" "lw_jobs w' = lw_jobs w"
    using calculation(4) assms(3) by (auto simp: only_files_def)
  ultimately show ?thesis by (simp add: collect_bundle_def assms(2))
qed

lemma collect_evidence_lab:
  assumes "br_profile r = profile_baseline" "rc_initially_unschedulable (me_recovery (br_measurements r))"
    and "br_outcomes r name = Some ''completed-after-release''" "finite (dom (br_outcomes r))" "br_run_id r \<noteq> []"
    and w: "lab_ready w"
  shows "\<exists>root w'. collect_evidence lab_cluster lab_host lab_options r w = ((root, None), w') \<and>
    lab_ready w' \<and> lw_jobs w' = lw_jobs w"
proof -
  have "name \<in> dom (br_outcomes r)" using assms(3) by auto
  then have "any_completed (br_outcomes r) (lh_iter lab_host (dom (br_outcomes r)))"
    using assms(3,4) by (auto simp: any_completed_iff lab_host_def is_completed_def intro!: bexI [of _ name])
  then have "evidence_expectations (lh_iter lab_host) r = ([probe_completed, probe_blocked], [probe_blocked, probe_completed])"
    using assms(1,2) by (simp add: evidence_expectations_def)
  moreover define opts where "opts = \<lparr>eo_namespace = bo_namespace lab_options, eo_run_id = br_run_id r,
    eo_experiment = ''benchmark-'' @ br_profile r, eo_output_dir = bo_evidence_dir lab_options,
    eo_expected = [probe_completed, probe_blocked], eo_observed = [probe_blocked, probe_completed]\<rparr>"
  moreover have "new_evidence_collector opts = Inr opts"
    using assms(5) by (simp add: new_evidence_collector_def opts_def lab_options_def)
  moreover obtain root w' where "collect_bundle lab_cluster lab_host opts w = ((root, None), w')"
    "lab_ready w'" "lw_jobs w' = lw_jobs w"
    using collect_bundle_lab [OF _ calculation(3) w] by (auto simp: opts_def)
  ultimately show ?thesis by (simp add: collect_evidence_def)
qed

definition lab_profile :: profile where
  "lab_profile = hd (bo_profiles lab_options)"

lemma lab_profile_simps [simp]: "pf_name lab_profile = profile_baseline" "\<not> pf_probe_should_fit lab_profile"
  by (simp_all add: lab_profile_def lab_options_def)

lemma run_result_lab:
  assumes "lab_ready w" "lw_jobs w = []"
  shows "\<exists>result w'. run_result lab_cluster lab_cluster lab_host lab_options lab_profile capacity w = ((result, None), w') \<and>
    br_complete result \<and> br_run_id result \<noteq> [] \<and> lab_ready w' \<and> lw_jobs w' = map (lab_aijob (br_run_id result))
      [holder_definition (br_run_id result) 2, holder_definition (br_run_id result) 3, probe_definition (br_run_id result)]"
proof -
  obtain run_id w1 where run_id: "new_run_id lab_cluster lab_host (''bench-'' @ pf_name lab_profile) w = (run_id, w1)"
    by fastforce
  then have w1: "lab_ready w1" "lw_jobs w1 = []" "run_id \<noteq> []"
    using assms by (auto simp: new_run_id_def lab_host_def lab_cluster_def)
  obtain now w2 where now: "clock lab_cluster w1 = (now, w2)" by fastforce
  then have w2: "lab_ready w2" "lw_jobs w2 = []" using w1 by (auto simp: lab_cluster_def)
  let ?r0 = "new_result run_id now lab_profile capacity"
  have r0: "br_workloads ?r0 = []" "br_outcomes ?r0 = Map.empty" "br_missing ?r0 = []"
    "br_profile ?r0 = profile_baseline" "br_run_id ?r0 = run_id" by (simp_all add: new_result_def)
  obtain r w3 where stages: "benchmark_stages lab_cluster lab_host lab_options lab_profile run_id ?r0 w2 = ((r, None), w3)"
    and r: "br_outcomes r (wd_name (probe_definition run_id)) = Some ''completed-after-release''"
      "finite (dom (br_outcomes r))" "rc_initially_unschedulable (me_recovery (br_measurements r))"
      "br_missing r = []" "br_profile r = profile_baseline" "br_run_id r = run_id" "lab_ready w3"
      "lw_jobs w3 = map (lab_aijob run_id) [holder_definition run_id 2, holder_definition run_id 3, probe_definition run_id]"
    using baseline_stages [OF w2 w1(3), of lab_profile ?r0] r0
    by (auto simp: stage_runs_def intro: finite_subset)
  obtain r1 where r1: "collect_result lab_cluster (lh_codec lab_host) (bo_namespace lab_options) r w3 = ((r1, None), w3)"
      and same: "br_outcomes r1 = outcomes_loop (br_workloads r) (br_outcomes r)" "br_missing r1 = br_missing r"
      "br_profile r1 = br_profile r" "br_run_id r1 = br_run_id r"
      "me_recovery (br_measurements r1) = me_recovery (br_measurements r)"
    using collect_result_lab by blast
  have "dom (outcomes_loop (br_workloads r) (br_outcomes r)) \<subseteq> dom (br_outcomes r) \<union> wd_name ` set (br_workloads r)"
    by (auto simp: outcomes_loop_eq split: option.splits if_splits)
  then have "finite (dom (br_outcomes r1))" unfolding same(1) by (rule finite_subset) (simp add: r(2))
  moreover have "br_outcomes r1 (wd_name (probe_definition run_id)) = Some ''completed-after-release''"
    using r(1) by (simp add: same(1) outcomes_loop_eq)
  ultimately obtain root w4 where evidence: "collect_evidence lab_cluster lab_host lab_options r1 w3 = ((root, None), w4)"
      "lab_ready w4" "lw_jobs w4 = lw_jobs w3"
    using collect_evidence_lab [of r1 "wd_name (probe_definition run_id)" w3] same r w1(3) by auto
  have "run_result lab_cluster lab_cluster lab_host lab_options lab_profile capacity w =
      ((r1\<lparr>br_evidence := br_evidence r1 @ [root], br_complete := True\<rparr>, None), w4)"
    using run_id now stages r1 evidence(1) same(2) r(4)
    by (simp add: run_result_def finish_result_def Let_def)
  then show ?thesis using evidence(2,3) r w1(3) same(4) by simp
qed

text \<open>A cleanup in the laboratory deletes what the run created, and nothing else.\<close>

lemma matches_pod_of: "matches ns [(run_id_label, run_id)] (p_meta (pod_of j nd)) \<longleftrightarrow>
    matches ns [(run_id_label, run_id)] (aj_meta j)"
  by (simp add: pod_of_def pod_meta_of_def matches_def label_of_def go_lookup_def label_keys lab_labels_def
      split: option.splits)

lemma cleanup_any_lab:
  "cleanup lab_cluster ns timeout run_id w = (Inr (), w\<lparr>lw_jobs := filter (\<lambda>j. meta_key (aj_meta j) \<notin>
     (meta_key \<circ> aj_meta) ` {j \<in> set (lw_jobs w). matches ns [(run_id_label, run_id)] (aj_meta j)}) (lw_jobs w)\<rparr>)"
proof -
  let ?sel = "[(run_id_label, run_id)]"
  let ?mine = "filter (\<lambda>j. matches ns ?sel (aj_meta j)) (lw_jobs w)"
  have all: "list_aijobs lab_cluster ns ?sel w = (Inr ?mine, w)" by (simp add: lab_cluster_def)
  have deleted: "delete_jobs lab_cluster js errs v = (errs, v\<lparr>lw_jobs := filter (\<lambda>j. meta_key (aj_meta j) \<notin>
      (meta_key \<circ> aj_meta) ` set js) (lw_jobs v)\<rparr>)" for js errs v
  proof (induction js arbitrary: v)
    case (Cons j js)
    then show ?case by (simp add: lab_cluster_def conj_commute cong: filter_cong)
  qed simp
  define w' where "w' = w\<lparr>lw_jobs := filter (\<lambda>j. meta_key (aj_meta j) \<notin> (meta_key \<circ> aj_meta) ` set ?mine) (lw_jobs w)\<rparr>"
  then have "\<forall>j \<in> set (lw_jobs w'). \<not> matches ns ?sel (aj_meta j)" by auto
  then have "nothing_left (lab_snapshot ns run_id w')"
    by (auto simp: nothing_left_def lab_snapshot_def empty_snapshot_def lab_pods_def filter_empty_conv matches_pod_of
        dest!: set_zip_leftD)
  then have "cleanup lab_cluster ns timeout run_id w = (Inr (), w')"
    by (simp add: cleanup_def all deleted w'_def io_bind_def errors_join_def Let_def poll_lab plain_condition_def discover_lab
        io_return_def numeral_2_eq_2 map_filter_def)
  then show ?thesis by (simp add: w'_def)
qed

lemma cleanup_lab:
  assumes "lw_jobs w = map (lab_aijob run_id) ds" "run_id \<noteq> []"
  shows "cleanup lab_cluster ''default'' timeout run_id w = (Inr (), w\<lparr>lw_jobs := []\<rparr>)"
proof -
  have "matches ''default'' [(run_id_label, run_id)] (aj_meta (lab_aijob run_id d))" for d
    using assms(2) by (simp add: matches_def new_benchmark_aijob_def new_meta_def label_of_def go_lookup_def label_keys)
  then show ?thesis by (auto simp: cleanup_any_lab assms(1) filter_empty_conv)
qed

lemma run_one_lab:
  assumes "lab_ready w" "lw_jobs w = []"
  shows "\<exists>w'. run_one lab_cluster lab_cluster lab_host lab_options lab_profile 1 capacity w = (None, w') \<and>
    lab_ready w' \<and> lw_jobs w' = []"
proof -
  obtain result w1 where run: "run_result lab_cluster lab_cluster lab_host lab_options lab_profile capacity w = ((result, None), w1)"
    "br_run_id result \<noteq> []" "lab_ready w1" "lw_jobs w1 = map (lab_aijob (br_run_id result))
      [holder_definition (br_run_id result) 2, holder_definition (br_run_id result) 3, probe_definition (br_run_id result)]"
    using run_result_lab [OF assms] by blast
  have "write_result lab_host dir name n result w1 = (None, w1)" for dir name n
    by (simp add: write_result_def lab_host_def lab_files_def Let_def errors_join_def)
  moreover have "bo_namespace lab_options = ''default''" by (simp add: lab_options_def)
  ultimately show ?thesis
    using run cleanup_lab [OF run(4,2)] by (simp add: run_one_def Let_def)
qed

lemma validate_fixtures_lab:
  "validate_fixtures lab_cluster lab_start = (Inr \<lparr>cc_eligible_nodes = 3, cc_gpu_per_node = 4, cc_total_gpus = 12\<rparr>, lab_start)"
    by (simp add: validate_fixtures_def lab_cluster_def io_bind_def io_wrap_def io_return_def io_fail_def bench_nodes_def
        bench_node_def new_meta_def matches_def label_of_def go_lookup_def gpu_node_label_def quantity_value_def
        bench_queue_def simulated_gpu_quota_def wrap64_id in64_def Let_def)

lemma benchmark_run_lab: "\<exists>w'. benchmark_run lab_cluster lab_cluster lab_host lab_options lab_start = (None, w')"
proof -
  have start: "lab_ready lab_start" "lw_jobs lab_start = []"
    by (rule lab_ready_start, rule lab_start_jobs)
  note validate_fixtures_lab
  moreover obtain data annotations where "capture_scheduler lab_cluster lab_start = (Inr (data, annotations), lab_start)"
    using start(1) by (simp add: capture_scheduler_def io_bind_def io_return_def lab_cluster_def lab_ready_def)
  moreover have "all_runs lab_options = [(lab_profile, 1)]"
    by (simp add: all_runs_def lab_profile_def lab_options_def upto.simps)
  moreover obtain w1 where "run_one lab_cluster lab_cluster lab_host lab_options lab_profile 1
      \<lparr>cc_eligible_nodes = 3, cc_gpu_per_node = 4, cc_total_gpus = 12\<rparr> lab_start = (None, w1)" "lab_ready w1"
    using run_one_lab [OF start] by blast
  moreover obtain w2 where "restore_scheduler lab_cluster (bo_timeout lab_options) data annotations w1 = (Inr (), w2)"
    using restore_runs [OF calculation(5), of "\<lambda>_ _. True" "bo_timeout lab_options" data annotations] by (auto simp: runs_def)
  ultimately show ?thesis by (simp add: benchmark_run_def errors_join_def)
qed

end
