(* ===== verification/Lab_Exercise.thy ===== *)
theory Lab_Exercise
  imports Lab_Benchmark
begin

text \<open>
  \<open>internal/lab/exercise.go\<close>: the failure exercises. \<open>cl\<close> and \<open>bg\<close> are the cluster under the caller's
  and under a fresh context. A nil list of observations is the empty list.
\<close>

definition exercise_capacity :: string where "exercise_capacity = ''capacity''"
definition exercise_worker_failure :: string where "exercise_worker_failure = ''worker-failure''"
definition exercise_controller_restart :: string where "exercise_controller_restart = ''controller-restart''"

lemma exercises_distinct [simp]: "exercise_capacity \<noteq> exercise_worker_failure"
  "exercise_worker_failure \<noteq> exercise_capacity" "exercise_capacity \<noteq> exercise_controller_restart"
  "exercise_controller_restart \<noteq> exercise_capacity" "exercise_worker_failure \<noteq> exercise_controller_restart"
  "exercise_controller_restart \<noteq> exercise_worker_failure"
  by (simp_all add: exercise_capacity_def exercise_worker_failure_def exercise_controller_restart_def)

record exercise_options =
  xo_kind :: string
  xo_namespace :: string
  xo_output_dir :: string
  xo_timeout :: int64

definition exercise_kinds :: "string list" where
  "exercise_kinds = [exercise_capacity, exercise_worker_failure, exercise_controller_restart]"

definition new_exercise_runner :: "exercise_options \<Rightarrow> go_error + exercise_options" where
  "new_exercise_runner opts =
     (let opts = (if xo_namespace opts = [] then opts\<lparr>xo_namespace := ''default''\<rparr> else opts);
          opts = (if xo_output_dir opts = [] then opts\<lparr>xo_output_dir := ''out/evidence''\<rparr> else opts)
      in if xo_timeout opts \<le> 0 then Inl (Err ''exercise timeout must be positive'')
         else if xo_kind opts \<notin> set exercise_kinds
         then Inl (Err (''unsupported exercise '' @ go_quote (xo_kind opts)))
         else Inr opts)"

definition exercise_run_prefix :: "string \<Rightarrow> string" where
  "exercise_run_prefix kind =
     (if kind = exercise_capacity then ''ex-cap''
      else if kind = exercise_worker_failure then ''ex-fail''
      else if kind = exercise_controller_restart then ''ex-restart''
      else ''ex'')"

definition exercise_workload_name :: "string \<Rightarrow> string \<Rightarrow> string" where
  "exercise_workload_name kind run_id =
     (if kind = exercise_capacity then ''cap-'' @ run_id
      else if kind = exercise_worker_failure then ''fail-'' @ run_id
      else if kind = exercise_controller_restart then ''restart-'' @ run_id
      else ''exercise-'' @ run_id)"

section \<open>The capacity stage\<close>

definition stage_unschedulable :: string where
  "stage_unschedulable = ''Pod Unschedulable at kube-scheduler''"

definition stage_waiting :: string where
  "stage_waiting = ''Workload waiting at Kueue admission''"

fun blocked_pod :: "pod list \<Rightarrow> string \<Rightarrow> bool" where
  "blocked_pod [] name = False"
| "blocked_pod (pod # pods) name =
     (if label_of (p_meta pod) job_label = name \<and> unschedulable_count [pod] = 1 then True
      else blocked_pod pods name)"

text \<open>
  The polled condition: \<open>seen\<close> is when a Workload was first seen. Only a run of three seconds with
  a Workload and without a Pod is diagnosed as waiting.
\<close>

definition capacity_condition ::
    "'w cluster \<Rightarrow> string \<Rightarrow> string \<Rightarrow> string \<Rightarrow> time option \<Rightarrow> 'w
      \<Rightarrow> ((go_error + observation option) \<times> time option) \<times> 'w" where
  "capacity_condition cl namespace run_id name seen w =
     (case discover cl namespace run_id w of
        (Inl e, w1) \<Rightarrow> ((Inl e, seen), w1)
      | (Inr snap, w1) \<Rightarrow>
          (if blocked_pod (sn_pods snap) name
           then ((Inr (Some (SeenStage stage_unschedulable)), seen), w1)
           else if sn_workloads snap \<noteq> [] then
             (case (case seen of None \<Rightarrow> clock cl w1 | Some t \<Rightarrow> (t, w1)) of
                (first, w2) \<Rightarrow>
                  (case clock cl w2 of
                     (now, w3) \<Rightarrow>
                       (if time_sub now first \<ge> 3 * one_second \<and> sn_pods snap = []
                        then ((Inr (Some (SeenStage stage_waiting)), Some first), w3)
                        else ((Inr None, Some first), w3))))
           else ((Inr None, seen), w1)))"

definition wait_capacity_stage ::
    "'w cluster \<Rightarrow> exercise_options \<Rightarrow> string \<Rightarrow> string \<Rightarrow> 'w \<Rightarrow> (string \<times> go_error option) \<times> 'w" where
  "wait_capacity_stage cl opts run_id name w =
     (case poll cl one_second (xo_timeout opts) (capacity_condition cl (xo_namespace opts) run_id name) w of
        (Inl e, w1) \<Rightarrow> (([], Some e), w1)
      | (Inr ob, w1) \<Rightarrow> (((case ob of SeenStage st \<Rightarrow> st | _ \<Rightarrow> []), None), w1))"

section \<open>Replacing the controller\<close>

definition pod_ready :: string where "pod_ready = ''Ready''"
definition controller_selector :: string where "controller_selector = ''app=aijob-controller''"

definition controller_replaced :: string where "controller_replaced = ''Controller replaced''"
definition one_owned_jobset :: string where "one_owned_jobset = ''one owned JobSet''"

fun replaced_by :: "string \<Rightarrow> pod list \<Rightarrow> bool" where
  "replaced_by old [] = False"
| "replaced_by old (pod # pods) =
     (if m_uid (p_meta pod) \<noteq> old \<and> has_condition_true (p_conditions pod) pod_ready then True
      else replaced_by old pods)"

text \<open>Formatting \<open>%w\<close> with a nil error.\<close>

definition wrapped_text :: "go_error option \<Rightarrow> string" where
  "wrapped_text err = (case err of None \<Rightarrow> ''%!w(<nil>)'' | Some e \<Rightarrow> error_text e)"

definition controller_count_error :: "nat \<Rightarrow> go_error option \<Rightarrow> go_error" where
  "controller_count_error n err = Err (''expected one Controller Pod before restart: count='' @
     show_nat n @ '' err='' @ wrapped_text err)"

text \<open>The observations and the error.\<close>

definition replace_controller ::
    "'w cluster \<Rightarrow> string \<Rightarrow> int64 \<Rightarrow> string \<Rightarrow> 'w \<Rightarrow> (string list \<times> go_error option) \<times> 'w" where
  "replace_controller cl namespace timeout run_id w =
     (case core_pods cl system_namespace controller_selector w of
        (Inl e, w1) \<Rightarrow> (([], Some (controller_count_error 0 (Some e))), w1)
      | (Inr pods, w1) \<Rightarrow>
          (if length pods \<noteq> 1 then (([], Some (controller_count_error (length pods) None)), w1)
           else case core_delete_pod cl system_namespace (m_name (p_meta (hd pods))) w1 of
             (Inl e, w2) \<Rightarrow> (([], Some e), w2)
           | (Inr _, w2) \<Rightarrow>
               (case poll cl one_second timeout (plain_condition
                    (io_bind (core_pods cl system_namespace controller_selector) (\<lambda>current.
                       io_return (if replaced_by (m_uid (p_meta (hd pods))) current then Some SeenReady
                         else None)))) w2 of
                  (Inl e, w3) \<Rightarrow> (([], Some e), w3)
                | (Inr _, w3) \<Rightarrow>
                    (case discover cl namespace run_id w3 of
                       (Inl e, w4) \<Rightarrow> (([controller_replaced], Some e), w4)
                     | (Inr snap, w4) \<Rightarrow>
                         (if length (sn_jobsets snap) \<noteq> 1
                          then (([controller_replaced], Some (Err (''got '' @
                            show_nat (length (sn_jobsets snap)) @ '' run-scoped JobSets after restart, want one''))), w4)
                          else (([controller_replaced, one_owned_jobset], None), w4))))))"

section \<open>Running an exercise\<close>

definition capacity_diagnosed :: string where "capacity_diagnosed = ''Capacity block diagnosed''"
definition aijob_failed :: string where "aijob_failed = ''AIJob Failed''"

definition capacity_definition :: "string \<Rightarrow> workload_definition" where
  "capacity_definition run_id = \<lparr>wd_name = exercise_workload_name exercise_capacity run_id, wd_workers = 1,
     wd_gpu_per_worker = 13, wd_args = [''--mode=complete'', ''--duration=1s'']\<rparr>"

definition failure_definition :: "string \<Rightarrow> workload_definition" where
  "failure_definition run_id = \<lparr>wd_name = exercise_workload_name exercise_worker_failure run_id, wd_workers = 2,
     wd_gpu_per_worker = 1, wd_args = [''--mode=complete'', ''--duration=1s'', ''--fail-indexes=1'']\<rparr>"

definition restart_definition :: "string \<Rightarrow> workload_definition" where
  "restart_definition run_id = \<lparr>wd_name = exercise_workload_name exercise_controller_restart run_id,
     wd_workers = 1, wd_gpu_per_worker = 1, wd_args = [''--mode=wait'']\<rparr>"

text \<open>Expected and observed conditions, and the error; \<open>None\<close> is the panic on an unknown kind.\<close>

definition execute ::
    "'w cluster \<Rightarrow> exercise_options \<Rightarrow> string \<Rightarrow> 'w
      \<Rightarrow> (string list \<times> string list \<times> go_error option) option \<times> 'w" where
  "execute cl opts run_id w =
     (let create = (\<lambda>d. create_aijob cl (xo_namespace opts) run_id (xo_kind opts) d w) in
      if xo_kind opts = exercise_capacity then
        (case create (capacity_definition run_id) of
           (Inl e, w1) \<Rightarrow> (Some ([capacity_diagnosed], [], Some e), w1)
         | (Inr _, w1) \<Rightarrow>
             (case wait_capacity_stage cl opts run_id (wd_name (capacity_definition run_id)) w1 of
                ((st, err), w2) \<Rightarrow>
                  (Some ([capacity_diagnosed], if st \<noteq> [] then [capacity_diagnosed, st] else [], err), w2)))
      else if xo_kind opts = exercise_worker_failure then
        (case create (failure_definition run_id) of
           (Inl e, w1) \<Rightarrow> (Some ([aijob_failed], [], Some e), w1)
         | (Inr _, w1) \<Rightarrow>
             (case wait_for_aijob_condition cl \<lparr>ns_namespace = xo_namespace opts,
                  ns_name = wd_name (failure_definition run_id)\<rparr> ''Failed'' (xo_timeout opts) w1 of
                (Inl e, w2) \<Rightarrow> (Some ([aijob_failed], [], Some e), w2)
              | (Inr _, w2) \<Rightarrow> (Some ([aijob_failed], [aijob_failed], None), w2)))
      else if xo_kind opts = exercise_controller_restart then
        (case create (restart_definition run_id) of
           (Inl e, w1) \<Rightarrow> (Some ([controller_replaced, one_owned_jobset], [], Some e), w1)
         | (Inr _, w1) \<Rightarrow>
             (case wait_for_pod_scheduled cl (xo_namespace opts) run_id (wd_name (restart_definition run_id))
                  (xo_timeout opts) w1 of
                (Inl e, w2) \<Rightarrow> (Some ([controller_replaced, one_owned_jobset], [], Some e), w2)
              | (Inr _, w2) \<Rightarrow>
                  (case replace_controller cl (xo_namespace opts) (xo_timeout opts) run_id w2 of
                     ((observed, err), w3) \<Rightarrow>
                       (Some ([controller_replaced, one_owned_jobset], observed, err), w3))))
      else (None, w))"

definition join_cleanup ::
    "'w cluster \<Rightarrow> string \<Rightarrow> int64 \<Rightarrow> string \<Rightarrow> go_error option \<Rightarrow> 'w \<Rightarrow> go_error option \<times> 'w" where
  "join_cleanup bg namespace timeout run_id run_err w =
     (case cleanup bg namespace timeout run_id w of
        (Inl e, w1) \<Rightarrow> (errors_join [run_err, Some e], w1)
      | (Inr _, w1) \<Rightarrow> (errors_join [run_err, None], w1))"

text \<open>\<open>Run\<close>, with its deferred cleanup, which also precedes a panic.\<close>

definition exercise_run ::
    "'w cluster \<Rightarrow> 'w cluster \<Rightarrow> 'w lab_host \<Rightarrow> exercise_options \<Rightarrow> 'w \<Rightarrow> go_error option option \<times> 'w" where
  "exercise_run cl bg host opts w =
     (case new_run_id cl host (exercise_run_prefix (xo_kind opts)) w of
        (run_id, w1) \<Rightarrow>
          (case execute cl opts run_id w1 of
             (None, w2) \<Rightarrow>
               (None, snd (join_cleanup bg (xo_namespace opts) (xo_timeout opts) run_id None w2))
           | (Some (expected, observed, scenario_err), w2) \<Rightarrow>
               (case collect_bundle bg host \<lparr>eo_namespace = xo_namespace opts, eo_run_id = run_id,
                    eo_experiment = xo_kind opts, eo_output_dir = xo_output_dir opts,
                    eo_expected = expected, eo_observed = observed\<rparr> w2 of
                  ((rootdir, evidence_err), w3) \<Rightarrow>
                    (case join_cleanup bg (xo_namespace opts) (xo_timeout opts) run_id
                         (errors_join [scenario_err, evidence_err]) w3 of
                       (err, w4) \<Rightarrow> (Some err, w4)))))"

end
