(* ===== verification/Lab_E2E.thy ===== *)
theory Lab_E2E
  imports Lab_Exercise
begin

text \<open>
  \<open>internal/lab/e2e.go\<close>: the end-to-end scenarios. \<open>cl\<close> and \<open>bg\<close> are the cluster under the caller's
  and under a fresh context.
\<close>

record e2e_options =
  xe_namespace :: string
  xe_output_dir :: string
  xe_timeout :: int64

definition new_e2e_runner :: "e2e_options \<Rightarrow> go_error + e2e_options" where
  "new_e2e_runner opts =
     (let opts = (if xe_namespace opts = [] then opts\<lparr>xe_namespace := ''default''\<rparr> else opts);
          opts = (if xe_output_dir opts = [] then opts\<lparr>xe_output_dir := ''out/e2e''\<rparr> else opts)
      in if xe_timeout opts \<le> 0 then Inl (Err ''E2E timeout must be positive'') else Inr opts)"

section \<open>The lifecycle check\<close>

definition jobset_condition_true :: "condition list \<Rightarrow> string \<Rightarrow> bool" where
  "jobset_condition_true cs ty = meta_condition_true cs ty"

fun job_condition_true :: "pod_condition list \<Rightarrow> string \<Rightarrow> bool" where
  "job_condition_true [] ty = False"
| "job_condition_true (c # cs) ty =
     (if pc_type c = ty \<and> pc_status c = condition_true then True else job_condition_true cs ty)"

fun has_pod_phase :: "pod list \<Rightarrow> string \<Rightarrow> bool" where
  "has_pod_phase [] phase = False"
| "has_pod_phase (p # ps) phase = (if p_phase p = phase then True else has_pod_phase ps phase)"

definition incomplete_chain :: "snapshot \<Rightarrow> go_error" where
  "incomplete_chain snap = Err (''incomplete chain: AIJobs='' @ show_nat (length (sn_aijobs snap)) @
     '' JobSets='' @ show_nat (length (sn_jobsets snap)) @
     '' Workloads='' @ show_nat (length (sn_workloads snap)) @
     '' Jobs='' @ show_nat (length (sn_jobs snap)) @ '' Pods='' @ show_nat (length (sn_pods snap)))"

text \<open>\<open>batchv1.JobFailed\<close> and \<open>batchv1.JobComplete\<close>.\<close>

definition job_failed :: string where "job_failed = ''Failed''"
definition job_complete :: string where "job_complete = ''Complete''"

definition verify_lifecycle :: "snapshot \<Rightarrow> bool \<Rightarrow> go_error option" where
  "verify_lifecycle snap failed =
     (if length (sn_aijobs snap) \<noteq> 1 \<or> length (sn_jobsets snap) \<noteq> 1 \<or> length (sn_workloads snap) \<noteq> 1 \<or>
         length (sn_jobs snap) \<noteq> 1 \<or> length (sn_pods snap) = 0
      then Some (incomplete_chain snap)
      else if failed then
        (if \<not> meta_condition_true (st_conditions (aj_status (sn_aijobs snap ! 0))) ''Failed'' \<or>
            \<not> jobset_condition_true (js_conditions (sn_jobsets snap ! 0)) ''Failed'' \<or>
            \<not> job_condition_true (jb_conditions (sn_jobs snap ! 0)) job_failed \<or>
            \<not> has_pod_phase (sn_pods snap) pod_failed
         then Some (Err ''failure did not propagate through Pod, Job, JobSet, and AIJob'') else None)
      else
        (if \<not> meta_condition_true (st_conditions (aj_status (sn_aijobs snap ! 0))) ''Completed'' \<or>
            \<not> jobset_condition_true (js_conditions (sn_jobsets snap ! 0)) ''Completed'' \<or>
            \<not> job_condition_true (jb_conditions (sn_jobs snap ! 0)) job_complete
         then Some (Err ''success did not propagate through Job, JobSet, and AIJob'') else None))"

section \<open>Scenarios\<close>

definition scenario_complete :: string where "scenario_complete = ''scenario complete''"

definition success_definition :: "string \<Rightarrow> workload_definition" where
  "success_definition run_id = \<lparr>wd_name = ''success-'' @ run_id, wd_workers = 2, wd_gpu_per_worker = 1,
     wd_args = [''--mode=complete'', ''--duration=1s'']\<rparr>"

definition e2e_failure_definition :: "string \<Rightarrow> workload_definition" where
  "e2e_failure_definition run_id = \<lparr>wd_name = ''failure-'' @ run_id, wd_workers = 2, wd_gpu_per_worker = 1,
     wd_args = [''--mode=complete'', ''--duration=1s'', ''--fail-indexes=1'']\<rparr>"

definition e2e_restart_definition :: "string \<Rightarrow> workload_definition" where
  "e2e_restart_definition run_id = \<lparr>wd_name = ''restart-'' @ run_id, wd_workers = 1, wd_gpu_per_worker = 1,
     wd_args = [''--mode=wait'']\<rparr>"

text \<open>Creating an AIJob, waiting for its condition and checking the chain of its descendants.\<close>

definition check_lifecycle :: "'w cluster \<Rightarrow> string \<Rightarrow> string \<Rightarrow> bool \<Rightarrow> ('w, string list) io" where
  "check_lifecycle cl namespace run_id failed =
     io_bind (discover cl namespace run_id) (\<lambda>snap.
       case verify_lifecycle snap failed of Some e \<Rightarrow> io_fail e | None \<Rightarrow> io_return [scenario_complete])"

definition run_success :: "'w cluster \<Rightarrow> e2e_options \<Rightarrow> string \<Rightarrow> ('w, string list) io" where
  "run_success cl opts run_id =
     io_bind (create_aijob cl (xe_namespace opts) run_id ''e2e-success'' (success_definition run_id)) (\<lambda>_.
     io_bind (wait_for_aijob_condition cl \<lparr>ns_namespace = xe_namespace opts,
         ns_name = wd_name (success_definition run_id)\<rparr> ''Completed'' (xe_timeout opts)) (\<lambda>_.
       check_lifecycle cl (xe_namespace opts) run_id False))"

definition run_failure :: "'w cluster \<Rightarrow> e2e_options \<Rightarrow> string \<Rightarrow> ('w, string list) io" where
  "run_failure cl opts run_id =
     io_bind (create_aijob cl (xe_namespace opts) run_id ''e2e-failure'' (e2e_failure_definition run_id)) (\<lambda>_.
     io_bind (wait_for_aijob_condition cl \<lparr>ns_namespace = xe_namespace opts,
         ns_name = wd_name (e2e_failure_definition run_id)\<rparr> ''Failed'' (xe_timeout opts)) (\<lambda>_.
       check_lifecycle cl (xe_namespace opts) run_id True))"

definition descendants_gone :: "snapshot \<Rightarrow> bool" where
  "descendants_gone snap \<longleftrightarrow>
     sn_aijobs snap = [] \<and> sn_jobsets snap = [] \<and> sn_jobs snap = [] \<and> sn_pods snap = []"

definition wait_for_descendants_gone :: "'w cluster \<Rightarrow> e2e_options \<Rightarrow> string \<Rightarrow> ('w, unit) io" where
  "wait_for_descendants_gone cl opts run_id =
     io_bind (poll cl one_second (xe_timeout opts) (plain_condition
       (io_bind (discover cl (xe_namespace opts) run_id) (\<lambda>snap.
          io_return (if descendants_gone snap then Some SeenReady else None))))) (\<lambda>_. io_return ())"

definition restarted_controller :: "'w cluster \<Rightarrow> e2e_options \<Rightarrow> string \<Rightarrow> ('w, unit) io" where
  "restarted_controller cl opts run_id w =
     (case replace_controller cl (xe_namespace opts) (xe_timeout opts) run_id w of
        ((observed, Some e), w1) \<Rightarrow> (Inl e, w1)
      | ((observed, None), w1) \<Rightarrow> (Inr (), w1))"

definition run_restart_and_cleanup :: "'w cluster \<Rightarrow> e2e_options \<Rightarrow> string \<Rightarrow> ('w, string list) io" where
  "run_restart_and_cleanup cl opts run_id =
     io_bind (create_aijob cl (xe_namespace opts) run_id ''e2e-restart'' (e2e_restart_definition run_id)) (\<lambda>_.
     io_bind (wait_for_pod_scheduled cl (xe_namespace opts) run_id (wd_name (e2e_restart_definition run_id))
       (xe_timeout opts)) (\<lambda>_.
     io_bind (restarted_controller cl opts run_id) (\<lambda>_.
     io_bind (fetch_aijob cl \<lparr>ns_namespace = xe_namespace opts,
         ns_name = wd_name (e2e_restart_definition run_id)\<rparr>) (\<lambda>job.
     io_bind (delete_aijob_object cl (meta_key (aj_meta job))) (\<lambda>_.
     io_bind (wait_for_descendants_gone cl opts run_id) (\<lambda>_.
       io_return [scenario_complete]))))))"

section \<open>Run\<close>

datatype scenario = Success | SelectedWorkerFailure | ControllerRestartCleanup

definition scenario_name :: "scenario \<Rightarrow> string" where
  "scenario_name sc = (case sc of Success \<Rightarrow> ''success''
     | SelectedWorkerFailure \<Rightarrow> ''selected-worker-failure''
     | ControllerRestartCleanup \<Rightarrow> ''controller-restart-cleanup'')"

definition scenarios :: "scenario list" where
  "scenarios = [Success, SelectedWorkerFailure, ControllerRestartCleanup]"

definition run_scenario :: "'w cluster \<Rightarrow> e2e_options \<Rightarrow> scenario \<Rightarrow> string \<Rightarrow> ('w, string list) io" where
  "run_scenario cl opts sc = (case sc of Success \<Rightarrow> run_success cl opts
     | SelectedWorkerFailure \<Rightarrow> run_failure cl opts
     | ControllerRestartCleanup \<Rightarrow> run_restart_and_cleanup cl opts)"

definition e2e_run_prefix :: "string \<Rightarrow> string" where
  "e2e_run_prefix name =
     (if name = ''success'' then ''e2e-ok''
      else if name = ''selected-worker-failure'' then ''e2e-fail''
      else if name = ''controller-restart-cleanup'' then ''e2e-restart''
      else ''e2e'')"

text \<open>The evidence of a failed scenario, which has observed nothing.\<close>

definition failed_scenario ::
    "'w cluster \<Rightarrow> 'w lab_host \<Rightarrow> e2e_options \<Rightarrow> string \<Rightarrow> string \<Rightarrow> go_error \<Rightarrow> 'w \<Rightarrow> go_error option \<times> 'w" where
  "failed_scenario bg host opts name run_id e w =
     (case collect_bundle bg host \<lparr>eo_namespace = xe_namespace opts, eo_run_id = run_id, eo_experiment = name,
          eo_output_dir = xe_output_dir opts, eo_expected = [scenario_complete], eo_observed = []\<rparr> w of
        ((rootdir, collector_err), w1) \<Rightarrow> (errors_join [Some e, collector_err], w1))"

fun scenarios_loop ::
    "'w cluster \<Rightarrow> 'w cluster \<Rightarrow> 'w lab_host \<Rightarrow> e2e_options \<Rightarrow> scenario list \<Rightarrow> go_error option list \<Rightarrow> 'w
      \<Rightarrow> go_error option list \<times> 'w" where
  "scenarios_loop cl bg host opts [] errs w = (errs, w)"
| "scenarios_loop cl bg host opts (sc # scs) errs w =
     (case new_run_id cl host (e2e_run_prefix (scenario_name sc)) w of
        (run_id, w1) \<Rightarrow>
          (case (case run_scenario cl opts sc run_id w1 of
              (Inr observed, w2) \<Rightarrow> (errs, w2)
            | (Inl e, w2) \<Rightarrow>
                (case failed_scenario bg host opts (scenario_name sc) run_id e w2 of
                   (err, w3) \<Rightarrow> (errs @ [err], w3))) of
             (errs', w4) \<Rightarrow>
               (case cleanup bg (xe_namespace opts) (xe_timeout opts) run_id w4 of
                  (Inl e, w5) \<Rightarrow> scenarios_loop cl bg host opts scs (errs' @ [Some e]) w5
                | (Inr _, w5) \<Rightarrow> scenarios_loop cl bg host opts scs errs' w5)))"

definition e2e_run ::
    "'w cluster \<Rightarrow> 'w cluster \<Rightarrow> 'w lab_host \<Rightarrow> e2e_options \<Rightarrow> 'w \<Rightarrow> go_error option \<times> 'w" where
  "e2e_run cl bg host opts w =
     (case scenarios_loop cl bg host opts scenarios [] w of (errs, w1) \<Rightarrow> (errors_join errs, w1))"

end
