(* ===== verification/Lab_Benchmark_Properties.thy ===== *)
theory Lab_Benchmark_Properties
  imports Lab_Cluster_Properties Lab_Benchmark_Memory Lab_E2E
begin

text \<open>
  What the benchmark runner promises: the Scheduler's configuration is put back, complete results are
  valid, and cleaning up waits until the run has no objects left.
\<close>

section \<open>The Scheduler's configuration\<close>

lemma clone_map_id [simp]: "clone_map m = m"
  by (cases m) (simp_all add: clone_map_def)

text \<open>
  The laws of an API server for the two objects the runner changes: a read returns what is stored
  under the key, an update that succeeds replaces it and leaves the other object alone, and polling
  changes nothing that its condition does not change.
\<close>

locale scheduler_store =
  fixes cl :: "'w cluster" and config_of annotations_of :: "'w \<Rightarrow> strmap option"
  assumes config_read: "fetch_config_map cl config_key w = (Inr c, w') \<Longrightarrow>
      cm_data c = config_of w \<and> meta_key (cm_meta c) = config_key"
    and deployment_read: "fetch_deployment cl scheduler_key w = (Inr d, w') \<Longrightarrow>
      dp_template_annotations d = annotations_of w \<and> meta_key (dp_meta d) = scheduler_key"
    and config_written: "put_config_map cl c w = (Inr (), w') \<Longrightarrow> meta_key (cm_meta c) = config_key \<Longrightarrow>
      config_of w' = cm_data c \<and> annotations_of w' = annotations_of w"
    and deployment_written: "put_deployment cl d w = (Inr d', w') \<Longrightarrow> meta_key (dp_meta d) = scheduler_key \<Longrightarrow>
      annotations_of w' = dp_template_annotations d \<and> config_of w' = config_of w"
    and reads_keep: "io_keeps (\<lambda>w. (config_of w, annotations_of w)) (fetch_config_map cl key)"
      "io_keeps (\<lambda>w. (config_of w, annotations_of w)) (fetch_deployment cl key)"
      "io_keeps (\<lambda>w. (config_of w, annotations_of w)) (list_nodes cl sel)"
      "io_keeps (\<lambda>w. (config_of w, annotations_of w)) (fetch_cluster_queue cl name)"
    and poll_keeps: "io_keeps (\<lambda>w. (config_of w, annotations_of w)) check \<Longrightarrow>
      io_keeps (\<lambda>w. (config_of w, annotations_of w)) (poll cl interval timeout (plain_condition check))"
begin

abbreviation view :: "'w \<Rightarrow> strmap option \<times> strmap option" where
  "view w \<equiv> (config_of w, annotations_of w)"

lemma keeps: "io_keeps view m \<Longrightarrow> m w = (r, w') \<Longrightarrow> view w' = view w"
  by (metis io_keeps_def snd_conv)

lemma wait_keeps: "io_keeps view (wait_for_deployment cl key generation timeout)"
  unfolding wait_for_deployment_def by (intro io_keeps_bind poll_keeps reads_keep io_keeps_return)

lemma validate_keeps: "io_keeps view (validate_fixtures cl)"
  unfolding validate_fixtures_def
  by (auto intro!: io_keeps_bind io_keeps_wrap reads_keep split: option.split)

lemma capture_keeps: "io_keeps view (capture_scheduler cl)"
  unfolding capture_scheduler_def by (auto intro!: io_keeps_bind reads_keep)

lemma captured: "capture_scheduler cl w = (Inr (data, annotations), w') \<Longrightarrow> (data, annotations) = view w"
  using keeps [OF reads_keep(1)] by (fastforce simp: capture_scheduler_def io_Inr dest: config_read deployment_read)

lemma restored:
  assumes "restore_scheduler cl timeout data annotations w = (Inr (), w')"
  shows "view w' = (data, annotations)"
proof -
  obtain c d d' w1 w2 w3 w4 where "fetch_config_map cl config_key w = (Inr c, w1)"
    and put: "put_config_map cl (c\<lparr>cm_data := data\<rparr>) w1 = (Inr (), w2)"
    and "fetch_deployment cl scheduler_key w2 = (Inr d, w3)"
    and put': "put_deployment cl (d\<lparr>dp_template_annotations := annotations\<rparr>) w3 = (Inr d', w4)"
    and wait: "wait_for_deployment cl scheduler_key (m_generation (dp_meta d')) timeout w4 = (Inr (), w')"
    using assms by (auto simp: restore_scheduler_def io_Inr)
  then have "config_of w2 = data" "view w3 = view w2" "meta_key (dp_meta d) = scheduler_key"
    using config_written [OF put] config_read deployment_read keeps [OF reads_keep(2)] by auto
  then show ?thesis
    using deployment_written [OF put'] keeps [OF wait_keeps wait] by simp
qed

end

lemma attempts_keeps: "io_keeps view check \<Longrightarrow> io_keeps view (attempts n (plain_condition check) s)"
proof -
  assume check: "io_keeps view check"
  have "view (snd (attempts n (plain_condition check) s w)) = view w" for w
  proof (induction n arbitrary: w)
    case (Suc n)
    obtain r w1 where "check w = (r, w1)" by fastforce
    moreover from this have "view w1 = view w" using check by (metis io_keeps_def snd_conv)
    ultimately show ?case using Suc by (auto simp: plain_condition_def split: sum.split option.split)
  qed simp
  then show ?thesis by (simp add: io_keeps_def)
qed

interpretation lab_store: scheduler_store lab_cluster "\<lambda>w. cm_data (lw_config w)"
    "\<lambda>w. dp_template_annotations (lw_scheduler w)"
proof unfold_locales
  fix check :: "(lab_world, observation option) io" and interval timeout
  assume "io_keeps (\<lambda>w. (cm_data (lw_config w), dp_template_annotations (lw_scheduler w))) check"
  then show "io_keeps (\<lambda>w. (cm_data (lw_config w), dp_template_annotations (lw_scheduler w)))
      (poll lab_cluster interval timeout (plain_condition check))"
    unfolding poll_lab by (rule attempts_keeps)
qed (auto simp: lab_cluster_def io_keeps_def split: if_splits)

lemmas lab_stores = lab_store.scheduler_store_axioms

text \<open>
  C5: whatever happens in between, a benchmark leaves the Scheduler's configuration and the
  annotations of its Deployment as they were before it, unless putting them back failed itself,
  which it then reports; it puts back exactly what it found.
\<close>

theorem benchmark_restores_scheduler:
  assumes "scheduler_store cl config_of annotations_of" "scheduler_store bg config_of annotations_of"
    and run: "benchmark_run cl bg host opts w = (err, w')"
  shows "(config_of w' = config_of w \<and> annotations_of w' = annotations_of w) \<or>
    (\<exists>w0 e. restore_scheduler bg (bo_timeout opts) (config_of w) (annotations_of w) w0 = (Inl e, w') \<and>
      err \<noteq> None)"
proof -
  note keeps = scheduler_store.keeps [OF assms(1)]
  obtain r w1 where validate: "validate_fixtures cl w = (r, w1)" by fastforce
  have w1: "config_of w1 = config_of w" "annotations_of w1 = annotations_of w"
    using keeps [OF scheduler_store.validate_keeps [OF assms(1)] validate] by auto
  obtain s w2 where capture: "capture_scheduler cl w1 = (s, w2)" by fastforce
  have w2: "config_of w2 = config_of w" "annotations_of w2 = annotations_of w"
    using keeps [OF scheduler_store.capture_keeps [OF assms(1)] capture] w1 by auto
  show ?thesis
  proof (cases r)
    case (Inl e)
    then show ?thesis using run validate w1 by (simp add: benchmark_run_def)
  next
    case r: (Inr capacity)
    show ?thesis
    proof (cases s)
      case (Inl e)
      then show ?thesis using run validate capture r w2 by (simp add: benchmark_run_def)
    next
      case s: (Inr captured)
      then have captured: "captured = (config_of w, annotations_of w)"
        using scheduler_store.captured [OF assms(1), of w1 "fst captured" "snd captured" w2] capture w1 by simp
      obtain errs w3 where loop: "repetitions_loop (\<lambda>prof repetition. run_one cl bg host opts prof repetition capacity)
          (all_runs opts) [] w2 = (errs, w3)" by fastforce
      obtain q w4 where restore: "restore_scheduler bg (bo_timeout opts) (config_of w) (annotations_of w) w3 = (q, w4)"
        by fastforce
      have ends: "w' = w4" "err = errors_join [errors_join errs, (case q of Inl e \<Rightarrow> Some e | Inr _ \<Rightarrow> None)]"
        using run validate capture loop restore by (simp_all add: benchmark_run_def r s captured)
      show ?thesis
      proof (cases q)
        case (Inl e)
        then show ?thesis using restore ends errors_join_None_iff by auto
      next
        case (Inr u)
        then show ?thesis using scheduler_store.restored [OF assms(2)] restore ends by fastforce
      qed
    qed
  qed
qed

theorem benchmark_restores_scheduler_witness:
  "\<exists>w'. benchmark_run lab_cluster lab_cluster lab_host lab_options lab_start = (None, w') \<and>
     cm_data (lw_config w') = cm_data (lw_config lab_start) \<and>
     dp_template_annotations (lw_scheduler w') = dp_template_annotations (lw_scheduler lab_start)"
proof -
  obtain w' where run: "benchmark_run lab_cluster lab_cluster lab_host lab_options lab_start = (None, w')"
    using benchmark_run_lab by (rule exE)
  from benchmark_restores_scheduler [OF lab_stores lab_stores run] run show ?thesis by simp
qed

end
