(* ===== verification/Lab_Benchmark_Results.thy ===== *)
theory Lab_Benchmark_Results
  imports Lab_Benchmark_Properties
begin

text \<open>
  The results that benchmark runs write, and whether \<open>ValidateResult\<close> accepts them: pre- and
  postconditions of the stages of \<open>runOne\<close>, and the properties that follow from them.
\<close>

section \<open>Reasoning about stages\<close>

text \<open>
  From results and worlds that satisfy \<open>P\<close>, the stage ends normally in ones that satisfy \<open>Q\<close>, or
  early with a result that satisfies \<open>E\<close>.
\<close>

definition stage_ok ::
    "(benchmark_result \<Rightarrow> 'w \<Rightarrow> bool) \<Rightarrow> 'w stage \<Rightarrow> (benchmark_result \<Rightarrow> 'w \<Rightarrow> bool) \<Rightarrow> (benchmark_result \<Rightarrow> bool) \<Rightarrow> bool"
  where "stage_ok P f Q E \<longleftrightarrow> (\<forall>r w. P r w \<longrightarrow>
    (case f r w of ((r', None), w') \<Rightarrow> Q r' w' | ((r', Some e), w') \<Rightarrow> E r'))"

lemma stage_okD:
  assumes "stage_ok P f Q E" and "P r w" and "f r w = ((r', err), w')"
  shows "if err = None then Q r' w' else E r'"
  using assms(1) [unfolded stage_ok_def, rule_format, OF assms(2)] assms(3) by (cases err) simp_all

lemma stage_ok_then:
  assumes "stage_ok P f Q E" and "stage_ok Q g R E"
  shows "stage_ok P (stage_then f g) R E"
  using assms unfolding stage_ok_def stage_then_def by (fastforce split: prod.splits option.splits)

lemma stage_ok_call:
  assumes "\<And>r w x w'. P r w \<Longrightarrow> call w = (Inr x, w') \<Longrightarrow> Q x r w'" and "\<And>x. stage_ok (Q x) (f x) R E"
    and "\<And>r w. P r w \<Longrightarrow> E r"
  shows "stage_ok P (stage_call call f) R E"
  unfolding stage_ok_def
proof (intro allI impI)
  fix r w assume P: "P r w"
  obtain y w' where call: "call w = (y, w')" by fastforce
  show "case stage_call call f r w of ((r', None), w') \<Rightarrow> R r' w' | ((r', Some e), w') \<Rightarrow> E r'"
  proof (cases y)
    case (Inl e)
    then show ?thesis using call P assms(3) by (simp add: stage_call_def)
  next
    case (Inr x)
    have "Q x r w'" using assms(1) [OF P] call Inr by simp
    then show ?thesis using assms(2) [of x] call Inr by (auto simp: stage_ok_def stage_call_def)
  qed
qed

lemma stage_ok_call_pure:
  assumes "\<And>x. stage_ok (\<lambda>r w. p r) (f x) R E" and "\<And>r. p r \<Longrightarrow> E r"
  shows "stage_ok (\<lambda>r w. p r) (stage_call call f) R E"
  by (rule stage_ok_call [where Q = "\<lambda>x r w. p r"]) (use assms in auto)

lemma stage_ok_dep:
  assumes "\<And>a. stage_ok (\<lambda>r w. P r w \<and> h r = a) (g a) R E"
  shows "stage_ok P (\<lambda>r. g (h r) r) R E"
  using assms by (simp add: stage_ok_def)

lemma stage_ok_update: "(\<And>r w. P r w \<Longrightarrow> Q (f r) w) \<Longrightarrow> stage_ok P (stage_update f) Q E"
  by (simp add: stage_ok_def stage_update_def)

lemma stage_ok_done: "(\<And>r w. P r w \<Longrightarrow> Q r w) \<Longrightarrow> stage_ok P stage_done Q E"
  by (simp add: stage_ok_def stage_done_def)

lemma stage_ok_pre: "stage_ok P f Q E \<Longrightarrow> (\<And>r w. P' r w \<Longrightarrow> P r w) \<Longrightarrow> stage_ok P' f Q E"
  by (simp add: stage_ok_def)

section \<open>Results\<close>

text \<open>The part of a result that is fixed when a run starts.\<close>

definition identity_of :: "benchmark_result \<Rightarrow> string \<times> string \<times> time \<times> string \<times> cluster_capacity \<times> string list" where
  "identity_of r = (br_schema_version r, br_run_id r, br_timestamp r, br_profile r, br_cluster r, br_missing r)"

definition unit_ratio :: "benchmark_result \<Rightarrow> bool" where
  "unit_ratio r \<longleftrightarrow> 0 \<le> fr_ratio (me_fragmentation (br_measurements r)) \<and>
     fr_ratio (me_fragmentation (br_measurements r)) \<le> 1"

definition recovery_of :: "benchmark_result \<Rightarrow> recovery" where
  "recovery_of r = me_recovery (br_measurements r)"

definition target_of :: "benchmark_result \<Rightarrow> int64" where
  "target_of r = fr_target (me_fragmentation (br_measurements r))"

lemmas result_parts = identity_of_def unit_ratio_def recovery_of_def target_of_def

lemma update_parts:
  "identity_of (add_workload d r) = identity_of r" "unit_ratio (add_workload d r) = unit_ratio r"
  "recovery_of (add_workload d r) = recovery_of r" "target_of (add_workload d r) = target_of r"
  "identity_of (set_outcome n out r) = identity_of r" "unit_ratio (set_outcome n out r) = unit_ratio r"
  "recovery_of (set_outcome n out r) = recovery_of r" "target_of (set_outcome n out r) = target_of r"
  "identity_of (update_recovery f r) = identity_of r" "unit_ratio (update_recovery f r) = unit_ratio r"
  "recovery_of (update_recovery f r) = f (recovery_of r)" "target_of (update_recovery f r) = target_of r"
  "identity_of (set_makespan s r) = identity_of r" "unit_ratio (set_makespan s r) = unit_ratio r"
  "recovery_of (set_makespan s r) = recovery_of r" "target_of (set_makespan s r) = target_of r"
  "identity_of (measure_fragmentation iter snap r) = identity_of r"
  "recovery_of (measure_fragmentation iter snap r) = recovery_of r"
  "br_workloads (add_workload d r) = br_workloads r @ [d]"
  "br_workloads (measure_fragmentation iter snap r) = br_workloads r"
  "br_workloads (update_recovery f r) = br_workloads r"
  by (simp_all add: result_parts add_workload_def set_outcome_def update_recovery_def set_makespan_def
      measure_fragmentation_def Let_def)

lemma seconds_between_nonneg:
  assumes "u \<le> t"
  shows "0 \<le> seconds_between t u"
proof -
  let ?d = "time_sub t u"
  have d: "0 \<le> ?d" using assms by (simp add: time_sub_def)
  then have "go_div ?d (10 ^ 9) = ?d div 10 ^ 9" by (simp add: go_div_nonneg)
  then have "0 \<le> go_div ?d (10 ^ 9)" "0 \<le> ?d - go_div ?d (10 ^ 9) * 10 ^ 9"
    using d by (simp_all add: minus_div_mult_eq_mod)
  then show ?thesis
    by (simp add: seconds_between_def duration_seconds_def Let_def f64_add_def f64_div_def f64_of_int_def
        f64_round_nonneg)
qed

lemma measured_unit_ratio:
  assumes "sane_nodes (sn_nodes snap)" and "no_negative_request (sn_pods snap)"
    and "\<And>S. finite S \<Longrightarrow> distinct (iter S) \<and> set (iter S) = S"
  shows "unit_ratio (measure_fragmentation iter snap r)" and "target_of (measure_fragmentation iter snap r) = 4"
proof -
  note free = free_gpus_bounded [OF assms(1,2)]
  have "0 \<le> fr_ratio (calculate_fragmentation (iter (dom (free_gpus (sn_nodes snap) (sn_pods snap))))
      (free_gpus (sn_nodes snap) (sn_pods snap)) 4 ''all-simulated-gpu-nodes'') \<and>
    fr_ratio (calculate_fragmentation (iter (dom (free_gpus (sn_nodes snap) (sn_pods snap))))
      (free_gpus (sn_nodes snap) (sn_pods snap)) 4 ''all-simulated-gpu-nodes'') \<le> 1"
    using fragmentation_facts [OF _ _ _ free(2,3) refl, of "iter (dom (free_gpus (sn_nodes snap) (sn_pods snap)))" 4]
      assms(3) [OF free(1)] by simp
  then show "unit_ratio (measure_fragmentation iter snap r)"
    by (simp add: unit_ratio_def measure_fragmentation_def Let_def)
  show "target_of (measure_fragmentation iter snap r) = 4"
    by (simp add: target_of_def measure_fragmentation_def Let_def calculate_fragmentation_target)
qed

text \<open>The recovery part of a result between the release and the rescheduling of the probe.\<close>

definition released_recovery :: "string \<Rightarrow> time \<Rightarrow> recovery \<Rightarrow> bool" where
  "released_recovery holder released_at rc \<longleftrightarrow> holder \<noteq> [] \<and> rc_attempted rc \<and> rc_initially_unschedulable rc \<and>
     rc_released_workload rc = holder \<and> rc_released_at rc = Some released_at"

lemma recovered_release:
  assumes "released_recovery holder released_at rc" and "released_at \<le> recovered_at"
  shows "recovered_after_release (rc\<lparr>rc_recovered_at := Some recovered_at,
    rc_latency := Some (seconds_between recovered_at released_at), rc_recovered := True\<rparr>)"
  using assms seconds_between_nonneg by (simp add: released_recovery_def recovered_after_release_def)

text \<open>The recovery of a finished run, by whether its probe should fit.\<close>

definition recovery_matches :: "bool \<Rightarrow> recovery \<Rightarrow> bool" where
  "recovery_matches fit rc = (if fit then rc = empty_recovery else recovered_after_release rc)"

text \<open>
  What the runs rely on of a cluster: a clock that does not go back, nodes within the documented
  limits, and Pods without negative requests.
\<close>

locale sane_cluster =
  fixes cl :: "'w cluster" and now_of :: "'w \<Rightarrow> time"
  assumes clock_forward: "clock cl w = (t, w') \<Longrightarrow> 0 < t \<and> now_of w \<le> t \<and> t \<le> now_of w'"
    and deletes_forward: "now_of w \<le> now_of (snd (delete_aijob_object cl key w))"
    and lists_forward: "now_of w \<le> now_of (snd (list_pods cl namespace sel w))"
    and poll_forward: "(\<And>w. now_of w \<le> now_of (snd (check w))) \<Longrightarrow>
      now_of w \<le> now_of (snd (poll cl interval timeout (plain_condition check) w))"
    and nodes_sane: "list_nodes cl sel w = (Inr nodes, w') \<Longrightarrow> sane_nodes nodes"
    and requests_sane: "list_pods cl namespace sel w = (Inr pods, w') \<Longrightarrow> no_negative_request pods"
begin

lemma discovered_sane:
  assumes "discover cl namespace run_id w = (Inr snap, w')"
  shows "sane_nodes (sn_nodes snap)" and "no_negative_request (sn_pods snap)"
  using assms by (auto elim!: discover_parts dest: nodes_sane requests_sane)

lemma scheduled_forward:
  "wait_for_pod_scheduled cl namespace run_id wl timeout w = (r, w') \<Longrightarrow> now_of w \<le> now_of w'"
proof -
  let ?check = "io_bind (list_pods cl namespace (workload_selector run_id wl)) (\<lambda>pods.
    io_return (map_option SeenPod (find_scheduled pods)))"
  have "now_of w \<le> now_of (snd (?check w))" for w
    using lists_forward [of w namespace "workload_selector run_id wl"]
    by (auto simp: io_bind_def io_return_def split: prod.split sum.split)
  from poll_forward [OF this, of w half_second timeout]
  show "wait_for_pod_scheduled cl namespace run_id wl timeout w = (r, w') \<Longrightarrow> now_of w \<le> now_of w'"
    by (auto simp: wait_for_pod_scheduled_def io_wrap_def split: prod.splits sum.splits)
qed

text \<open>Every exit of the stages keeps what identifies the run and leaves the ratio in range.\<close>

abbreviation basic :: "benchmark_result \<Rightarrow> benchmark_result \<Rightarrow> bool" where
  "basic r0 r \<equiv> identity_of r = identity_of r0 \<and> unit_ratio r"

abbreviation placing :: "benchmark_result \<Rightarrow> benchmark_result \<Rightarrow> bool" where
  "placing r0 r \<equiv> basic r0 r \<and> recovery_of r = empty_recovery \<and>
     list_all (\<lambda>d. wd_name d \<noteq> []) (br_workloads r)"

lemma holders_ok: "stage_ok (\<lambda>r w. placing r0 r) (holders_loop cl opts run_id indexes)
    (\<lambda>r w. placing r0 r) (basic r0)"
proof (induction indexes)
  case (Cons i indexes)
  show ?case unfolding holders_loop.simps
    by (rule stage_ok_then [OF stage_ok_update stage_ok_call_pure [OF stage_ok_call_pure [OF Cons.IH]]])
      (simp_all add: update_parts holder_definition_def)
qed (simp add: stage_ok_done)

lemma await_recovery_ok:
  "stage_ok (\<lambda>r w. (basic r0 r \<and> target_of r = 4 \<and> released_recovery holder released_at (recovery_of r)) \<and>
      released_at \<le> now_of w)
    (await_recovery cl opts run_id released_at)
    (\<lambda>r w. basic r0 r \<and> target_of r = 4 \<and> recovered_after_release (recovery_of r)) (basic r0)"
proof -
  let ?P = "\<lambda>r. basic r0 r \<and> target_of r = 4 \<and> released_recovery holder released_at (recovery_of r)"
  let ?wait = "wait_for_pod_scheduled cl (bo_namespace opts) run_id (wd_name (probe_definition run_id))
    (bo_timeout opts)"
  let ?Q = "\<lambda>recovered_at r. basic r0 r \<and> target_of r = 4 \<and> recovered_after_release ((recovery_of r)\<lparr>rc_recovered := True\<rparr>)"
  have tail: "stage_ok (\<lambda>r w. ?P r \<and> released_at \<le> recovered_at)
      (stage_then (stage_update (scheduled_probe released_at recovered_at))
        (stage_call (wait_for_aijob_condition cl (probe_key opts run_id) ''Completed'' (bo_timeout opts)) (\<lambda>_.
          stage_update (recovered_probe (wd_name (probe_definition run_id))))))
      (\<lambda>r w. basic r0 r \<and> target_of r = 4 \<and> recovered_after_release (recovery_of r)) (basic r0)" for recovered_at
    by (rule stage_ok_then [OF stage_ok_update stage_ok_call_pure [where p = "?Q recovered_at", OF stage_ok_update]])
      (auto simp: scheduled_probe_def recovered_probe_def update_parts intro: recovered_release)
  show ?thesis
    unfolding await_recovery_def
    by (rule stage_ok_call [where Q = "\<lambda>_ r w. ?P r \<and> released_at \<le> now_of w",
          OF _ stage_ok_call [where Q = "\<lambda>recovered_at r w. ?P r \<and> released_at \<le> recovered_at", OF _ tail]])
      (auto simp: read_clock_def split: prod.splits dest!: scheduled_forward clock_forward)
qed

lemma release_holder_ok:
  assumes "holder \<noteq> []"
  shows "stage_ok (\<lambda>r w. basic r0 r \<and> target_of r = 4 \<and> rc_attempted (recovery_of r) \<and>
      rc_initially_unschedulable (recovery_of r) \<and> rc_released_workload (recovery_of r) = holder)
    (release_holder cl opts run_id holder)
    (\<lambda>r w. basic r0 r \<and> target_of r = 4 \<and> recovered_after_release (recovery_of r)) (basic r0)"
proof -
  let ?P = "\<lambda>r. basic r0 r \<and> target_of r = 4 \<and> rc_attempted (recovery_of r) \<and>
    rc_initially_unschedulable (recovery_of r) \<and> rc_released_workload (recovery_of r) = holder"
  have deleted: "now_of w \<le> now_of w'"
    if "io_wrap msg (delete_aijob_object cl key) w = (r, w')" for msg key w r w'
    using that deletes_forward [of w key] by (auto simp: io_wrap_def split: prod.splits sum.splits)
  show ?thesis
    unfolding release_holder_def
    by (rule stage_ok_call [where Q = "\<lambda>released_at r w. ?P r \<and> released_at \<le> now_of w", OF _
          stage_ok_call [where Q = "\<lambda>_ r w. ?P r \<and> _ \<le> now_of w", OF _
            stage_ok_then [OF stage_ok_update await_recovery_ok [where holder = holder]]]])
      (use assms in \<open>auto simp: read_clock_def released_holder_def update_parts released_recovery_def
        split: prod.splits dest!: clock_forward deleted\<close>)
qed

lemma recover_probe_ok:
  "stage_ok (\<lambda>r w. basic r0 r \<and> target_of r = 4 \<and> wd_name (hd (br_workloads r)) \<noteq> [])
    (recover_probe cl opts run_id)
    (\<lambda>r w. basic r0 r \<and> target_of r = 4 \<and> recovered_after_release (recovery_of r)) (basic r0)"
  unfolding recover_probe_def Let_def
proof (rule stage_ok_call_pure)
  fix ob
  have "stage_ok (\<lambda>r w. (basic r0 r \<and> target_of r = 4 \<and> wd_name (hd (br_workloads r)) \<noteq> []) \<and>
        wd_name (hd (br_workloads r)) = holder)
      (stage_then (stage_update (blocked_probe holder (observed_pod ob))) (release_holder cl opts run_id holder))
      (\<lambda>r w. basic r0 r \<and> target_of r = 4 \<and> recovered_after_release (recovery_of r)) (basic r0)" for holder
  proof (cases "holder = []")
    case True
    then show ?thesis by (simp add: stage_ok_def)
  next
    case False
    show ?thesis
      by (rule stage_ok_then [OF stage_ok_update release_holder_ok [OF False]])
        (auto simp: blocked_probe_def update_parts)
  qed
  then show "stage_ok (\<lambda>r w. basic r0 r \<and> target_of r = 4 \<and> wd_name (hd (br_workloads r)) \<noteq> [])
      (\<lambda>r. stage_then (stage_update (blocked_probe (wd_name (hd (br_workloads r))) (observed_pod ob)))
         (release_holder cl opts run_id (wd_name (hd (br_workloads r)))) r)
      (\<lambda>r w. basic r0 r \<and> target_of r = 4 \<and> recovered_after_release (recovery_of r)) (basic r0)"
    by (rule stage_ok_dep)
qed simp

lemma fit_probe_ok:
  "stage_ok (\<lambda>r w. basic r0 r \<and> target_of r = 4 \<and> recovery_of r = empty_recovery) (fit_probe cl opts run_id)
    (\<lambda>r w. basic r0 r \<and> target_of r = 4 \<and> recovery_of r = empty_recovery) (basic r0)"
  unfolding fit_probe_def
  by (intro stage_ok_call_pure stage_ok_update) (simp_all add: update_parts)

lemma probe_stages_ok:
  assumes iter: "\<And>S. finite S \<Longrightarrow> distinct (lh_iter host S) \<and> set (lh_iter host S) = S"
  shows "stage_ok (\<lambda>r w. placing r0 r) (probe_stages cl host opts prof run_id)
    (\<lambda>r w. basic r0 r \<and> target_of r = 4 \<and> recovery_matches (pf_probe_should_fit prof) (recovery_of r)) (basic r0)"
  unfolding probe_stages_def
proof (rule stage_ok_call [where Q = "\<lambda>snap r w. placing r0 r \<and> sane_nodes (sn_nodes snap) \<and>
    no_negative_request (sn_pods snap)"])
  fix snap
  let ?P = "\<lambda>r. placing r0 r \<and> target_of r = 4 \<and> wd_name (hd (br_workloads r)) \<noteq> []"
  have hd_named: "list_all (\<lambda>d. wd_name d \<noteq> []) ds \<Longrightarrow> wd_name d \<noteq> [] \<Longrightarrow> wd_name (hd (ds @ [d])) \<noteq> []" for ds d
    by (cases ds) simp_all
  have branch: "stage_ok (\<lambda>r w. ?P r)
      (if pf_probe_should_fit prof then fit_probe cl opts run_id else recover_probe cl opts run_id)
      (\<lambda>r w. basic r0 r \<and> target_of r = 4 \<and> recovery_matches (pf_probe_should_fit prof) (recovery_of r)) (basic r0)"
    using stage_ok_pre [OF fit_probe_ok [of r0 opts run_id], of "\<lambda>r w. ?P r"]
      stage_ok_pre [OF recover_probe_ok [of r0 opts run_id], of "\<lambda>r w. ?P r"]
    by (simp add: recovery_matches_def)
  show "stage_ok (\<lambda>r w. placing r0 r \<and> sane_nodes (sn_nodes snap) \<and> no_negative_request (sn_pods snap))
      (stage_then (stage_update (\<lambda>result. add_workload (probe_definition run_id)
          (measure_fragmentation (lh_iter host) snap result)))
        (stage_call (create_aijob cl (bo_namespace opts) run_id ''benchmark'' (probe_definition run_id)) (\<lambda>_.
          if pf_probe_should_fit prof then fit_probe cl opts run_id else recover_probe cl opts run_id)))
      (\<lambda>r w. basic r0 r \<and> target_of r = 4 \<and> recovery_matches (pf_probe_should_fit prof) (recovery_of r)) (basic r0)"
    by (rule stage_ok_then [OF stage_ok_update stage_ok_call_pure [OF branch]])
      (use measured_unit_ratio iter in \<open>simp_all add: update_parts probe_definition_def hd_named\<close>)
qed (auto dest: discovered_sane)

lemma benchmark_stages_ok:
  assumes "\<And>S. finite S \<Longrightarrow> distinct (lh_iter host S) \<and> set (lh_iter host S) = S"
  shows "stage_ok (\<lambda>r w. placing r0 r) (benchmark_stages cl host opts prof run_id)
    (\<lambda>r w. basic r0 r \<and> target_of r = 4 \<and> recovery_matches (pf_probe_should_fit prof) (recovery_of r)) (basic r0)"
  unfolding benchmark_stages_def
  by (intro stage_ok_call_pure stage_ok_then [OF holders_ok] stage_ok_then [OF probe_stages_ok [OF assms]]
      stage_ok_update) (simp_all add: update_parts)

end

lemma attempts_forward:
  assumes "\<And>w. lw_time w \<le> lw_time (snd (check w))"
  shows "lw_time w \<le> lw_time (snd (attempts n (plain_condition check) s w))"
proof (induction n arbitrary: w)
  case (Suc n)
  obtain r w1 where check: "check w = (r, w1)" by fastforce
  then have "lw_time w \<le> lw_time w1" using assms [of w] by simp
  moreover have "lw_time w1 \<le> lw_time (snd (attempts n (plain_condition check) s w1))" by (rule Suc.IH)
  moreover have "plain_condition check s w = ((r, s), w1)" using check by (simp add: plain_condition_def)
  ultimately show ?case by (auto split: sum.split option.split)
qed simp

lemma sane_nodes_filter: "sane_nodes nodes \<Longrightarrow> sane_nodes (filter P nodes)"
  by (auto simp: sane_nodes_def distinct_map intro: inj_on_subset le_trans [OF length_filter_le])

lemma sane_bench_nodes: "sane_nodes bench_nodes"
  by (simp add: sane_nodes_def bench_nodes_def bench_node_def new_meta_def quantity_value_def)

interpretation lab_sane: sane_cluster lab_cluster "\<lambda>w. int (lw_time w)"
proof unfold_locales
  fix check :: "(lab_world, observation option) io" and w interval timeout
  assume "\<And>w. int (lw_time w) \<le> int (lw_time (snd (check w)))"
  then show "int (lw_time w) \<le> int (lw_time (snd (poll lab_cluster interval timeout (plain_condition check) w)))"
    unfolding poll_lab of_nat_le_iff by (intro attempts_forward) simp
next
  fix sel w nodes and w' :: lab_world
  assume "list_nodes lab_cluster sel w = (Inr nodes, w')"
  then show "sane_nodes nodes"
    by (auto simp: lab_cluster_def intro: sane_nodes_filter sane_bench_nodes)
next
  fix namespace sel w pods and w' :: lab_world
  assume "list_pods lab_cluster namespace sel w = (Inr pods, w')"
  then have "set pods \<subseteq> set (lab_pods w)" by (auto simp: lab_cluster_def)
  moreover have "0 \<le> pod_gpu_request (pod_of j nd)" for j nd
    using bench_pod_request [of "s_gpu_per_worker (aj_spec j) mod 2 ^ 32" "[]" nd "''Running''"]
    by (simp add: pod_gpu_request_def pod_of_def)
  ultimately show "no_negative_request pods"
    by (auto simp: no_negative_request_def lab_pods_def)
qed (auto simp: lab_cluster_def)

text \<open>What the deferred part leaves alone.\<close>

definition same_run :: "benchmark_result \<Rightarrow> benchmark_result \<Rightarrow> bool" where
  "same_run r r' \<longleftrightarrow> br_schema_version r' = br_schema_version r \<and> br_run_id r' = br_run_id r \<and>
     br_timestamp r' = br_timestamp r \<and> br_profile r' = br_profile r \<and> br_cluster r' = br_cluster r \<and>
     br_workloads r' = br_workloads r \<and>
     me_fragmentation (br_measurements r') = me_fragmentation (br_measurements r) \<and>
     me_recovery (br_measurements r') = me_recovery (br_measurements r)"

lemma collect_result_same:
  assumes "collect_result cl codec namespace r w = ((r', err), w')"
  shows "same_run r r' \<and> br_missing r' = br_missing r"
  using assms
  by (auto simp: collect_result_def same_run_def describe_run_def count_run_def Let_def
      split: prod.splits sum.splits if_splits option.splits)

lemma finish_result_same:
  assumes "finish_result bg host opts run_err r w = (r', w')"
  shows "same_run r r' \<and> (br_complete r' \<longleftrightarrow> br_missing r' = []) \<and> (br_complete r' \<longrightarrow> run_err = None)"
proof -
  let ?r0 = "case run_err of None \<Rightarrow> r | Some e \<Rightarrow> add_missing (error_text e) r"
  obtain r1 err w1 where r1: "collect_result bg (lh_codec host) (bo_namespace opts) ?r0 w = ((r1, err), w1)"
    by (metis prod.exhaust)
  define r2 where "r2 = (case err of None \<Rightarrow> r1
    | Some e \<Rightarrow> add_missing (''final snapshot: '' @ error_text e) r1)"
  obtain rootdir err' w2 where ev: "collect_evidence bg host opts r2 w1 = ((rootdir, err'), w2)"
    by (metis prod.exhaust)
  have r': "r' = (let result = r2\<lparr>br_evidence := br_evidence r2 @ [rootdir]\<rparr>;
      result = (case err' of None \<Rightarrow> result | Some e \<Rightarrow> add_missing (''evidence: '' @ error_text e) result)
    in result\<lparr>br_complete := run_err = None \<and> br_missing result = []\<rparr>)"
    using assms unfolding finish_result_def Let_def r1 prod.case r2_def [symmetric] ev by simp
  have "same_run ?r0 r1" "br_missing r1 = br_missing ?r0" using collect_result_same [OF r1] by auto
  then have "same_run r r1" "run_err \<noteq> None \<longrightarrow> br_missing r1 \<noteq> []"
    by (auto simp: same_run_def add_missing_def split: option.splits)
  then have "same_run r r2" "run_err \<noteq> None \<longrightarrow> br_missing r2 \<noteq> []"
    by (auto simp: r2_def same_run_def add_missing_def split: option.splits)
  then show ?thesis
    by (auto simp: r' Let_def same_run_def add_missing_def split: option.splits)
qed

lemma new_run_id_nonempty: "new_run_id cl host prefix w = (run_id, w') \<Longrightarrow> run_id \<noteq> []"
  by (auto simp: new_run_id_def split: prod.splits)

text \<open>A profile behaves as its name says.\<close>

definition known_profile :: "profile \<Rightarrow> bool" where
  "known_profile prof \<longleftrightarrow>
     pf_name prof = (if pf_probe_should_fit prof then profile_optimized else profile_baseline)"



text \<open>Placing the holders measures nothing, and a failure leaves a workload behind.\<close>

lemma holders_loop_unmeasured:
  "stage_ok (\<lambda>r w. target_of r = 0) (holders_loop cl opts run_id indexes) (\<lambda>r w. target_of r = 0)
    (\<lambda>r. target_of r = 0 \<and> br_workloads r \<noteq> [])"
proof (induction indexes)
  case (Cons i indexes)
  let ?p = "\<lambda>r. target_of r = 0 \<and> br_workloads r \<noteq> []"
  have rest: "stage_ok (\<lambda>r w. ?p r) (holders_loop cl opts run_id indexes) (\<lambda>r w. target_of r = 0) ?p"
    by (rule stage_ok_pre [OF Cons.IH]) simp
  show ?case unfolding holders_loop.simps
    by (rule stage_ok_then [OF stage_ok_update stage_ok_call_pure [where p = ?p, OF stage_ok_call_pure [where p = ?p, OF rest]]])
      (simp_all add: update_parts)
qed (simp add: stage_ok_done)

text \<open>
  Validation rejects the partial result of a run that failed while it placed its holders, although
  the result is marked incomplete and says what is missing: its fragmentation was never measured, so
  the target is not the four GPUs that validation asks for.
\<close>

lemma partial_result_rejected:
  assumes "holders_loop cl opts run_id indexes (new_result run_id now prof capacity) w = ((r, Some e), w1)"
    and "finish_result bg host opts (Some e) r w1 = (result, w2)"
  shows "\<not> br_complete result \<and> br_missing result \<noteq> [] \<and> validate_result result \<noteq> None"
proof -
  have "target_of (new_result run_id now prof capacity) = 0"
    by (simp add: target_of_def new_result_def empty_measurements_def empty_fragmentation_def)
  then have "target_of r = 0" "br_workloads r \<noteq> []"
    using stage_okD [OF holders_loop_unmeasured _ assms(1)] by simp_all
  then show ?thesis
    using finish_result_same [OF assms(2)]
    by (auto simp: validate_result_iff consistent_result_def same_run_def target_of_def)
qed

lemma partial_result_rejected_example:
  "\<exists>r e w1. holders_loop (lab_cluster\<lparr>create_aijob_object := \<lambda>j w. (Inl (Err ''forbidden''), w)\<rparr>) lab_options ''run'' [1]
     (new_result ''run'' 5 lab_profile \<lparr>cc_eligible_nodes = 3, cc_gpu_per_node = 4, cc_total_gpus = 12\<rparr>) lab_start
       = ((r, Some e), w1) \<and>
     validate_result (fst (finish_result lab_cluster lab_host lab_options (Some e) r w1)) \<noteq> None"
proof -
  let ?cl = "lab_cluster\<lparr>create_aijob_object := \<lambda>j w. (Inl (Err ''forbidden''), w)\<rparr>"
  let ?r0 = "new_result ''run'' 5 lab_profile \<lparr>cc_eligible_nodes = 3, cc_gpu_per_node = 4, cc_total_gpus = 12\<rparr>"
  obtain r e w1 where stage: "holders_loop ?cl lab_options ''run'' [1] ?r0 lab_start = ((r, Some e), w1)"
    by (simp add: stage_then_def stage_update_def stage_call_def create_aijob_def io_wrap_def)
  obtain result w2 where finish: "finish_result lab_cluster lab_host lab_options (Some e) r w1 = (result, w2)" by fastforce
  show ?thesis
    using partial_result_rejected [OF stage finish] stage finish
    by (intro exI [of _ r] exI [of _ e] exI [of _ w1]) simp
qed

end
