(* ===== verification/Labctl.thy ===== *)
theory Labctl
  imports Lab_E2E Go_Flag
begin

text \<open>
  \<open>cmd/labctl/main.go\<close> and \<open>NewCluster\<close> of \<open>internal/lab/cluster.go\<close>: the commands of \<open>labctl\<close>,
  from their flags to the runners. The kubeconfig, the construction of the clients, file globbing
  and the contexts of the runners are parameters: \<open>le_signalled\<close> gives the cluster's calls the
  context that a signal cancels, \<open>le_background\<close> the contexts the runners make for cleaning up.
\<close>

section \<open>The cluster's clients\<close>

record 'w client_parts =
  load_config :: "('w, string) io"
  scheme_adders :: "go_error option list"
  new_typed_client :: "string \<Rightarrow> go_error + 'w cluster"
  new_clientset :: "string \<Rightarrow> go_error + ('w cluster \<Rightarrow> 'w cluster)"

fun add_schemes :: "go_error option list \<Rightarrow> go_error option" where
  "add_schemes [] = None"
| "add_schemes (err # adders) = (case err of Some e \<Rightarrow> Some e | None \<Rightarrow> add_schemes adders)"

text \<open>The clientset completes the typed client with the calls of \<open>cluster.Core\<close>.\<close>

definition new_cluster :: "'w client_parts \<Rightarrow> ('w, 'w cluster) io" where
  "new_cluster parts =
     io_bind (io_wrap ''load kubeconfig'' (load_config parts)) (\<lambda>config.
       case add_schemes (scheme_adders parts) of
         Some e \<Rightarrow> io_fail e
       | None \<Rightarrow>
           (case new_typed_client parts config of
              Inl e \<Rightarrow> io_fail (Wrapped ''create typed client'' e)
            | Inr typed \<Rightarrow>
                (case new_clientset parts config of
                   Inl e \<Rightarrow> io_fail (Wrapped ''create Kubernetes clientset'' e)
                 | Inr core \<Rightarrow> io_return (core typed))))"

record 'w lab_env =
  le_current_context :: "('w, string) io"
  le_parts :: "'w client_parts"
  le_signalled :: "'w cluster \<Rightarrow> 'w cluster"
  le_background :: "'w cluster \<Rightarrow> 'w cluster"
  le_host :: "'w lab_host"
  le_glob :: "string \<Rightarrow> ('w, string list) io"
  le_results :: result_file

section \<open>Flags\<close>

definition minutes :: "int \<Rightarrow> int64" where "minutes n = n * 60 * 10 ^ 9"

definition validate_results_flags :: flag_set where
  "validate_results_flags = [(''dir'', FlagString ''out/benchmark'')]"

definition e2e_flags :: flag_set where
  "e2e_flags = [(''cluster'', FlagString []), (''namespace'', FlagString ''default''),
     (''output'', FlagString ''out/e2e''), (''timeout'', FlagDuration (minutes 3))]"

definition exercise_flags :: flag_set where
  "exercise_flags = [(''kind'', FlagString []), (''cluster'', FlagString ''ai-infra-lab''),
     (''namespace'', FlagString ''default''), (''output'', FlagString ''out/evidence''),
     (''timeout'', FlagDuration (minutes 2))]"

definition collect_flags :: flag_set where
  "collect_flags = [(''run-id'', FlagString []), (''experiment'', FlagString ''manual''),
     (''namespace'', FlagString ''default''), (''output'', FlagString ''out/evidence'')]"

definition benchmark_flags :: flag_set where
  "benchmark_flags = [(''cluster'', FlagString ''ai-infra-lab''), (''namespace'', FlagString ''default''),
     (''output'', FlagString ''out/benchmark''), (''evidence-output'', FlagString ''out/evidence''),
     (''timeout'', FlagDuration (minutes 2)), (''repetitions'', FlagInt 1),
     (''baseline-config'', FlagString ''deploy/scheduler-profiles/baseline.yaml''),
     (''optimized-config'', FlagString ''deploy/scheduler-profiles/optimized.yaml'')]"

section \<open>Commands\<close>

fun validate_paths :: "result_file \<Rightarrow> string list \<Rightarrow> go_error option" where
  "validate_paths f [] = None"
| "validate_paths f (path # paths) =
     (case validate_result_file f path of Some e \<Rightarrow> Some e | None \<Rightarrow> validate_paths f paths)"

definition run_validate_results :: "'w lab_env \<Rightarrow> string list \<Rightarrow> 'w \<Rightarrow> go_error option \<times> 'w" where
  "run_validate_results env args w =
     (case parse_declared validate_results_flags args of
        Inl e \<Rightarrow> (Some e, w)
      | Inr (vs, rest) \<Rightarrow>
          (let directory = string_flag vs ''dir''
           in case le_glob env (path_join [directory, ''*.json'']) w of
                (Inl e, w1) \<Rightarrow> (Some e, w1)
              | (Inr paths, w1) \<Rightarrow>
                  (if paths = [] then (Some (Err (''no benchmark JSON files found in '' @ directory)), w1)
                   else (validate_paths (le_results env) paths, w1))))"

text \<open>\<open>ValidateKindContext\<close> for the current context, then \<open>NewCluster\<close>, as the three runners begin.\<close>

definition guarded_cluster :: "'w lab_env \<Rightarrow> string \<Rightarrow> ('w, 'w cluster) io" where
  "guarded_cluster env cluster_name w =
     (case le_current_context env w of
        (loaded, w1) \<Rightarrow>
          (case validate_kind_context loaded cluster_name of
             Some e \<Rightarrow> (Inl e, w1)
           | None \<Rightarrow> new_cluster (le_parts env) w1))"

definition e2e_options_of :: "flag_values \<Rightarrow> e2e_options" where
  "e2e_options_of vs = \<lparr>xe_namespace = string_flag vs ''namespace'',
     xe_output_dir = string_flag vs ''output'', xe_timeout = int_flag vs ''timeout''\<rparr>"

definition run_e2e :: "'w lab_env \<Rightarrow> string list \<Rightarrow> 'w \<Rightarrow> go_error option \<times> 'w" where
  "run_e2e env args w =
     (case parse_declared e2e_flags args of
        Inl e \<Rightarrow> (Some e, w)
      | Inr (vs, rest) \<Rightarrow>
          (if string_flag vs ''cluster'' = [] then (Some (Err ''--cluster is required''), w)
           else case guarded_cluster env (string_flag vs ''cluster'') w of
             (Inl e, w1) \<Rightarrow> (Some e, w1)
           | (Inr cl, w1) \<Rightarrow>
               (case new_e2e_runner (e2e_options_of vs) of
                  Inl e \<Rightarrow> (Some e, w1)
                | Inr opts \<Rightarrow> e2e_run (le_signalled env cl) (le_background env cl) (le_host env) opts w1)))"

definition exercise_options_of :: "flag_values \<Rightarrow> exercise_options" where
  "exercise_options_of vs = \<lparr>xo_kind = string_flag vs ''kind'', xo_namespace = string_flag vs ''namespace'',
     xo_output_dir = string_flag vs ''output'', xo_timeout = int_flag vs ''timeout''\<rparr>"

text \<open>The outer \<open>None\<close> is the panic of an exercise of an unknown kind.\<close>

definition run_exercise :: "'w lab_env \<Rightarrow> string list \<Rightarrow> 'w \<Rightarrow> go_error option option \<times> 'w" where
  "run_exercise env args w =
     (case parse_declared exercise_flags args of
        Inl e \<Rightarrow> (Some (Some e), w)
      | Inr (vs, rest) \<Rightarrow>
          (case guarded_cluster env (string_flag vs ''cluster'') w of
             (Inl e, w1) \<Rightarrow> (Some (Some e), w1)
           | (Inr cl, w1) \<Rightarrow>
               (case new_exercise_runner (exercise_options_of vs) of
                  Inl e \<Rightarrow> (Some (Some e), w1)
                | Inr opts \<Rightarrow> exercise_run (le_signalled env cl) (le_background env cl) (le_host env) opts w1)))"

definition collect_options_of :: "flag_values \<Rightarrow> evidence_options" where
  "collect_options_of vs = \<lparr>eo_namespace = string_flag vs ''namespace'', eo_run_id = string_flag vs ''run-id'',
     eo_experiment = string_flag vs ''experiment'', eo_output_dir = string_flag vs ''output'',
     eo_expected = [], eo_observed = []\<rparr>"

definition run_collect :: "'w lab_env \<Rightarrow> string list \<Rightarrow> 'w \<Rightarrow> go_error option \<times> 'w" where
  "run_collect env args w =
     (case parse_declared collect_flags args of
        Inl e \<Rightarrow> (Some e, w)
      | Inr (vs, rest) \<Rightarrow>
          (case new_cluster (le_parts env) w of
             (Inl e, w1) \<Rightarrow> (Some e, w1)
           | (Inr cl, w1) \<Rightarrow>
               (case collect_bundle (le_signalled env cl) (le_host env) (collect_options_of vs) w1 of
                  ((rootdir, err), w2) \<Rightarrow> (err, w2))))"

definition benchmark_options_of :: "flag_values \<Rightarrow> benchmark_options" where
  "benchmark_options_of vs = \<lparr>bo_namespace = string_flag vs ''namespace'', bo_output_dir = string_flag vs ''output'',
     bo_evidence_dir = string_flag vs ''evidence-output'', bo_timeout = int_flag vs ''timeout'',
     bo_repetitions = int_flag vs ''repetitions'',
     bo_profiles = [
       \<lparr>pf_name = ''baseline'', pf_config_path = string_flag vs ''baseline-config'', pf_probe_should_fit = False\<rparr>,
       \<lparr>pf_name = ''optimized'', pf_config_path = string_flag vs ''optimized-config'', pf_probe_should_fit = True\<rparr>]\<rparr>"

definition run_benchmark :: "'w lab_env \<Rightarrow> string list \<Rightarrow> 'w \<Rightarrow> go_error option \<times> 'w" where
  "run_benchmark env args w =
     (case parse_declared benchmark_flags args of
        Inl e \<Rightarrow> (Some e, w)
      | Inr (vs, rest) \<Rightarrow>
          (case guarded_cluster env (string_flag vs ''cluster'') w of
             (Inl e, w1) \<Rightarrow> (Some e, w1)
           | (Inr cl, w1) \<Rightarrow>
               (case new_benchmark_runner (benchmark_options_of vs) of
                  Inl e \<Rightarrow> (Some e, w1)
                | Inr opts \<Rightarrow> benchmark_run (le_signalled env cl) (le_background env cl) (le_host env) opts w1)))"

section \<open>Dispatch\<close>

definition completed :: "go_error option \<times> 'w \<Rightarrow> go_error option option \<times> 'w" where
  "completed r = (Some (fst r), snd r)"

definition run_labctl :: "'w lab_env \<Rightarrow> string list \<Rightarrow> 'w \<Rightarrow> go_error option option \<times> 'w" where
  "run_labctl env args w =
     (case args of
        [] \<Rightarrow> (Some (Some (Err ''command required: benchmark, e2e, exercise, or collect'')), w)
      | command # rest \<Rightarrow>
          (if command = ''benchmark'' then completed (run_benchmark env rest w)
           else if command = ''exercise'' then run_exercise env rest w
           else if command = ''collect'' then completed (run_collect env rest w)
           else if command = ''e2e'' then completed (run_e2e env rest w)
           else if command = ''validate-results'' then completed (run_validate_results env rest w)
           else (Some (Some (Err (''unknown command '' @ go_quote command))), w)))"

text \<open>The exit code and what \<open>main\<close> writes to the standard error; a panic exits with 2.\<close>

definition labctl_main :: "'w lab_env \<Rightarrow> string list \<Rightarrow> 'w \<Rightarrow> (int \<times> string) \<times> 'w" where
  "labctl_main env args w =
     (case run_labctl env args w of
        (None, w1) \<Rightarrow> ((2, ''panic: validated exercise kind is not implemented''), w1)
      | (Some (Some e), w1) \<Rightarrow> ((1, ''labctl: '' @ error_text e @ [CHR 0x0A]), w1)
      | (Some None, w1) \<Rightarrow> ((0, []), w1))"

end
