(* ===== verification/Lab_Runs_Properties.thy ===== *)
theory Lab_Runs_Properties
  imports Lab_Benchmark_Properties
begin

text \<open>
  Cleaning up, the lifecycle times of a result, the end-to-end scenarios and the failure exercises.
\<close>

section \<open>Cleaning up\<close>

lemma discovered_workloads:
  assumes "discover cl namespace run_id w = (Inr snap, w')" and "sn_aijobs snap = []" "sn_jobsets snap = []"
  shows "sn_workloads snap = []"
  using assms by (auto elim!: discover_parts simp: related_workloads_none)

text \<open>
  The Workloads in the check that ends a cleanup are vacuous: discovery finds Workloads through
  the AIJobs and JobSets of the run only, so once these are gone there is none in the snapshot,
  whatever Workloads the namespace still holds. The check of the benchmark, which asks for no
  Workloads, is the same as that of the end-to-end run, which does not mention them.
\<close>

lemma workload_check_is_vacuous:
  assumes "discover cl namespace run_id w = (Inr snap, w')"
  shows "(nothing_left snap \<longleftrightarrow> descendants_gone snap) \<and>
    (sn_aijobs snap = [] \<and> sn_jobsets snap = [] \<longrightarrow> sn_workloads snap = [])"
  using discovered_workloads [OF assms] by (auto simp: nothing_left_def descendants_gone_def)

lemma workload_check_is_vacuous_example:
  "let cl = lab_cluster\<lparr>list_workloads := \<lambda>ns w. (Inr [\<lparr>wl_meta = (new_meta ''left-over'' ''default'')
         \<lparr>m_owners := [\<lparr>o_kind = ''JobSet'', o_name = ''job'', o_controller = True\<rparr>]\<rparr>, wl_conditions = []\<rparr>], w)\<rparr>
   in \<exists>snap. discover cl ''default'' ''run'' lab_start = (Inr snap, lab_start) \<and> nothing_left snap"
proof -
  let ?cl = "lab_cluster\<lparr>list_workloads := \<lambda>ns w. (Inr [\<lparr>wl_meta = (new_meta ''left-over'' ''default'')
    \<lparr>m_owners := [\<lparr>o_kind = ''JobSet'', o_name = ''job'', o_controller = True\<rparr>]\<rparr>, wl_conditions = []\<rparr>], w)\<rparr>"
  obtain snap where "discover ?cl ''default'' ''run'' lab_start = (Inr snap, lab_start)" "descendants_gone snap"
    by (simp add: discover_def io_bind_def io_wrap_def io_return_def Let_def descendants_gone_def lab_cluster_def
        lab_start_def lab_pods_def)
  then show ?thesis using workload_check_is_vacuous [of ?cl] by auto
qed

lemma cleanup_gone:
  assumes "polling (poll cl)" and "cleanup cl namespace timeout run_id w = (Inr (), w')"
  shows "\<exists>snap w0. discover cl namespace run_id w0 = (Inr snap, w') \<and> descendants_gone snap"
proof -
  let ?wait = "io_bind (poll cl half_second timeout (plain_condition (io_bind (discover cl namespace run_id)
    (\<lambda>snap. io_return (if nothing_left snap then Some SeenReady else None))))) (\<lambda>_. io_return ())"
  obtain jobs w1 where list: "list_aijobs cl namespace [(run_id_label, run_id)] w = (Inr jobs, w1)"
    using assms(2) by (auto simp: cleanup_def io_bind_Inr)
  obtain errs w2 where delete: "delete_jobs cl jobs [] w1 = (errs, w2)" by fastforce
  have "?wait w2 = (Inr (), w')"
    using assms(2) unfolding cleanup_def io_bind_def [of "list_aijobs cl namespace [(run_id_label, run_id)]"] list
      prod.case sum.case delete by (cases "errors_join errs") simp_all
  from polling.ready_observed [OF assms(1) this] show ?thesis
    by (auto simp: nothing_left_def descendants_gone_def)
qed

text \<open>
  C22: a cleanup that succeeds has waited until the run has no AIJobs, JobSets, Jobs and Pods left: a
  last discovery of the run's objects found none of them.
\<close>

theorem cleanup_leaves_nothing:
  assumes "polling (poll cl)" and "cleanup cl namespace timeout run_id w = (Inr (), w')"
  shows "\<exists>snap w0. discover cl namespace run_id w0 = (Inr snap, w') \<and> descendants_gone snap"
  using assms by (rule cleanup_gone)

theorem cleanup_leaves_nothing_witness:
  "\<exists>w'. cleanup lab_cluster ''default'' 1 ''run'' (lab_start\<lparr>lw_jobs := [lab_aijob ''run'' (holder_definition ''run'' 1)]\<rparr>)
     = (Inr (), w') \<and> (\<exists>snap w0. discover lab_cluster ''default'' ''run'' w0 = (Inr snap, w') \<and> descendants_gone snap)"
proof -
  let ?w = "lab_start\<lparr>lw_jobs := [lab_aijob ''run'' (holder_definition ''run'' 1)]\<rparr>"
  have "cleanup lab_cluster ''default'' 1 ''run'' ?w = (Inr (), ?w\<lparr>lw_jobs := []\<rparr>)"
    by (rule cleanup_lab [of _ _ "[holder_definition ''run'' 1]"]) simp_all
  with cleanup_leaves_nothing [OF lab_polls this] show ?thesis by blast
qed

section \<open>Lifecycle times\<close>

text \<open>The earliest of some times, and the times at which a Pod was scheduled.\<close>

definition earliest :: "time list \<Rightarrow> time option" where
  "earliest ts = (if ts = [] then None else Some (Min (set ts)))"

definition scheduled_times :: "pod \<Rightarrow> time list" where
  "scheduled_times p = map pc_transition (filter is_scheduled (p_conditions p))"

lemma fold_earlier_Some: "fold earlier ts (Some t) = Some (Min (insert t (set ts)))"
proof (induction ts arbitrary: t)
  case (Cons u ts)
  have "earlier u (Some t) = Some (min u t)" by (simp add: earlier_def min_def)
  then show ?case using Cons [of "min u t"]
    by (cases "ts = []") (simp_all add: min.commute min.left_commute Min.insert_remove)
qed simp

lemma fold_earlier: "fold earlier ts None = earliest ts"
  by (cases ts) (simp_all add: earliest_def earlier_def fold_earlier_Some)

lemma scheduled_loop_eq:
  "scheduled_loop cs item = item\<lparr>lc_scheduled := fold earlier (map pc_transition (filter is_scheduled cs)) (lc_scheduled item)\<rparr>"
  by (induction cs arbitrary: item) simp_all

lemma pods_loop_eq:
  "pods_loop ps name item = (let qs = filter (\<lambda>p. label_of (p_meta p) job_label = name) ps
     in item\<lparr>lc_pod_created := fold earlier (map (m_creation \<circ> p_meta) qs) (lc_pod_created item),
          lc_scheduled := fold earlier (concat (map scheduled_times qs)) (lc_scheduled item)\<rparr>)"
  by (induction ps arbitrary: item) (simp_all add: scheduled_loop_eq scheduled_times_def Let_def)

lemma terminal_loop_other:
  "lc_name (terminal_loop cs item) = lc_name item" "lc_submitted (terminal_loop cs item) = lc_submitted item"
  "lc_pod_created (terminal_loop cs item) = lc_pod_created item" "lc_scheduled (terminal_loop cs item) = lc_scheduled item"
  by (induction cs arbitrary: item) simp_all

lemma admitted_loop_other:
  "lc_name (admitted_loop cs item) = lc_name item"
  "lc_pod_created (admitted_loop cs item) = lc_pod_created item" "lc_scheduled (admitted_loop cs item) = lc_scheduled item"
  by (induction cs arbitrary: item) simp_all

lemma aijobs_loop_other:
  "lc_name (aijobs_loop js name item) = lc_name item"
  "lc_pod_created (aijobs_loop js name item) = lc_pod_created item" "lc_scheduled (aijobs_loop js name item) = lc_scheduled item"
  by (induction js arbitrary: item) (simp_all add: terminal_loop_other)

lemma workloads_loop_other:
  "lc_name (workloads_loop wls name item) = lc_name item"
  "lc_pod_created (workloads_loop wls name item) = lc_pod_created item" "lc_scheduled (workloads_loop wls name item) = lc_scheduled item"
  by (induction wls arbitrary: item) (simp_all add: admitted_loop_other)

lemma lifecycle_loop_eq: "lifecycle_loop ds snap result = result @ map (lifecycle_item snap) ds"
  by (induction ds arbitrary: result) simp_all

text \<open>
  The lifecycle of a result has one entry per workload, in their order, whatever of them was
  observed: a workload's Pod creation time is the earliest of its Pods, its scheduling time the
  earliest true \<open>PodScheduled\<close> condition of them, and its scheduling latency is given exactly when
  both are known.
\<close>

lemma lifecycle_takes_earliest:
  "map lc_name (lifecycle_from_snapshot ds snap) = map wd_name ds \<and>
   list_all (\<lambda>item. let pods = filter (\<lambda>p. label_of (p_meta p) job_label = lc_name item) (sn_pods snap) in
     lc_pod_created item = earliest (map (m_creation \<circ> p_meta) pods) \<and>
     lc_scheduled item = earliest (concat (map scheduled_times pods)) \<and>
     lc_scheduling_latency item = span (lc_scheduled item) (lc_pod_created item))
     (lifecycle_from_snapshot ds snap)"
proof -
  have item: "lc_name (lifecycle_item snap d) = wd_name d \<and>
    lc_pod_created (lifecycle_item snap d) = earliest (map (m_creation \<circ> p_meta)
      (filter (\<lambda>p. label_of (p_meta p) job_label = wd_name d) (sn_pods snap))) \<and>
    lc_scheduled (lifecycle_item snap d) = earliest (concat (map scheduled_times
      (filter (\<lambda>p. label_of (p_meta p) job_label = wd_name d) (sn_pods snap)))) \<and>
    lc_scheduling_latency (lifecycle_item snap d) = span (lc_scheduled (lifecycle_item snap d)) (lc_pod_created (lifecycle_item snap d))" for d
    by (simp add: lifecycle_item_def Let_def pods_loop_eq workloads_loop_other aijobs_loop_other fold_earlier)
  then show ?thesis
    by (simp add: lifecycle_from_snapshot_def lifecycle_loop_eq list_all_iff Let_def)
qed

section \<open>Scenarios\<close>

lemma job_condition_true_iff:
  "job_condition_true cs ty \<longleftrightarrow> (\<exists>c \<in> set cs. pc_type c = ty \<and> pc_status c = condition_true)"
  by (induction cs) auto

lemma has_pod_phase_iff: "has_pod_phase ps phase \<longleftrightarrow> (\<exists>p \<in> set ps. p_phase p = phase)"
  by (induction ps) auto

text \<open>An outcome that went all the way from the Pods to the AIJob.\<close>

definition propagated :: "bool \<Rightarrow> snapshot \<Rightarrow> bool" where
  "propagated failed snap \<longleftrightarrow> (\<exists>j js wl jb. sn_aijobs snap = [j] \<and> sn_jobsets snap = [js] \<and>
     sn_workloads snap = [wl] \<and> sn_jobs snap = [jb] \<and> sn_pods snap \<noteq> [] \<and>
     meta_condition_true (st_conditions (aj_status j)) (if failed then ''Failed'' else ''Completed'') \<and>
     meta_condition_true (js_conditions js) (if failed then ''Failed'' else ''Completed'') \<and>
     (\<exists>c \<in> set (jb_conditions jb). pc_type c = (if failed then job_failed else job_complete) \<and>
        pc_status c = condition_true) \<and>
     (if failed then \<exists>p \<in> set (sn_pods snap). p_phase p = pod_failed else True))"

lemma verify_lifecycle_iff: "verify_lifecycle snap failed = None \<longleftrightarrow> propagated failed snap"
proof -
  have one: "length xs = 1 \<longleftrightarrow> (\<exists>x. xs = [x])" for xs :: "'b list"
    by (cases xs) auto
  show ?thesis
    unfolding verify_lifecycle_def propagated_def one
    by (auto simp: jobset_condition_true_def job_condition_true_iff has_pod_phase_iff)
qed


text \<open>A cluster that always shows a finished chain of objects.\<close>

definition chain_cluster :: "lab_world cluster" where
  "chain_cluster =
     (let j = finished_job (lab_aijob ''run'' (success_definition ''run''));
          js = \<lparr>js_meta = aj_meta j, js_spec = empty_jobset_spec, js_conditions = st_conditions (aj_status j)\<rparr>
      in lab_cluster\<lparr>
        list_aijobs := \<lambda>ns sel w. (Inr [j], w), list_jobsets := \<lambda>ns sel w. (Inr [js], w),
        list_workloads := \<lambda>ns w. (Inr [\<lparr>wl_meta = (new_meta ''wl'' ns)\<lparr>m_labels := Some
          [job_label \<mapsto> wd_name (success_definition ''run'')]\<rparr>, wl_conditions = []\<rparr>], w),
        list_jobs := \<lambda>ns sel w. (Inr [\<lparr>jb_meta = aj_meta j, jb_conditions = [\<lparr>pc_type = job_complete,
          pc_status = condition_true, pc_reason = [], pc_transition = 9\<rparr>]\<rparr>], w),
        list_pods := \<lambda>ns sel w. (Inr [pod_of j ''a''], w), fetch_aijob := \<lambda>key w. (Inr j, w)\<rparr>)"

definition lab_e2e_options :: e2e_options where
  "lab_e2e_options = \<lparr>xe_namespace = ''default'', xe_output_dir = ''out'', xe_timeout = 1\<rparr>"


section \<open>Exercises\<close>

lemma blocked_pod_iff:
  "blocked_pod ps name \<longleftrightarrow> (\<exists>p \<in> set ps. label_of (p_meta p) job_label = name \<and> unschedulable_condition (p_conditions p))"
  by (induction ps) (auto simp: unschedulable_count_def)


text \<open>Three jobs of another run hold the nodes, so the Pod of the exercise is blocked.\<close>

definition crowded_lab :: lab_world where
  "crowded_lab = lab_start\<lparr>lw_jobs := [lab_job ''other'' ''x'' 4, lab_job ''other'' ''y'' 4, lab_job ''other'' ''z'' 4]\<rparr>"

definition lab_exercise :: exercise_options where
  "lab_exercise = \<lparr>xo_kind = exercise_capacity, xo_namespace = ''default'', xo_output_dir = ''out'', xo_timeout = 1\<rparr>"

lemma capacity_stage_lab:
  assumes "lw_jobs w = lw_jobs crowded_lab @ [new_benchmark_aijob ''default'' run_id exercise_capacity (capacity_definition run_id)]"
    and "run_id \<noteq> []" "run_id \<noteq> ''other''"
  shows "wait_capacity_stage lab_cluster lab_exercise run_id (wd_name (capacity_definition run_id)) w =
    ((stage_unschedulable, None), w)"
proof -
  let ?j = "new_benchmark_aijob ''default'' run_id exercise_capacity (capacity_definition run_id)"
  have "pod_of ?j [] \<in> set (sn_pods (lab_snapshot ''default'' run_id w))"
    using assms by (simp add: lab_snapshot_def lab_pods_def crowded_lab_def matches_def pod_of_def pod_meta_of_def
        new_benchmark_aijob_def new_meta_def label_of_def lab_labels_apply go_lookup_def label_keys lab_job_def
        exercise_capacity_def)
  moreover have "label_of (p_meta (pod_of ?j [])) job_label = wd_name (capacity_definition run_id)"
    by (simp add: pod_of_def pod_meta_of_def label_of_def go_lookup_def new_benchmark_aijob_def new_meta_def)
  ultimately have "blocked_pod (sn_pods (lab_snapshot ''default'' run_id w)) (wd_name (capacity_definition run_id))"
    by (auto simp: blocked_pod_iff intro!: bexI [of _ "pod_of ?j []"])
  then show ?thesis
    by (simp add: wait_capacity_stage_def poll_lab numeral_2_eq_2 capacity_condition_def discover_lab lab_exercise_def)
qed



text \<open>The capacity exercise in the crowded laboratory ends that way.\<close>

lemma crowded_exercise_lab: "\<exists>w'. exercise_run lab_cluster lab_cluster lab_host lab_exercise crowded_lab = (Some None, w')"
proof -
  obtain run_id w1 where run_id: "new_run_id lab_cluster lab_host (exercise_run_prefix exercise_capacity) crowded_lab = (run_id, w1)"
    by fastforce
  then have w1: "lw_jobs w1 = lw_jobs crowded_lab" "run_id \<noteq> []" "run_id \<noteq> ''other''" "lab_ready w1"
    using lab_ready_start
    by (auto simp: crowded_lab_def lab_ready_def new_run_id_def lab_host_def lab_cluster_def exercise_run_prefix_def exercise_capacity_def)
  define w2 where "w2 = w1\<lparr>lw_jobs := lw_jobs crowded_lab @
    [new_benchmark_aijob ''default'' run_id exercise_capacity (capacity_definition run_id)]\<rparr>"
  have "create_aijob lab_cluster ''default'' run_id exercise_capacity (capacity_definition run_id) w1 = (Inr (), w2)"
    by (simp add: create_aijob_def lab_cluster_def io_wrap_def w1(1) w2_def)
  moreover have "wait_capacity_stage lab_cluster lab_exercise run_id (wd_name (capacity_definition run_id)) w2 =
      ((stage_unschedulable, None), w2)"
    by (rule capacity_stage_lab) (simp_all add: w1 w2_def)
  ultimately have exec: "execute lab_cluster lab_exercise run_id w1 =
      (Some ([capacity_diagnosed], [capacity_diagnosed, stage_unschedulable], None), w2)"
    by (simp add: execute_def lab_exercise_def stage_unschedulable_def)
  let ?ev = "\<lparr>eo_namespace = ''default'', eo_run_id = run_id, eo_experiment = exercise_capacity,
    eo_output_dir = ''out'', eo_expected = [capacity_diagnosed], eo_observed = [capacity_diagnosed, stage_unschedulable]\<rparr>"
  have "new_evidence_collector ?ev = Inr ?ev" "lab_ready w2"
    using w1 by (simp_all add: new_evidence_collector_def exercise_capacity_def w2_def)
  then obtain rd w3 where "collect_bundle lab_cluster lab_host ?ev w2 = ((rd, None), w3)"
    using collect_bundle_lab [of ?ev w2] by auto
  then show ?thesis
    using run_id exec by (simp add: exercise_run_def lab_exercise_def join_cleanup_def errors_join_def cleanup_any_lab)
qed


end
