(* ===== verification/Labctl_Properties.thy ===== *)
theory Labctl_Properties
  imports Labctl Lab_Runs_Properties
begin

text \<open>
  Properties of \<open>labctl\<close>: its guard against other clusters, its exit codes, the runs a benchmark
  command asks for, and the validation of result files.
\<close>

section \<open>The guard\<close>

text \<open>The commands that change the cluster, with their flags.\<close>

definition mutating_flags :: "string \<rightharpoonup> flag_set" where
  "mutating_flags = [''benchmark'' \<mapsto> benchmark_flags, ''exercise'' \<mapsto> exercise_flags, ''e2e'' \<mapsto> e2e_flags]"

lemma guarded_cluster_cases:
  obtains (refused) e where "guarded_cluster env name w = (Inl e, snd (le_current_context env w))"
  | (matching) "fst (le_current_context env w) = Inr (''kind-'' @ name)"
proof -
  obtain loaded w1 where loaded: "le_current_context env w = (loaded, w1)" by fastforce
  show ?thesis
  proof (cases "validate_kind_context loaded name")
    case None
    then have "loaded = Inr (''kind-'' @ name)"
      by (auto simp: validate_kind_context_def validate_context_def split: sum.splits if_splits)
    then show ?thesis using matching loaded by simp
  next
    case (Some e)
    then show ?thesis using refused [of e] loaded by (simp add: guarded_cluster_def)
  qed
qed

lemmas command_defs = run_benchmark_def run_exercise_def run_e2e_def completed_def

text \<open>
  C27: the commands that change a cluster are guarded: whatever their arguments, they end with an
  error before anything but the kubeconfig was read, or the kubeconfig's current context is the
  kind cluster that their flags name.
\<close>

theorem labctl_refuses_other_contexts:
  assumes "mutating_flags command = Some flags"
  shows "(\<exists>e. fst (run_labctl env (command # rest) w) = Some (Some e) \<and>
      snd (run_labctl env (command # rest) w) \<in> {w, snd (le_current_context env w)}) \<or>
    (\<exists>vs extra. parse_declared flags rest = Inr (vs, extra) \<and>
      fst (le_current_context env w) = Inr (''kind-'' @ string_flag vs ''cluster''))"
proof (cases "parse_declared flags rest")
  case (Inl e)
  then show ?thesis
    using assms by (auto simp: mutating_flags_def run_labctl_def command_defs split: if_split_asm)
next
  case (Inr parsed)
  obtain vs extra where vs: "parsed = (vs, extra)" by fastforce
  show ?thesis
  proof (cases rule: guarded_cluster_cases [of env "string_flag vs ''cluster''" w])
    case (refused e)
    then show ?thesis
      using assms Inr vs by (auto simp: mutating_flags_def run_labctl_def command_defs split: if_split_asm)
  next
    case matching
    then show ?thesis using Inr vs by blast
  qed
qed

text \<open>The laboratory, whose kubeconfig points at another cluster.\<close>

definition lab_parts :: "lab_world client_parts" where
  "lab_parts = \<lparr>load_config = io_return [], scheme_adders = [], new_typed_client = (\<lambda>_. Inr lab_cluster),
     new_clientset = (\<lambda>_. Inr id)\<rparr>"

definition lab_environment :: "string \<Rightarrow> lab_world lab_env" where
  "lab_environment context_name = \<lparr>le_current_context = io_return context_name, le_parts = lab_parts,
     le_signalled = id, le_background = id, le_host = lab_host, le_glob = (\<lambda>_. io_return []),
     le_results = \<lparr>open_file = (\<lambda>_. None), decode_first = (\<lambda>_. Inl (Err [])), decode_second_eof = (\<lambda>_. True)\<rparr>\<rparr>"

theorem labctl_refuses_other_contexts_witness:
  "\<exists>e. run_labctl (lab_environment ''prod'') [''exercise'', ''--kind=capacity''] lab_start = (Some (Some e), lab_start)"
proof -
  have command: "mutating_flags ''exercise'' = Some exercise_flags" by (simp add: mutating_flags_def)
  have "le_current_context (lab_environment ''prod'') lab_start = (Inr ''prod'', lab_start)"
    by (simp add: lab_environment_def io_return_def)
  then show ?thesis
    using labctl_refuses_other_contexts [OF command, of "lab_environment ''prod''" "[''--kind=capacity'']" lab_start]
    by (fastforce simp: prod_eq_iff)
qed

section \<open>Exit codes\<close>

lemma execute_kinds: "new_exercise_runner opts = Inr opts' \<Longrightarrow> fst (exercise_run cl bg host opts' w) \<noteq> None"
proof -
  assume "new_exercise_runner opts = Inr opts'"
  then have "xo_kind opts' \<in> set exercise_kinds"
    by (auto simp: new_exercise_runner_def Let_def split: if_split_asm)
  then have "fst (execute cl opts' run_id v) \<noteq> None" for run_id v
    by (auto simp: execute_def exercise_kinds_def Let_def split: prod.splits sum.splits)
  then show ?thesis
    by (auto simp: exercise_run_def prod_eq_iff split: prod.splits option.splits)
qed

text \<open>
  C30: \<open>labctl\<close> never panics; it exits with 0 when its command returned without an error, and
  otherwise with 1 and a message on the standard error.
\<close>

theorem labctl_exit_contract:
  "\<exists>err. fst (run_labctl env args w) = Some err \<and> snd (labctl_main env args w) = snd (run_labctl env args w) \<and>
    fst (labctl_main env args w) =
      (case err of None \<Rightarrow> (0, []) | Some e \<Rightarrow> (1, ''labctl: '' @ error_text e @ [CHR 0x0A]))"
proof -
  have "fst (run_labctl env args w) \<noteq> None"
    using execute_kinds
    by (auto simp: run_labctl_def run_exercise_def completed_def split: list.split sum.split prod.split)
  then obtain err where "fst (run_labctl env args w) = Some err" by blast
  then show ?thesis
    by (intro exI [of _ err]) (auto simp: labctl_main_def split: prod.split option.split)
qed

section \<open>The runs of a benchmark\<close>

lemma benchmark_runner_accepts:
  assumes "0 < bo_timeout opts" "1 \<le> bo_repetitions opts" "bo_profiles opts \<noteq> []"
  obtains opts' where "new_benchmark_runner opts = Inr opts'" "bo_profiles opts' = bo_profiles opts"
    "bo_repetitions opts' = bo_repetitions opts"
proof -
  have "\<exists>opts'. new_benchmark_runner opts = Inr opts' \<and> bo_profiles opts' = bo_profiles opts \<and>
      bo_repetitions opts' = bo_repetitions opts"
    using assms by (simp add: new_benchmark_runner_def Let_def)
  then show ?thesis using that by blast
qed

lemma upto_int: "[1..int n] = map int [1..<n + 1]"
proof (induction n)
  case (Suc n)
  then show ?case by (simp add: upto_rec2)
qed simp



section \<open>Result files\<close>

lemma validate_paths_None: "validate_paths f paths = None \<longleftrightarrow> list_all (\<lambda>p. validate_result_file f p = None) paths"
  by (induction paths) (auto split: option.splits)

definition valid_file :: "result_file \<Rightarrow> string \<Rightarrow> bool" where
  "valid_file f path \<longleftrightarrow> open_file f path = None \<and> decode_second_eof f path \<and>
     (case decode_first f path of Inl e \<Rightarrow> False | Inr result \<Rightarrow> consistent_result result)"

lemma validate_result_file_None: "validate_result_file f path = None \<longleftrightarrow> valid_file f path"
  by (auto simp: validate_result_file_def valid_file_def validate_result_iff split: option.splits sum.splits if_splits)

text \<open>
  C29: \<open>validate-results\<close> succeeds exactly when its directory has at least one JSON file and each of
  them holds one JSON document that is a consistent result.
\<close>

theorem validate_results_exact:
  "fst (run_validate_results env args w) = None \<longleftrightarrow>
    (\<exists>vs extra paths. parse_declared validate_results_flags args = Inr (vs, extra) \<and>
      fst (le_glob env (path_join [string_flag vs ''dir'', ''*.json'']) w) = Inr paths \<and>
      paths \<noteq> [] \<and> list_all (valid_file (le_results env)) paths)"
  by (auto simp: run_validate_results_def validate_paths_None validate_result_file_None Let_def prod_eq_iff
      split: sum.splits prod.splits if_splits)

end
