(* ===== verification/Kueue_Copies.thy ===== *)
theory Kueue_Copies
  imports Lab_Cluster
begin

text \<open>
  The \<open>DeepCopyObject\<close> methods of \<open>internal/lab/kueue_types.go\<close>. Slices alias the array they refer
  to, so objects are kept as the code has them: a slice is an address into a store of arrays, \<open>None\<close>
  for nil. The metadata that \<open>ObjectMeta.DeepCopyInto\<close> copies, conditions and quantities are values.
\<close>

section \<open>Objects and the store of arrays\<close>

record workload_obj =
  wb_meta :: object_meta
  wb_conditions :: "nat option"

record workload_list_obj =
  lb_items :: "nat option"

record flavor_obj =
  fb_name :: string
  fb_resources :: "nat option"

record group_obj =
  gb_covered :: "nat option"
  gb_flavors :: "nat option"

record queue_obj =
  qb_meta :: object_meta
  qb_groups :: "nat option"

record store =
  conditions_at :: "nat \<Rightarrow> condition list"
  workloads_at :: "nat \<Rightarrow> workload_obj list"
  names_at :: "nat \<Rightarrow> string list"
  quotas_at :: "nat \<Rightarrow> (string \<times> int64) list"
  flavors_at :: "nat \<Rightarrow> flavor_obj list"
  groups_at :: "nat \<Rightarrow> group_obj list"
  next_array :: nat

text \<open>The elements of a slice.\<close>

definition elements :: "(nat \<Rightarrow> 'a list) \<Rightarrow> nat option \<Rightarrow> 'a list" where
  "elements arrays slice = (case slice of None \<Rightarrow> [] | Some a \<Rightarrow> arrays a)"

text \<open>New arrays: \<open>append([]T(nil), s...)\<close> is nil for an empty slice; \<open>make\<close> allocates in any case.\<close>

definition append_conditions :: "condition list \<Rightarrow> store \<Rightarrow> nat option \<times> store" where
  "append_conditions xs h = (if xs = [] then (None, h)
     else (Some (next_array h), h\<lparr>conditions_at := (conditions_at h)(next_array h := xs), next_array := Suc (next_array h)\<rparr>))"

definition append_names :: "string list \<Rightarrow> store \<Rightarrow> nat option \<times> store" where
  "append_names xs h = (if xs = [] then (None, h)
     else (Some (next_array h), h\<lparr>names_at := (names_at h)(next_array h := xs), next_array := Suc (next_array h)\<rparr>))"

definition append_quotas :: "(string \<times> int64) list \<Rightarrow> store \<Rightarrow> nat option \<times> store" where
  "append_quotas xs h = (if xs = [] then (None, h)
     else (Some (next_array h), h\<lparr>quotas_at := (quotas_at h)(next_array h := xs), next_array := Suc (next_array h)\<rparr>))"

definition make_workloads :: "workload_obj list \<Rightarrow> store \<Rightarrow> nat option \<times> store" where
  "make_workloads xs h =
     (Some (next_array h), h\<lparr>workloads_at := (workloads_at h)(next_array h := xs), next_array := Suc (next_array h)\<rparr>)"

definition make_flavors :: "flavor_obj list \<Rightarrow> store \<Rightarrow> nat option \<times> store" where
  "make_flavors xs h =
     (Some (next_array h), h\<lparr>flavors_at := (flavors_at h)(next_array h := xs), next_array := Suc (next_array h)\<rparr>)"

definition make_groups :: "group_obj list \<Rightarrow> store \<Rightarrow> nat option \<times> store" where
  "make_groups xs h =
     (Some (next_array h), h\<lparr>groups_at := (groups_at h)(next_array h := xs), next_array := Suc (next_array h)\<rparr>)"

section \<open>DeepCopyObject\<close>

text \<open>
  On a nil receiver the methods return nil. An array is filled before it is allocated here; in the
  code it is allocated first, which only changes its address.
\<close>

definition deep_copy_workload :: "workload_obj \<Rightarrow> store \<Rightarrow> workload_obj \<times> store" where
  "deep_copy_workload w h =
     (case wb_conditions w of
        None \<Rightarrow> (w, h)
      | Some a \<Rightarrow> (case append_conditions (conditions_at h a) h of
          (cs, h1) \<Rightarrow> (w\<lparr>wb_conditions := cs\<rparr>, h1)))"

fun copy_workloads :: "workload_obj list \<Rightarrow> store \<Rightarrow> workload_obj list \<times> store" where
  "copy_workloads [] h = ([], h)"
| "copy_workloads (w # ws) h =
     (case deep_copy_workload w h of (w', h1) \<Rightarrow> (case copy_workloads ws h1 of (ws', h2) \<Rightarrow> (w' # ws', h2)))"

definition deep_copy_workload_list :: "workload_list_obj \<Rightarrow> store \<Rightarrow> workload_list_obj \<times> store" where
  "deep_copy_workload_list l h =
     (case lb_items l of
        None \<Rightarrow> (l, h)
      | Some a \<Rightarrow> (case copy_workloads (workloads_at h a) h of
          (ws, h1) \<Rightarrow> (case make_workloads ws h1 of (items, h2) \<Rightarrow> (l\<lparr>lb_items := items\<rparr>, h2))))"

fun copy_flavors :: "flavor_obj list \<Rightarrow> store \<Rightarrow> flavor_obj list \<times> store" where
  "copy_flavors [] h = ([], h)"
| "copy_flavors (f # fs) h =
     (case append_quotas (elements (quotas_at h) (fb_resources f)) h of
        (resources, h1) \<Rightarrow> (case copy_flavors fs h1 of
          (fs', h2) \<Rightarrow> (\<lparr>fb_name = fb_name f, fb_resources = resources\<rparr> # fs', h2)))"

fun copy_groups :: "group_obj list \<Rightarrow> store \<Rightarrow> group_obj list \<times> store" where
  "copy_groups [] h = ([], h)"
| "copy_groups (g # gs) h =
     (case append_names (elements (names_at h) (gb_covered g)) h of
        (covered, h1) \<Rightarrow> (case copy_flavors (elements (flavors_at h1) (gb_flavors g)) h1 of
          (fs, h2) \<Rightarrow> (case make_flavors fs h2 of
            (flavors, h3) \<Rightarrow> (case copy_groups gs h3 of
              (gs', h4) \<Rightarrow> (\<lparr>gb_covered = covered, gb_flavors = flavors\<rparr> # gs', h4)))))"

definition deep_copy_queue :: "queue_obj \<Rightarrow> store \<Rightarrow> queue_obj \<times> store" where
  "deep_copy_queue q h =
     (case copy_groups (elements (groups_at h) (qb_groups q)) h of
        (gs, h1) \<Rightarrow> (case make_groups gs h1 of (groups, h2) \<Rightarrow> (q\<lparr>qb_groups := groups\<rparr>, h2)))"

section \<open>What objects say, and where\<close>

text \<open>The values that an object reads from the store, as the other theories have them.\<close>

definition flavor_value :: "store \<Rightarrow> flavor_obj \<Rightarrow> flavor_quota" where
  "flavor_value h f = \<lparr>fl_name = fb_name f, fl_resources = elements (quotas_at h) (fb_resources f)\<rparr>"

definition group_value :: "store \<Rightarrow> group_obj \<Rightarrow> queue_group" where
  "group_value h g = \<lparr>qg_covered = elements (names_at h) (gb_covered g),
     qg_flavors = map (flavor_value h) (elements (flavors_at h) (gb_flavors g))\<rparr>"

definition queue_value :: "store \<Rightarrow> queue_obj \<Rightarrow> cluster_queue_object" where
  "queue_value h q = \<lparr>cq_meta = qb_meta q,
     cq_groups = map (group_value h) (elements (groups_at h) (qb_groups q))\<rparr>"

definition workload_value :: "store \<Rightarrow> workload_obj \<Rightarrow> workload" where
  "workload_value h w = \<lparr>wl_meta = wb_meta w, wl_conditions = elements (conditions_at h) (wb_conditions w)\<rparr>"

definition workload_list_value :: "store \<Rightarrow> workload_list_obj \<Rightarrow> workload list" where
  "workload_list_value h l = map (workload_value h) (elements (workloads_at h) (lb_items l))"

text \<open>The arrays an object refers to, directly or through others.\<close>

definition group_arrays :: "store \<Rightarrow> group_obj \<Rightarrow> nat set" where
  "group_arrays h g = set_option (gb_covered g) \<union> set_option (gb_flavors g) \<union>
     (\<Union>f \<in> set (elements (flavors_at h) (gb_flavors g)). set_option (fb_resources f))"

definition queue_arrays :: "store \<Rightarrow> queue_obj \<Rightarrow> nat set" where
  "queue_arrays h q = set_option (qb_groups q) \<union>
     (\<Union>g \<in> set (elements (groups_at h) (qb_groups q)). group_arrays h g)"

definition workload_list_arrays :: "store \<Rightarrow> workload_list_obj \<Rightarrow> nat set" where
  "workload_list_arrays h l = set_option (lb_items l) \<union>
     (\<Union>w \<in> set (elements (workloads_at h) (lb_items l)). set_option (wb_conditions w))"

text \<open>Stores that agree on a set of arrays.\<close>

definition agree_on :: "nat set \<Rightarrow> store \<Rightarrow> store \<Rightarrow> bool" where
  "agree_on A h h' \<longleftrightarrow> (\<forall>a \<in> A. conditions_at h' a = conditions_at h a \<and> workloads_at h' a = workloads_at h a \<and>
     names_at h' a = names_at h a \<and> quotas_at h' a = quotas_at h a \<and> flavors_at h' a = flavors_at h a \<and>
     groups_at h' a = groups_at h a)"

lemma agree_on_mono: "agree_on A h h' \<Longrightarrow> B \<subseteq> A \<Longrightarrow> agree_on B h h'"
  by (auto simp: agree_on_def)

lemma elements_agree:
  assumes "agree_on (set_option s) h h'"
  shows "elements (conditions_at h') s = elements (conditions_at h) s" "elements (workloads_at h') s = elements (workloads_at h) s"
    "elements (names_at h') s = elements (names_at h) s" "elements (quotas_at h') s = elements (quotas_at h) s"
    "elements (flavors_at h') s = elements (flavors_at h) s" "elements (groups_at h') s = elements (groups_at h) s"
  using assms by (auto simp: agree_on_def elements_def split: option.split)

text \<open>An object reads the same values from stores that agree on its arrays.\<close>

lemma group_agree:
  assumes "agree_on (group_arrays h g) h h'"
  shows "group_value h' g = group_value h g" "group_arrays h' g = group_arrays h g"
proof -
  have here: "agree_on (set_option (gb_covered g)) h h'" "agree_on (set_option (gb_flavors g)) h h'"
    and inside: "\<And>f. f \<in> set (elements (flavors_at h) (gb_flavors g)) \<Longrightarrow> agree_on (set_option (fb_resources f)) h h'"
    using assms by (auto elim!: agree_on_mono simp: group_arrays_def)
  show "group_value h' g = group_value h g" "group_arrays h' g = group_arrays h g"
    using elements_agree [OF here(1)] elements_agree [OF here(2)] elements_agree [OF inside]
    by (simp_all add: group_value_def flavor_value_def group_arrays_def)
qed

lemma queue_agree:
  assumes "agree_on (queue_arrays h q) h h'"
  shows "queue_value h' q = queue_value h q" "queue_arrays h' q = queue_arrays h q"
proof -
  have here: "agree_on (set_option (qb_groups q)) h h'"
    and inside: "\<And>g. g \<in> set (elements (groups_at h) (qb_groups q)) \<Longrightarrow> agree_on (group_arrays h g) h h'"
    using assms by (auto elim!: agree_on_mono simp: queue_arrays_def)
  show "queue_value h' q = queue_value h q" "queue_arrays h' q = queue_arrays h q"
    using elements_agree [OF here] group_agree [OF inside] by (simp_all add: queue_value_def queue_arrays_def)
qed

lemma workload_list_agree:
  assumes "agree_on (workload_list_arrays h l) h h'"
  shows "workload_list_value h' l = workload_list_value h l" "workload_list_arrays h' l = workload_list_arrays h l"
proof -
  have here: "agree_on (set_option (lb_items l)) h h'"
    and inside: "\<And>w. w \<in> set (elements (workloads_at h) (lb_items l)) \<Longrightarrow> agree_on (set_option (wb_conditions w)) h h'"
    using assms by (auto elim!: agree_on_mono simp: workload_list_arrays_def)
  show "workload_list_value h' l = workload_list_value h l" "workload_list_arrays h' l = workload_list_arrays h l"
    using elements_agree [OF here] elements_agree [OF inside]
    by (simp_all add: workload_list_value_def workload_value_def workload_list_arrays_def)
qed

end
