(* ===== verification/Kueue_Copies_Properties.thy ===== *)
theory Kueue_Copies_Properties
  imports Kueue_Copies
begin

text \<open>
  A deep copy reads the same and shares no array with the original. \<open>allocator\<close> is the interface of
  the functions that make new arrays; the copies are followed through the store with its facts.
\<close>

section \<open>Growing stores\<close>

definition store_grows :: "store \<Rightarrow> store \<Rightarrow> bool" where
  "store_grows h h' \<longleftrightarrow> next_array h \<le> next_array h' \<and> agree_on {..<next_array h} h h'"

definition fresh :: "store \<Rightarrow> store \<Rightarrow> nat set" where
  "fresh h h' = {next_array h..<next_array h'}"

lemma store_grows_refl [simp]: "store_grows h h"
  by (simp add: store_grows_def agree_on_def)

lemma store_grows_trans: "store_grows h h1 \<Longrightarrow> store_grows h1 h2 \<Longrightarrow> store_grows h h2"
  by (auto simp: store_grows_def agree_on_def)

lemma store_grows_agree: "store_grows h h' \<Longrightarrow> A \<subseteq> {..<next_array h} \<Longrightarrow> agree_on A h h'"
  by (auto simp: store_grows_def elim: agree_on_mono)

lemma fresh_mono: "A \<subseteq> fresh h1 h2 \<Longrightarrow> store_grows h h1 \<Longrightarrow> store_grows h2 h' \<Longrightarrow> A \<subseteq> fresh h h'"
  by (auto simp: fresh_def store_grows_def)

lemma fresh_below: "A \<subseteq> fresh h h' \<Longrightarrow> A \<subseteq> {..<next_array h'}"
  by (auto simp: fresh_def)

lemma fresh_apart: "A \<subseteq> fresh h h' \<Longrightarrow> B \<subseteq> {..<next_array h} \<Longrightarrow> A \<inter> B = {}"
  by (fastforce simp: fresh_def)

lemma below_mono: "A \<subseteq> {..<next_array h} \<Longrightarrow> store_grows h h' \<Longrightarrow> A \<subseteq> {..<next_array h'}"
  by (auto simp: store_grows_def)

locale allocator =
  fixes alloc :: "'a list \<Rightarrow> store \<Rightarrow> nat option \<times> store" and contents :: "store \<Rightarrow> nat \<Rightarrow> 'a list"
  assumes alloc_grows: "alloc xs h = (s, h') \<Longrightarrow> store_grows h h'"
    and alloc_fresh: "alloc xs h = (s, h') \<Longrightarrow> set_option s \<subseteq> fresh h h'"
    and alloc_elements: "alloc xs h = (s, h') \<Longrightarrow> elements (contents h') s = xs"
    and at_agree: "agree_on (set_option s) h h' \<Longrightarrow> elements (contents h') s = elements (contents h) s"
begin

text \<open>A new array reads the same however the store grows.\<close>

lemma alloc_later:
  assumes "alloc xs h = (s, h1)" and "store_grows h1 h2"
  shows "elements (contents h2) s = xs"
  using alloc_elements [OF assms(1)] at_agree [OF store_grows_agree [OF assms(2) fresh_below [OF alloc_fresh [OF assms(1)]]]]
  by simp

end

named_theorems alloc_defs

lemmas [alloc_defs] = append_conditions_def append_names_def append_quotas_def make_workloads_def
  make_flavors_def make_groups_def store_grows_def fresh_def agree_on_def elements_def

interpretation conditions_alloc: allocator append_conditions conditions_at
  by unfold_locales (auto simp: alloc_defs split: if_splits option.splits)

interpretation names_alloc: allocator append_names names_at
  by unfold_locales (auto simp: alloc_defs split: if_splits option.splits)

interpretation quotas_alloc: allocator append_quotas quotas_at
  by unfold_locales (auto simp: alloc_defs split: if_splits option.splits)

interpretation workloads_alloc: allocator make_workloads workloads_at
  by unfold_locales (auto simp: alloc_defs split: option.splits)

interpretation flavors_alloc: allocator make_flavors flavors_at
  by unfold_locales (auto simp: alloc_defs split: option.splits)

interpretation groups_alloc: allocator make_groups groups_at
  by unfold_locales (auto simp: alloc_defs split: option.splits)

section \<open>Copies\<close>

text \<open>\<open>copied f arrays x h y h'\<close>: the copy \<open>y\<close> of \<open>x\<close> reads the same value \<open>f\<close> and only refers to new arrays.\<close>

definition copied :: "(store \<Rightarrow> 'a \<Rightarrow> 'v) \<Rightarrow> (store \<Rightarrow> 'a \<Rightarrow> nat set) \<Rightarrow> 'a \<Rightarrow> store \<Rightarrow> 'a \<Rightarrow> store \<Rightarrow> bool" where
  "copied val arrays x h y h' \<longleftrightarrow> store_grows h h' \<and> val h' y = val h x \<and> arrays h' y \<subseteq> fresh h h'"

abbreviation flavor_arrays :: "store \<Rightarrow> flavor_obj \<Rightarrow> nat set" where
  "flavor_arrays h f \<equiv> set_option (fb_resources f)"

abbreviation workload_arrays :: "store \<Rightarrow> workload_obj \<Rightarrow> nat set" where
  "workload_arrays h w \<equiv> set_option (wb_conditions w)"

lemma flavor_value_grows: "store_grows h h' \<Longrightarrow> flavor_arrays h f \<subseteq> {..<next_array h} \<Longrightarrow> flavor_value h' f = flavor_value h f"
  by (simp add: flavor_value_def quotas_alloc.at_agree [OF store_grows_agree])

lemma map_flavors_grows:
  "store_grows h h' \<Longrightarrow> \<forall>f \<in> set fs. flavor_arrays h f \<subseteq> {..<next_array h} \<Longrightarrow>
    map (flavor_value h') fs = map (flavor_value h) fs"
  by (simp add: flavor_value_grows)

lemma workload_value_grows:
  "store_grows h h' \<Longrightarrow> workload_arrays h w \<subseteq> {..<next_array h} \<Longrightarrow> workload_value h' w = workload_value h w"
  by (simp add: workload_value_def conditions_alloc.at_agree [OF store_grows_agree])

lemma copy_flavors_spec:
  assumes "copy_flavors fs h = (fs', h')" and "\<forall>f \<in> set fs. flavor_arrays h f \<subseteq> {..<next_array h}"
  shows "store_grows h h' \<and> map (flavor_value h') fs' = map (flavor_value h) fs \<and>
    (\<forall>f \<in> set fs'. flavor_arrays h' f \<subseteq> fresh h h')"
  using assms
proof (induction fs arbitrary: h fs')
  case (Cons f fs)
  obtain resources h1 fs1 where step: "append_quotas (elements (quotas_at h) (fb_resources f)) h = (resources, h1)"
    and rest: "copy_flavors fs h1 = (fs1, h')" and fs': "fs' = \<lparr>fb_name = fb_name f, fb_resources = resources\<rparr> # fs1"
    using Cons.prems(1) by (auto split: prod.splits)
  note g = quotas_alloc.alloc_grows [OF step]
  have below: "\<forall>f \<in> set fs. flavor_arrays h1 f \<subseteq> {..<next_array h1}"
    using Cons.prems(2) below_mono [OF _ g] by simp
  note ih = Cons.IH [OF rest below]
  have "map (flavor_value h') fs1 = map (flavor_value h) fs"
    using ih Cons.prems(2) flavor_value_grows [OF g] by simp
  moreover have "elements (quotas_at h') resources = elements (quotas_at h) (fb_resources f)"
    by (rule quotas_alloc.alloc_later [OF step]) (use ih in simp)
  ultimately show ?case
    using ih store_grows_trans [OF g] fresh_mono [OF quotas_alloc.alloc_fresh [OF step] store_grows_refl] fresh_mono [OF _ g store_grows_refl]
    by (simp add: fs' flavor_value_def)
qed simp

lemma copy_workloads_spec:
  assumes "copy_workloads ws h = (ws', h')" and "\<forall>w \<in> set ws. workload_arrays h w \<subseteq> {..<next_array h}"
  shows "store_grows h h' \<and> map (workload_value h') ws' = map (workload_value h) ws \<and>
    (\<forall>w \<in> set ws'. workload_arrays h' w \<subseteq> fresh h h')"
  using assms
proof (induction ws arbitrary: h ws')
  case (Cons w ws)
  obtain w1 h1 ws1 where step: "deep_copy_workload w h = (w1, h1)" and rest: "copy_workloads ws h1 = (ws1, h')"
    and ws': "ws' = w1 # ws1"
    using Cons.prems(1) by (auto split: prod.splits)
  have copy: "store_grows h h1 \<and> workload_arrays h1 w1 \<subseteq> fresh h h1 \<and> (store_grows h1 h' \<longrightarrow> workload_value h' w1 = workload_value h w)"
  proof (cases "wb_conditions w")
    case None
    then show ?thesis using step by (auto simp: deep_copy_workload_def workload_value_def elements_def)
  next
    case (Some a)
    then obtain cs where cs: "append_conditions (conditions_at h a) h = (cs, h1)" "w1 = w\<lparr>wb_conditions := cs\<rparr>"
      using step by (auto simp: deep_copy_workload_def split: prod.splits)
    then show ?thesis
      using conditions_alloc.alloc_grows [OF cs(1)] conditions_alloc.alloc_fresh [OF cs(1)]
        conditions_alloc.alloc_later [OF cs(1)] by (auto simp: workload_value_def Some elements_def)
  qed
  have g: "store_grows h h1" using copy by simp
  have below: "\<forall>w \<in> set ws. workload_arrays h1 w \<subseteq> {..<next_array h1}"
    using Cons.prems(2) below_mono [OF _ g] by simp
  note ih = Cons.IH [OF rest below]
  have "map (workload_value h') ws1 = map (workload_value h) ws"
    using ih Cons.prems(2) workload_value_grows [OF g] by simp
  then show ?case
    using ih copy store_grows_trans [OF g] fresh_mono [of _ h h1 h h'] fresh_mono [OF _ g store_grows_refl] by (simp add: ws')
qed simp

lemma copy_groups_spec:
  assumes "copy_groups gs h = (gs', h')" and "\<forall>g \<in> set gs. group_arrays h g \<subseteq> {..<next_array h}"
  shows "store_grows h h' \<and> map (group_value h') gs' = map (group_value h) gs \<and>
    (\<forall>g \<in> set gs'. group_arrays h' g \<subseteq> fresh h h')"
  using assms
proof (induction gs arbitrary: h gs')
  case (Cons g gs)
  obtain covered h1 fs h2 flavors h3 gs1
    where names: "append_names (elements (names_at h) (gb_covered g)) h = (covered, h1)"
      and copies: "copy_flavors (elements (flavors_at h1) (gb_flavors g)) h1 = (fs, h2)"
      and make: "make_flavors fs h2 = (flavors, h3)" and rest: "copy_groups gs h3 = (gs1, h')"
      and gs': "gs' = \<lparr>gb_covered = covered, gb_flavors = flavors\<rparr> # gs1"
    using Cons.prems(1) by (auto split: prod.splits)
  have mine: "group_arrays h g \<subseteq> {..<next_array h}" using Cons.prems(2) by simp
  note g1 = names_alloc.alloc_grows [OF names]
  have flavors_h1: "elements (flavors_at h1) (gb_flavors g) = elements (flavors_at h) (gb_flavors g)"
    by (rule flavors_alloc.at_agree [OF store_grows_agree [OF g1]]) (use mine in \<open>auto simp: group_arrays_def\<close>)
  have flavors_below: "\<forall>f \<in> set (elements (flavors_at h) (gb_flavors g)). flavor_arrays h f \<subseteq> {..<next_array h}"
    using mine by (auto simp: group_arrays_def)
  note spec = copy_flavors_spec [OF copies, unfolded flavors_h1]
  have spec: "store_grows h1 h2" "map (flavor_value h2) fs = map (flavor_value h1) (elements (flavors_at h) (gb_flavors g))"
    "\<forall>f \<in> set fs. flavor_arrays h2 f \<subseteq> fresh h1 h2"
    using spec flavors_below below_mono [OF _ g1] by auto
  note g3 = flavors_alloc.alloc_grows [OF make]
  note g12 = store_grows_trans [OF g1 spec(1)]
  note g = store_grows_trans [OF g12 g3]
  have "\<forall>g \<in> set gs. group_arrays h3 g \<subseteq> {..<next_array h3} \<and> group_value h3 g = group_value h g"
  proof
    fix x assume "x \<in> set gs"
    then have x: "group_arrays h x \<subseteq> {..<next_array h}" using Cons.prems(2) by simp
    note same = group_agree [OF store_grows_agree [OF g x]]
    show "group_arrays h3 x \<subseteq> {..<next_array h3} \<and> group_value h3 x = group_value h x"
      using same below_mono [OF x g] by simp
  qed
  then have ih: "store_grows h3 h'" "map (group_value h') gs1 = map (group_value h) gs"
      "\<forall>g \<in> set gs1. group_arrays h' g \<subseteq> fresh h3 h'"
    using Cons.IH [OF rest] by auto
  have later: "elements (flavors_at h') flavors = fs" by (rule flavors_alloc.alloc_later [OF make ih(1)])
  note g' = store_grows_trans [OF g3 ih(1)]
  have "\<forall>f \<in> set fs. flavor_arrays h2 f \<subseteq> {..<next_array h2}" using spec(3) by (intro ballI fresh_below [of _ h1]) simp
  then have "map (flavor_value h') fs = map (flavor_value h2) fs" by (rule map_flavors_grows [OF g'])
  then have "map (flavor_value h') fs = map (flavor_value h) (elements (flavors_at h) (gb_flavors g))"
    unfolding spec(2) map_flavors_grows [OF g1 flavors_below] .
  moreover have "elements (names_at h') covered = elements (names_at h) (gb_covered g)"
    by (rule names_alloc.alloc_later [OF names store_grows_trans [OF spec(1) g']])
  moreover have "set_option covered \<subseteq> fresh h h'"
    by (rule fresh_mono [OF names_alloc.alloc_fresh [OF names] store_grows_refl store_grows_trans [OF spec(1) g']])
  moreover have "set_option flavors \<subseteq> fresh h h'"
    by (rule fresh_mono [OF flavors_alloc.alloc_fresh [OF make] g12 ih(1)])
  moreover have "\<forall>f \<in> set fs. flavor_arrays h' f \<subseteq> fresh h h'"
    using spec(3) fresh_mono [OF _ g1 g'] by simp
  moreover have "\<forall>g \<in> set gs1. group_arrays h' g \<subseteq> fresh h h'"
    using ih(3) fresh_mono [OF _ g store_grows_refl] by simp
  moreover have "store_grows h h'" by (rule store_grows_trans [OF g ih(1)])
  moreover have "group_value h' \<lparr>gb_covered = covered, gb_flavors = flavors\<rparr> = group_value h g"
    using calculation(1,2) by (simp add: group_value_def later)
  moreover have "group_arrays h' \<lparr>gb_covered = covered, gb_flavors = flavors\<rparr> \<subseteq> fresh h h'"
    using calculation(3-5) by (simp add: group_arrays_def later UN_subset_iff)
  ultimately show ?case using ih(2) by (simp add: gs')
qed simp

lemma deep_copy_queue_copied:
  assumes "deep_copy_queue q h = (c, h')" and "queue_arrays h q \<subseteq> {..<next_array h}"
  shows "copied queue_value queue_arrays q h c h'"
proof -
  obtain gs h1 groups where copies: "copy_groups (elements (groups_at h) (qb_groups q)) h = (gs, h1)"
    and make: "make_groups gs h1 = (groups, h')" and c: "c = q\<lparr>qb_groups := groups\<rparr>"
    using assms(1) by (auto simp: deep_copy_queue_def split: prod.splits)
  note spec = copy_groups_spec [OF copies]
  have spec: "store_grows h h1" "map (group_value h1) gs = map (group_value h) (elements (groups_at h) (qb_groups q))"
    "\<forall>g \<in> set gs. group_arrays h1 g \<subseteq> fresh h h1"
    using spec assms(2) by (auto simp: queue_arrays_def)
  note g = groups_alloc.alloc_grows [OF make]
  have same: "group_value h' x = group_value h1 x" "group_arrays h' x = group_arrays h1 x" if "x \<in> set gs" for x
    using group_agree [OF store_grows_agree [OF g fresh_below]] spec(3) that by auto
  have new: "\<forall>x \<in> set gs. group_arrays h1 x \<subseteq> fresh h h'"
    using spec(3) fresh_mono [OF _ store_grows_refl g] by simp
  have "set_option groups \<subseteq> fresh h h'"
    by (rule fresh_mono [OF groups_alloc.alloc_fresh [OF make] spec(1) store_grows_refl])
  then show ?thesis
    using store_grows_trans [OF spec(1) g] spec(2) same new
    by (simp add: copied_def c queue_value_def queue_arrays_def groups_alloc.alloc_elements [OF make] UN_subset_iff
        cong: map_cong)
qed

lemma deep_copy_list_copied:
  assumes "deep_copy_workload_list l h = (d, h')" and "workload_list_arrays h l \<subseteq> {..<next_array h}"
  shows "copied workload_list_value workload_list_arrays l h d h'"
proof (cases "lb_items l")
  case None
  then show ?thesis
    using assms(1) by (auto simp: deep_copy_workload_list_def copied_def workload_list_value_def
        workload_list_arrays_def elements_def)
next
  case (Some a)
  obtain ws h1 items where copies: "copy_workloads (workloads_at h a) h = (ws, h1)"
    and make: "make_workloads ws h1 = (items, h')" and d: "d = l\<lparr>lb_items := items\<rparr>"
    using assms(1) Some by (auto simp: deep_copy_workload_list_def split: prod.splits)
  have at: "elements (workloads_at h) (lb_items l) = workloads_at h a" by (simp add: Some elements_def)
  note spec = copy_workloads_spec [OF copies]
  have spec: "store_grows h h1" "map (workload_value h1) ws = map (workload_value h) (workloads_at h a)"
    "\<forall>w \<in> set ws. workload_arrays h1 w \<subseteq> fresh h h1"
    using spec assms(2) by (auto simp: workload_list_arrays_def at)
  note g = workloads_alloc.alloc_grows [OF make]
  have same: "workload_value h' w = workload_value h1 w" if "w \<in> set ws" for w
    by (rule workload_value_grows [OF g fresh_below]) (use spec(3) that in blast)
  have new: "\<forall>w \<in> set ws. workload_arrays h' w \<subseteq> fresh h h'"
    using spec(3) fresh_mono [OF _ store_grows_refl g] by simp
  have "set_option items \<subseteq> fresh h h'"
    by (rule fresh_mono [OF workloads_alloc.alloc_fresh [OF make] spec(1) store_grows_refl])
  then show ?thesis
    using store_grows_trans [OF spec(1) g] spec(2) same new
    by (simp add: copied_def d workload_list_value_def workload_list_arrays_def at
        workloads_alloc.alloc_elements [OF make] UN_subset_iff cong: map_cong)
qed


text \<open>A queue with one group and one flavor, and a Workload with a condition.\<close>

definition sample_store :: store where
  "sample_store = \<lparr>conditions_at = (\<lambda>_. [])(4 := [\<lparr>c_type = ''Admitted'', c_status = ''True'',
       c_observed_generation = 1, c_transition = 7, c_reason = [], c_message = []\<rparr>]),
     workloads_at = (\<lambda>_. [])(5 := [\<lparr>wb_meta = new_meta ''w'' ''default'', wb_conditions = Some 4\<rparr>]),
     names_at = (\<lambda>_. [])(0 := [''cpu'']), quotas_at = (\<lambda>_. [])(1 := [(''cpu'', 8)]),
     flavors_at = (\<lambda>_. [])(2 := [\<lparr>fb_name = ''f'', fb_resources = Some 1\<rparr>]),
     groups_at = (\<lambda>_. [])(3 := [\<lparr>gb_covered = Some 0, gb_flavors = Some 2\<rparr>]), next_array = 6\<rparr>"

definition sample_queue :: queue_obj where
  "sample_queue = \<lparr>qb_meta = new_meta ''benchmark'' [], qb_groups = Some 3\<rparr>"


end
