(* ===== verification/Schema_Script.thy ===== *)
theory Schema_Script
  imports Go_IO Go_Text Go_Path
begin

text \<open>
  \<open>scripts/sync-aijob-schema.go\<close>: the JSON schema taken from the CRD, and the comment that links
  the examples to it. The file system, globbing and the YAML and JSON encoders are parameters.
\<close>

section \<open>Documents\<close>

datatype yaml =
    YNull | YBool bool | YNumber int | YString string
  | YSeq "yaml list" | YMap "string \<rightharpoonup> yaml"

type_synonym yaml_map = "string \<rightharpoonup> yaml"

record 'w script_env =
  se_read :: "string \<Rightarrow> ('w, string) io"
  se_write :: "string \<Rightarrow> string \<Rightarrow> 'w \<Rightarrow> go_error option \<times> 'w"
  se_mkdir_all :: "string \<Rightarrow> 'w \<Rightarrow> go_error option \<times> 'w"
  se_glob :: "string \<Rightarrow> ('w, string list) io"
  se_unmarshal :: "string \<Rightarrow> go_error + yaml_map"
  se_marshal_indent :: "yaml_map \<Rightarrow> go_error + string"

definition crd_path :: string where "crd_path = ''deploy/crd.yaml''"
definition schema_path :: string where "schema_path = ''deploy/schemas/aijob-v1alpha1.schema.json''"
definition schema_comment :: string where
  "schema_comment = ''# yaml-language-server: $schema=../deploy/schemas/aijob-v1alpha1.schema.json''"

section \<open>The schema of the CRD\<close>

fun nested_map :: "yaml_map \<Rightarrow> string list \<Rightarrow> yaml_map option" where
  "nested_map current [] = Some current"
| "nested_map current (key # path) =
     (case current key of Some (YMap next_map) \<Rightarrow> nested_map next_map path | _ \<Rightarrow> None)"

definition nested_slice :: "yaml_map \<Rightarrow> string list \<Rightarrow> yaml list option" where
  "nested_slice m path =
     (case nested_map m (butlast path) of
        None \<Rightarrow> None
      | Some parent \<Rightarrow> (case parent (last path) of Some (YSeq items) \<Rightarrow> Some items | _ \<Rightarrow> None))"

definition draft7 :: yaml where "draft7 = YString ''http://json-schema.org/draft-07/schema#''"

text \<open>The schema's own keys overwrite the first one.\<close>

definition annotate_schema :: "yaml_map \<Rightarrow> yaml_map" where
  "annotate_schema schema = [''$schema'' \<mapsto> draft7] ++ schema"

fun versions_loop :: "yaml list \<Rightarrow> go_error + yaml_map" where
  "versions_loop [] = Inl (Err (crd_path @ '' does not contain AIJob v1alpha1 schema''))"
| "versions_loop (version # versions) =
     (case version of
        YMap m \<Rightarrow>
          (if m ''name'' \<noteq> Some (YString ''v1alpha1'') then versions_loop versions
           else case nested_map m [''schema'', ''openAPIV3Schema''] of
             None \<Rightarrow> Inl (Err (crd_path @ '' v1alpha1 does not contain openAPIV3Schema''))
           | Some schema \<Rightarrow> Inr (annotate_schema schema))
      | _ \<Rightarrow> versions_loop versions)"

definition ai_job_schema :: "'w script_env \<Rightarrow> string \<Rightarrow> go_error + yaml_map" where
  "ai_job_schema env crd =
     (case se_unmarshal env crd of
        Inl e \<Rightarrow> Inl e
      | Inr document \<Rightarrow>
          (case nested_slice document [''spec'', ''versions''] of
             None \<Rightarrow> Inl (Err (crd_path @ '' does not contain spec.versions''))
           | Some versions \<Rightarrow> versions_loop versions))"

section \<open>The examples\<close>

fun str_contains :: "string \<Rightarrow> string \<Rightarrow> bool" where
  "str_contains [] sub = (sub = [])"
| "str_contains (c # s) sub = (if has_prefix sub (c # s) then True else str_contains s sub)"

definition is_aijob_example :: "string \<Rightarrow> bool" where
  "is_aijob_example text \<longleftrightarrow> str_contains text (''apiVersion: infra.example.io/v1alpha1'' @ [newline]) \<and>
     str_contains text (''kind: AIJob'' @ [newline])"

text \<open>\<open>strings.SplitAfter\<close> with a newline.\<close>

fun split_after :: "string \<Rightarrow> string list" where
  "split_after [] = [ [] ]"
| "split_after (c # s) =
     (if c = newline then [c] # split_after s
      else (case split_after s of [] \<Rightarrow> [ [c] ] | line # lines \<Rightarrow> (c # line) # lines))"

definition comment_marker :: string where "comment_marker = ''# yaml-language-server: $schema=''"

definition with_schema_comment :: "string \<Rightarrow> string" where
  "with_schema_comment contents =
     (if has_prefix (schema_comment @ [newline]) contents then contents
      else let lines = split_after contents
        in if 0 < length lines \<and> has_prefix comment_marker (lines ! 0)
           then concat (lines[0 := schema_comment @ [newline]])
           else schema_comment @ [newline] @ contents)"

fun link_loop :: "'w script_env \<Rightarrow> string list \<Rightarrow> 'w \<Rightarrow> go_error option \<times> 'w" where
  "link_loop env [] w = (None, w)"
| "link_loop env (path # paths) w =
     (case se_read env path w of
        (Inl e, w1) \<Rightarrow> (Some e, w1)
      | (Inr contents, w1) \<Rightarrow>
          (if \<not> is_aijob_example contents then link_loop env paths w1
           else if with_schema_comment contents = contents then link_loop env paths w1
           else case se_write env path (with_schema_comment contents) w1 of
             (Some e, w2) \<Rightarrow> (Some e, w2)
           | (None, w2) \<Rightarrow> link_loop env paths w2))"

definition link_examples :: "'w script_env \<Rightarrow> 'w \<Rightarrow> go_error option \<times> 'w" where
  "link_examples env w =
     (case se_glob env ''examples/*.yaml'' w of
        (Inl e, w1) \<Rightarrow> (Some e, w1)
      | (Inr matches, w1) \<Rightarrow> link_loop env matches w1)"

section \<open>The script\<close>

definition run_script :: "'w script_env \<Rightarrow> 'w \<Rightarrow> go_error option \<times> 'w" where
  "run_script env w =
     (case se_read env crd_path w of
        (Inl e, w1) \<Rightarrow> (Some e, w1)
      | (Inr crd, w1) \<Rightarrow>
          (case ai_job_schema env crd of
             Inl e \<Rightarrow> (Some e, w1)
           | Inr schema \<Rightarrow>
               (case se_mkdir_all env (path_dir schema_path) w1 of
                  (Some e, w2) \<Rightarrow> (Some e, w2)
                | (None, w2) \<Rightarrow>
                    (case se_marshal_indent env schema of
                       Inl e \<Rightarrow> (Some e, w2)
                     | Inr encoded \<Rightarrow>
                         (case se_write env schema_path (encoded @ [newline]) w2 of
                            (Some e, w3) \<Rightarrow> (Some e, w3)
                          | (None, w3) \<Rightarrow> link_examples env w3)))))"

text \<open>The exit code and what \<open>main\<close> writes to the standard error.\<close>

definition script_main :: "'w script_env \<Rightarrow> 'w \<Rightarrow> (int \<times> string) \<times> 'w" where
  "script_main env w =
     (case run_script env w of
        (Some e, w1) \<Rightarrow> ((1, error_text e @ [newline]), w1)
      | (None, w1) \<Rightarrow> ((0, []), w1))"

section \<open>The comment\<close>

lemma split_after_concat [simp]: "concat (split_after s) = s"
  by (induction s) (auto split: list.splits)

lemma split_after_nonempty [simp]: "split_after s \<noteq> []"
  by (induction s) (auto split: list.splits)

text \<open>What remains of a file without a first line that is such a comment.\<close>

definition after_comment :: "string \<Rightarrow> string" where
  "after_comment contents =
     (if has_prefix comment_marker (hd (split_after contents)) then concat (tl (split_after contents)) else contents)"

lemma prefix_line:
  assumes "newline \<notin> set p"
  shows "split_after (p @ newline # s) = (p @ [newline]) # split_after s"
  using assms by (induction p) auto

lemma schema_comment_line: "newline \<notin> set schema_comment" "has_prefix comment_marker (schema_comment @ [newline])"
  by (simp_all add: schema_comment_def newline_def comment_marker_def has_prefix_def)

lemma with_schema_comment_eq: "with_schema_comment contents = schema_comment @ [newline] @ after_comment contents"
proof (cases "has_prefix (schema_comment @ [newline]) contents")
  case True
  then obtain s where s: "contents = schema_comment @ newline # s"
    by (metis append.assoc append_Cons append_Nil append_take_drop_id has_prefix_def)
  have "split_after contents = (schema_comment @ [newline]) # split_after s"
    unfolding s by (rule prefix_line [OF schema_comment_line(1)])
  then show ?thesis
    using True schema_comment_line(2) by (simp add: with_schema_comment_def after_comment_def s)
next
  case False
  obtain line lines where lines: "split_after contents = line # lines" by (cases "split_after contents") auto
  then show ?thesis using False by (simp add: with_schema_comment_def after_comment_def)
qed

lemma with_schema_comment_idem: "with_schema_comment (with_schema_comment contents) = with_schema_comment contents"
  using prefix_line [OF schema_comment_line(1)] schema_comment_line(2)
  by (simp add: with_schema_comment_eq [of contents]) (simp add: with_schema_comment_def has_prefix_def)

end
