(* ===== verification/Schema_Script_Properties.thy ===== *)
theory Schema_Script_Properties
  imports Schema_Script
begin

text \<open>
  Properties of the schema script: which version's schema it takes, and what linking does to the
  files. Linking relies on a file system in which reads see writes, the interface \<open>file_system\<close>.
\<close>

section \<open>The schema\<close>

definition is_v1alpha1 :: "yaml \<Rightarrow> bool" where
  "is_v1alpha1 version = (case version of YMap m \<Rightarrow> m ''name'' = Some (YString ''v1alpha1'') | _ \<Rightarrow> False)"

lemma versions_loop_skips: "list_all (\<lambda>v. \<not> is_v1alpha1 v) pre \<Longrightarrow> versions_loop (pre @ versions) = versions_loop versions"
  by (induction pre) (auto simp: is_v1alpha1_def split: yaml.splits)

lemma versions_loop_found:
  "m ''name'' = Some (YString ''v1alpha1'') \<Longrightarrow> versions_loop (YMap m # post) =
    (case nested_map m [''schema'', ''openAPIV3Schema''] of
       None \<Rightarrow> Inl (Err (crd_path @ '' v1alpha1 does not contain openAPIV3Schema''))
     | Some schema \<Rightarrow> Inr (annotate_schema schema))"
  by simp

lemma first_version:
  obtains (none) "list_all (\<lambda>v. \<not> is_v1alpha1 v) versions"
  | (first) pre m post where "versions = pre @ YMap m # post" "list_all (\<lambda>v. \<not> is_v1alpha1 v) pre"
    "m ''name'' = Some (YString ''v1alpha1'')"
proof (cases "list_ex is_v1alpha1 versions")
  case True
  then obtain pre v post where v: "versions = pre @ v # post" "is_v1alpha1 v" "\<forall>x \<in> set pre. \<not> is_v1alpha1 x"
    using split_list_first_prop [of versions is_v1alpha1] by (auto simp: list_ex_iff)
  then obtain m where "v = YMap m" "m ''name'' = Some (YString ''v1alpha1'')"
    by (auto simp: is_v1alpha1_def split: yaml.splits)
  then show ?thesis using first v by (simp add: list_all_iff)
qed (use none in \<open>auto simp: list_all_iff list_ex_iff\<close>)

text \<open>
  C37: the schema is that of the first version named \<open>v1alpha1\<close>, with a \<open>$schema\<close> key unless it has
  one, and it is an error if there is none or if it has no schema; other versions do not matter.
\<close>

theorem schema_of_first_version:
  "ai_job_schema env crd = Inr schema \<longleftrightarrow> (\<exists>document pre m post own.
     se_unmarshal env crd = Inr document \<and>
     nested_slice document [''spec'', ''versions''] = Some (pre @ YMap m # post) \<and>
     list_all (\<lambda>v. \<not> is_v1alpha1 v) pre \<and> m ''name'' = Some (YString ''v1alpha1'') \<and>
     nested_map m [''schema'', ''openAPIV3Schema''] = Some own \<and> schema = [''$schema'' \<mapsto> draft7] ++ own)"
    (is "?lhs \<longleftrightarrow> ?rhs")
proof
  assume ?lhs
  then obtain document versions where document: "se_unmarshal env crd = Inr document"
      "nested_slice document [''spec'', ''versions''] = Some versions" and found: "versions_loop versions = Inr schema"
    by (auto simp: ai_job_schema_def split: sum.splits option.splits)
  show ?rhs
  proof (cases rule: first_version [of versions])
    case none
    then show ?thesis using found versions_loop_skips [of versions "[]"] by simp
  next
    case (first pre m post)
    have "(case nested_map m [''schema'', ''openAPIV3Schema''] of
        None \<Rightarrow> Inl (Err (crd_path @ '' v1alpha1 does not contain openAPIV3Schema''))
      | Some own \<Rightarrow> Inr (annotate_schema own)) = Inr schema"
      using found unfolding first(1) versions_loop_skips [OF first(2)] versions_loop_found [of m, OF first(3)] .
    then obtain own where "nested_map m [''schema'', ''openAPIV3Schema''] = Some own" "schema = annotate_schema own"
      by (cases "nested_map m [''schema'', ''openAPIV3Schema'']") simp_all
    then show ?thesis using document first by (auto simp: annotate_schema_def)
  qed
next
  assume ?rhs
  then obtain document pre m post own where "se_unmarshal env crd = Inr document"
      "nested_slice document [''spec'', ''versions''] = Some (pre @ YMap m # post)"
      "list_all (\<lambda>v. \<not> is_v1alpha1 v) pre" "m ''name'' = Some (YString ''v1alpha1'')"
      "nested_map m [''schema'', ''openAPIV3Schema''] = Some own" "schema = annotate_schema own"
    by (auto simp: annotate_schema_def)
  then show ?lhs
    unfolding ai_job_schema_def by (simp add: versions_loop_skips del: nested_map.simps versions_loop.simps)
      (simp add: versions_loop_found del: nested_map.simps versions_loop.simps)
qed

section \<open>Files\<close>

text \<open>What linking makes of a file.\<close>

definition linked :: "string \<Rightarrow> string" where
  "linked contents = (if is_aijob_example contents then with_schema_comment contents else contents)"

lemma linked_idem: "linked (linked contents) = linked contents"
  by (simp add: linked_def with_schema_comment_idem)

definition linked_at :: "string set \<Rightarrow> (string \<rightharpoonup> string) \<Rightarrow> string \<rightharpoonup> string" where
  "linked_at paths fs = (\<lambda>path. if path \<in> paths then map_option linked (fs path) else fs path)"

lemma linked_at_step:
  "fs path = Some contents \<Longrightarrow> linked_at paths (fs(path \<mapsto> linked contents)) = linked_at (insert path paths) fs"
  by (auto simp: linked_at_def linked_idem)

locale file_system =
  fixes env :: "'w script_env" and files :: "'w \<Rightarrow> string \<rightharpoonup> string"
    and matching :: "string \<Rightarrow> string set \<Rightarrow> string list"
  assumes reads: "se_read env path w = ((case files w path of None \<Rightarrow> Inl (Err (path @ '': no such file''))
      | Some data \<Rightarrow> Inr data), w)"
    and writes: "se_write env path data w = (None, w') \<Longrightarrow> files w' = (files w)(path \<mapsto> data)"
    and globs: "se_glob env pattern w = (Inr (matching pattern (dom (files w))), w)"
begin

lemma link_loop_files:
  "link_loop env paths w = (None, w') \<Longrightarrow> set paths \<subseteq> dom (files w) \<and> files w' = linked_at (set paths) (files w)"
proof (induction paths arbitrary: w)
  case Nil
  then show ?case by (simp add: linked_at_def)
next
  case (Cons path paths)
  obtain contents where contents: "files w path = Some contents"
    using Cons.prems by (cases "files w path") (simp_all add: reads)
  have "\<exists>w1. link_loop env paths w1 = (None, w') \<and> files w1 = (files w)(path \<mapsto> linked contents)"
    using Cons.prems contents
    by (auto simp: reads linked_def fun_upd_idem split: if_splits prod.splits option.splits intro: writes)
  then obtain w1 where w1: "link_loop env paths w1 = (None, w')" "files w1 = (files w)(path \<mapsto> linked contents)" by blast
  have "dom (files w1) = dom (files w)" using contents by (auto simp: w1(2))
  moreover have "linked_at (set paths) (files w1) = linked_at (insert path (set paths)) (files w)"
    unfolding w1(2) by (rule linked_at_step) (rule contents)
  ultimately show ?case using Cons.IH [OF w1(1)] contents by auto
qed

text \<open>Linking files that are linked writes nothing.\<close>

lemma link_loop_again:
  "set paths \<subseteq> dom (files w) \<Longrightarrow> linked_at (set paths) (files w) = files w \<Longrightarrow> link_loop env paths w = (None, w)"
proof (induction paths)
  case (Cons path paths)
  obtain contents where contents: "files w path = Some contents" using Cons.prems(1) by auto
  have here: "map_option linked (files w path) = files w path"
    using fun_cong [OF Cons.prems(2), of path] by (simp add: linked_at_def)
  have "linked_at (set paths) (files w) = files w"
  proof
    fix p show "linked_at (set paths) (files w) p = files w p"
      using fun_cong [OF Cons.prems(2), of p] by (auto simp: linked_at_def)
  qed
  then have "link_loop env paths w = (None, w)" using Cons by simp
  then show ?case using here contents by (auto simp: reads linked_def split: if_splits)
qed simp

lemma link_examples_files:
  assumes "link_examples env w = (None, w')"
  shows "files w' = linked_at (set (matching ''examples/*.yaml'' (dom (files w)))) (files w)"
  using assms link_loop_files by (simp add: link_examples_def globs)

lemma link_examples_again:
  assumes "link_examples env w = (None, w')"
  shows "link_examples env w' = (None, w')"
proof -
  let ?paths = "matching ''examples/*.yaml'' (dom (files w))"
  have loop: "link_loop env ?paths w = (None, w')" using assms by (simp add: link_examples_def globs)
  note linked = link_loop_files [OF loop]
  have dom: "dom (files w') = dom (files w)"
    using linked by (auto simp: linked_at_def dom_def split: if_splits)
  have "linked_at (set ?paths) (files w') = files w'"
    using linked by (auto simp: linked_at_def option.map_comp linked_idem o_def)
  moreover have "set ?paths \<subseteq> dom (files w')" using linked dom by simp
  ultimately have "link_loop env ?paths w' = (None, w')" by (rule link_loop_again [rotated])
  then show ?thesis by (simp add: link_examples_def globs dom)
qed

end

section \<open>Files as a map\<close>

text \<open>A directory whose examples are found in order, with encoders that write the same text.\<close>

definition map_files :: "(string \<rightharpoonup> string) script_env" where
  "map_files = \<lparr>
     se_read = (\<lambda>path fs. ((case fs path of None \<Rightarrow> Inl (Err (path @ '': no such file'')) | Some data \<Rightarrow> Inr data), fs)),
     se_write = (\<lambda>path data fs. (None, fs(path \<mapsto> data))),
     se_mkdir_all = (\<lambda>path fs. (None, fs)),
     se_glob = (\<lambda>pattern fs. (Inr (if ''examples/job.yaml'' \<in> dom fs then [''examples/job.yaml''] else []), fs)),
     se_unmarshal = (\<lambda>text. Inr Map.empty), se_marshal_indent = (\<lambda>m. Inr ''{}'')\<rparr>"

interpretation map_fs: file_system map_files "\<lambda>fs. fs"
    "\<lambda>pattern paths. if ''examples/job.yaml'' \<in> paths then [''examples/job.yaml''] else []"
  by unfold_locales (auto simp: map_files_def)

lemma map_files_ops:
  "se_read map_files path fs = ((case fs path of None \<Rightarrow> Inl (Err (path @ '': no such file'')) | Some data \<Rightarrow> Inr data), fs)"
  "se_write map_files path data fs = (None, fs(path \<mapsto> data))"
  "se_glob map_files pattern fs = (Inr (if ''examples/job.yaml'' \<in> dom fs then [''examples/job.yaml''] else []), fs)"
  by (simp_all add: map_files_def)

section \<open>Linking\<close>

text \<open>
  C38: linking rewrites exactly the examples it finds: each matching file that is an AIJob example
  begins with the schema comment afterwards, followed by what the file held without an older such
  comment, every other file is as before, and linking again changes nothing.
\<close>

theorem linking_is_idempotent:
  assumes "file_system env files matching" and "link_examples env w = (None, w')"
  shows "files w' = (\<lambda>path. if path \<in> set (matching ''examples/*.yaml'' (dom (files w)))
      then map_option (\<lambda>contents. if is_aijob_example contents
        then schema_comment @ [newline] @ after_comment contents else contents) (files w path)
      else files w path) \<and>
    link_examples env w' = (None, w')"
proof -
  have linked: "(\<lambda>contents. if is_aijob_example contents
      then schema_comment @ [newline] @ after_comment contents else contents) = linked"
    by (rule ext) (simp add: linked_def with_schema_comment_eq)
  show ?thesis
    unfolding linked using file_system.link_examples_files [OF assms] file_system.link_examples_again [OF assms]
    by (simp add: linked_at_def)
qed

definition job_example :: string where
  "job_example = ''apiVersion: infra.example.io/v1alpha1'' @ [newline] @ ''kind: AIJob'' @ [newline]"

theorem linking_is_idempotent_witness:
  "\<exists>fs. link_examples map_files [''examples/job.yaml'' \<mapsto> job_example] = (None, fs) \<and>
    fs ''examples/job.yaml'' = Some (schema_comment @ [newline] @ job_example) \<and> link_examples map_files fs = (None, fs)"
proof -
  obtain fs where fs: "link_examples map_files [''examples/job.yaml'' \<mapsto> job_example] = (None, fs)"
    by (cases "link_examples map_files [''examples/job.yaml'' \<mapsto> job_example]")
      (auto simp: link_examples_def map_files_ops split: if_splits)
  have "is_aijob_example job_example" "after_comment job_example = job_example"
    by (simp_all add: is_aijob_example_def job_example_def newline_def has_prefix_def after_comment_def comment_marker_def)
  then show ?thesis
    using linking_is_idempotent [OF map_fs.file_system_axioms fs] fs by auto
qed

end
