(* ===== verification/Spec2Isabelle.thy ===== *)
theory Spec2Isabelle
  imports Controller_System Metrics_Registration Worker_Properties Commands Lab_Benchmark_Results
    Labctl_Properties Kueue_Copies_Properties Schema_Script_Properties
begin

text \<open>
  \<^bold>\<open>A model of ai-infra-lab.\<close> The repository is a laboratory for scheduling AI training jobs on a
  Kubernetes cluster with simulated GPUs. A user submits an \<^emph>\<open>AIJob\<close>; the controller adapts it to a
  JobSet, which Kueue admits to a queue and which becomes a Job and Pods; the Pods name a scheduler
  with a plugin that filters and scores nodes by their GPU topology; each runs the worker program.
  \<open>labctl\<close> runs experiments on such a cluster, benchmarks, failure exercises and end-to-end scenarios,
  collects evidence from it and validates the results. This development models the Go code of the
  program, function by function, and proves what makes it correct.

  \<^bold>\<open>The parts and their theories.\<close>

  \<^item> \<^emph>\<open>The language and its library.\<close> \<open>Go_Prelude\<close> has maps, errors, 64-bit integers, decimal and quoted
    printing; \<open>Go_Float\<close> \<open>float64\<close> as rationals with rounding; \<open>Go_Text\<close> the functions of \<open>strings\<close> and
    \<open>strconv\<close>; \<open>Go_Time\<close> durations, their printing and parsing; \<open>Go_Path\<close> file paths; \<open>Go_Flag\<close> flag
    parsing; \<open>Go_IO\<close> calls that take the world outside the process and return it after them.
    \<open>Kube_Types\<close> has the Kubernetes objects with the fields the program uses.
  \<^item> \<^emph>\<open>The contract.\<close> \<open>Topology_Labels\<close> (\<open>internal/topology/constants.go\<close>) has the label and annotation
    keys; \<open>AIJob_API\<close> (\<open>api/v1alpha1/aijob_types.go\<close>) the AIJob with the admission rules that its
    markers generate.
  \<^item> \<^emph>\<open>The controller\<close> (\<open>internal/controller\<close>). \<open>Controller\<close> has \<open>Reconcile\<close> with every helper and the
    metrics; \<open>Controller_Store\<close> what it relies on, and convergence; \<open>Controller_Memory\<close> a server that
    fulfils it; \<open>Controller_Properties\<close> its properties; \<open>Controller_System\<close> the controller among the
    users, Kueue and the other controllers of a cluster, as a step relation.
  \<^item> \<^emph>\<open>The scheduler plugin\<close> (\<open>internal/plugin/gputopology\<close>) is \<open>GPU_Topology\<close>; \<open>Metrics_Registration\<close>
    has \<open>NewMetrics\<close> of plugin and controller and \<open>cmd/scheduler\<close>.
  \<^item> \<^emph>\<open>The worker\<close> (\<open>internal/worker\<close>) is \<open>Worker\<close>, with \<open>Worker_Properties\<close>.
  \<^item> \<^emph>\<open>The device plugin\<close> (\<open>internal/deviceplugin\<close>) is \<open>Device_Plugin\<close>, the rendered Kueue objects
    (\<open>internal/manifests\<close>) are \<open>Manifests\<close>; \<open>Commands\<close> has the \<open>main\<close> functions of \<open>cmd/worker\<close>,
    \<open>cmd/deviceplugin\<close>, \<open>cmd/manifestgen\<close> and \<open>cmd/controller\<close>.
  \<^item> \<^emph>\<open>The laboratory\<close> (\<open>internal/lab\<close>). \<open>Lab_Result\<close> (\<open>result.go\<close>), \<open>Lab_Calculate\<close> (\<open>calculate.go\<close>) and
    \<open>Lab_Validate\<close> (\<open>validate.go\<close>) are pure; \<open>Lab_Cluster\<close> (\<open>cluster.go\<close>) reads the cluster and waits
    for it, \<open>Lab_Reports\<close> (\<open>worker_reports.go\<close>) reads worker logs, \<open>Lab_Evidence\<close> (\<open>evidence.go\<close>)
    collects bundles; \<open>Lab_Benchmark\<close> (\<open>benchmark.go\<close>), \<open>Lab_Exercise\<close> (\<open>exercise.go\<close>) and \<open>Lab_E2E\<close>
    (\<open>e2e.go\<close>) are the three kinds of run. \<open>Kueue_Copies\<close> (\<open>kueue_types.go\<close>) has the deep copies, on
    a store in which slices alias their arrays. \<open>Labctl\<close> (\<open>cmd/labctl\<close>, \<open>NewCluster\<close>) is the command.
    Their properties are in the theories of the same names with \<open>_Properties\<close>, in
    \<open>Lab_Benchmark_Results\<close> and in \<open>Lab_Runs_Properties\<close>; \<open>Lab_Memory\<close> and \<open>Lab_Benchmark_Memory\<close> have
    the cluster on which witnesses run.
  \<^item> \<^emph>\<open>The schema script\<close> (\<open>scripts/sync-aijob-schema.go\<close>) is \<open>Schema_Script\<close>.

  This theory adds the properties that span them: from the specification of an AIJob to the node of
  its Pods, from the definition of an experiment to the exit of its workers, and from the rendered
  queues to the admission of a benchmark.

  \<^bold>\<open>How the code is represented.\<close> A Go struct is a record and keeps the names of its fields behind a
  prefix; an \<open>error\<close> is a value of \<open>go_error\<close>, so that every early return is a branch. A map that may
  be nil is an optional partial function, and where the code ranges over a map, the order is a
  parameter (\<open>lh_iter\<close>). 32- and 64-bit integers are integers with \<open>wrap64\<close> where a sum or a product
  may overflow. Time is in nanoseconds. A call that leaves the process threads a world \<open>'w\<close>, which
  anyone may have changed: what the API server, Kueue, the kubelet or the file system answer is a
  function of the world. A \<open>defer\<close> is the continuation it stands for, a panic a value
  (\<open>Panics\<close>, \<open>None\<close>). A \<open>select\<close> between a timer and a cancellation takes the moment it is entered and
  which of two ready channels it picks as parameters (\<open>we_startup_sched\<close>, \<open>we_work_sched\<close>), so the
  theorems hold for each schedule. Loops are structural recursions over the lists they range over;
  polling is a parameter whose contract is the locale \<open>polling\<close>, so no loop needs fuel; the polls
  of the cluster in memory evaluate their condition a fixed number of times, which is enough for the
  runs the witnesses take.

  \<^bold>\<open>Interfaces.\<close> What a part relies on is a locale over its parameters, and each is interpreted on
  definitions of this development: \<open>condition_laws\<close>, \<open>kube_store\<close> and their sum \<open>controller_env\<close> (the
  condition helpers and an API server on which only the controller writes during a reconciliation);
  \<open>cycle_store\<close> and \<open>extension_point\<close> (the scheduler's cycle state; Filter and Score as two instances);
  \<open>worker_protocol\<close> (what a reader of worker logs needs, interpreted on the worker itself);
  \<open>label_scope\<close>, \<open>socket_os\<close>, \<open>polling\<close>, \<open>evidence_provider\<close> (interpreted on the cluster's own reads),
  \<open>scheduler_store\<close> and \<open>sane_cluster\<close> (what a benchmark run relies on), \<open>allocator\<close> and \<open>file_system\<close>.

  \<^bold>\<open>What is shown.\<close> Of the controller: one reconciliation converges, whatever admission webhooks do to
  other fields; it writes only what it owns; it waits for a missing queue; it stops at the first
  error; its metrics match its outcome; and in every state that a cluster can reach, each JobSet
  belongs to an AIJob and has its gang. Of the plugin: Filter and Score decide by the topology
  classes alone. Of the worker: the exit contract, when it terminates, and that its records replay its
  configuration and are read back by the laboratory. Of the laboratory: the arithmetic on free GPUs,
  the soundness of discovery and waiting, the completeness and confinement of evidence, the validity
  of written results, that runs end with the Scheduler restored and their objects gone or with an
  error, and that the guard of \<open>labctl\<close> holds. Of the rest: the rendered queues refer to each other
  and serve the benchmark, the device plugin allocates what it advertises, deep copies are
  independent, the schema script is idempotent.

  \<^bold>\<open>Not modelled.\<close> Third-party code is a parameter: the Kubernetes and Kueue API machinery, gRPC, the
  JSON and YAML encoders, Prometheus buckets and help texts, the formatting of time stamps. The deep
  copies that controller-gen generates in \<open>zz_generated.deepcopy.go\<close> and the registration of types
  (\<open>groupversion_info.go\<close>, \<open>addKueueToScheme\<close>, \<open>SetupWithManager\<close>) have no logic of this program.
  Concurrent reconciliations of one AIJob do not occur in the controller library and are not
  modelled; interleaving with other writers is, between reconciliations, in \<open>Controller_System\<close>, and
  within one, for the properties over any client (errors and metrics). \<open>ObjectMeta\<close> and quantities are
  values, also in the store of arrays.
\<close>

section \<open>From an AIJob to a node\<close>

text \<open>
  The Job controller of Kubernetes creates Pods with the annotations of the Job's Pod template; it
  may add others, but not these two.
\<close>

definition pod_of_template :: "pod_template \<Rightarrow> pod \<Rightarrow> bool" where
  "pod_of_template template pod \<longleftrightarrow> (\<forall>key \<in> {preference_annotation, required_topology_class_annotation}.
     nilmap (m_annotations (p_meta pod)) key = nilmap (pt_annotations template) key)"

lemma annotations_from_aijob:
  "nilmap (pt_annotations (jbs_template (worker_job_spec job))) preference_annotation =
     (let want = tp_preference (s_topology (aj_spec job))
      in if want = topology_nvlink \<or> want = topology_pcie then Some want else None)"
  "nilmap (pt_annotations (jbs_template (worker_job_spec job))) required_topology_class_annotation =
     (let want = tp_required (s_topology (aj_spec job))
      in if want = topology_nvlink \<or> want = topology_pcie then Some want else None)"
  "nilmap (pt_annotations (jbs_template (worker_job_spec job))) required_topology_annotation =
     (if tp_required (s_topology (aj_spec job)) = ''same-rack'' then Some rack_label else None)"
  by (simp_all add: worker_job_spec_def scheduling_annotations_def Let_def topology_nvlink_def topology_pcie_def
      nilmap_def label_keys)

lemma intent_from_aijob:
  assumes "pod_of_template (jbs_template (worker_job_spec job)) pod"
  shows "request_rank (ts_preference (topology_state_from_pod pod)) =
      request_rank (tp_preference (s_topology (aj_spec job)))"
    and "request_rank (ts_required (topology_state_from_pod pod)) =
      request_rank (tp_required (s_topology (aj_spec job)))"
  using assms by (simp_all add: pod_of_template_def topology_state_from_pod_def annotations_from_aijob go_lookup_def
      Let_def) (simp_all add: request_rank_def topology_nvlink_def topology_pcie_def)

text \<open>
  C3: the topology of an AIJob's specification reaches the scheduler: for a Pod created from the
  template of its JobSet, the plugin filters nodes by \<open>topology.required\<close> and scores them by
  \<open>topology.preference\<close>, whatever other plugins write in between: an NVLink requirement admits only
  NVLink-capable nodes, a PCIe requirement also the nodes with PCIe only, any other value (also
  \<open>same-rack\<close>, which Kueue enforces) every node; a node is preferred by its class exactly when the
  AIJob prefers NVLink or PCIe.
\<close>

theorem intent_reaches_scheduler:
  assumes "cycle_store ops" and "other_writes ws" and "other_writes ws'"
    and pod: "pod_of_template (jbs_template (worker_job_spec job)) pod" and "ni_node info = Some n"
  shows "ps_scheduler_name (pt_spec (jbs_template (worker_job_spec job))) = ''ai-scheduler'' \<and>
    (fst (plugin_filter p ops (run_writes ops ws (snd (pre_filter ops c pod))) info) = None \<longleftrightarrow>
      (let class = node_topology_class (m_labels (n_meta n));
           required = tp_required (s_topology (aj_spec job))
       in if required = topology_nvlink then class = topology_class_nvlink_capable
          else if required = topology_pcie then class = topology_class_nvlink_capable \<or> class = topology_class_pcie_only
          else True)) \<and>
    fst (plugin_score p ops (run_writes ops ws' (snd (pre_score ops c' pod))) info) =
      (topology_preference_score (tp_preference (s_topology (aj_spec job))) (m_labels (n_meta n)), None)"
proof (intro conjI)
  show "ps_scheduler_name (pt_spec (jbs_template (worker_job_spec job))) = ''ai-scheduler''"
    by (simp add: worker_job_spec_def scheduler_name_def Let_def)
  note rank = intent_from_aijob [OF pod]
  show "fst (plugin_filter p ops (run_writes ops ws (snd (pre_filter ops c pod))) info) = None \<longleftrightarrow>
      (let class = node_topology_class (m_labels (n_meta n));
           required = tp_required (s_topology (aj_spec job))
       in if required = topology_nvlink then class = topology_class_nvlink_capable
          else if required = topology_pcie then class = topology_class_nvlink_capable \<or> class = topology_class_pcie_only
          else True)"
    using filter_point.with_node [OF intent_survives(1) [OF assms(1,2)] assms(5)]
    by (simp add: requirement_status_rank rank(2)) (simp add: request_rank_def class_rank_def Let_def)
  show "fst (plugin_score p ops (run_writes ops ws' (snd (pre_score ops c' pod))) info) =
      (topology_preference_score (tp_preference (s_topology (aj_spec job))) (m_labels (n_meta n)), None)"
    using score_point.with_node [OF intent_survives(2) [OF assms(1,3)] assms(5)]
    by (simp add: preference_score_rank rank(1))
qed

text \<open>An AIJob that prefers NVLink and requires PCIe, whose Pod meets a node that has PCIe only.\<close>

definition pcie_job :: aijob where
  "pcie_job = (let job = new_benchmark_aijob ''default'' ''r'' ''e'' (probe_definition ''r'')
     in job\<lparr>aj_spec := (aj_spec job)\<lparr>s_topology := \<lparr>tp_preference = ''nvlink'', tp_required = ''pcie''\<rparr>\<rparr>\<rparr>)"

theorem intent_reaches_scheduler_witness:
  "fst (plugin_filter new_plugin map_cycle_ops
     (run_writes map_cycle_ops [] (snd (pre_filter map_cycle_ops Map.empty (sample_pod ''nvlink'' ''pcie''))))
     (sample_info topology_class_pcie_only)) = None \<and>
   fst (plugin_score new_plugin map_cycle_ops
     (run_writes map_cycle_ops [] (snd (pre_score map_cycle_ops Map.empty (sample_pod ''nvlink'' ''pcie''))))
     (sample_info topology_class_pcie_only)) = (50, None)"
proof -
  have topology: "s_topology (aj_spec pcie_job) = \<lparr>tp_preference = ''nvlink'', tp_required = ''pcie''\<rparr>"
    by (simp add: pcie_job_def Let_def)
  have pod: "pod_of_template (jbs_template (worker_job_spec pcie_job)) (sample_pod ''nvlink'' ''pcie'')"
    by (simp add: pod_of_template_def annotations_from_aijob topology sample_pod_def topology_nvlink_def
        topology_pcie_def)
  have none: "other_writes []" by (simp add: other_writes_def)
  have "node_topology_class (m_labels (n_meta (sample_node topology_class_pcie_only))) = topology_class_pcie_only"
    by (simp add: sample_node_def node_topology_class_def)
  with intent_reaches_scheduler [OF map_cycle.cycle_store_axioms none none pod, of "sample_info topology_class_pcie_only"
      "sample_node topology_class_pcie_only" new_plugin Map.empty Map.empty]
  show ?thesis
    by (simp add: topology topology_preference_score_def topology_nvlink_def topology_pcie_def)
qed

section \<open>From a definition of the laboratory to its workers\<close>

text \<open>The worker of an AIJob: the arguments of its container, and the completion index of its Pod.\<close>

definition worker_of :: "aijob \<Rightarrow> (time \<Rightarrow> string) \<Rightarrow> worker_env \<Rightarrow> int \<Rightarrow> run_end" where
  "worker_of job stamp env index =
     out_end (run stamp env (ct_args (worker_container job)) (index_env (Some index)))"

lemma one_second_flag: "parse_duration ''1s'' = Some (10 ^ 9)"
proof -
  have "show_nat 1 = ''1''" by code_simp
  then have "parse_units ''1s'' 0 = Some (10 ^ 9)"
    using parse_whole [OF unit_facts(4) _ unit_facts(10), of "[]" 0 1] by (simp add: parse_units_Nil)
  then show ?thesis by (simp add: parse_duration_def)
qed

lemma holder_args: "parse_flags default_flags [''--mode=wait''] = Inr (default_flags\<lparr>f_mode := mode_wait\<rparr>, [])"
  by (simp add: flag_names_def set_flag_def default_flags_def mode_wait_def)

lemma complete_args: "parse_flags default_flags [''--mode=complete'', ''--duration=1s''] =
    Inr (default_flags\<lparr>f_mode := mode_complete\<rparr>, [])"
  by (simp add: flag_names_def set_flag_def default_flags_def one_second_flag mode_complete_def)

lemma fail_args: "parse_flags default_flags [''--mode=complete'', ''--duration=1s'', ''--fail-indexes=1''] =
    Inr (default_flags\<lparr>f_mode := mode_complete, f_fail_indexes := ''1''\<rparr>, [])"
  by (simp add: flag_names_def set_flag_def default_flags_def one_second_flag mode_complete_def)

lemma parse_lab_args:
  assumes "parse_flags default_flags args = Inr (raw, [])" and "0 \<le> index" "index < 2 ^ 63"
    and "f_mode raw = mode_complete \<or> f_mode raw = mode_wait" "0 \<le> f_duration raw" "0 \<le> f_startup_delay raw"
    and "parse_indexes (f_fail_indexes raw) = Inr selected"
  shows "parse_config args (index_env (Some index)) = Inr \<lparr>cfg_mode = f_mode raw, cfg_duration = f_duration raw,
    cfg_startup_delay = f_startup_delay raw, cfg_fail_indexes = selected, cfg_index = Some index\<rparr>"
  using assms by (simp add: parse_config_def parse_index_shown)

lemma lab_worker_ends:
  assumes "parse_config args (index_env (Some index)) = Inr c" "we_done env = None"
  shows "out_end (run stamp env args (index_env (Some index))) =
    (if cfg_mode c = mode_wait then Blocks else Exits (snd (completion_verdict c)))"
proof -
  have "transcript stamp env c (out_stdout (run stamp env args (index_env (Some index))))
      (out_end (run stamp env args (index_env (Some index))))"
    using run_accepted [OF assms(1)] by blast
  then show ?thesis
    by (cases rule: transcript.cases) (auto simp: assms(2) mode_wait_def mode_complete_def)
qed

text \<open>
  C11: the workers of the laboratory do what its runs wait for: started with the arguments that a
  run's definition hands down through its AIJob and the JobSet's container, and not cancelled, a
  holder's worker and that of a restart scenario blocks; that of a probe, of a success scenario and
  of the capacity exercise exits with 0; of the failure scenarios exactly worker 1 exits with 10.
\<close>

theorem lab_workers_behave:
  assumes "0 \<le> index" "index < 2 ^ 63" "we_done env = None"
  shows "(\<forall>d \<in> {holder_definition run_id k, restart_definition run_id, e2e_restart_definition run_id}.
      worker_of (new_benchmark_aijob ns run_id experiment d) stamp env index = Blocks) \<and>
    (\<forall>d \<in> {probe_definition run_id, success_definition run_id, capacity_definition run_id}.
      worker_of (new_benchmark_aijob ns run_id experiment d) stamp env index = Exits 0) \<and>
    (\<forall>d \<in> {failure_definition run_id, e2e_failure_definition run_id}.
      worker_of (new_benchmark_aijob ns run_id experiment d) stamp env index = Exits (if index = 1 then 10 else 0))"
proof -
  have args: "ct_args (worker_container (new_benchmark_aijob ns run_id experiment d)) = wd_args d" for d
    by (simp add: worker_container_def new_benchmark_aijob_def Let_def)
  have selected: "parse_indexes ''1'' = Inr {1}" by code_simp
  have ends: "out_end (run stamp env as (index_env (Some index))) =
      (if f_mode raw = mode_wait then Blocks else Exits (if index \<in> selected then exit_failure else exit_success))"
    if "parse_flags default_flags as = Inr (raw, [])" "f_mode raw = mode_complete \<or> f_mode raw = mode_wait"
      "0 \<le> f_duration raw" "0 \<le> f_startup_delay raw" "parse_indexes (f_fail_indexes raw) = Inr selected"
    for as raw selected
    using lab_worker_ends [OF parse_lab_args [OF that(1) assms(1,2) that(2-5)] assms(3)]
    by (simp add: completion_verdict_def)
  have "parse_indexes [] = Inr {}" by (simp add: parse_indexes_def)
  then show ?thesis
    by (simp add: worker_of_def args ends [OF holder_args] ends [OF complete_args] ends [OF fail_args] selected
        holder_definition_def restart_definition_def e2e_restart_definition_def probe_definition_def
        success_definition_def capacity_definition_def failure_definition_def e2e_failure_definition_def
        default_flags_def exit_defs mode_wait_def mode_complete_def)
qed

text \<open>The failure exercise's worker 1.\<close>

theorem lab_workers_behave_witness:
  "worker_of (new_benchmark_aijob ''default'' ''r'' ''e'' (failure_definition ''r'')) (\<lambda>_. []) (sample_env None) 1 = Exits 10 \<and>
   worker_of (new_benchmark_aijob ''default'' ''r'' ''e'' (failure_definition ''r'')) (\<lambda>_. []) (sample_env None) 0 = Exits 0"
  using lab_workers_behave [of 1 "sample_env None" "''r''" 1 "''default''" "''e''" "\<lambda>_. []"]
    lab_workers_behave [of 0 "sample_env None" "''r''" 1 "''default''" "''e''" "\<lambda>_. []"]
  by (simp add: sample_worker_simps)

section \<open>From the rendered queues to the benchmark\<close>

text \<open>
  A ClusterQueue that Kueue stores from a rendered one, with the value of each quantity; the API
  server parses quantities, so their values are a parameter.
\<close>

definition stored_group :: "(string \<Rightarrow> int64) \<Rightarrow> resource_group \<Rightarrow> queue_group" where
  "stored_group quantity g = \<lparr>qg_covered = rg_covered g, qg_flavors = map (\<lambda>f. \<lparr>fl_name = fq_name f,
     fl_resources = map (\<lambda>(name, text). (name, quantity text)) (fq_resources f)\<rparr>) (rg_flavors g)\<rparr>"

definition stored_from :: "(string \<Rightarrow> int64) \<Rightarrow> kueue_object list \<Rightarrow> cluster_queue_object \<Rightarrow> bool" where
  "stored_from quantity objs q \<longleftrightarrow> list_ex (\<lambda>ob. ko_kind ob = ''ClusterQueue'' \<and> ko_name ob = m_name (cq_meta q) \<and>
     (case ko_spec ob of ClusterQueueSpec cohort groups \<Rightarrow> cq_groups q = map (stored_group quantity) groups
      | _ \<Rightarrow> False)) objs"

lemma benchmark_quota:
  assumes "stored_from quantity (kueue_resources api) q" and "m_name (cq_meta q) = benchmark_queue_name"
  shows "simulated_gpu_quota q = wrap64 (quantity ''12'')"
  using assms
  by (auto simp: stored_from_def kueue_resources_list kueue_object_defs queue_configs_def kueue_name_defs
      simulated_gpu_quota_def stored_group_def gpu_resource_def kueue_gpu_resource_def resource_cpu_def
      resource_memory_def)

lemma check_nodes_None: "check_nodes ns = None \<longleftrightarrow> (\<forall>n \<in> set ns. quantity_value (n_allocatable n) gpu_resource = 4)"
  by (induction ns) (auto simp: Let_def)


definition rendered_queue :: cluster_queue_object where
  "rendered_queue = \<lparr>cq_meta = new_meta benchmark_queue_name [], cq_groups =
     [stored_group (\<lambda>text. if text = ''12'' then 12 else 0)
       \<lparr>rg_covered = [resource_cpu, resource_memory, kueue_gpu_resource],
        rg_flavors = [\<lparr>fq_name = scheduler_flavor_name, fq_resources = [(resource_cpu, ''80''),
          (resource_memory, ''80Gi''), (kueue_gpu_resource, ''12'')]\<rparr>]\<rparr>]\<rparr>"


end
